(* ===== verification/Wisp_Prelude.thy ===== *)
theory Wisp_Prelude
  imports Main "HOL-Library.AList" "HOL-Library.Char_ord" "HOL-Library.List_Lexorder" "HOL-Library.Word"
begin

text \<open>
  Shared vocabulary of the development: the types that stand for the C++ standard library types
  the program uses, the theorem collections the component theories extend, and generic lemmas
  on lists and association lists.

  \<^item> \<open>std::string\<close> is \<^typ>\<open>string\<close>, a list of bytes. The order on strings is the lexicographic
    order of \<open>HOL-Library.List_Lexorder\<close> over the unsigned byte order of \<open>HOL-Library.Char_ord\<close>,
    which is what \<open>std::string::operator<\<close> computes.
  \<^item> \<open>std::unordered_map\<close> is an association list with distinct keys. The order of the list is the
    iteration order of the container, which C++ leaves open.
  \<^item> \<open>std::chrono::steady_clock::time_point\<close> is an \<^typ>\<open>int\<close> count of nanoseconds.
\<close>

named_theorems wisp_simps \<open>equations of the operations, for evaluating them on a given branch\<close>
named_theorems wisp_inv \<open>preservation of the components' invariants\<close>

type_synonym bytes = string
type_synonym time = int
type_synonym ('k, 'v) umap = "('k \<times> 'v) list"

definition seconds :: "int \<Rightarrow> time" where
  "seconds n = n * 1000000000"

definition milliseconds :: "int \<Rightarrow> time" where
  "milliseconds n = n * 1000000"

subsection \<open>Association lists as unordered maps\<close>

abbreviation umap_find :: "('k, 'v) umap \<Rightarrow> 'k \<Rightarrow> 'v option" where
  "umap_find \<equiv> map_of"

abbreviation umap_put :: "'k \<Rightarrow> 'v \<Rightarrow> ('k, 'v) umap \<Rightarrow> ('k, 'v) umap" where
  "umap_put \<equiv> AList.update"

abbreviation umap_erase :: "'k \<Rightarrow> ('k, 'v) umap \<Rightarrow> ('k, 'v) umap" where
  "umap_erase \<equiv> AList.delete"

abbreviation umap_keys :: "('k, 'v) umap \<Rightarrow> 'k set" where
  "umap_keys m \<equiv> fst ` set m"

definition umap_ok :: "('k, 'v) umap \<Rightarrow> bool" where
  "umap_ok m = distinct (map fst m)"

lemma umap_ok_Nil [simp]: "umap_ok []"
  by (simp add: umap_ok_def)

lemma umap_ok_put [simp, intro]: "umap_ok m \<Longrightarrow> umap_ok (umap_put k v m)"
  by (simp add: umap_ok_def distinct_update)

lemma umap_ok_erase [simp, intro]: "umap_ok m \<Longrightarrow> umap_ok (umap_erase k m)"
  by (simp add: umap_ok_def AList.distinct_delete)

lemma umap_ok_filter [intro]: "umap_ok m \<Longrightarrow> umap_ok (filter P m)"
  by (simp add: umap_ok_def distinct_map_filter)

lemma umap_find_put: "umap_find (umap_put k v m) = (umap_find m)(k \<mapsto> v)"
  by (rule update_conv')

lemma umap_find_erase: "umap_find (umap_erase k m) = (umap_find m)(k := None)"
  by (rule delete_conv')

lemma map_of_filter_distinct:
  "distinct (map fst m) \<Longrightarrow>
     map_of (filter P m) k = (case map_of m k of None \<Rightarrow> None | Some v \<Rightarrow> if P (k, v) then Some v else None)"
  by (induction m) (auto split: option.splits simp: map_of_eq_None_iff image_iff)

lemma umap_keys_put [simp]: "umap_keys (umap_put k v m) = insert k (umap_keys m)"
  by (simp add: dom_update)

lemma set_umap_put: "set (umap_put k v m) \<subseteq> insert (k, v) (set m)"
  by (induction m) auto

lemma set_umap_erase: "set (umap_erase k m) \<subseteq> set m"
  by (auto simp: AList.delete_eq)

lemma umap_keys_erase [simp]: "umap_keys (umap_erase k m) = umap_keys m - {k}"
  by (auto simp: AList.delete_eq)

lemma umap_find_None_iff: "umap_find m k = None \<longleftrightarrow> k \<notin> umap_keys m"
  by (rule map_of_eq_None_iff)

subsection \<open>Lists behind a nullable pointer\<close>

fun vec_of :: "'a list option \<Rightarrow> 'a list" where
  "vec_of None = []"
| "vec_of (Some xs) = xs"

lemma vec_of_eq_Nil_iff: "vec_of x = [] \<longleftrightarrow> x = None \<or> x = Some []"
  by (cases x) auto

lemma vec_of_if_Nil [simp]: "vec_of (if xs = [] then None else Some xs) = xs"
  by simp

lemma in_set_vec_of: "y \<in> set (vec_of x) \<longleftrightarrow> (\<exists>xs. x = Some xs \<and> y \<in> set xs)"
  by (cases x) auto

end
