(* ===== verification/SafeQueue.thy ===== *)
theory SafeQueue
  imports Wisp_Prelude
begin

text \<open>
  The bounded blocking queue of \<open>common/safequeue.h\<close>, as the effect of each method at the moment
  it holds the mutex with its wait over. A method that waits on a condition variable without a
  timeout returns \<^const>\<open>None\<close> while its predicate is false (the calling thread stays blocked);
  how threads block and are woken is the subject of theory \<open>SafeQueue_Monitor\<close>.

  The interface other components rely on is the locale \<open>fifo_queue\<close>; it is interpreted on the
  operations below as \<open>sq\<close>.
\<close>

record 'a SafeQueue =
  m_queue :: "'a list"
  m_stop :: bool
  m_maxSize :: nat

definition SafeQueue_new :: "nat \<Rightarrow> 'a SafeQueue" where
  "SafeQueue_new maxSize = \<lparr>m_queue = [], m_stop = False, m_maxSize = maxSize\<rparr>"

definition SafeQueue_default :: "'a SafeQueue" where
  "SafeQueue_default = SafeQueue_new 5000"

definition SafeQueue_can_push :: "'a SafeQueue \<Rightarrow> bool" where
  "SafeQueue_can_push q \<longleftrightarrow> length (m_queue q) < m_maxSize q \<or> m_stop q"

definition SafeQueue_can_pop :: "'a SafeQueue \<Rightarrow> bool" where
  "SafeQueue_can_pop q \<longleftrightarrow> m_queue q \<noteq> [] \<or> m_stop q"

definition SafeQueue_enqueue :: "'a \<Rightarrow> 'a SafeQueue \<Rightarrow> bool \<times> 'a SafeQueue" where
  "SafeQueue_enqueue value q =
     (if m_stop q then (False, q)
      else (True, q\<lparr>m_queue := m_queue q @ [value]\<rparr>))"

definition SafeQueue_push :: "'a \<Rightarrow> 'a SafeQueue \<Rightarrow> (bool \<times> 'a SafeQueue) option" where
  "SafeQueue_push value q =
     (if \<not> SafeQueue_can_push q then None else Some (SafeQueue_enqueue value q))"

definition SafeQueue_push_for :: "'a \<Rightarrow> 'a SafeQueue \<Rightarrow> bool \<times> 'a SafeQueue" where
  "SafeQueue_push_for value q =
     (if \<not> SafeQueue_can_push q then (False, q) else SafeQueue_enqueue value q)"

definition SafeQueue_pop :: "'a SafeQueue \<Rightarrow> ('a option \<times> 'a SafeQueue) option" where
  "SafeQueue_pop q =
     (if \<not> SafeQueue_can_pop q then None
      else case m_queue q of
             [] \<Rightarrow> Some (None, q)
           | x # xs \<Rightarrow> Some (Some x, q\<lparr>m_queue := xs\<rparr>))"

definition SafeQueue_try_pop :: "'a SafeQueue \<Rightarrow> 'a option \<times> 'a SafeQueue" where
  "SafeQueue_try_pop q =
     (case m_queue q of
        [] \<Rightarrow> (None, q)
      | x # xs \<Rightarrow> (Some x, q\<lparr>m_queue := xs\<rparr>))"

definition SafeQueue_stop :: "'a SafeQueue \<Rightarrow> 'a SafeQueue" where
  "SafeQueue_stop q = q\<lparr>m_stop := True\<rparr>"

lemmas SafeQueue_defs = SafeQueue_can_push_def SafeQueue_can_pop_def SafeQueue_enqueue_def
  SafeQueue_push_def SafeQueue_push_for_def SafeQueue_pop_def SafeQueue_try_pop_def
  SafeQueue_stop_def SafeQueue_new_def

text \<open>
  The drain loop \<open>while (queue.try_pop(x)) body(x);\<close> that \<open>ZmqWorker::run\<close> and \<open>ZmqBroker::run\<close>
  use: the body runs on a state of type \<open>'s\<close>, and cannot touch the queue.
\<close>

function SafeQueue_drain ::
    "('a \<Rightarrow> 's \<Rightarrow> 's) \<Rightarrow> 'a SafeQueue \<Rightarrow> 's \<Rightarrow> 'a SafeQueue \<times> 's" where
  "SafeQueue_drain body q s =
     (case SafeQueue_try_pop q of
        (None, q') \<Rightarrow> (q', s)
      | (Some x, q') \<Rightarrow> SafeQueue_drain body q' (body x s))"
  by pat_completeness auto
termination
  by (relation "measure (\<lambda>(body, q, s). length (m_queue q))")
     (auto simp: SafeQueue_try_pop_def split: list.splits)

declare SafeQueue_drain.simps [simp del]

subsection \<open>The queue interface\<close>

datatype 'a queue_op = Offer 'a | Poll | Close

text \<open>
  A run of interface calls by any number of threads, in the order in which they get the mutex. It
  returns the values the queue accepted, the values it handed out, and the queue at the end.
\<close>

fun queue_run ::
    "('a \<Rightarrow> 'q \<Rightarrow> bool \<times> 'q) \<Rightarrow> ('q \<Rightarrow> 'a option \<times> 'q) \<Rightarrow> ('q \<Rightarrow> 'q) \<Rightarrow> 'q \<Rightarrow> 'a queue_op list
     \<Rightarrow> 'a list \<times> 'a list \<times> 'q" where
  "queue_run offer poll close q [] = ([], [], q)"
| "queue_run offer poll close q (Offer x # ops) =
     (case offer x q of (ok, q') \<Rightarrow>
      case queue_run offer poll close q' ops of (ins, outs, q'') \<Rightarrow>
        (if ok then x # ins else ins, outs, q''))"
| "queue_run offer poll close q (Poll # ops) =
     (case poll q of (r, q') \<Rightarrow>
      case queue_run offer poll close q' ops of (ins, outs, q'') \<Rightarrow>
        (ins, case r of None \<Rightarrow> outs | Some x \<Rightarrow> x # outs, q''))"
| "queue_run offer poll close q (Close # ops) = queue_run offer poll close (close q) ops"

locale fifo_queue =
  fixes items :: "'q \<Rightarrow> 'a list"
    and cap :: "'q \<Rightarrow> nat"
    and stopped :: "'q \<Rightarrow> bool"
    and offer :: "'a \<Rightarrow> 'q \<Rightarrow> bool \<times> 'q"
    and poll :: "'q \<Rightarrow> 'a option \<times> 'q"
    and close :: "'q \<Rightarrow> 'q"
  assumes offer_refused: "stopped q \<or> cap q \<le> length (items q) \<Longrightarrow> offer x q = (False, q)"
    and offer_accepted: "\<not> stopped q \<Longrightarrow> length (items q) < cap q \<Longrightarrow>
      fst (offer x q) \<and> items (snd (offer x q)) = items q @ [x]"
    and offer_frame: "cap (snd (offer x q)) = cap q \<and> stopped (snd (offer x q)) = stopped q"
    and poll_empty: "items q = [] \<Longrightarrow> poll q = (None, q)"
    and poll_first: "items q = x # xs \<Longrightarrow> fst (poll q) = Some x \<and> items (snd (poll q)) = xs"
    and poll_frame: "cap (snd (poll q)) = cap q \<and> stopped (snd (poll q)) = stopped q"
    and close_stops: "stopped (close q) \<and> items (close q) = items q \<and> cap (close q) = cap q"
begin

lemma offer_cases:
  obtains "offer x q = (False, q)"
  | q' where "offer x q = (True, q')" "items q' = items q @ [x]" "cap q' = cap q"
      "stopped q' = stopped q" "length (items q') \<le> cap q'" "\<not> stopped q"
  using offer_refused [of q x] offer_accepted [of q x] offer_frame [of x q]
  by (cases "stopped q \<or> cap q \<le> length (items q)"; cases "offer x q") (auto simp: not_le)

lemma poll_cases:
  obtains "items q = []" "poll q = (None, q)"
  | x q' where "items q = x # items q'" "poll q = (Some x, q')" "cap q' = cap q"
      "stopped q' = stopped q"
  using poll_empty [of q] poll_first [of q] poll_frame [of q]
  by (cases "items q"; cases "poll q") auto

lemma run_spec:
  "queue_run offer poll close q ops = (ins, outs, q') \<Longrightarrow>
   items q @ ins = outs @ items q' \<and> cap q' = cap q
   \<and> (length (items q) \<le> cap q \<longrightarrow> length (items q') \<le> cap q')
   \<and> (stopped q \<longrightarrow> ins = [] \<and> stopped q')"
proof (induction ops arbitrary: q ins outs)
  case Nil
  then show ?case by simp
next
  case (Cons op ops)
  show ?case
  proof (cases op)
    case (Offer x)
    obtain ok q1 ins1 where step: "offer x q = (ok, q1)"
        "queue_run offer poll close q1 ops = (ins1, outs, q')" "ins = (if ok then x # ins1 else ins1)"
      using Cons.prems Offer by (auto split: prod.splits)
    show ?thesis
      by (rule offer_cases [of x q]) (use Cons.IH [OF step(2)] step(1,3) in auto)
  next
    case Poll
    show ?thesis
      by (rule poll_cases [of q])
         (use Cons.prems Poll in \<open>auto split: prod.splits dest!: Cons.IH\<close>)
  next
    case Close
    with Cons.prems have "queue_run offer poll close (close q) ops = (ins, outs, q')" by simp
    from Cons.IH [OF this] show ?thesis by (auto simp: close_stops)
  qed
qed

end

interpretation sq: fifo_queue m_queue m_maxSize m_stop SafeQueue_push_for SafeQueue_try_pop SafeQueue_stop
  by unfold_locales (auto simp: SafeQueue_defs split: list.splits)

subsection \<open>Facts the clients of the queue use\<close>

lemma SafeQueue_drain_eq:
  "SafeQueue_drain body q s = (q\<lparr>m_queue := []\<rparr>, fold body (m_queue q) s)"
proof (induction body q s rule: SafeQueue_drain.induct)
  case (1 body q s)
  then show ?case
    by (cases "m_queue q") (simp_all add: SafeQueue_drain.simps [of body q s] SafeQueue_try_pop_def)
qed

lemma SafeQueue_push_for_simps [wisp_simps]:
  "m_stop q \<Longrightarrow> SafeQueue_push_for x q = (False, q)"
  "m_maxSize q \<le> length (m_queue q) \<Longrightarrow> SafeQueue_push_for x q = (False, q)"
  "\<not> m_stop q \<Longrightarrow> length (m_queue q) < m_maxSize q \<Longrightarrow>
     SafeQueue_push_for x q = (True, q\<lparr>m_queue := m_queue q @ [x]\<rparr>)"
  by (auto simp: SafeQueue_defs)

lemma SafeQueue_push_eq_push_for:
  "SafeQueue_push x q = Some r \<longleftrightarrow> SafeQueue_can_push q \<and> SafeQueue_push_for x q = r"
  by (auto simp: SafeQueue_push_def SafeQueue_push_for_def)

text \<open>
  C37. Whatever the interleaving of timed pushes, non-blocking pops and stops, the values accepted by
  an initially empty queue are exactly the values handed out followed by the values still queued:
  nothing is lost, duplicated or reordered, and the queue never exceeds its capacity.
\<close>

theorem SafeQueue_fifo:
  "case queue_run SafeQueue_push_for SafeQueue_try_pop SafeQueue_stop (SafeQueue_new n) ops of
     (accepted, popped, q) \<Rightarrow> accepted = popped @ m_queue q \<and> length (m_queue q) \<le> n"
proof -
  obtain ins outs q where run: "queue_run SafeQueue_push_for SafeQueue_try_pop SafeQueue_stop
      (SafeQueue_new n) ops = (ins, outs, q)"
    by (metis prod_cases3)
  from sq.run_spec [OF run] have "ins = outs @ m_queue q \<and> length (m_queue q) \<le> n"
    by (simp add: SafeQueue_new_def)
  with run show ?thesis by simp
qed

text \<open>
  After \<open>stop()\<close> no push is accepted any more, while \<open>pop()\<close> never blocks: it first
  hands out what is still queued, in order, and then reports the end of the queue.
\<close>

theorem SafeQueue_stop_drains:
  "SafeQueue_push x (SafeQueue_stop q) = Some (False, SafeQueue_stop q)
   \<and> SafeQueue_push_for x (SafeQueue_stop q) = (False, SafeQueue_stop q)
   \<and> SafeQueue_pop (SafeQueue_stop q) =
       Some (case m_queue q of [] \<Rightarrow> (None, SafeQueue_stop q)
             | y # ys \<Rightarrow> (Some y, SafeQueue_stop (q\<lparr>m_queue := ys\<rparr>)))"
  by (auto simp: SafeQueue_defs split: list.splits)

end
