(* ===== verification/SafeQueue_Monitor.thy ===== *)
theory SafeQueue_Monitor
  imports SafeQueue
begin

text \<open>
  The condition-variable protocol of \<open>common/safequeue.h\<close>: any number of threads call \<open>push\<close>, timed
  \<open>push\<close>, \<open>pop\<close>, \<open>try_pop\<close> and \<open>stop\<close> on one queue. A step is one critical section of \<open>m_mutex\<close>: a
  thread evaluates its wait predicate and either completes its call, notifying as the code does, or
  goes to sleep. \<open>notify_one\<close> wakes an arbitrary sleeper of its condition variable; sleepers may also
  wake spuriously or, for the timed \<open>push\<close>, because their time is up, and all three only make the
  thread re-evaluate its predicate.

  The invariant \<open>mon_inv\<close> is the reason no wake-up is lost although the code notifies a single thread
  per operation.
\<close>

datatype 'a tstate =
    Ready                \<comment> \<open>outside the queue's methods\<close>
  | WaitFull bool 'a     \<comment> \<open>in \<open>push\<close> (timed or not), asleep on \<open>m_condFull\<close>\<close>
  | WokenFull bool 'a    \<comment> \<open>in \<open>push\<close>, woken, about to re-evaluate its predicate\<close>
  | WaitEmpty            \<comment> \<open>in \<open>pop\<close>, asleep on \<open>m_condEmpty\<close>\<close>
  | WokenEmpty           \<comment> \<open>in \<open>pop\<close>, woken, about to re-evaluate its predicate\<close>

fun waits_full :: "'a tstate \<Rightarrow> bool" where
  "waits_full (WaitFull _ _) = True"
| "waits_full _ = False"

fun woken_full :: "'a tstate \<Rightarrow> bool" where
  "woken_full (WokenFull _ _) = True"
| "woken_full _ = False"

fun waits_empty :: "'a tstate \<Rightarrow> bool" where
  "waits_empty WaitEmpty = True"
| "waits_empty _ = False"

fun woken_empty :: "'a tstate \<Rightarrow> bool" where
  "woken_empty WokenEmpty = True"
| "woken_empty _ = False"

fun wake :: "'a tstate \<Rightarrow> 'a tstate" where
  "wake (WaitFull timed v) = WokenFull timed v"
| "wake WaitEmpty = WokenEmpty"
| "wake t = t"

definition notify_one :: "('a tstate \<Rightarrow> bool) \<Rightarrow> 'a tstate list \<Rightarrow> 'a tstate list \<Rightarrow> bool" where
  "notify_one waits ts ts' \<longleftrightarrow>
     (if \<exists>t \<in> set ts. waits t
      then \<exists>i < length ts. waits (ts ! i) \<and> ts' = ts[i := wake (ts ! i)]
      else ts' = ts)"

record 'a monitor =
  mon_queue :: "'a SafeQueue"
  mon_threads :: "'a tstate list"

inductive monitor_step :: "'a monitor \<Rightarrow> 'a monitor \<Rightarrow> bool" where
  push_wait:
    "i < length ts \<Longrightarrow> ts ! i = Ready \<or> ts ! i = WokenFull timed v \<Longrightarrow> \<not> SafeQueue_can_push q \<Longrightarrow>
     monitor_step \<lparr>mon_queue = q, mon_threads = ts\<rparr>
       \<lparr>mon_queue = q, mon_threads = ts[i := WaitFull timed v]\<rparr>"
| push_done:
    "i < length ts \<Longrightarrow> ts ! i = Ready \<or> ts ! i = WokenFull timed v \<Longrightarrow> SafeQueue_can_push q \<Longrightarrow>
     SafeQueue_enqueue v q = (True, q') \<Longrightarrow> notify_one waits_empty (ts[i := Ready]) ts' \<Longrightarrow>
     monitor_step \<lparr>mon_queue = q, mon_threads = ts\<rparr> \<lparr>mon_queue = q', mon_threads = ts'\<rparr>"
| push_stopped:
    "i < length ts \<Longrightarrow> ts ! i = Ready \<or> ts ! i = WokenFull timed v \<Longrightarrow> SafeQueue_can_push q \<Longrightarrow>
     SafeQueue_enqueue v q = (False, q') \<Longrightarrow>
     monitor_step \<lparr>mon_queue = q, mon_threads = ts\<rparr> \<lparr>mon_queue = q', mon_threads = ts[i := Ready]\<rparr>"
| push_timeout:
    "i < length ts \<Longrightarrow> ts ! i = WokenFull True v \<Longrightarrow> \<not> SafeQueue_can_push q \<Longrightarrow>
     monitor_step \<lparr>mon_queue = q, mon_threads = ts\<rparr> \<lparr>mon_queue = q, mon_threads = ts[i := Ready]\<rparr>"
| pop_wait:
    "i < length ts \<Longrightarrow> ts ! i = Ready \<or> ts ! i = WokenEmpty \<Longrightarrow> SafeQueue_pop q = None \<Longrightarrow>
     monitor_step \<lparr>mon_queue = q, mon_threads = ts\<rparr> \<lparr>mon_queue = q, mon_threads = ts[i := WaitEmpty]\<rparr>"
| pop_done:
    "i < length ts \<Longrightarrow> ts ! i = Ready \<or> ts ! i = WokenEmpty \<Longrightarrow> SafeQueue_pop q = Some (Some x, q') \<Longrightarrow>
     notify_one waits_full (ts[i := Ready]) ts' \<Longrightarrow>
     monitor_step \<lparr>mon_queue = q, mon_threads = ts\<rparr> \<lparr>mon_queue = q', mon_threads = ts'\<rparr>"
| pop_end:
    "i < length ts \<Longrightarrow> ts ! i = Ready \<or> ts ! i = WokenEmpty \<Longrightarrow> SafeQueue_pop q = Some (None, q') \<Longrightarrow>
     monitor_step \<lparr>mon_queue = q, mon_threads = ts\<rparr> \<lparr>mon_queue = q', mon_threads = ts[i := Ready]\<rparr>"
| try_pop_done:
    "i < length ts \<Longrightarrow> ts ! i = Ready \<Longrightarrow> SafeQueue_try_pop q = (Some x, q') \<Longrightarrow>
     notify_one waits_full ts ts' \<Longrightarrow>
     monitor_step \<lparr>mon_queue = q, mon_threads = ts\<rparr> \<lparr>mon_queue = q', mon_threads = ts'\<rparr>"
| stop_all:
    "i < length ts \<Longrightarrow> ts ! i = Ready \<Longrightarrow>
     monitor_step \<lparr>mon_queue = q, mon_threads = ts\<rparr>
       \<lparr>mon_queue = SafeQueue_stop q, mon_threads = map wake ts\<rparr>"
| spurious:
    "i < length ts \<Longrightarrow>
     monitor_step \<lparr>mon_queue = q, mon_threads = ts\<rparr> \<lparr>mon_queue = q, mon_threads = ts[i := wake (ts ! i)]\<rparr>"

definition monitor_init :: "nat \<Rightarrow> nat \<Rightarrow> 'a monitor" where
  "monitor_init maxSize n =
     \<lparr>mon_queue = SafeQueue_new maxSize, mon_threads = replicate n Ready\<rparr>"

inductive monitor_reachable :: "nat \<Rightarrow> nat \<Rightarrow> 'a monitor \<Rightarrow> bool" for maxSize n where
  start: "monitor_reachable maxSize n (monitor_init maxSize n)"
| step: "monitor_reachable maxSize n m \<Longrightarrow> monitor_step m m' \<Longrightarrow> monitor_reachable maxSize n m'"

subsection \<open>Counting threads\<close>

definition count_if :: "('b \<Rightarrow> bool) \<Rightarrow> 'b list \<Rightarrow> nat" where
  "count_if p xs = length (filter p xs)"

lemma count_if_update:
  "i < length xs \<Longrightarrow> count_if p (xs[i := x]) + of_bool (p (xs ! i)) = count_if p xs + of_bool (p x)"
proof -
  assume i: "i < length xs"
  then have "filter p xs = filter p (take i xs) @ filter p (xs ! i # drop (Suc i) xs)"
    by (metis filter_append id_take_nth_drop)
  with i show ?thesis by (simp add: count_if_def upd_conv_take_nth_drop)
qed

lemma counts_update:
  assumes "i < length ts"
  shows "count_if waits_full (ts[i := t]) + of_bool (waits_full (ts ! i))
           = count_if waits_full ts + of_bool (waits_full t)
    \<and> count_if woken_full (ts[i := t]) + of_bool (woken_full (ts ! i))
           = count_if woken_full ts + of_bool (woken_full t)
    \<and> count_if waits_empty (ts[i := t]) + of_bool (waits_empty (ts ! i))
           = count_if waits_empty ts + of_bool (waits_empty t)
    \<and> count_if woken_empty (ts[i := t]) + of_bool (woken_empty (ts ! i))
           = count_if woken_empty ts + of_bool (woken_empty t)"
  using assms by (simp add: count_if_update)

lemma count_if_pos_iff: "0 < count_if p xs \<longleftrightarrow> (\<exists>x \<in> set xs. p x)"
  by (induction xs) (auto simp: count_if_def)

lemma count_if_wake [simp]:
  "count_if waits_full (map wake ts) = 0" "count_if waits_empty (map wake ts) = 0"
proof -
  have "\<not> waits_full (wake t)" "\<not> waits_empty (wake t)" for t :: "'a tstate"
    by (cases t; simp)+
  then show "count_if waits_full (map wake ts) = 0" "count_if waits_empty (map wake ts) = 0"
    by (auto simp: count_if_def filter_empty_conv)
qed

definition mon_inv :: "'a monitor \<Rightarrow> bool" where
  "mon_inv m \<longleftrightarrow>
     (let q = mon_queue m; ts = mon_threads m in
      length (m_queue q) \<le> m_maxSize q
      \<and> (m_stop q \<longrightarrow> count_if waits_full ts = 0 \<and> count_if waits_empty ts = 0)
      \<and> (0 < count_if waits_empty ts \<longrightarrow> length (m_queue q) \<le> count_if woken_empty ts)
      \<and> (0 < count_if waits_full ts \<longrightarrow> m_maxSize q \<le> length (m_queue q) + count_if woken_full ts))"

lemma notify_one_cases:
  assumes "notify_one waits ts ts'"
  obtains (none) "ts' = ts" "count_if waits ts = 0"
  | (one) i where "i < length ts" "waits (ts ! i)" "ts' = ts[i := wake (ts ! i)]" "0 < count_if waits ts"
  using assms count_if_pos_iff [of waits ts] by (auto simp: notify_one_def split: if_splits)

lemma notify_one_counts_empty:
  assumes "notify_one waits_empty ts ts'"
  shows "count_if waits_full ts' = count_if waits_full ts
    \<and> count_if woken_full ts' = count_if woken_full ts
    \<and> count_if waits_empty ts' = count_if waits_empty ts - 1
    \<and> count_if woken_empty ts' = count_if woken_empty ts + of_bool (0 < count_if waits_empty ts)"
  using assms
proof (cases rule: notify_one_cases)
  case (one i)
  then show ?thesis using counts_update [of i ts "wake (ts ! i)"] by (cases "ts ! i") auto
qed simp

lemma notify_one_counts_full:
  assumes "notify_one waits_full ts ts'"
  shows "count_if waits_empty ts' = count_if waits_empty ts
    \<and> count_if woken_empty ts' = count_if woken_empty ts
    \<and> count_if waits_full ts' = count_if waits_full ts - 1
    \<and> count_if woken_full ts' = count_if woken_full ts + of_bool (0 < count_if waits_full ts)"
  using assms
proof (cases rule: notify_one_cases)
  case (one i)
  then show ?thesis using counts_update [of i ts "wake (ts ! i)"] by (cases "ts ! i") auto
qed simp

subsection \<open>The invariant\<close>

lemma mon_inv_init: "mon_inv (monitor_init maxSize n)"
  by (simp add: mon_inv_def monitor_init_def SafeQueue_new_def count_if_def)

lemma mon_inv_step: "monitor_step m m' \<Longrightarrow> mon_inv m \<Longrightarrow> mon_inv m'"
proof (induction rule: monitor_step.induct)
  case (push_wait i ts timed v q)
  then show ?case
    using counts_update [of i ts "WaitFull timed v"]
    by (auto simp: mon_inv_def Let_def SafeQueue_can_push_def)
next
  case (push_done i ts timed v q q' ts')
  then show ?case
    using counts_update [of i ts Ready] notify_one_counts_empty [of "ts[i := Ready]" ts']
    by (auto simp: mon_inv_def Let_def SafeQueue_can_push_def SafeQueue_enqueue_def split: if_splits)
next
  case (push_stopped i ts timed v q q')
  then show ?case
    using counts_update [of i ts Ready]
    by (auto simp: mon_inv_def Let_def SafeQueue_can_push_def SafeQueue_enqueue_def split: if_splits)
next
  case (push_timeout i ts v q)
  then show ?case
    using counts_update [of i ts Ready] by (auto simp: mon_inv_def Let_def SafeQueue_can_push_def)
next
  case (pop_wait i ts q)
  then show ?case
    using counts_update [of i ts WaitEmpty]
    by (auto simp: mon_inv_def Let_def SafeQueue_defs split: if_splits list.splits)
next
  case (pop_done i ts q x q' ts')
  then show ?case
    using counts_update [of i ts Ready] notify_one_counts_full [of "ts[i := Ready]" ts']
    by (auto simp: mon_inv_def Let_def SafeQueue_defs split: if_splits list.splits)
next
  case (pop_end i ts q q')
  then show ?case
    using counts_update [of i ts Ready]
    by (auto simp: mon_inv_def Let_def SafeQueue_defs split: if_splits list.splits)
next
  case (try_pop_done i ts q x q' ts')
  then show ?case
    using notify_one_counts_full [of ts ts']
    by (auto simp: mon_inv_def Let_def SafeQueue_defs split: if_splits list.splits)
next
  case (stop_all i ts q)
  then show ?case by (simp add: mon_inv_def Let_def SafeQueue_stop_def)
next
  case (spurious i ts q)
  then show ?case
    using counts_update [of i ts "wake (ts ! i)"] by (cases "ts ! i") (auto simp: mon_inv_def Let_def)
qed

lemma mon_inv_reachable: "monitor_reachable maxSize n m \<Longrightarrow> mon_inv m"
  by (induction rule: monitor_reachable.induct) (auto intro: mon_inv_init mon_inv_step)

lemma notify_one_total: "\<exists>ts'. notify_one waits ts ts'"
  by (cases "\<exists>t \<in> set ts. waits t") (auto simp: notify_one_def in_set_conv_nth)

lemma woken_pop_enabled:
  assumes "woken_empty t" "t \<in> set (mon_threads m)" "m_queue (mon_queue m) = x # xs"
  shows "\<exists>m'. monitor_step m m' \<and> m_queue (mon_queue m') = xs"
proof -
  obtain q ts where m: "m = \<lparr>mon_queue = q, mon_threads = ts\<rparr>" by (cases m) auto
  from assms(1) have "t = WokenEmpty" by (cases t) simp_all
  with assms(2) m obtain i where i: "i < length ts" "ts ! i = WokenEmpty"
    by (auto simp: in_set_conv_nth)
  obtain ts' where notify: "notify_one waits_full (ts[i := Ready]) ts'" using notify_one_total by blast
  have "monitor_step m \<lparr>mon_queue = q\<lparr>m_queue := xs\<rparr>, mon_threads = ts'\<rparr>"
    unfolding m by (rule monitor_step.pop_done [OF i(1) disjI2 [OF i(2)] _ notify])
      (use assms(3) m in \<open>simp add: SafeQueue_defs\<close>)
  then show ?thesis by (rule exI [of _ "\<lparr>mon_queue = q\<lparr>m_queue := xs\<rparr>, mon_threads = ts'\<rparr>", OF conjI]) simp
qed

lemma woken_push_enabled:
  assumes "t \<in> set (mon_threads m)" "t = WokenFull timed v" "\<not> m_stop (mon_queue m)"
    "length (m_queue (mon_queue m)) < m_maxSize (mon_queue m)"
  shows "\<exists>m'. monitor_step m m' \<and> m_queue (mon_queue m') = m_queue (mon_queue m) @ [v]"
proof -
  obtain q ts where m: "m = \<lparr>mon_queue = q, mon_threads = ts\<rparr>" by (cases m) auto
  from assms m obtain i where i: "i < length ts" "ts ! i = WokenFull timed v"
    by (auto simp: in_set_conv_nth)
  obtain ts' where notify: "notify_one waits_empty (ts[i := Ready]) ts'" using notify_one_total by blast
  have "monitor_step m \<lparr>mon_queue = q\<lparr>m_queue := m_queue q @ [v]\<rparr>, mon_threads = ts'\<rparr>"
    unfolding m by (rule monitor_step.push_done [OF i(1) disjI2 [OF i(2)] _ _ notify])
      (use assms(3,4) m in \<open>simp_all add: SafeQueue_defs\<close>)
  then show ?thesis
    by (rule exI [of _ "\<lparr>mon_queue = q\<lparr>m_queue := m_queue q @ [v]\<rparr>, mon_threads = ts'\<rparr>", OF conjI])
       (simp add: m)
qed

text \<open>
  C36. No wake-up is lost: whenever a consumer sleeps while the queue holds an element, another
  consumer is awake and can take the first element in its next step; whenever a producer sleeps
  while the queue has room, another producer is awake and can store its element; and once the queue
  is stopped nobody sleeps.
\<close>

theorem SafeQueue_no_lost_wakeup:
  assumes "monitor_reachable maxSize n m"
  shows "(WaitEmpty \<in> set (mon_threads m) \<longrightarrow> m_queue (mon_queue m) \<noteq> [] \<longrightarrow>
            (\<exists>m'. monitor_step m m' \<and> m_queue (mon_queue m') = tl (m_queue (mon_queue m))))
    \<and> ((\<exists>timed v. WaitFull timed v \<in> set (mon_threads m)) \<longrightarrow>
          length (m_queue (mon_queue m)) < m_maxSize (mon_queue m) \<longrightarrow>
            (\<exists>m' w. monitor_step m m' \<and> m_queue (mon_queue m') = m_queue (mon_queue m) @ [w]))
    \<and> (m_stop (mon_queue m) \<longrightarrow> (\<forall>t \<in> set (mon_threads m). \<not> waits_full t \<and> \<not> waits_empty t))"
proof (intro conjI impI)
  let ?q = "mon_queue m" and ?ts = "mon_threads m"
  from mon_inv_reachable [OF assms] have inv: "mon_inv m" .
  {
    assume "WaitEmpty \<in> set ?ts" "m_queue ?q \<noteq> []"
    then have wait: "0 < count_if waits_empty ?ts" and "0 < length (m_queue ?q)"
      by (force simp: count_if_pos_iff)+
    moreover from inv wait have "length (m_queue ?q) \<le> count_if woken_empty ?ts"
      by (simp add: mon_inv_def Let_def)
    ultimately have "0 < count_if woken_empty ?ts" by linarith
    then obtain t where "woken_empty t" "t \<in> set ?ts" by (auto simp: count_if_pos_iff)
    moreover have "m_queue ?q = hd (m_queue ?q) # tl (m_queue ?q)" using \<open>m_queue ?q \<noteq> []\<close> by simp
    ultimately show "\<exists>m'. monitor_step m m' \<and> m_queue (mon_queue m') = tl (m_queue ?q)"
      by (rule woken_pop_enabled)
  next
    assume wait: "\<exists>timed v. WaitFull timed v \<in> set ?ts" and room: "length (m_queue ?q) < m_maxSize ?q"
    from wait have "0 < count_if waits_full ?ts" by (force simp: count_if_pos_iff)
    with room inv have "0 < count_if woken_full ?ts" and stop: "\<not> m_stop ?q"
      by (auto simp: mon_inv_def Let_def)
    then obtain timed v where "WokenFull timed v \<in> set ?ts"
      by (auto simp: count_if_pos_iff elim: woken_full.elims)
    from woken_push_enabled [OF this refl stop room]
    show "\<exists>m' w. monitor_step m m' \<and> m_queue (mon_queue m') = m_queue ?q @ [w]" by blast
  next
    assume "m_stop ?q"
    with inv show "\<forall>t \<in> set ?ts. \<not> waits_full t \<and> \<not> waits_empty t"
      using count_if_pos_iff [of waits_full ?ts] count_if_pos_iff [of waits_empty ?ts]
      by (auto simp: mon_inv_def Let_def)
  }
qed

lemma monitor_run_example:
  "monitor_reachable 1 3 (\<lparr>mon_queue = \<lparr>m_queue = [7], m_stop = False, m_maxSize = 1\<rparr>,
     mon_threads = [WokenEmpty, WaitEmpty, Ready]\<rparr> :: nat monitor)"
proof -
  let ?q0 = "\<lparr>m_queue = [], m_stop = False, m_maxSize = 1\<rparr> :: nat SafeQueue"
  let ?q1 = "\<lparr>m_queue = [7], m_stop = False, m_maxSize = 1\<rparr> :: nat SafeQueue"
  have "monitor_init 1 3 = \<lparr>mon_queue = ?q0, mon_threads = [Ready, Ready, Ready]\<rparr>"
    by (simp add: monitor_init_def SafeQueue_new_def numeral_3_eq_3)
  then have "monitor_reachable 1 3 \<lparr>mon_queue = ?q0, mon_threads = [Ready, Ready, Ready]\<rparr>"
    by (metis monitor_reachable.start)
  then have "monitor_reachable 1 3 \<lparr>mon_queue = ?q0, mon_threads = [Ready, Ready, Ready][0 := WaitEmpty]\<rparr>"
    by (rule monitor_reachable.step) (rule monitor_step.pop_wait, simp_all add: SafeQueue_defs)
  then have "monitor_reachable 1 3
      \<lparr>mon_queue = ?q0, mon_threads = ([Ready, Ready, Ready][0 := WaitEmpty])[1 := WaitEmpty]\<rparr>"
    by (rule monitor_reachable.step) (rule monitor_step.pop_wait, simp_all add: SafeQueue_defs)
  then show ?thesis
  proof (rule monitor_reachable.step)
    show "monitor_step \<lparr>mon_queue = ?q0, mon_threads = [Ready, Ready, Ready][0 := WaitEmpty, 1 := WaitEmpty]\<rparr>
        \<lparr>mon_queue = ?q1, mon_threads = [WokenEmpty, WaitEmpty, Ready]\<rparr>"
    proof (rule monitor_step.push_done [where i = 2 and v = 7 and timed = False])
      show "notify_one waits_empty ([Ready, Ready, Ready][0 := WaitEmpty, 1 := WaitEmpty, 2 := Ready])
          [WokenEmpty, WaitEmpty, Ready]"
        unfolding notify_one_def by (simp add: exI [of _ 0])
    qed (simp_all add: SafeQueue_defs)
  qed
qed

text \<open>
  Witness for C36: two consumers went to sleep and one element arrived; one consumer still sleeps
  beside the non-empty queue, and the other one can take the element.
\<close>

theorem SafeQueue_no_lost_wakeup_witness:
  "\<exists>m'. monitor_step (\<lparr>mon_queue = \<lparr>m_queue = [7], m_stop = False, m_maxSize = 1\<rparr>,
     mon_threads = [WokenEmpty, WaitEmpty, Ready]\<rparr> :: nat monitor) m' \<and> m_queue (mon_queue m') = []"
  using conjunct1 [OF SafeQueue_no_lost_wakeup [OF monitor_run_example]] by simp

end
