(* ===== verification/Protobuf_Runtime.thy ===== *)
theory Protobuf_Runtime
  imports Wisp_Prelude Complex_Main
begin

text \<open>
  The protobuf C++ runtime (\<open>google/protobuf\<close>) is not part of the repository; the generated message
  classes under \<open>common/generated\<close> call it. It enters the model as a parameter, the record
  \<open>pb_runtime\<close> of the functions the generated code calls, and the locale \<open>protobuf_runtime\<close> states
  what the documented wire format promises about them: how many bytes each writer emits, and that
  the parser splits what the writers emit back into the same fields.

  The second half of the theory is an executable implementation of the documented wire format
  (varints, tags, length-delimited and fixed-width values, RFC 3629 validity), and the proof that it
  satisfies the contract. It is used wherever a statement about the contract is evaluated.
\<close>

datatype wire_value = Varint "64 word" | Fixed64 "64 word" | LengthDelimited bytes | Fixed32 "32 word"

type_synonym wire_field = "nat \<times> wire_value"

definition field_number :: "nat \<Rightarrow> bool" where
  "field_number n \<longleftrightarrow> 1 \<le> n \<and> n < 2 ^ 29"

fun wire_value_ok :: "wire_value \<Rightarrow> bool" where
  "wire_value_ok (LengthDelimited s) \<longleftrightarrow> length s < 2 ^ 31"
| "wire_value_ok _ \<longleftrightarrow> True"

definition wire_field_ok :: "wire_field \<Rightarrow> bool" where
  "wire_field_ok f \<longleftrightarrow> field_number (fst f) \<and> wire_value_ok (snd f)"

record pb_runtime =
  WriteString :: "nat \<Rightarrow> string \<Rightarrow> bytes"
  WriteInt32 :: "nat \<Rightarrow> 32 word \<Rightarrow> bytes"
  WriteInt64 :: "nat \<Rightarrow> 64 word \<Rightarrow> bytes"
  WriteDouble :: "nat \<Rightarrow> 64 word \<Rightarrow> bytes"
  WriteMessage :: "nat \<Rightarrow> bytes \<Rightarrow> bytes"
  WriteUnknown :: "wire_field list \<Rightarrow> bytes"
  StringSize :: "string \<Rightarrow> nat"
  Int32SizePlusOne :: "32 word \<Rightarrow> nat"
  Int64SizePlusOne :: "64 word \<Rightarrow> nat"
  LengthDelimitedSize :: "nat \<Rightarrow> nat"
  UnknownSize :: "wire_field list \<Rightarrow> nat"
  ParseFields :: "bytes \<Rightarrow> wire_field list option"
  Utf8Valid :: "string \<Rightarrow> bool"

definition ascii :: "string \<Rightarrow> bool" where
  "ascii s \<longleftrightarrow> (\<forall>c \<in> set s. of_char c < (128 :: nat))"

locale protobuf_runtime =
  fixes rt :: pb_runtime
  assumes size_string: "1 \<le> n \<Longrightarrow> n < 16 \<Longrightarrow> length (WriteString rt n s) = 1 + StringSize rt s"
    and size_int32: "1 \<le> n \<Longrightarrow> n < 16 \<Longrightarrow> length (WriteInt32 rt n v) = Int32SizePlusOne rt v"
    and size_int64: "1 \<le> n \<Longrightarrow> n < 16 \<Longrightarrow> length (WriteInt64 rt n w) = Int64SizePlusOne rt w"
    and size_double: "1 \<le> n \<Longrightarrow> n < 16 \<Longrightarrow> length (WriteDouble rt n w) = 9"
    and size_message: "1 \<le> n \<Longrightarrow> n < 16 \<Longrightarrow>
      length (WriteMessage rt n bs) = 1 + LengthDelimitedSize rt (length bs)"
    and size_unknown: "length (WriteUnknown rt us) = UnknownSize rt us"
    and parse_nil: "ParseFields rt [] = Some []"
    and parse_string: "field_number n \<Longrightarrow> length s < 2 ^ 31 \<Longrightarrow>
      ParseFields rt (WriteString rt n s @ bs) =
        map_option (Cons (n, LengthDelimited s)) (ParseFields rt bs)"
    and parse_int32: "field_number n \<Longrightarrow>
      ParseFields rt (WriteInt32 rt n v @ bs) = map_option (Cons (n, Varint (scast v))) (ParseFields rt bs)"
    and parse_int64: "field_number n \<Longrightarrow>
      ParseFields rt (WriteInt64 rt n w @ bs) = map_option (Cons (n, Varint w)) (ParseFields rt bs)"
    and parse_double: "field_number n \<Longrightarrow>
      ParseFields rt (WriteDouble rt n w @ bs) = map_option (Cons (n, Fixed64 w)) (ParseFields rt bs)"
    and parse_message: "field_number n \<Longrightarrow> length m < 2 ^ 31 \<Longrightarrow>
      ParseFields rt (WriteMessage rt n m @ bs) =
        map_option (Cons (n, LengthDelimited m)) (ParseFields rt bs)"
    and parse_unknown: "\<forall>f \<in> set us. wire_field_ok f \<Longrightarrow> ParseFields rt (WriteUnknown rt us) = Some us"
    and utf8_ascii: "ascii s \<Longrightarrow> Utf8Valid rt s"

subsection \<open>The documented wire format\<close>

fun varint :: "nat \<Rightarrow> bytes" where
  "varint n = (if n < 128 then [char_of n] else char_of (n mod 128 + 128) # varint (n div 128))"

declare varint.simps [simp del]

fun read_varint :: "nat \<Rightarrow> bytes \<Rightarrow> (nat \<times> bytes) option" where
  "read_varint 0 bs = None"
| "read_varint (Suc k) [] = None"
| "read_varint (Suc k) (c # cs) =
     (let b = of_char c in
      if b < 128 then Some (b, cs)
      else case read_varint k cs of
             None \<Rightarrow> None
           | Some (n, rest) \<Rightarrow> Some (b - 128 + 128 * n, rest))"

fun le_bytes :: "nat \<Rightarrow> nat \<Rightarrow> bytes" where
  "le_bytes 0 n = []"
| "le_bytes (Suc k) n = char_of (n mod 256) # le_bytes k (n div 256)"

fun le_read :: "bytes \<Rightarrow> nat" where
  "le_read [] = 0"
| "le_read (c # cs) = of_char c + 256 * le_read cs"

fun write_field :: "wire_field \<Rightarrow> bytes" where
  "write_field (n, Varint w) = varint (n * 8) @ varint (unat w)"
| "write_field (n, Fixed64 w) = varint (n * 8 + 1) @ le_bytes 8 (unat w)"
| "write_field (n, LengthDelimited s) = varint (n * 8 + 2) @ varint (length s) @ s"
| "write_field (n, Fixed32 w) = varint (n * 8 + 5) @ le_bytes 4 (unat w)"

definition read_value :: "nat \<Rightarrow> bytes \<Rightarrow> (wire_value \<times> bytes) option" where
  "read_value wtype bs =
     (if wtype = 0 then
        (case read_varint 10 bs of None \<Rightarrow> None | Some (v, rest) \<Rightarrow> Some (Varint (of_nat v), rest))
      else if wtype = 1 then
        (if length bs < 8 then None else Some (Fixed64 (of_nat (le_read (take 8 bs))), drop 8 bs))
      else if wtype = 2 then
        (case read_varint 5 bs of
           None \<Rightarrow> None
         | Some (n, rest) \<Rightarrow>
             if n < 2 ^ 31 \<and> n \<le> length rest then Some (LengthDelimited (take n rest), drop n rest) else None)
      else if wtype = 5 then
        (if length bs < 4 then None else Some (Fixed32 (of_nat (le_read (take 4 bs))), drop 4 bs))
      else None)"

definition read_field :: "bytes \<Rightarrow> (wire_field \<times> bytes) option" where
  "read_field bs =
     (case read_varint 5 bs of
        None \<Rightarrow> None
      | Some (tag, rest) \<Rightarrow>
          if field_number (tag div 8)
          then (case read_value (tag mod 8) rest of
                  None \<Rightarrow> None
                | Some (v, rest') \<Rightarrow> Some ((tag div 8, v), rest'))
          else None)"

lemma read_varint_length: "read_varint k bs = Some (n, rest) \<Longrightarrow> length rest < length bs"
  by (induction k bs arbitrary: n rest rule: read_varint.induct)
     (auto simp: Let_def split: if_splits option.splits, fastforce)

lemma read_value_length: "read_value t bs = Some (v, rest) \<Longrightarrow> length rest \<le> length bs"
  by (auto simp: read_value_def split: if_splits option.splits dest!: read_varint_length)

lemma read_field_length: "read_field bs = Some (f, rest) \<Longrightarrow> length rest < length bs"
  by (auto simp: read_field_def split: if_splits option.splits dest!: read_varint_length read_value_length)

function parse_fields :: "bytes \<Rightarrow> wire_field list option" where
  "parse_fields bs =
     (if bs = [] then Some []
      else case read_field bs of
             None \<Rightarrow> None
           | Some (f, rest) \<Rightarrow> map_option (Cons f) (parse_fields rest))"
  by pat_completeness auto
termination
  by (relation "measure length") (auto dest: read_field_length)

declare parse_fields.simps [simp del]

text \<open>UTF-8 validity (RFC 3629): no overlong forms, no surrogates, nothing above U+10FFFF.\<close>

definition utf8_tail :: "char \<Rightarrow> bool" where
  "utf8_tail c \<longleftrightarrow> 128 \<le> (of_char c :: nat) \<and> of_char c < (192 :: nat)"

fun utf8_valid :: "string \<Rightarrow> bool" where
  "utf8_valid [] = True"
| "utf8_valid (a # s) =
     (let x = (of_char a :: nat) in
      if x < 128 then utf8_valid s
      else case s of
             [] \<Rightarrow> False
           | b # s2 \<Rightarrow>
               if \<not> utf8_tail b then False
               else if 194 \<le> x \<and> x < 224 then utf8_valid s2
               else case s2 of
                      [] \<Rightarrow> False
                    | c # s3 \<Rightarrow>
                        if \<not> utf8_tail c then False
                        else if 224 \<le> x \<and> x < 240 then
                          (x = 224 \<longrightarrow> 160 \<le> (of_char b :: nat)) \<and> (x = 237 \<longrightarrow> of_char b < (160 :: nat))
                          \<and> utf8_valid s3
                        else case s3 of
                               [] \<Rightarrow> False
                             | d # s4 \<Rightarrow>
                                 utf8_tail d \<and> 240 \<le> x \<and> x < 245
                                 \<and> (x = 240 \<longrightarrow> 144 \<le> (of_char b :: nat))
                                 \<and> (x = 244 \<longrightarrow> of_char b < (144 :: nat)) \<and> utf8_valid s4)"

definition pb_wire_format :: pb_runtime where
  "pb_wire_format = \<lparr>
     WriteString = (\<lambda>n s. write_field (n, LengthDelimited s)),
     WriteInt32 = (\<lambda>n v. write_field (n, Varint (scast v))),
     WriteInt64 = (\<lambda>n w. write_field (n, Varint w)),
     WriteDouble = (\<lambda>n w. write_field (n, Fixed64 w)),
     WriteMessage = (\<lambda>n bs. write_field (n, LengthDelimited bs)),
     WriteUnknown = (\<lambda>us. concat (map write_field us)),
     StringSize = (\<lambda>s. length (varint (length s)) + length s),
     Int32SizePlusOne = (\<lambda>v. 1 + length (varint (unat (scast v :: 64 word)))),
     Int64SizePlusOne = (\<lambda>w. 1 + length (varint (unat w))),
     LengthDelimitedSize = (\<lambda>n. length (varint n) + n),
     UnknownSize = (\<lambda>us. sum_list (map (length \<circ> write_field) us)),
     ParseFields = parse_fields,
     Utf8Valid = utf8_valid\<rparr>"

lemma read_varint_varint:
  "n < 128 ^ Suc k \<Longrightarrow> read_varint (Suc k) (varint n @ bs) = Some (n, bs)"
proof (induction k arbitrary: n)
  case 0
  then show ?case by (simp add: varint.simps [of n] Let_def)
next
  case (Suc k)
  show ?case
  proof (cases "n < 128")
    case True
    then show ?thesis by (simp add: varint.simps [of n] Let_def)
  next
    case False
    from Suc.prems have "n div 128 < 128 ^ Suc k" by (simp add: less_mult_imp_div_less mult.commute)
    from Suc.IH [OF this] False show ?thesis
      by (simp add: varint.simps [of n] Let_def del: read_varint.simps) (simp add: Let_def)
  qed
qed

lemma length_le_bytes [simp]: "length (le_bytes k n) = k"
  by (induction k arbitrary: n) simp_all

lemma le_read_le_bytes: "n < 256 ^ k \<Longrightarrow> le_read (le_bytes k n) = n"
proof (induction k arbitrary: n)
  case (Suc k)
  from Suc.prems have "n div 256 < 256 ^ k" by (simp add: less_mult_imp_div_less mult.commute)
  with Suc.IH [of "n div 256"] show ?case by simp
qed simp

lemma varint_small: "n < 128 \<Longrightarrow> length (varint n) = 1"
  by (simp add: varint.simps)

lemma read_varint_10: "read_varint 10 (varint (unat (w :: 64 word)) @ bs) = Some (unat w, bs)"
proof -
  have "unat w < 2 ^ 64" using unsigned_less [of w, where ?'a = nat] by simp
  also have "\<dots> \<le> (128 :: nat) ^ Suc 9" by simp
  finally show ?thesis using read_varint_varint [of "unat w" 9] by simp
qed

lemma read_varint_5: "n < 2 ^ 32 \<Longrightarrow> read_varint 5 (varint n @ bs) = Some (n, bs)"
  using read_varint_varint [of n 4] by simp

lemma read_field_tag:
  assumes "field_number n" "t < 8" "read_value t bs = Some (v, rest)"
  shows "read_field (varint (n * 8 + t) @ bs) = Some ((n, v), rest)"
proof -
  have "read_varint 5 (varint (n * 8 + t) @ bs) = Some (n * 8 + t, bs)"
    using assms(1,2) by (intro read_varint_5) (simp add: field_number_def)
  with assms show ?thesis by (simp add: read_field_def)
qed

lemma read_field_write_field:
  assumes "wire_field_ok f"
  shows "read_field (write_field f @ bs) = Some (f, bs)"
proof -
  obtain n v where f: "f = (n, v)" and n: "field_number n" and v: "wire_value_ok v"
    using assms by (cases f) (auto simp: wire_field_ok_def)
  show ?thesis
  proof (cases v)
    case (Varint w)
    with f show ?thesis
      using read_field_tag [OF n, of 0 "varint (unat w) @ bs" v bs]
      by (simp add: read_value_def read_varint_10)
  next
    case (Fixed64 w)
    have "le_read (le_bytes 8 (unat w)) = unat w"
      using unsigned_less [of w, where ?'a = nat] by (intro le_read_le_bytes) simp
    with f Fixed64 show ?thesis
      using read_field_tag [OF n, of 1 "le_bytes 8 (unat w) @ bs" v bs] by (simp add: read_value_def)
  next
    case (LengthDelimited s)
    with v have "read_varint 5 (varint (length s) @ s @ bs) = Some (length s, s @ bs)"
      by (intro read_varint_5) simp
    with f v LengthDelimited show ?thesis
      using read_field_tag [OF n, of 2 "varint (length s) @ s @ bs" v bs] by (simp add: read_value_def)
  next
    case (Fixed32 w)
    have "le_read (le_bytes 4 (unat w)) = unat w"
      using unsigned_less [of w, where ?'a = nat] by (intro le_read_le_bytes) simp
    with f Fixed32 show ?thesis
      using read_field_tag [OF n, of 5 "le_bytes 4 (unat w) @ bs" v bs] by (simp add: read_value_def)
  qed
qed

lemma varint_nonempty [simp]: "varint n \<noteq> []"
  by (simp add: varint.simps [of n])

lemma write_field_nonempty [simp]: "write_field f \<noteq> []"
  by (cases f rule: write_field.cases) simp_all

lemma parse_fields_write_field:
  "wire_field_ok f \<Longrightarrow> parse_fields (write_field f @ bs) = map_option (Cons f) (parse_fields bs)"
  by (subst parse_fields.simps) (simp add: read_field_write_field)

lemma parse_fields_concat:
  "\<forall>f \<in> set us. wire_field_ok f \<Longrightarrow> parse_fields (concat (map write_field us)) = Some us"
  by (induction us) (simp_all add: parse_fields_write_field parse_fields.simps [of "[]"])

lemma utf8_valid_ascii: "ascii s \<Longrightarrow> utf8_valid s"
  by (induction s) (simp_all add: ascii_def Let_def)

lemma parse_written:
  "field_number n \<Longrightarrow> wire_value_ok v \<Longrightarrow>
     ParseFields pb_wire_format (write_field (n, v) @ bs) = map_option (Cons (n, v)) (ParseFields pb_wire_format bs)"
  using parse_fields_write_field [of "(n, v)" bs] by (simp add: pb_wire_format_def wire_field_ok_def)

lemma wire_writers:
  "WriteString pb_wire_format n s = write_field (n, LengthDelimited s)"
  "WriteInt32 pb_wire_format n v = write_field (n, Varint (scast v))"
  "WriteInt64 pb_wire_format n w = write_field (n, Varint w)"
  "WriteDouble pb_wire_format n w = write_field (n, Fixed64 w)"
  "WriteMessage pb_wire_format n m = write_field (n, LengthDelimited m)"
  by (simp_all add: pb_wire_format_def)

interpretation wire: protobuf_runtime pb_wire_format
proof unfold_locales
  fix us :: "wire_field list"
  show "length (WriteUnknown pb_wire_format us) = UnknownSize pb_wire_format us"
    by (simp add: pb_wire_format_def length_concat o_def)
  show "\<forall>f \<in> set us. wire_field_ok f \<Longrightarrow> ParseFields pb_wire_format (WriteUnknown pb_wire_format us) = Some us"
    by (simp add: pb_wire_format_def parse_fields_concat)
qed (simp_all only: wire_writers parse_written wire_value_ok.simps,
    simp_all add: pb_wire_format_def utf8_valid_ascii parse_fields.simps [of "[]"] varint_small)

end
