(* ===== verification/Message_Header.thy ===== *)
theory Message_Header
  imports Protobuf_Runtime
begin

text \<open>
  The generated class \<open>broker::MessageHeader\<close> (\<open>common/generated/broker.pb.h\<close> and \<open>broker.pb.cc\<close>): its
  fields with the presence bits \<open>_has_bits_[0]\<close>, every accessor, \<open>Clear\<close>, \<open>MergeImpl\<close>, \<open>CopyFrom\<close>,
  \<open>InternalSwap\<close>, \<open>_InternalSerialize\<close>, \<open>ByteSizeLong\<close> and the field table \<open>_table_\<close> that drives the
  runtime's parser. The runtime itself is the parameter of theory \<open>Protobuf_Runtime\<close>.

  An \<open>ArenaStringPtr\<close> is the string it holds: the default pointer and an owned empty string are not
  told apart. A \<open>mutable_\<close> accessor returns a pointer; the model applies the caller's edit through it.
  \<open>int32\<close> fields are 32-bit words. \<open>_internal_metadata_\<close> is the list of unknown fields.
\<close>

unbundle bit_operations_syntax

record MessageHeader =
  mh_has_bits :: "32 word"
  mh_handler_key :: string
  mh_sender_id :: string
  mh_topic :: string
  mh_origin_broker_id :: string
  mh_message_uuid :: string
  mh_transfer_id :: string
  mh_reply_topic :: string
  mh_sequence_number :: "32 word"
  mh_sequence_count :: "32 word"
  mh_unknown :: "wire_field list"

definition MessageHeader_new :: MessageHeader where
  "MessageHeader_new = \<lparr>mh_has_bits = 0,
     mh_handler_key = [], mh_sender_id = [], mh_topic = [], mh_origin_broker_id = [],
     mh_message_uuid = [], mh_transfer_id = [], mh_reply_topic = [],
     mh_sequence_number = 0, mh_sequence_count = 0, mh_unknown = []\<rparr>"

subsection \<open>Accessors\<close>

text \<open>\<open>string handler_key = 1;\<close>\<close>

definition clear_handler_key :: "MessageHeader \<Rightarrow> MessageHeader" where
  "clear_handler_key h = h\<lparr>mh_handler_key := [], mh_has_bits := mh_has_bits h AND NOT 0x00000001\<rparr>"

definition handler_key :: "MessageHeader \<Rightarrow> string" where
  "handler_key h = mh_handler_key h"

definition set_handler_key :: "string \<Rightarrow> MessageHeader \<Rightarrow> MessageHeader" where
  "set_handler_key arg h = h\<lparr>mh_has_bits := mh_has_bits h OR 0x00000001, mh_handler_key := arg\<rparr>"

definition mutable_handler_key :: "(string \<Rightarrow> string) \<Rightarrow> MessageHeader \<Rightarrow> MessageHeader" where
  "mutable_handler_key edit h = h\<lparr>mh_has_bits := mh_has_bits h OR 0x00000001, mh_handler_key := edit (mh_handler_key h)\<rparr>"

definition release_handler_key :: "MessageHeader \<Rightarrow> string option \<times> MessageHeader" where
  "release_handler_key h =
     (if mh_has_bits h AND 0x00000001 = 0 then (None, h)
      else (Some (mh_handler_key h), h\<lparr>mh_has_bits := mh_has_bits h AND NOT 0x00000001, mh_handler_key := []\<rparr>))"

definition set_allocated_handler_key :: "string option \<Rightarrow> MessageHeader \<Rightarrow> MessageHeader" where
  "set_allocated_handler_key v h =
     (case v of
        Some s \<Rightarrow> h\<lparr>mh_has_bits := mh_has_bits h OR 0x00000001, mh_handler_key := s\<rparr>
      | None \<Rightarrow> h\<lparr>mh_has_bits := mh_has_bits h AND NOT 0x00000001, mh_handler_key := []\<rparr>)"

text \<open>\<open>string sender_id = 2;\<close>\<close>

definition clear_sender_id :: "MessageHeader \<Rightarrow> MessageHeader" where
  "clear_sender_id h = h\<lparr>mh_sender_id := [], mh_has_bits := mh_has_bits h AND NOT 0x00000002\<rparr>"

definition sender_id :: "MessageHeader \<Rightarrow> string" where
  "sender_id h = mh_sender_id h"

definition set_sender_id :: "string \<Rightarrow> MessageHeader \<Rightarrow> MessageHeader" where
  "set_sender_id arg h = h\<lparr>mh_has_bits := mh_has_bits h OR 0x00000002, mh_sender_id := arg\<rparr>"

definition mutable_sender_id :: "(string \<Rightarrow> string) \<Rightarrow> MessageHeader \<Rightarrow> MessageHeader" where
  "mutable_sender_id edit h = h\<lparr>mh_has_bits := mh_has_bits h OR 0x00000002, mh_sender_id := edit (mh_sender_id h)\<rparr>"

definition release_sender_id :: "MessageHeader \<Rightarrow> string option \<times> MessageHeader" where
  "release_sender_id h =
     (if mh_has_bits h AND 0x00000002 = 0 then (None, h)
      else (Some (mh_sender_id h), h\<lparr>mh_has_bits := mh_has_bits h AND NOT 0x00000002, mh_sender_id := []\<rparr>))"

definition set_allocated_sender_id :: "string option \<Rightarrow> MessageHeader \<Rightarrow> MessageHeader" where
  "set_allocated_sender_id v h =
     (case v of
        Some s \<Rightarrow> h\<lparr>mh_has_bits := mh_has_bits h OR 0x00000002, mh_sender_id := s\<rparr>
      | None \<Rightarrow> h\<lparr>mh_has_bits := mh_has_bits h AND NOT 0x00000002, mh_sender_id := []\<rparr>)"

text \<open>\<open>string topic = 3;\<close>\<close>

definition clear_topic :: "MessageHeader \<Rightarrow> MessageHeader" where
  "clear_topic h = h\<lparr>mh_topic := [], mh_has_bits := mh_has_bits h AND NOT 0x00000004\<rparr>"

definition topic :: "MessageHeader \<Rightarrow> string" where
  "topic h = mh_topic h"

definition set_topic :: "string \<Rightarrow> MessageHeader \<Rightarrow> MessageHeader" where
  "set_topic arg h = h\<lparr>mh_has_bits := mh_has_bits h OR 0x00000004, mh_topic := arg\<rparr>"

definition mutable_topic :: "(string \<Rightarrow> string) \<Rightarrow> MessageHeader \<Rightarrow> MessageHeader" where
  "mutable_topic edit h = h\<lparr>mh_has_bits := mh_has_bits h OR 0x00000004, mh_topic := edit (mh_topic h)\<rparr>"

definition release_topic :: "MessageHeader \<Rightarrow> string option \<times> MessageHeader" where
  "release_topic h =
     (if mh_has_bits h AND 0x00000004 = 0 then (None, h)
      else (Some (mh_topic h), h\<lparr>mh_has_bits := mh_has_bits h AND NOT 0x00000004, mh_topic := []\<rparr>))"

definition set_allocated_topic :: "string option \<Rightarrow> MessageHeader \<Rightarrow> MessageHeader" where
  "set_allocated_topic v h =
     (case v of
        Some s \<Rightarrow> h\<lparr>mh_has_bits := mh_has_bits h OR 0x00000004, mh_topic := s\<rparr>
      | None \<Rightarrow> h\<lparr>mh_has_bits := mh_has_bits h AND NOT 0x00000004, mh_topic := []\<rparr>)"

text \<open>\<open>string origin_broker_id = 5;\<close>\<close>

definition clear_origin_broker_id :: "MessageHeader \<Rightarrow> MessageHeader" where
  "clear_origin_broker_id h = h\<lparr>mh_origin_broker_id := [], mh_has_bits := mh_has_bits h AND NOT 0x00000008\<rparr>"

definition origin_broker_id :: "MessageHeader \<Rightarrow> string" where
  "origin_broker_id h = mh_origin_broker_id h"

definition set_origin_broker_id :: "string \<Rightarrow> MessageHeader \<Rightarrow> MessageHeader" where
  "set_origin_broker_id arg h = h\<lparr>mh_has_bits := mh_has_bits h OR 0x00000008, mh_origin_broker_id := arg\<rparr>"

definition mutable_origin_broker_id :: "(string \<Rightarrow> string) \<Rightarrow> MessageHeader \<Rightarrow> MessageHeader" where
  "mutable_origin_broker_id edit h = h\<lparr>mh_has_bits := mh_has_bits h OR 0x00000008, mh_origin_broker_id := edit (mh_origin_broker_id h)\<rparr>"

definition release_origin_broker_id :: "MessageHeader \<Rightarrow> string option \<times> MessageHeader" where
  "release_origin_broker_id h =
     (if mh_has_bits h AND 0x00000008 = 0 then (None, h)
      else (Some (mh_origin_broker_id h), h\<lparr>mh_has_bits := mh_has_bits h AND NOT 0x00000008, mh_origin_broker_id := []\<rparr>))"

definition set_allocated_origin_broker_id :: "string option \<Rightarrow> MessageHeader \<Rightarrow> MessageHeader" where
  "set_allocated_origin_broker_id v h =
     (case v of
        Some s \<Rightarrow> h\<lparr>mh_has_bits := mh_has_bits h OR 0x00000008, mh_origin_broker_id := s\<rparr>
      | None \<Rightarrow> h\<lparr>mh_has_bits := mh_has_bits h AND NOT 0x00000008, mh_origin_broker_id := []\<rparr>)"

text \<open>\<open>string message_uuid = 6;\<close>\<close>

definition clear_message_uuid :: "MessageHeader \<Rightarrow> MessageHeader" where
  "clear_message_uuid h = h\<lparr>mh_message_uuid := [], mh_has_bits := mh_has_bits h AND NOT 0x00000010\<rparr>"

definition message_uuid :: "MessageHeader \<Rightarrow> string" where
  "message_uuid h = mh_message_uuid h"

definition set_message_uuid :: "string \<Rightarrow> MessageHeader \<Rightarrow> MessageHeader" where
  "set_message_uuid arg h = h\<lparr>mh_has_bits := mh_has_bits h OR 0x00000010, mh_message_uuid := arg\<rparr>"

definition mutable_message_uuid :: "(string \<Rightarrow> string) \<Rightarrow> MessageHeader \<Rightarrow> MessageHeader" where
  "mutable_message_uuid edit h = h\<lparr>mh_has_bits := mh_has_bits h OR 0x00000010, mh_message_uuid := edit (mh_message_uuid h)\<rparr>"

definition release_message_uuid :: "MessageHeader \<Rightarrow> string option \<times> MessageHeader" where
  "release_message_uuid h =
     (if mh_has_bits h AND 0x00000010 = 0 then (None, h)
      else (Some (mh_message_uuid h), h\<lparr>mh_has_bits := mh_has_bits h AND NOT 0x00000010, mh_message_uuid := []\<rparr>))"

definition set_allocated_message_uuid :: "string option \<Rightarrow> MessageHeader \<Rightarrow> MessageHeader" where
  "set_allocated_message_uuid v h =
     (case v of
        Some s \<Rightarrow> h\<lparr>mh_has_bits := mh_has_bits h OR 0x00000010, mh_message_uuid := s\<rparr>
      | None \<Rightarrow> h\<lparr>mh_has_bits := mh_has_bits h AND NOT 0x00000010, mh_message_uuid := []\<rparr>)"

text \<open>\<open>string transfer_id = 7;\<close>\<close>

definition clear_transfer_id :: "MessageHeader \<Rightarrow> MessageHeader" where
  "clear_transfer_id h = h\<lparr>mh_transfer_id := [], mh_has_bits := mh_has_bits h AND NOT 0x00000020\<rparr>"

definition transfer_id :: "MessageHeader \<Rightarrow> string" where
  "transfer_id h = mh_transfer_id h"

definition set_transfer_id :: "string \<Rightarrow> MessageHeader \<Rightarrow> MessageHeader" where
  "set_transfer_id arg h = h\<lparr>mh_has_bits := mh_has_bits h OR 0x00000020, mh_transfer_id := arg\<rparr>"

definition mutable_transfer_id :: "(string \<Rightarrow> string) \<Rightarrow> MessageHeader \<Rightarrow> MessageHeader" where
  "mutable_transfer_id edit h = h\<lparr>mh_has_bits := mh_has_bits h OR 0x00000020, mh_transfer_id := edit (mh_transfer_id h)\<rparr>"

definition release_transfer_id :: "MessageHeader \<Rightarrow> string option \<times> MessageHeader" where
  "release_transfer_id h =
     (if mh_has_bits h AND 0x00000020 = 0 then (None, h)
      else (Some (mh_transfer_id h), h\<lparr>mh_has_bits := mh_has_bits h AND NOT 0x00000020, mh_transfer_id := []\<rparr>))"

definition set_allocated_transfer_id :: "string option \<Rightarrow> MessageHeader \<Rightarrow> MessageHeader" where
  "set_allocated_transfer_id v h =
     (case v of
        Some s \<Rightarrow> h\<lparr>mh_has_bits := mh_has_bits h OR 0x00000020, mh_transfer_id := s\<rparr>
      | None \<Rightarrow> h\<lparr>mh_has_bits := mh_has_bits h AND NOT 0x00000020, mh_transfer_id := []\<rparr>)"

text \<open>\<open>string reply_topic = 11;\<close>\<close>

definition clear_reply_topic :: "MessageHeader \<Rightarrow> MessageHeader" where
  "clear_reply_topic h = h\<lparr>mh_reply_topic := [], mh_has_bits := mh_has_bits h AND NOT 0x00000040\<rparr>"

definition reply_topic :: "MessageHeader \<Rightarrow> string" where
  "reply_topic h = mh_reply_topic h"

definition set_reply_topic :: "string \<Rightarrow> MessageHeader \<Rightarrow> MessageHeader" where
  "set_reply_topic arg h = h\<lparr>mh_has_bits := mh_has_bits h OR 0x00000040, mh_reply_topic := arg\<rparr>"

definition mutable_reply_topic :: "(string \<Rightarrow> string) \<Rightarrow> MessageHeader \<Rightarrow> MessageHeader" where
  "mutable_reply_topic edit h = h\<lparr>mh_has_bits := mh_has_bits h OR 0x00000040, mh_reply_topic := edit (mh_reply_topic h)\<rparr>"

definition release_reply_topic :: "MessageHeader \<Rightarrow> string option \<times> MessageHeader" where
  "release_reply_topic h =
     (if mh_has_bits h AND 0x00000040 = 0 then (None, h)
      else (Some (mh_reply_topic h), h\<lparr>mh_has_bits := mh_has_bits h AND NOT 0x00000040, mh_reply_topic := []\<rparr>))"

definition set_allocated_reply_topic :: "string option \<Rightarrow> MessageHeader \<Rightarrow> MessageHeader" where
  "set_allocated_reply_topic v h =
     (case v of
        Some s \<Rightarrow> h\<lparr>mh_has_bits := mh_has_bits h OR 0x00000040, mh_reply_topic := s\<rparr>
      | None \<Rightarrow> h\<lparr>mh_has_bits := mh_has_bits h AND NOT 0x00000040, mh_reply_topic := []\<rparr>)"

text \<open>\<open>int32 sequence_number = 8;\<close>\<close>

definition clear_sequence_number :: "MessageHeader \<Rightarrow> MessageHeader" where
  "clear_sequence_number h = h\<lparr>mh_sequence_number := 0, mh_has_bits := mh_has_bits h AND NOT 0x00000080\<rparr>"

definition sequence_number :: "MessageHeader \<Rightarrow> 32 word" where
  "sequence_number h = mh_sequence_number h"

definition set_sequence_number :: "32 word \<Rightarrow> MessageHeader \<Rightarrow> MessageHeader" where
  "set_sequence_number v h = h\<lparr>mh_sequence_number := v, mh_has_bits := mh_has_bits h OR 0x00000080\<rparr>"

text \<open>\<open>int32 sequence_count = 9;\<close>\<close>

definition clear_sequence_count :: "MessageHeader \<Rightarrow> MessageHeader" where
  "clear_sequence_count h = h\<lparr>mh_sequence_count := 0, mh_has_bits := mh_has_bits h AND NOT 0x00000100\<rparr>"

definition sequence_count :: "MessageHeader \<Rightarrow> 32 word" where
  "sequence_count h = mh_sequence_count h"

definition set_sequence_count :: "32 word \<Rightarrow> MessageHeader \<Rightarrow> MessageHeader" where
  "set_sequence_count v h = h\<lparr>mh_sequence_count := v, mh_has_bits := mh_has_bits h OR 0x00000100\<rparr>"

subsection \<open>Whole-message operations\<close>

definition MessageHeader_Clear :: "MessageHeader \<Rightarrow> MessageHeader" where
  "MessageHeader_Clear h =
     (let cached_has_bits = mh_has_bits h;
          h = (if cached_has_bits AND 0x0000007f \<noteq> 0 then
            (let h = mh_handler_key_update (\<lambda>s. if cached_has_bits AND 0x00000001 \<noteq> 0 then [] else s) h;
                 h = mh_sender_id_update (\<lambda>s. if cached_has_bits AND 0x00000002 \<noteq> 0 then [] else s) h;
                 h = mh_topic_update (\<lambda>s. if cached_has_bits AND 0x00000004 \<noteq> 0 then [] else s) h;
                 h = mh_origin_broker_id_update (\<lambda>s. if cached_has_bits AND 0x00000008 \<noteq> 0 then [] else s) h;
                 h = mh_message_uuid_update (\<lambda>s. if cached_has_bits AND 0x00000010 \<noteq> 0 then [] else s) h;
                 h = mh_transfer_id_update (\<lambda>s. if cached_has_bits AND 0x00000020 \<noteq> 0 then [] else s) h;
                 h = mh_reply_topic_update (\<lambda>s. if cached_has_bits AND 0x00000040 \<noteq> 0 then [] else s) h
             in h)
           else h)
      in h\<lparr>mh_sequence_number := 0, mh_sequence_count := 0, mh_has_bits := 0, mh_unknown := []\<rparr>)"

definition serialize_string :: "pb_runtime \<Rightarrow> 32 word \<Rightarrow> 32 word \<Rightarrow> nat \<Rightarrow> string \<Rightarrow> bytes" where
  "serialize_string rt has_bits has_mask n s =
     (if has_bits AND has_mask \<noteq> 0 then (if s \<noteq> [] then WriteString rt n s else []) else [])"

definition serialize_int32 :: "pb_runtime \<Rightarrow> 32 word \<Rightarrow> 32 word \<Rightarrow> nat \<Rightarrow> 32 word \<Rightarrow> bytes" where
  "serialize_int32 rt has_bits has_mask n v =
     (if has_bits AND has_mask \<noteq> 0 then (if v \<noteq> 0 then WriteInt32 rt n v else []) else [])"

definition MessageHeader_InternalSerialize :: "pb_runtime \<Rightarrow> MessageHeader \<Rightarrow> bytes" where
  "MessageHeader_InternalSerialize rt h =
     serialize_string rt (mh_has_bits h) 0x00000001 1 (mh_handler_key h)
     @ serialize_string rt (mh_has_bits h) 0x00000002 2 (mh_sender_id h)
     @ serialize_string rt (mh_has_bits h) 0x00000004 3 (mh_topic h)
     @ serialize_string rt (mh_has_bits h) 0x00000008 5 (mh_origin_broker_id h)
     @ serialize_string rt (mh_has_bits h) 0x00000010 6 (mh_message_uuid h)
     @ serialize_string rt (mh_has_bits h) 0x00000020 7 (mh_transfer_id h)
     @ serialize_int32 rt (mh_has_bits h) 0x00000080 8 (mh_sequence_number h)
     @ serialize_int32 rt (mh_has_bits h) 0x00000100 9 (mh_sequence_count h)
     @ serialize_string rt (mh_has_bits h) 0x00000040 11 (mh_reply_topic h)
     @ (if mh_unknown h \<noteq> [] then WriteUnknown rt (mh_unknown h) else [])"

definition string_size :: "pb_runtime \<Rightarrow> 32 word \<Rightarrow> 32 word \<Rightarrow> string \<Rightarrow> nat" where
  "string_size rt has_bits has_mask s =
     (if has_bits AND has_mask \<noteq> 0 then (if s \<noteq> [] then 1 + StringSize rt s else 0) else 0)"

definition int32_size :: "pb_runtime \<Rightarrow> 32 word \<Rightarrow> 32 word \<Rightarrow> 32 word \<Rightarrow> nat" where
  "int32_size rt has_bits has_mask v =
     (if has_bits AND has_mask \<noteq> 0 then (if v \<noteq> 0 then Int32SizePlusOne rt v else 0) else 0)"

definition MessageHeader_ByteSizeLong :: "pb_runtime \<Rightarrow> MessageHeader \<Rightarrow> nat" where
  "MessageHeader_ByteSizeLong rt h =
     (let cached_has_bits = mh_has_bits h;
          total_size =
            (if cached_has_bits AND 0x000000ff \<noteq> 0 then
               string_size rt cached_has_bits 0x00000001 (mh_handler_key h)
               + string_size rt cached_has_bits 0x00000002 (mh_sender_id h)
               + string_size rt cached_has_bits 0x00000004 (mh_topic h)
               + string_size rt cached_has_bits 0x00000008 (mh_origin_broker_id h)
               + string_size rt cached_has_bits 0x00000010 (mh_message_uuid h)
               + string_size rt cached_has_bits 0x00000020 (mh_transfer_id h)
               + string_size rt cached_has_bits 0x00000040 (mh_reply_topic h)
               + int32_size rt cached_has_bits 0x00000080 (mh_sequence_number h)
             else 0)
            + int32_size rt cached_has_bits 0x00000100 (mh_sequence_count h)
      in total_size + (if mh_unknown h \<noteq> [] then UnknownSize rt (mh_unknown h) else 0))"

definition merge_string_field :: "32 word \<Rightarrow> 32 word \<Rightarrow> ('m \<Rightarrow> string) \<Rightarrow>
    (string \<Rightarrow> 'm \<Rightarrow> 'm) \<Rightarrow> 'm \<Rightarrow> 'm \<Rightarrow> 'm" where
  "merge_string_field has_bits has_mask field store from this =
     (if has_bits AND has_mask \<noteq> 0 then
        (if field from \<noteq> [] then store (field from) this
         else if field this = [] then store [] this else this)
      else this)"

definition MessageHeader_MergeImpl :: "MessageHeader \<Rightarrow> MessageHeader \<Rightarrow> MessageHeader" where
  "MessageHeader_MergeImpl this from =
     (let cached_has_bits = mh_has_bits from;
          this = (if cached_has_bits AND 0x000000ff \<noteq> 0 then
            (let this = merge_string_field cached_has_bits 0x00000001 handler_key set_handler_key from this;
                 this = merge_string_field cached_has_bits 0x00000002 sender_id set_sender_id from this;
                 this = merge_string_field cached_has_bits 0x00000004 topic set_topic from this;
                 this = merge_string_field cached_has_bits 0x00000008 origin_broker_id set_origin_broker_id from this;
                 this = merge_string_field cached_has_bits 0x00000010 message_uuid set_message_uuid from this;
                 this = merge_string_field cached_has_bits 0x00000020 transfer_id set_transfer_id from this;
                 this = merge_string_field cached_has_bits 0x00000040 reply_topic set_reply_topic from this;
                 this = (if cached_has_bits AND 0x00000080 \<noteq> 0 then
                          (if sequence_number from \<noteq> 0 then this\<lparr>mh_sequence_number := mh_sequence_number from\<rparr> else this)
                        else this)
             in this)
           else this);
          this = (if cached_has_bits AND 0x00000100 \<noteq> 0 then
                    (if sequence_count from \<noteq> 0 then this\<lparr>mh_sequence_count := mh_sequence_count from\<rparr> else this)
                  else this)
      in this\<lparr>mh_has_bits := mh_has_bits this OR cached_has_bits,
              mh_unknown := mh_unknown this @ mh_unknown from\<rparr>)"

definition MessageHeader_CopyFrom :: "MessageHeader \<Rightarrow> MessageHeader \<Rightarrow> MessageHeader" where
  "MessageHeader_CopyFrom this from = MessageHeader_MergeImpl (MessageHeader_Clear this) from"

definition MessageHeader_InternalSwap :: "MessageHeader \<Rightarrow> MessageHeader \<Rightarrow> MessageHeader \<times> MessageHeader" where
  "MessageHeader_InternalSwap this other =
     (this\<lparr>mh_unknown := mh_unknown other, mh_has_bits := mh_has_bits other,
           mh_handler_key := mh_handler_key other,
           mh_sender_id := mh_sender_id other,
           mh_topic := mh_topic other,
           mh_origin_broker_id := mh_origin_broker_id other,
           mh_message_uuid := mh_message_uuid other,
           mh_transfer_id := mh_transfer_id other,
           mh_reply_topic := mh_reply_topic other,
           mh_sequence_number := mh_sequence_number other,
           mh_sequence_count := mh_sequence_count other\<rparr>,
      other\<lparr>mh_unknown := mh_unknown this, mh_has_bits := mh_has_bits this,
            mh_handler_key := mh_handler_key this,
            mh_sender_id := mh_sender_id this,
            mh_topic := mh_topic this,
            mh_origin_broker_id := mh_origin_broker_id this,
            mh_message_uuid := mh_message_uuid this,
            mh_transfer_id := mh_transfer_id this,
            mh_reply_topic := mh_reply_topic this,
            mh_sequence_number := mh_sequence_number this,
            mh_sequence_count := mh_sequence_count this\<rparr>)"

subsection \<open>Parsing\<close>

text \<open>
  One step of the table-driven parser on a field of the wire: a field of \<open>_table_\<close> with the wire type the
  table gives it is stored (strings only when they are valid UTF-8, else the parse fails), anything else
  is kept as an unknown field.
\<close>

definition parse_string_field ::
    "pb_runtime \<Rightarrow> (string \<Rightarrow> 'm \<Rightarrow> 'm) \<Rightarrow> string \<Rightarrow> 'm \<Rightarrow> 'm option" where
  "parse_string_field rt store s h = (if Utf8Valid rt s then Some (store s h) else None)"

definition MessageHeader_table :: "pb_runtime \<Rightarrow> wire_field \<Rightarrow> MessageHeader \<Rightarrow> MessageHeader option" where
  "MessageHeader_table rt f h =
     (case f of
        (n, LengthDelimited s) \<Rightarrow>
          if n = 1 then parse_string_field rt set_handler_key s h
          else if n = 2 then parse_string_field rt set_sender_id s h
          else if n = 3 then parse_string_field rt set_topic s h
          else if n = 5 then parse_string_field rt set_origin_broker_id s h
          else if n = 6 then parse_string_field rt set_message_uuid s h
          else if n = 7 then parse_string_field rt set_transfer_id s h
          else if n = 11 then parse_string_field rt set_reply_topic s h
          else Some (h\<lparr>mh_unknown := mh_unknown h @ [f]\<rparr>)
      | (n, Varint w) \<Rightarrow>
          if n = 8 then Some (set_sequence_number (ucast w) h)
          else if n = 9 then Some (set_sequence_count (ucast w) h)
          else Some (h\<lparr>mh_unknown := mh_unknown h @ [f]\<rparr>)
      | _ \<Rightarrow> Some (h\<lparr>mh_unknown := mh_unknown h @ [f]\<rparr>))"

fun parse_loop :: "(wire_field \<Rightarrow> 'm \<Rightarrow> 'm option) \<Rightarrow> wire_field list \<Rightarrow> 'm \<Rightarrow> 'm option" where
  "parse_loop table [] m = Some m"
| "parse_loop table (f # fs) m =
     (case table f m of None \<Rightarrow> None | Some m' \<Rightarrow> parse_loop table fs m')"

definition MessageHeader_ParseFromArray :: "pb_runtime \<Rightarrow> bytes \<Rightarrow> MessageHeader \<Rightarrow> MessageHeader option" where
  "MessageHeader_ParseFromArray rt bs h =
     (case ParseFields rt bs of
        None \<Rightarrow> None
      | Some fs \<Rightarrow> parse_loop (MessageHeader_table rt) fs (MessageHeader_Clear h))"


text \<open>Serialization writes the fields whose presence bit is set and whose value is not the default.\<close>

definition string_field :: "nat \<Rightarrow> string \<Rightarrow> wire_field list" where
  "string_field n s = (if s = [] then [] else [(n, LengthDelimited s)])"

definition int32_field :: "nat \<Rightarrow> 32 word \<Rightarrow> wire_field list" where
  "int32_field n v = (if v = 0 then [] else [(n, Varint (scast v))])"

definition MessageHeader_fields :: "MessageHeader \<Rightarrow> wire_field list" where
  "MessageHeader_fields h =
     string_field 1 (mh_handler_key h)
     @ string_field 2 (mh_sender_id h)
     @ string_field 3 (mh_topic h)
     @ string_field 5 (mh_origin_broker_id h)
     @ string_field 6 (mh_message_uuid h)
     @ string_field 7 (mh_transfer_id h)
     @ int32_field 8 (mh_sequence_number h)
     @ int32_field 9 (mh_sequence_count h)
     @ string_field 11 (mh_reply_topic h)
     @ mh_unknown h"

definition presence_bits :: "MessageHeader \<Rightarrow> 32 word" where
  "presence_bits h =
     (if mh_handler_key h = [] then 0 else 0x00000001)
     OR (if mh_sender_id h = [] then 0 else 0x00000002)
     OR (if mh_topic h = [] then 0 else 0x00000004)
     OR (if mh_origin_broker_id h = [] then 0 else 0x00000008)
     OR (if mh_message_uuid h = [] then 0 else 0x00000010)
     OR (if mh_transfer_id h = [] then 0 else 0x00000020)
     OR (if mh_sequence_number h = 0 then 0 else 0x00000080)
     OR (if mh_sequence_count h = 0 then 0 else 0x00000100)
     OR (if mh_reply_topic h = [] then 0 else 0x00000040)"

text \<open>The class invariant: a field that does not hold its default value has its presence bit.\<close>

definition MessageHeader_ok :: "MessageHeader \<Rightarrow> bool" where
  "MessageHeader_ok h \<longleftrightarrow>
     (mh_handler_key h \<noteq> [] \<longrightarrow> mh_has_bits h AND 0x00000001 \<noteq> 0) \<and>
     (mh_sender_id h \<noteq> [] \<longrightarrow> mh_has_bits h AND 0x00000002 \<noteq> 0) \<and>
     (mh_topic h \<noteq> [] \<longrightarrow> mh_has_bits h AND 0x00000004 \<noteq> 0) \<and>
     (mh_origin_broker_id h \<noteq> [] \<longrightarrow> mh_has_bits h AND 0x00000008 \<noteq> 0) \<and>
     (mh_message_uuid h \<noteq> [] \<longrightarrow> mh_has_bits h AND 0x00000010 \<noteq> 0) \<and>
     (mh_transfer_id h \<noteq> [] \<longrightarrow> mh_has_bits h AND 0x00000020 \<noteq> 0) \<and>
     (mh_reply_topic h \<noteq> [] \<longrightarrow> mh_has_bits h AND 0x00000040 \<noteq> 0) \<and>
     (mh_sequence_number h \<noteq> 0 \<longrightarrow> mh_has_bits h AND 0x00000080 \<noteq> 0) \<and>
     (mh_sequence_count h \<noteq> 0 \<longrightarrow> mh_has_bits h AND 0x00000100 \<noteq> 0)"

text \<open>What the wire format can carry: text fields below the 2 GiB limit, unknown fields that are unknown.\<close>

definition MessageHeader_strings :: "MessageHeader \<Rightarrow> string list" where
  "MessageHeader_strings h =
     [mh_handler_key h,
      mh_sender_id h,
      mh_topic h,
      mh_origin_broker_id h,
      mh_message_uuid h,
      mh_transfer_id h,
      mh_reply_topic h]"

definition MessageHeader_foreign :: "wire_field \<Rightarrow> bool" where
  "MessageHeader_foreign f \<longleftrightarrow>
     (case f of
        (n, LengthDelimited _) \<Rightarrow> n \<notin> {1, 2, 3, 5, 6, 7, 11}
      | (n, Varint _) \<Rightarrow> n \<notin> {8, 9}
      | _ \<Rightarrow> True)"

definition MessageHeader_encodable :: "MessageHeader \<Rightarrow> bool" where
  "MessageHeader_encodable h \<longleftrightarrow>
     list_all (\<lambda>s. length s < 2 ^ 31) (MessageHeader_strings h) \<and>
     list_all (\<lambda>f. wire_field_ok f \<and> MessageHeader_foreign f) (mh_unknown h)"

subsection \<open>Lemmas\<close>

lemma mask_bits [simp]:
  fixes x :: "32 word"
  shows "(x AND 1 = 0) = (\<not> bit x 0)"
    and "(x AND 2 = 0) = (\<not> bit x 1)"
    and "(x AND 4 = 0) = (\<not> bit x 2)"
    and "(x AND 8 = 0) = (\<not> bit x 3)"
    and "(x AND 16 = 0) = (\<not> bit x 4)"
    and "(x AND 32 = 0) = (\<not> bit x 5)"
    and "(x AND 64 = 0) = (\<not> bit x 6)"
    and "(x AND 128 = 0) = (\<not> bit x 7)"
    and "(x AND 256 = 0) = (\<not> bit x 8)"
  using and_exp_eq_0_iff_not_bit [of x 0] and_exp_eq_0_iff_not_bit [of x 1] and_exp_eq_0_iff_not_bit [of x 2] and_exp_eq_0_iff_not_bit [of x 3] and_exp_eq_0_iff_not_bit [of x 4] and_exp_eq_0_iff_not_bit [of x 5] and_exp_eq_0_iff_not_bit [of x 6] and_exp_eq_0_iff_not_bit [of x 7] and_exp_eq_0_iff_not_bit [of x 8]
  by simp_all

lemmas header_accessor_defs =
  clear_handler_key_def handler_key_def set_handler_key_def mutable_handler_key_def
  release_handler_key_def set_allocated_handler_key_def clear_sender_id_def sender_id_def
  set_sender_id_def mutable_sender_id_def release_sender_id_def set_allocated_sender_id_def
  clear_topic_def topic_def set_topic_def mutable_topic_def
  release_topic_def set_allocated_topic_def clear_origin_broker_id_def origin_broker_id_def
  set_origin_broker_id_def mutable_origin_broker_id_def release_origin_broker_id_def set_allocated_origin_broker_id_def
  clear_message_uuid_def message_uuid_def set_message_uuid_def mutable_message_uuid_def
  release_message_uuid_def set_allocated_message_uuid_def clear_transfer_id_def transfer_id_def
  set_transfer_id_def mutable_transfer_id_def release_transfer_id_def set_allocated_transfer_id_def
  clear_reply_topic_def reply_topic_def set_reply_topic_def mutable_reply_topic_def
  release_reply_topic_def set_allocated_reply_topic_def clear_sequence_number_def sequence_number_def
  set_sequence_number_def clear_sequence_count_def sequence_count_def set_sequence_count_def


text \<open>Every operation keeps the class invariant.\<close>

lemma MessageHeader_ok_new [simp]: "MessageHeader_ok MessageHeader_new"
  by (simp add: MessageHeader_ok_def MessageHeader_new_def)

lemma MessageHeader_ok_accessors [wisp_inv]:
  assumes "MessageHeader_ok h"
  shows "MessageHeader_ok (clear_handler_key h)"
    and "MessageHeader_ok (clear_sender_id h)"
    and "MessageHeader_ok (clear_topic h)"
    and "MessageHeader_ok (clear_origin_broker_id h)"
    and "MessageHeader_ok (clear_message_uuid h)"
    and "MessageHeader_ok (clear_transfer_id h)"
    and "MessageHeader_ok (clear_reply_topic h)"
    and "MessageHeader_ok (clear_sequence_number h)"
    and "MessageHeader_ok (clear_sequence_count h)"
    and "MessageHeader_ok (set_handler_key s h)"
    and "MessageHeader_ok (set_sender_id s h)"
    and "MessageHeader_ok (set_topic s h)"
    and "MessageHeader_ok (set_origin_broker_id s h)"
    and "MessageHeader_ok (set_message_uuid s h)"
    and "MessageHeader_ok (set_transfer_id s h)"
    and "MessageHeader_ok (set_reply_topic s h)"
    and "MessageHeader_ok (set_sequence_number v h)"
    and "MessageHeader_ok (set_sequence_count v h)"
    and "MessageHeader_ok (mutable_handler_key edit h)"
    and "MessageHeader_ok (mutable_sender_id edit h)"
    and "MessageHeader_ok (mutable_topic edit h)"
    and "MessageHeader_ok (mutable_origin_broker_id edit h)"
    and "MessageHeader_ok (mutable_message_uuid edit h)"
    and "MessageHeader_ok (mutable_transfer_id edit h)"
    and "MessageHeader_ok (mutable_reply_topic edit h)"
    and "MessageHeader_ok (snd (release_handler_key h))"
    and "MessageHeader_ok (snd (release_sender_id h))"
    and "MessageHeader_ok (snd (release_topic h))"
    and "MessageHeader_ok (snd (release_origin_broker_id h))"
    and "MessageHeader_ok (snd (release_message_uuid h))"
    and "MessageHeader_ok (snd (release_transfer_id h))"
    and "MessageHeader_ok (snd (release_reply_topic h))"
    and "MessageHeader_ok (set_allocated_handler_key p h)"
    and "MessageHeader_ok (set_allocated_sender_id p h)"
    and "MessageHeader_ok (set_allocated_topic p h)"
    and "MessageHeader_ok (set_allocated_origin_broker_id p h)"
    and "MessageHeader_ok (set_allocated_message_uuid p h)"
    and "MessageHeader_ok (set_allocated_transfer_id p h)"
    and "MessageHeader_ok (set_allocated_reply_topic p h)"
  using assms
  by (auto simp: MessageHeader_ok_def header_accessor_defs bit_simps split: option.splits)

lemma and_mask_eq_0_iff: "(x AND mask n = 0) = (\<forall>i < n. \<not> bit x i)" for x :: "32 word"
  using bit_imp_le_length [of x] by (fastforce simp: bit_eq_iff bit_simps)

lemma all_less_7_8:
  fixes P :: "nat \<Rightarrow> bool"
  shows "(\<forall>i < 7. P i) = (P 0 \<and> P 1 \<and> P 2 \<and> P 3 \<and> P 4 \<and> P 5 \<and> P 6)"
    and "(\<forall>i < 8. P i) = (P 0 \<and> P 1 \<and> P 2 \<and> P 3 \<and> P 4 \<and> P 5 \<and> P 6 \<and> P 7)"
  by (simp_all add: eval_nat_numeral All_less_Suc conj_ac)

lemma block_mask [simp]:
  fixes x :: "32 word"
  shows "(x AND 127 = 0) = (\<forall>i < 7. \<not> bit x i)"
    and "(x AND 255 = 0) = (\<forall>i < 8. \<not> bit x i)"
  using and_mask_eq_0_iff [of x 7] and_mask_eq_0_iff [of x 8] by (simp_all add: mask_eq_exp_minus_1)

lemma MessageHeader_Clear_eq [simp]:
  assumes "MessageHeader_ok h"
  shows "MessageHeader_Clear h = MessageHeader_new"
  using assms unfolding MessageHeader_Clear_def Let_def
  by (cases h) (auto simp: MessageHeader_ok_def MessageHeader_new_def all_less_7_8)

text \<open>\<open>MergeImpl\<close> overwrites exactly the fields that are present and not empty in the source.\<close>

definition merged_string :: "bool \<Rightarrow> string \<Rightarrow> string \<Rightarrow> string" where
  "merged_string c new old = (if c \<and> new \<noteq> [] then new else old)"

definition merged_int :: "bool \<Rightarrow> 'a::zero \<Rightarrow> 'a \<Rightarrow> 'a" where
  "merged_int c new old = (if c \<and> new \<noteq> 0 then new else old)"

definition absorb :: "MessageHeader \<Rightarrow> MessageHeader \<Rightarrow> MessageHeader" where
  "absorb from this = this\<lparr>mh_has_bits := mh_has_bits this OR mh_has_bits from,
     mh_unknown := mh_unknown this @ mh_unknown from\<rparr>"

lemma absorb_bit: "bit y b \<Longrightarrow> x OR 2 ^ b OR y = x OR y" for x y :: "32 word"
  by (auto intro!: bit_eqI simp: bit_simps)

lemma absorb_merge:
  shows "absorb from (merge_string_field (mh_has_bits from) 1 handler_key set_handler_key from this) =
       mh_handler_key_update (merged_string (bit (mh_has_bits from) 0) (mh_handler_key from)) (absorb from this)"
    and "absorb from (merge_string_field (mh_has_bits from) 2 sender_id set_sender_id from this) =
       mh_sender_id_update (merged_string (bit (mh_has_bits from) 1) (mh_sender_id from)) (absorb from this)"
    and "absorb from (merge_string_field (mh_has_bits from) 4 topic set_topic from this) =
       mh_topic_update (merged_string (bit (mh_has_bits from) 2) (mh_topic from)) (absorb from this)"
    and "absorb from (merge_string_field (mh_has_bits from) 8 origin_broker_id set_origin_broker_id from this) =
       mh_origin_broker_id_update (merged_string (bit (mh_has_bits from) 3) (mh_origin_broker_id from)) (absorb from this)"
    and "absorb from (merge_string_field (mh_has_bits from) 16 message_uuid set_message_uuid from this) =
       mh_message_uuid_update (merged_string (bit (mh_has_bits from) 4) (mh_message_uuid from)) (absorb from this)"
    and "absorb from (merge_string_field (mh_has_bits from) 32 transfer_id set_transfer_id from this) =
       mh_transfer_id_update (merged_string (bit (mh_has_bits from) 5) (mh_transfer_id from)) (absorb from this)"
    and "absorb from (merge_string_field (mh_has_bits from) 64 reply_topic set_reply_topic from this) =
       mh_reply_topic_update (merged_string (bit (mh_has_bits from) 6) (mh_reply_topic from)) (absorb from this)"
  using absorb_bit [of "mh_has_bits from" 0 "mh_has_bits this"] absorb_bit [of "mh_has_bits from" 1 "mh_has_bits this"] absorb_bit [of "mh_has_bits from" 2 "mh_has_bits this"] absorb_bit [of "mh_has_bits from" 3 "mh_has_bits this"] absorb_bit [of "mh_has_bits from" 4 "mh_has_bits this"] absorb_bit [of "mh_has_bits from" 5 "mh_has_bits this"] absorb_bit [of "mh_has_bits from" 6 "mh_has_bits this"]
  by (auto simp: absorb_def merge_string_field_def merged_string_def header_accessor_defs or.assoc)

lemma absorb_merge_int:
  shows "absorb from (if bit (mh_has_bits from) 7 then (if sequence_number from \<noteq> 0 then this\<lparr>mh_sequence_number := mh_sequence_number from\<rparr> else this) else this) =
       mh_sequence_number_update (merged_int (bit (mh_has_bits from) 7) (mh_sequence_number from)) (absorb from this)"
    and "absorb from (if bit (mh_has_bits from) 8 then (if sequence_count from \<noteq> 0 then this\<lparr>mh_sequence_count := mh_sequence_count from\<rparr> else this) else this) =
       mh_sequence_count_update (merged_int (bit (mh_has_bits from) 8) (mh_sequence_count from)) (absorb from this)"
  by (auto simp: absorb_def merged_int_def header_accessor_defs)

lemma MessageHeader_MergeImpl_eq:
  "MessageHeader_MergeImpl this from =
     \<lparr>mh_has_bits = mh_has_bits this OR mh_has_bits from,
      mh_handler_key = merged_string (bit (mh_has_bits from) 0) (mh_handler_key from) (mh_handler_key this),
      mh_sender_id = merged_string (bit (mh_has_bits from) 1) (mh_sender_id from) (mh_sender_id this),
      mh_topic = merged_string (bit (mh_has_bits from) 2) (mh_topic from) (mh_topic this),
      mh_origin_broker_id = merged_string (bit (mh_has_bits from) 3) (mh_origin_broker_id from) (mh_origin_broker_id this),
      mh_message_uuid = merged_string (bit (mh_has_bits from) 4) (mh_message_uuid from) (mh_message_uuid this),
      mh_transfer_id = merged_string (bit (mh_has_bits from) 5) (mh_transfer_id from) (mh_transfer_id this),
      mh_reply_topic = merged_string (bit (mh_has_bits from) 6) (mh_reply_topic from) (mh_reply_topic this),
      mh_sequence_number = merged_int (bit (mh_has_bits from) 7) (mh_sequence_number from) (mh_sequence_number this),
      mh_sequence_count = merged_int (bit (mh_has_bits from) 8) (mh_sequence_count from) (mh_sequence_count this),
      mh_unknown = mh_unknown this @ mh_unknown from\<rparr>"
  (is "_ = ?rhs")
proof -
  have "MessageHeader_MergeImpl this from =
    mh_sequence_count_update (merged_int (bit (mh_has_bits from) 8) (mh_sequence_count from))
      (mh_sequence_number_update (merged_int (bit (mh_has_bits from) 7) (mh_sequence_number from))
      (mh_reply_topic_update (merged_string (bit (mh_has_bits from) 6) (mh_reply_topic from))
      (mh_transfer_id_update (merged_string (bit (mh_has_bits from) 5) (mh_transfer_id from))
      (mh_message_uuid_update (merged_string (bit (mh_has_bits from) 4) (mh_message_uuid from))
      (mh_origin_broker_id_update (merged_string (bit (mh_has_bits from) 3) (mh_origin_broker_id from))
      (mh_topic_update (merged_string (bit (mh_has_bits from) 2) (mh_topic from))
      (mh_sender_id_update (merged_string (bit (mh_has_bits from) 1) (mh_sender_id from))
      (mh_handler_key_update (merged_string (bit (mh_has_bits from) 0) (mh_handler_key from))
      (absorb from this)))))))))" (is "_ = ?merged")
  proof (cases "mh_has_bits from AND 255 = 0")
    case True
    then show ?thesis
      unfolding MessageHeader_MergeImpl_def Let_def absorb_def [symmetric]
      by (simp add: absorb_merge_int merged_string_def [abs_def] merged_int_def [abs_def] all_less_7_8)
  next
    case False
    then show ?thesis
      unfolding MessageHeader_MergeImpl_def Let_def absorb_def [symmetric]
      by (simp add: absorb_merge absorb_merge_int del: block_mask)
  qed
  also have "?merged = ?rhs"
    by (cases this) (simp add: absorb_def)
  finally show ?thesis .
qed

lemma merged_eq_default [simp]:
  "merged_string c new old = [] \<longleftrightarrow> (c \<longrightarrow> new = []) \<and> old = []"
  "merged_int c v u = 0 \<longleftrightarrow> (c \<longrightarrow> v = 0) \<and> u = 0"
  by (auto simp: merged_string_def merged_int_def)

lemma MessageHeader_ok_MergeImpl [wisp_inv]:
  "MessageHeader_ok this \<Longrightarrow> MessageHeader_ok from \<Longrightarrow> MessageHeader_ok (MessageHeader_MergeImpl this from)"
  unfolding MessageHeader_MergeImpl_eq MessageHeader_ok_def
  by (simp add: bit_simps)

lemma merged_default [simp]:
  "(new \<noteq> [] \<longrightarrow> c) \<Longrightarrow> merged_string c new [] = new"
  "(v \<noteq> 0 \<longrightarrow> c) \<Longrightarrow> merged_int c v 0 = v"
  by (auto simp: merged_string_def merged_int_def)

lemma MessageHeader_CopyFrom_eq:
  assumes "MessageHeader_ok this" "MessageHeader_ok from"
  shows "MessageHeader_CopyFrom this from = from"
  using assms
  by (cases "from") (simp add: MessageHeader_CopyFrom_def MessageHeader_MergeImpl_eq MessageHeader_new_def
      MessageHeader_ok_def)

lemma MessageHeader_InternalSwap_eq: "MessageHeader_InternalSwap this other = (other, this)"
  by (cases this, cases other) (simp add: MessageHeader_InternalSwap_def)

lemma MessageHeader_ok_table [wisp_inv]:
  "MessageHeader_ok h \<Longrightarrow> MessageHeader_table rt f h = Some h' \<Longrightarrow> MessageHeader_ok h'"
  by (auto simp: MessageHeader_table_def parse_string_field_def MessageHeader_ok_accessors
      split: prod.splits wire_value.splits if_splits)
     (simp_all add: MessageHeader_ok_def)

lemma MessageHeader_ok_parse_loop:
  "MessageHeader_ok h \<Longrightarrow> parse_loop (MessageHeader_table rt) fs h = Some h' \<Longrightarrow> MessageHeader_ok h'"
  by (induction fs arbitrary: h) (auto split: option.splits dest: MessageHeader_ok_table)

lemma MessageHeader_ok_parse [wisp_inv]:
  "MessageHeader_ParseFromArray rt bs h = Some h' \<Longrightarrow> MessageHeader_ok h \<Longrightarrow> MessageHeader_ok h'"
  by (auto simp: MessageHeader_ParseFromArray_def split: option.splits
      dest: MessageHeader_ok_parse_loop [OF MessageHeader_ok_new])

subsection \<open>The size computation\<close>

lemma serialize_size:
  assumes "protobuf_runtime rt" "1 \<le> n" "n < 16"
  shows "length (serialize_string rt b m n s) = string_size rt b m s"
    and "length (serialize_int32 rt b m n v) = int32_size rt b m v"
  using assms
  by (simp_all add: serialize_string_def string_size_def serialize_int32_def int32_size_def
      protobuf_runtime.size_string protobuf_runtime.size_int32)

lemma ByteSizeLong_eq_length:
  assumes "protobuf_runtime rt"
  shows "MessageHeader_ByteSizeLong rt h = length (MessageHeader_InternalSerialize rt h)"
proof -
  have absent: "string_size rt b m s = 0" "int32_size rt b m v = 0" if "b AND m = 0" for b m s v
    using that by (simp_all add: string_size_def int32_size_def)
  show ?thesis
    by (simp add: MessageHeader_ByteSizeLong_def MessageHeader_InternalSerialize_def Let_def assms
        serialize_size absent all_less_7_8 protobuf_runtime.size_unknown)
qed

subsection \<open>The wire round trip\<close>

lemma parse_loop_append:
  "parse_loop t (fs @ gs) m = Option.bind (parse_loop t fs m) (parse_loop t gs)"
  by (induction fs arbitrary: m) (auto split: option.splits)

lemma parse_serialized:
  assumes "protobuf_runtime rt" "field_number n"
  shows "length s < 2 ^ 31 \<Longrightarrow> (s \<noteq> [] \<longrightarrow> b AND m \<noteq> 0) \<Longrightarrow>
      ParseFields rt (serialize_string rt b m n s @ bs) = map_option ((@) (string_field n s)) (ParseFields rt bs)"
    and "(v \<noteq> 0 \<longrightarrow> b AND m \<noteq> 0) \<Longrightarrow>
      ParseFields rt (serialize_int32 rt b m n v @ bs) = map_option ((@) (int32_field n v)) (ParseFields rt bs)"
  using assms
  by (auto simp: serialize_string_def string_field_def serialize_int32_def int32_field_def
      protobuf_runtime.parse_string protobuf_runtime.parse_int32 option.map_id [unfolded id_def] cong: map_option_cong)

lemma parse_unknown_set:
  assumes "protobuf_runtime rt" "\<forall>f \<in> set us. wire_field_ok f"
  shows "ParseFields rt (if us \<noteq> [] then WriteUnknown rt us else []) = Some us"
  using assms by (simp add: protobuf_runtime.parse_nil protobuf_runtime.parse_unknown)

lemma ParseFields_serialized:
  assumes "protobuf_runtime rt" "MessageHeader_ok h" "MessageHeader_encodable h"
  shows "ParseFields rt (MessageHeader_InternalSerialize rt h) = Some (MessageHeader_fields h)"
  using assms
  by (simp add: MessageHeader_InternalSerialize_def MessageHeader_fields_def MessageHeader_ok_def
      MessageHeader_encodable_def MessageHeader_strings_def parse_serialized parse_unknown_set
      field_number_def list_all_iff)

lemma parse_loop_string:
  assumes "protobuf_runtime rt"
  shows "mh_handler_key h = [] \<Longrightarrow> parse_loop (MessageHeader_table rt) (string_field 1 s) h =
       (if Utf8Valid rt s then Some (h\<lparr>mh_handler_key := s, mh_has_bits := mh_has_bits h OR (if s = [] then 0 else 0x00000001)\<rparr>)
        else None)"
    and "mh_sender_id h = [] \<Longrightarrow> parse_loop (MessageHeader_table rt) (string_field 2 s) h =
       (if Utf8Valid rt s then Some (h\<lparr>mh_sender_id := s, mh_has_bits := mh_has_bits h OR (if s = [] then 0 else 0x00000002)\<rparr>)
        else None)"
    and "mh_topic h = [] \<Longrightarrow> parse_loop (MessageHeader_table rt) (string_field 3 s) h =
       (if Utf8Valid rt s then Some (h\<lparr>mh_topic := s, mh_has_bits := mh_has_bits h OR (if s = [] then 0 else 0x00000004)\<rparr>)
        else None)"
    and "mh_origin_broker_id h = [] \<Longrightarrow> parse_loop (MessageHeader_table rt) (string_field 5 s) h =
       (if Utf8Valid rt s then Some (h\<lparr>mh_origin_broker_id := s, mh_has_bits := mh_has_bits h OR (if s = [] then 0 else 0x00000008)\<rparr>)
        else None)"
    and "mh_message_uuid h = [] \<Longrightarrow> parse_loop (MessageHeader_table rt) (string_field 6 s) h =
       (if Utf8Valid rt s then Some (h\<lparr>mh_message_uuid := s, mh_has_bits := mh_has_bits h OR (if s = [] then 0 else 0x00000010)\<rparr>)
        else None)"
    and "mh_transfer_id h = [] \<Longrightarrow> parse_loop (MessageHeader_table rt) (string_field 7 s) h =
       (if Utf8Valid rt s then Some (h\<lparr>mh_transfer_id := s, mh_has_bits := mh_has_bits h OR (if s = [] then 0 else 0x00000020)\<rparr>)
        else None)"
    and "mh_reply_topic h = [] \<Longrightarrow> parse_loop (MessageHeader_table rt) (string_field 11 s) h =
       (if Utf8Valid rt s then Some (h\<lparr>mh_reply_topic := s, mh_has_bits := mh_has_bits h OR (if s = [] then 0 else 0x00000040)\<rparr>)
        else None)"
  using protobuf_runtime.utf8_ascii [OF assms, of "[]"]
  by (auto simp: string_field_def MessageHeader_table_def parse_string_field_def header_accessor_defs ascii_def)

lemma bind_if: "Option.bind (if c then Some x else None) f = (if c then f x else None)"
  by simp

lemma if_if_None: "(if c then if d then x else None else None) = (if c \<and> d then x else None)"
  by simp

lemma ucast_scast_32: "ucast (scast v :: 64 word) = (v :: 32 word)"
  by (rule bit_eqI) (simp add: bit_simps)

lemma parse_loop_int32:
  shows "mh_sequence_number h = 0 \<Longrightarrow> parse_loop (MessageHeader_table rt) (int32_field 8 v) h =
       Some (h\<lparr>mh_sequence_number := v, mh_has_bits := mh_has_bits h OR (if v = 0 then 0 else 0x00000080)\<rparr>)"
    and "mh_sequence_count h = 0 \<Longrightarrow> parse_loop (MessageHeader_table rt) (int32_field 9 v) h =
       Some (h\<lparr>mh_sequence_count := v, mh_has_bits := mh_has_bits h OR (if v = 0 then 0 else 0x00000100)\<rparr>)"
  by (auto simp: int32_field_def MessageHeader_table_def header_accessor_defs ucast_scast_32)

lemma parse_loop_foreign:
  "list_all MessageHeader_foreign us \<Longrightarrow>
     parse_loop (MessageHeader_table rt) us h = Some (h\<lparr>mh_unknown := mh_unknown h @ us\<rparr>)"
proof (induction us arbitrary: h)
  case (Cons f us)
  then have "MessageHeader_table rt f h = Some (h\<lparr>mh_unknown := mh_unknown h @ [f]\<rparr>)"
    by (auto simp: MessageHeader_table_def MessageHeader_foreign_def split: prod.splits wire_value.splits)
  with Cons show ?case by simp
qed simp

text \<open>Parsing a serialized header, on both outcomes.\<close>

lemma parse_serialize_header:
  assumes "protobuf_runtime rt" "MessageHeader_ok h" "MessageHeader_encodable h" "MessageHeader_ok h0"
  shows "MessageHeader_ParseFromArray rt (MessageHeader_InternalSerialize rt h) h0 =
           (if list_all (Utf8Valid rt) (MessageHeader_strings h)
            then Some (h\<lparr>mh_has_bits := presence_bits h\<rparr>) else None)"
proof -
  have foreign: "list_all MessageHeader_foreign (mh_unknown h)"
    using assms by (simp add: MessageHeader_encodable_def list_all_iff)
  have "MessageHeader_ParseFromArray rt (MessageHeader_InternalSerialize rt h) h0 =
          parse_loop (MessageHeader_table rt) (MessageHeader_fields h) MessageHeader_new"
    using assms by (simp add: MessageHeader_ParseFromArray_def ParseFields_serialized)
  also have "\<dots> = (if list_all (Utf8Valid rt) (MessageHeader_strings h)
                  then Some (h\<lparr>mh_has_bits := presence_bits h\<rparr>) else None)"
    using assms(1) foreign
    by (cases h) (simp add: MessageHeader_fields_def MessageHeader_new_def MessageHeader_strings_def
      presence_bits_def parse_loop_append parse_loop_string parse_loop_int32 parse_loop_foreign
      bind_if if_if_None conj_ac or.assoc
      del: One_nat_def split del: if_split cong: if_cong)
  finally show ?thesis .
qed

subsection \<open>Properties\<close>

text \<open>
  C34. A header survives the wire. For every header that satisfies the class invariant,
  \<open>ByteSizeLong\<close> announces exactly the number of bytes \<open>_InternalSerialize\<close> writes, and \<open>ParseFromArray\<close>,
  into any header object, gives back all nine fields and the unknown fields (with a presence bit for
  exactly the fields that do not hold their default) when every text field is valid UTF-8, and refuses
  the bytes when one is not.
\<close>

theorem MessageHeader_serialization:
  assumes "protobuf_runtime rt" "MessageHeader_ok h" "MessageHeader_encodable h" "MessageHeader_ok h0"
  shows "MessageHeader_ByteSizeLong rt h = length (MessageHeader_InternalSerialize rt h) \<and>
    MessageHeader_ParseFromArray rt (MessageHeader_InternalSerialize rt h) h0 =
      (if list_all (Utf8Valid rt) (MessageHeader_strings h)
       then Some (h\<lparr>mh_has_bits := presence_bits h\<rparr>) else None)"
  using assms by (simp add: ByteSizeLong_eq_length parse_serialize_header)

definition header_example :: MessageHeader where
  "header_example = set_sequence_number 300 (set_topic ''t'' (set_handler_key ''k'' MessageHeader_new))"

lemma header_example_ok:
  "MessageHeader_ok header_example" "MessageHeader_encodable header_example"
  "list_all (Utf8Valid pb_wire_format) (MessageHeader_strings header_example)"
  by (simp_all add: header_example_def MessageHeader_ok_accessors)
     (simp_all add: MessageHeader_encodable_def MessageHeader_strings_def
        MessageHeader_new_def header_accessor_defs wire.utf8_ascii ascii_def)

text \<open>Witness for C34: the documented wire format, a header with two text fields and a number.\<close>

theorem MessageHeader_serialization_witness:
  "MessageHeader_ok header_example \<and> MessageHeader_encodable header_example \<and>
   MessageHeader_ParseFromArray pb_wire_format
     (MessageHeader_InternalSerialize pb_wire_format header_example) MessageHeader_new =
     Some (header_example\<lparr>mh_has_bits := 0x85\<rparr>)"
proof -
  have "presence_bits header_example = 0x85"
    by (simp add: header_example_def MessageHeader_new_def presence_bits_def header_accessor_defs)
  then show ?thesis
    using MessageHeader_serialization [OF wire.protobuf_runtime_axioms header_example_ok(1,2) MessageHeader_ok_new]
    by (simp add: header_example_ok)
qed

text \<open>
  \<open>CopyFrom\<close> makes the target equal to the source whatever the target held, \<open>InternalSwap\<close> exchanges
  the two messages, and \<open>MergeImpl\<close> takes each field that is not empty in the source and keeps the
  target's value of every other field.
\<close>

theorem MessageHeader_copy_merge_swap:
  assumes "MessageHeader_ok this" "MessageHeader_ok from"
  shows "MessageHeader_CopyFrom this from = from \<and>
    MessageHeader_InternalSwap this from = (from, this) \<and>
    (let merged = MessageHeader_MergeImpl this from in
     handler_key merged = (if handler_key from = [] then handler_key this else handler_key from) \<and>
     sender_id merged = (if sender_id from = [] then sender_id this else sender_id from) \<and>
     topic merged = (if topic from = [] then topic this else topic from) \<and>
     origin_broker_id merged = (if origin_broker_id from = [] then origin_broker_id this else origin_broker_id from) \<and>
     message_uuid merged = (if message_uuid from = [] then message_uuid this else message_uuid from) \<and>
     transfer_id merged = (if transfer_id from = [] then transfer_id this else transfer_id from) \<and>
     reply_topic merged = (if reply_topic from = [] then reply_topic this else reply_topic from) \<and>
     sequence_number merged = (if sequence_number from = 0 then sequence_number this else sequence_number from) \<and>
     sequence_count merged = (if sequence_count from = 0 then sequence_count this else sequence_count from))"
proof -
  have merge: "merged_string c new old = (if new = [] then old else new)" if "new \<noteq> [] \<longrightarrow> c" for c new old
    using that by (auto simp: merged_string_def)
  have merge_int: "merged_int c new old = (if new = 0 then old else new)" if "new \<noteq> 0 \<longrightarrow> c"
    for c and new old :: "32 word"
    using that by (auto simp: merged_int_def)
  show ?thesis
    using assms
    by (simp add: MessageHeader_CopyFrom_eq MessageHeader_InternalSwap_eq Let_def MessageHeader_MergeImpl_eq
        handler_key_def sender_id_def topic_def origin_broker_id_def message_uuid_def transfer_id_def reply_topic_def sequence_number_def sequence_count_def MessageHeader_ok_def merge merge_int
        split del: if_split cong: if_cong)
qed

text \<open>An instance.\<close>

theorem MessageHeader_copy_merge_swap_witness:
  "MessageHeader_CopyFrom (set_topic ''a'' MessageHeader_new) header_example = header_example \<and>
   topic (MessageHeader_MergeImpl (set_sender_id ''a'' MessageHeader_new) header_example) = ''t''"
proof -
  have ok: "MessageHeader_ok (set_topic ''a'' MessageHeader_new)"
    "MessageHeader_ok (set_sender_id ''a'' MessageHeader_new)"
    by (simp_all add: MessageHeader_ok_accessors)
  have "topic header_example = ''t''"
    by (simp add: header_example_def topic_def set_sequence_number_def set_topic_def)
  then show ?thesis
    using MessageHeader_copy_merge_swap [OF ok(1) header_example_ok(1)]
      MessageHeader_copy_merge_swap [OF ok(2) header_example_ok(1)]
    by (simp add: Let_def)
qed

end
