(* ===== verification/Zmq_Socket.thy ===== *)
theory Zmq_Socket
  imports Wisp_Prelude
begin

text \<open>
  The socket layer. libzmq is not part of the repository: its C functions are the record
  \<open>zmq_api\<close>, a parameter of everything that sends or receives, acting on an opaque socket state \<open>'s\<close>.
  The C++ wrapper \<open>zmq::socket_t::send\<close>/\<open>recv\<close> (\<open>zmq.hpp\<close>) is modelled over it: a negative return code
  becomes an empty result when \<open>errno\<close> is \<open>EAGAIN\<close> and an exception otherwise.

  The locale \<open>zmq_socket\<close> states the documented multipart contract of \<open>zmq_msg_send(3)\<close> and
  \<open>zmq_msg_recv(3)\<close> in terms of four views of the state: the complete messages sent so far, the
  frames of the message being sent, the messages still to be received, and the frames left of the message
  being received. A message is atomic: once its first frame is accepted the others are never refused,
  and once its first frame is received the others are there. Messages may arrive during any call.
\<close>

definition EAGAIN :: int where
  "EAGAIN = 11"

datatype 'a zmq_rc = Rc 'a | Errno int

record 's zmq_api =
  zmq_msg_send :: "bytes \<Rightarrow> bool \<Rightarrow> bool \<Rightarrow> 's \<Rightarrow> nat zmq_rc \<times> 's"
  zmq_msg_recv :: "bool \<Rightarrow> 's \<Rightarrow> bytes zmq_rc \<times> 's"
  zmq_rcvmore :: "'s \<Rightarrow> bool"

text \<open>\<open>Inl\<close> is the thrown \<open>error_t\<close>, \<open>Inr None\<close> the empty result of \<open>EAGAIN\<close>.\<close>

definition socket_send :: "'s zmq_api \<Rightarrow> bytes \<Rightarrow> bool \<Rightarrow> bool \<Rightarrow> 's \<Rightarrow> (int + nat option) \<times> 's" where
  "socket_send api msg sndmore dontwait s =
     (case zmq_msg_send api msg sndmore dontwait s of
        (Rc nbytes, s') \<Rightarrow> (Inr (Some nbytes), s')
      | (Errno e, s') \<Rightarrow> if e = EAGAIN then (Inr None, s') else (Inl e, s'))"

definition socket_recv :: "'s zmq_api \<Rightarrow> bool \<Rightarrow> 's \<Rightarrow> (int + bytes option) \<times> 's" where
  "socket_recv api dontwait s =
     (case zmq_msg_recv api dontwait s of
        (Rc msg, s') \<Rightarrow> (Inr (Some msg), s')
      | (Errno e, s') \<Rightarrow> if e = EAGAIN then (Inr None, s') else (Inl e, s'))"

locale zmq_socket =
  fixes api :: "'s zmq_api"
    and sent :: "'s \<Rightarrow> bytes list list" and sending :: "'s \<Rightarrow> bytes list"
    and arrived :: "'s \<Rightarrow> bytes list list" and receiving :: "'s \<Rightarrow> bytes list"
  assumes send_accepted: "zmq_msg_send api f sndmore dontwait s = (Rc n, s') \<Longrightarrow>
      n = length f \<and>
      sent s' = (if sndmore then sent s else sent s @ [sending s @ [f]]) \<and>
      sending s' = (if sndmore then sending s @ [f] else []) \<and> receiving s' = receiving s"
    and send_refused: "zmq_msg_send api f sndmore dontwait s = (Errno e, s') \<Longrightarrow>
      sent s' = sent s \<and> sending s' = sending s \<and> receiving s' = receiving s"
    and send_continues: "sending s \<noteq> [] \<Longrightarrow> fst (zmq_msg_send api f sndmore dontwait s) = Rc (length f)"
    and recv_first: "receiving s = [] \<Longrightarrow> zmq_msg_recv api dontwait s = (Rc f, s') \<Longrightarrow>
      \<exists>extra. arrived s @ extra = (f # receiving s') # arrived s'"
    and recv_next: "receiving s \<noteq> [] \<Longrightarrow>
      \<exists>s' extra. zmq_msg_recv api dontwait s = (Rc (hd (receiving s)), s') \<and>
        receiving s' = tl (receiving s) \<and> arrived s' = arrived s @ extra"
    and recv_refused: "zmq_msg_recv api dontwait s = (Errno e, s') \<Longrightarrow>
      receiving s' = receiving s \<and> (\<exists>extra. arrived s' = arrived s @ extra)"
    and recv_keeps: "zmq_msg_recv api dontwait s = (r, s') \<Longrightarrow> sent s' = sent s \<and> sending s' = sending s"
    and rcvmore: "zmq_rcvmore api s \<longleftrightarrow> receiving s \<noteq> []"
begin

lemma socket_send_cases:
  assumes "socket_send api f sndmore dontwait s = (r, s')"
  obtains (accepted) "r = Inr (Some (length f))" "sent s' = (if sndmore then sent s else sent s @ [sending s @ [f]])"
      "sending s' = (if sndmore then sending s @ [f] else [])" "receiving s' = receiving s"
  | (refused) "r = Inr None \<or> (\<exists>e. r = Inl e)" "sent s' = sent s" "sending s' = sending s" "sending s = []"
      "receiving s' = receiving s"
proof (cases "zmq_msg_send api f sndmore dontwait s")
  case (Pair rc t)
  show ?thesis
  proof (cases rc)
    case (Rc n)
    then show ?thesis
      using assms send_accepted [of f sndmore dontwait s n t] Pair
      by (auto simp: socket_send_def intro: accepted)
  next
    case (Errno e)
    moreover from this Pair have "sending s = []"
      using send_continues [of s f sndmore dontwait] by (cases "sending s = []") simp_all
    ultimately show ?thesis
      using assms send_refused [of f sndmore dontwait s e t] Pair
      by (auto simp: socket_send_def split: if_splits intro: refused)
  qed
qed

lemma socket_send_accepted:
  assumes "socket_send api f sndmore dontwait s = (Inr (Some n), s')"
  shows "sent s' = (if sndmore then sent s else sent s @ [sending s @ [f]])"
    and "sending s' = (if sndmore then sending s @ [f] else [])" and "receiving s' = receiving s"
  using assms by (rule socket_send_cases; simp)+

lemma socket_send_continues:
  "sending s \<noteq> [] \<Longrightarrow> \<exists>s'. socket_send api f sndmore dontwait s = (Inr (Some (length f)), s')"
  using send_continues [of s f sndmore dontwait]
  by (cases "zmq_msg_send api f sndmore dontwait s") (simp add: socket_send_def)

lemma socket_recv_next:
  assumes "receiving s = f # fs"
  obtains s' extra where "socket_recv api dontwait s = (Inr (Some f), s')" "receiving s' = fs"
    "arrived s' = arrived s @ extra" "sent s' = sent s" "sending s' = sending s"
proof -
  obtain s' extra where "zmq_msg_recv api dontwait s = (Rc f, s')" "receiving s' = fs" "arrived s' = arrived s @ extra"
    using assms recv_next [of s dontwait] by auto
  with recv_keeps [of dontwait s _ s'] show ?thesis
    by (intro that [of s' extra]) (auto simp: socket_recv_def)
qed

lemma socket_recv_cases:
  assumes "receiving s = []" "socket_recv api dontwait s = (r, s')"
  obtains (message) f extra where "r = Inr (Some f)" "arrived s @ extra = (f # receiving s') # arrived s'"
      "sent s' = sent s" "sending s' = sending s"
  | (nothing) extra where "r = Inr None \<or> (\<exists>e. r = Inl e)" "receiving s' = []" "arrived s' = arrived s @ extra"
      "sent s' = sent s" "sending s' = sending s"
proof (cases "zmq_msg_recv api dontwait s")
  case (Pair rc t)
  show ?thesis
  proof (cases rc)
    case (Rc f)
    with Pair assms(2) have "r = Inr (Some f)" "t = s'"
      by (auto simp: socket_recv_def)
    with Pair Rc assms recv_first [of s dontwait f s'] recv_keeps [of dontwait s _ s'] show ?thesis
      by (auto intro: message)
  next
    case (Errno e)
    with Pair assms(2) have r: "r = Inr None \<or> (\<exists>e. r = Inl e)" and t: "t = s'"
      by (auto simp: socket_recv_def split: if_splits)
    with Pair Errno obtain extra where "receiving s' = receiving s" "arrived s' = arrived s @ extra"
      using recv_refused [of dontwait s e s'] by auto
    with r t Pair assms(1) recv_keeps [of dontwait s _ s'] show ?thesis
      by - (rule nothing [of extra], auto)
  qed
qed

end

subsection \<open>An in-memory socket\<close>

text \<open>
  An implementation of the contract: a bounded outgoing pipe (the high-water mark), a refusal on a full
  pipe only at the first frame of a message, and a queue of messages to receive.
\<close>

record mem_socket =
  ms_sent :: "bytes list list"
  ms_sending :: "bytes list"
  ms_arrived :: "bytes list list"
  ms_receiving :: "bytes list"
  ms_hwm :: nat

definition mem_api :: "mem_socket zmq_api" where
  "mem_api = \<lparr>
     zmq_msg_send = (\<lambda>f sndmore dontwait s.
       if ms_sending s = [] \<and> ms_hwm s \<le> length (ms_sent s) then (Errno EAGAIN, s)
       else if sndmore then (Rc (length f), s\<lparr>ms_sending := ms_sending s @ [f]\<rparr>)
       else (Rc (length f), s\<lparr>ms_sent := ms_sent s @ [ms_sending s @ [f]], ms_sending := []\<rparr>)),
     zmq_msg_recv = (\<lambda>dontwait s.
       case ms_receiving s of
         f # fs \<Rightarrow> (Rc f, s\<lparr>ms_receiving := fs\<rparr>)
       | [] \<Rightarrow> (case ms_arrived s of
                 (f # fs) # ms \<Rightarrow> (Rc f, s\<lparr>ms_receiving := fs, ms_arrived := ms\<rparr>)
               | _ \<Rightarrow> (Errno EAGAIN, s))),
     zmq_rcvmore = (\<lambda>s. ms_receiving s \<noteq> [])\<rparr>"

interpretation mem: zmq_socket mem_api ms_sent ms_sending ms_arrived ms_receiving
  by unfold_locales (auto simp: mem_api_def split: if_splits list.splits)

end
