(* ===== verification/Wire_Frame.thy ===== *)
theory Wire_Frame
  imports Message_Header Zmq_Socket
begin

text \<open>
  \<open>common/wireframe.h\<close>: an \<open>Envelope\<close> travels as a header frame (a format byte and the encoded header)
  followed by a payload frame when the payload is not empty. Here also \<open>sendToClient\<close> of
  \<open>server/zmqbroker.cpp\<close>, which prepends the routing-id frame of a ROUTER socket.

  A function that can throw \<open>zmq::error_t\<close> returns it as \<open>Inl\<close>. The drain loop ends only because the
  socket runs out of frames, so it is a \<open>partial_function\<close> whose non-termination is \<^const>\<open>None\<close>;
  the lemmas show that on a socket with the multipart contract it returns.
\<close>

record Envelope =
  header :: MessageHeader
  payload :: string

definition Envelope_new :: Envelope where
  "Envelope_new = \<lparr>header = MessageHeader_new, payload = []\<rparr>"

subsection \<open>The header codec\<close>

datatype Format = Protobuf

fun Format_byte :: "Format \<Rightarrow> nat" where
  "Format_byte Protobuf = 1"

record HeaderCodec =
  codec_format :: Format
  codec_encode :: "MessageHeader \<Rightarrow> string"
  codec_decode :: "bytes \<Rightarrow> MessageHeader \<Rightarrow> MessageHeader option"

definition ProtobufHeaderCodec :: "pb_runtime \<Rightarrow> HeaderCodec" where
  "ProtobufHeaderCodec rt = \<lparr>
     codec_format = Protobuf,
     codec_encode = MessageHeader_InternalSerialize rt,
     codec_decode = MessageHeader_ParseFromArray rt\<rparr>"

definition defaultFormat :: Format where
  "defaultFormat = Protobuf"

definition codecFor :: "pb_runtime \<Rightarrow> nat \<Rightarrow> HeaderCodec option" where
  "codecFor rt b = (if b = Format_byte Protobuf then Some (ProtobufHeaderCodec rt) else None)"

text \<open>
  \<open>encodeHeader\<close> dereferences the codec it looks up without a check; \<open>codecFor_defaultFormat\<close> shows that
  the pointer is never null.
\<close>

definition encodeHeader :: "pb_runtime \<Rightarrow> MessageHeader \<Rightarrow> string" where
  "encodeHeader rt h =
     (let codec = the (codecFor rt (Format_byte defaultFormat)) in
      char_of (Format_byte (codec_format codec)) # codec_encode codec h)"

lemma codecFor_defaultFormat: "codecFor rt (Format_byte defaultFormat) = Some (ProtobufHeaderCodec rt)"
  by (simp add: codecFor_def defaultFormat_def)

lemma encodeHeader_eq: "encodeHeader rt h = char_of (1 :: nat) # MessageHeader_InternalSerialize rt h"
  by (simp add: encodeHeader_def codecFor_defaultFormat ProtobufHeaderCodec_def Let_def)

subsection \<open>Frames on a socket\<close>

partial_function (option) drainMultipart :: "'s zmq_api \<Rightarrow> 's \<Rightarrow> ((int + unit) \<times> 's) option" where
  "drainMultipart api s =
     (if zmq_rcvmore api s then
        (case socket_recv api False s of
           (Inl e, s') \<Rightarrow> Some (Inl e, s')
         | (Inr _, s') \<Rightarrow> drainMultipart api s')
      else Some (Inr (), s))"

lemma drainMultipart_unfold:
  "\<not> zmq_rcvmore api s \<Longrightarrow> drainMultipart api s = Some (Inr (), s)"
  "zmq_rcvmore api s \<Longrightarrow> drainMultipart api s =
     (case socket_recv api False s of (Inl e, s') \<Rightarrow> Some (Inl e, s') | (Inr _, s') \<Rightarrow> drainMultipart api s')"
  by (simp_all add: drainMultipart.simps [of api s])

definition sendFrames :: "'s zmq_api \<Rightarrow> string \<Rightarrow> string \<Rightarrow> 's \<Rightarrow> (int + bool) \<times> 's" where
  "sendFrames api headerFrame body s =
     (if body = [] then
        (case socket_send api headerFrame False True s of
           (Inl e, s') \<Rightarrow> (Inl e, s')
         | (Inr r, s') \<Rightarrow> (Inr (r \<noteq> None), s'))
      else
        (case socket_send api headerFrame True True s of
           (Inl e, s') \<Rightarrow> (Inl e, s')
         | (Inr None, s') \<Rightarrow> (Inr False, s')
         | (Inr (Some _), s') \<Rightarrow>
             (case socket_send api body False True s' of
                (Inl e, s'') \<Rightarrow> (Inl e, s'')
              | (Inr r, s'') \<Rightarrow> (Inr (r \<noteq> None), s''))))"

definition wire_send :: "pb_runtime \<Rightarrow> 's zmq_api \<Rightarrow> Envelope \<Rightarrow> 's \<Rightarrow> (int + bool) \<times> 's" where
  "wire_send rt api env s = sendFrames api (encodeHeader rt (header env)) (payload env) s"

text \<open>
  \<open>recv\<close> returns the envelope instead of writing through its reference: \<open>Inr (Some env)\<close> is \<open>true\<close>,
  \<open>Inr None\<close> is \<open>false\<close> (no caller reads the envelope then), \<open>Inl\<close> an exception.
\<close>

definition decode_frame :: "pb_runtime \<Rightarrow> bytes \<Rightarrow> MessageHeader \<Rightarrow> MessageHeader option" where
  "decode_frame rt frame h =
     (case frame of
        [] \<Rightarrow> None
      | b # rest \<Rightarrow>
          (case codecFor rt (of_char b) of
             None \<Rightarrow> None
           | Some codec \<Rightarrow> codec_decode codec rest h))"

definition wire_recv ::
    "pb_runtime \<Rightarrow> 's zmq_api \<Rightarrow> bool \<Rightarrow> Envelope \<Rightarrow> 's \<Rightarrow> ((int + Envelope option) \<times> 's) option" where
  "wire_recv rt api dontwait env s =
     (case socket_recv api dontwait s of
        (Inl e, s') \<Rightarrow> Some (Inl e, s')
      | (Inr None, s') \<Rightarrow> Some (Inr None, s')
      | (Inr (Some headerFrame), s') \<Rightarrow>
          (case decode_frame rt headerFrame (header env) of
             None \<Rightarrow>
               (case drainMultipart api s' of
                  None \<Rightarrow> None
                | Some (Inl e, s'') \<Rightarrow> Some (Inl e, s'')
                | Some (Inr _, s'') \<Rightarrow> Some (Inr None, s''))
           | Some h \<Rightarrow>
               let env = \<lparr>header = h, payload = []\<rparr> in
               if zmq_rcvmore api s' then
                 (case socket_recv api False s' of
                    (Inl e, s'') \<Rightarrow> Some (Inl e, s'')
                  | (Inr r, s'') \<Rightarrow>
                      let env = (case r of None \<Rightarrow> env | Some p \<Rightarrow> env\<lparr>payload := p\<rparr>) in
                      (case drainMultipart api s'' of
                         None \<Rightarrow> None
                       | Some (Inl e, s3) \<Rightarrow> Some (Inl e, s3)
                       | Some (Inr _, s3) \<Rightarrow> Some (Inr (Some env), s3)))
               else Some (Inr (Some env), s')))"

text \<open>\<open>sendToClient\<close> swallows the exceptions of the sends.\<close>

definition sendToClient :: "'s zmq_api \<Rightarrow> string \<Rightarrow> string \<Rightarrow> string \<Rightarrow> 's \<Rightarrow> 's" where
  "sendToClient api clientId headerBytes body s =
     (let hasPayload = (body \<noteq> []) in
      case socket_send api clientId True True s of
        (Inl e, s') \<Rightarrow> s'
      | (Inr None, s') \<Rightarrow> s'
      | (Inr (Some _), s') \<Rightarrow>
          (case socket_send api headerBytes hasPayload True s' of
             (Inl e, s'') \<Rightarrow> s''
           | (Inr _, s'') \<Rightarrow>
               if hasPayload then snd (socket_send api body False True s'') else s''))"

definition message_frames :: "string \<Rightarrow> string \<Rightarrow> bytes list" where
  "message_frames headerFrame body = headerFrame # (if body = [] then [] else [body])"

subsection \<open>On a socket with the multipart contract\<close>

context zmq_socket
begin

lemma drain:
  "\<exists>s' extra. drainMultipart api s = Some (Inr (), s') \<and> receiving s' = [] \<and> arrived s' = arrived s @ extra \<and>
     sent s' = sent s \<and> sending s' = sending s"
proof (induction "receiving s" arbitrary: s)
  case Nil
  then show ?case by (simp add: drainMultipart_unfold rcvmore)
next
  case (Cons f fs)
  from Cons.hyps(2) [symmetric] obtain t extra where t: "socket_recv api False s = (Inr (Some f), t)"
    "receiving t = fs" "arrived t = arrived s @ extra" "sent t = sent s" "sending t = sending s"
    by (rule socket_recv_next)
  with Cons.hyps(1) [of t] Cons.hyps(2) [symmetric] show ?case
    by (auto simp: drainMultipart_unfold(2) rcvmore)
qed

lemma sendFrames_atomic:
  assumes "sending s = []" "sendFrames api frame body s = (r, s')"
  shows "sending s' = [] \<and> receiving s' = receiving s \<and>
    sent s' = (if r = Inr True then sent s @ [message_frames frame body] else sent s)"
proof (cases "body = []")
  case True
  obtain r1 t where send: "socket_send api frame False True s = (r1, t)"
    by (cases "socket_send api frame False True s")
  then show ?thesis
  proof (cases rule: socket_send_cases)
    case accepted
    with send True assms show ?thesis by (auto simp: sendFrames_def message_frames_def)
  next
    case refused
    with send True assms show ?thesis
      by (auto simp: sendFrames_def)
  qed
next
  case False
  obtain r1 t where send: "socket_send api frame True True s = (r1, t)"
    by (cases "socket_send api frame True True s")
  then show ?thesis
  proof (cases rule: socket_send_cases)
    case accepted
    then have "sending t \<noteq> []" by simp
    then obtain u where send2: "socket_send api body False True t = (Inr (Some (length body)), u)"
      using socket_send_continues [of t body False True] by blast
    with socket_send_accepted [OF send2] accepted send False assms show ?thesis
      by (auto simp: sendFrames_def message_frames_def)
  next
    case refused
    with send False assms show ?thesis
      by (auto simp: sendFrames_def)
  qed
qed

lemma sendToClient_atomic:
  assumes "sending s = []" "sendToClient api cid frame body s = s'"
  shows "sending s' = [] \<and> receiving s' = receiving s \<and>
    (sent s' = sent s \<or> sent s' = sent s @ [cid # message_frames frame body])"
proof -
  obtain r1 t where send: "socket_send api cid True True s = (r1, t)"
    by (cases "socket_send api cid True True s")
  then show ?thesis
  proof (cases rule: socket_send_cases)
    case accepted
    then have "sending t \<noteq> []" by simp
    then obtain u where send2: "socket_send api frame (body \<noteq> []) True t = (Inr (Some (length frame)), u)"
      using socket_send_continues [of t frame "body \<noteq> []" True] by blast
    note u = socket_send_accepted [OF send2]
    show ?thesis
    proof (cases "body = []")
      case True
      with accepted send send2 u assms show ?thesis
        by (auto simp: sendToClient_def message_frames_def)
    next
      case False
      then obtain v where send3: "socket_send api body False True u = (Inr (Some (length body)), v)"
        using u socket_send_continues [of u body False True] by auto
      with socket_send_accepted [OF send3] False accepted send send2 send3 u assms show ?thesis
        by (auto simp: sendToClient_def message_frames_def)
    qed
  next
    case refused
    with send assms show ?thesis by (auto simp: sendToClient_def Let_def)
  qed
qed

lemma recv_after:
  assumes recv: "socket_recv api dontwait s = (Inr (Some f), t)"
  obtains s' extra where
    "wire_recv rt api dontwait env s =
       Some (Inr (map_option (\<lambda>h. \<lparr>header = h, payload = (case receiving t of [] \<Rightarrow> [] | p # _ \<Rightarrow> p)\<rparr>)
                (decode_frame rt f (header env))), s')"
    "arrived s' = arrived t @ extra" "receiving s' = []" "sent s' = sent t" "sending s' = sending t"
proof (cases "decode_frame rt f (header env)")
  case None
  from drain [of t] obtain u extra where u: "drainMultipart api t = Some (Inr (), u)" "receiving u = []"
    "arrived u = arrived t @ extra" "sent u = sent t" "sending u = sending t" by blast
  then show ?thesis using recv None by (intro that [of u extra]) (simp_all add: wire_recv_def)
next
  case (Some h)
  show ?thesis
  proof (cases "receiving t")
    case Nil
    then show ?thesis using recv Some by (intro that [of t "[]"]) (simp_all add: wire_recv_def rcvmore)
  next
    case (Cons p fs)
    from Cons obtain u extra where u: "socket_recv api False t = (Inr (Some p), u)" "receiving u = fs"
      "arrived u = arrived t @ extra" "sent u = sent t" "sending u = sending t"
      by (rule socket_recv_next)
    from drain [of u] obtain v extra' where v: "drainMultipart api u = Some (Inr (), v)" "receiving v = []"
      "arrived v = arrived u @ extra'" "sent v = sent u" "sending v = sending u" by blast
    with u show ?thesis
      using recv Some Cons by (intro that [of v "extra @ extra'"]) (simp_all add: wire_recv_def rcvmore)
  qed
qed

lemma recv_aligned:
  assumes "receiving s = []"
  obtains (received) f fs s' extra where
      "wire_recv rt api dontwait env s =
         Some (Inr (map_option (\<lambda>h. \<lparr>header = h, payload = (case fs of [] \<Rightarrow> [] | p # _ \<Rightarrow> p)\<rparr>)
                  (decode_frame rt f (header env))), s')"
      "arrived s @ extra = (f # fs) # arrived s'" "receiving s' = []" "sent s' = sent s" "sending s' = sending s"
  | (empty) r s' extra where "wire_recv rt api dontwait env s = Some (r, s')" "\<And>e. r \<noteq> Inr (Some e)"
      "arrived s' = arrived s @ extra" "receiving s' = []" "sent s' = sent s" "sending s' = sending s"
proof -
  obtain r t where recv: "socket_recv api dontwait s = (r, t)"
    by (cases "socket_recv api dontwait s")
  from assms recv show ?thesis
  proof (cases rule: socket_recv_cases)
    case (nothing extra)
    then obtain r' where "wire_recv rt api dontwait env s = Some (r', t)" "\<And>e. r' \<noteq> Inr (Some e)"
      using recv by (auto simp: wire_recv_def)
    then show ?thesis by (rule empty) (fact nothing)+
  next
    case (message f extra)
    from recv [unfolded message(1)] obtain s' extra' where s': "wire_recv rt api dontwait env s =
       Some (Inr (map_option (\<lambda>h. \<lparr>header = h, payload = (case receiving t of [] \<Rightarrow> [] | p # _ \<Rightarrow> p)\<rparr>)
                (decode_frame rt f (header env))), s')"
      "arrived s' = arrived t @ extra'" "receiving s' = []" "sent s' = sent t" "sending s' = sending t"
      by (rule recv_after)
    have "arrived s @ (extra @ extra') = (f # receiving t) # arrived s'"
      using message(2) s'(2) by simp
    with s'(1) show ?thesis by (rule received) (use message s' in simp_all)
  qed
qed

end

lemma decode_encodeHeader:
  assumes "protobuf_runtime rt" "MessageHeader_ok h" "MessageHeader_encodable h" "MessageHeader_ok h0"
  shows "decode_frame rt (encodeHeader rt h) h0 =
    (if list_all (Utf8Valid rt) (MessageHeader_strings h) then Some (h\<lparr>mh_has_bits := presence_bits h\<rparr>) else None)"
  using parse_serialize_header [OF assms]
  by (simp add: decode_frame_def encodeHeader_eq codecFor_def ProtobufHeaderCodec_def)

text \<open>The next message, when it is one \<open>wire::send\<close> produces.\<close>

lemma recv_message:
  assumes "zmq_socket api sent sending arrived receiving" "protobuf_runtime rt"
    and "MessageHeader_ok h" "MessageHeader_encodable h" "list_all (Utf8Valid rt) (MessageHeader_strings h)"
    and "MessageHeader_ok (header env)" "receiving s = []"
    and "arrived s = message_frames (encodeHeader rt h) body # queue"
  shows "\<exists>r s' extra. wire_recv rt api dontwait env s = Some (r, s') \<and> receiving s' = [] \<and>
    (r = Inr (Some \<lparr>header = h\<lparr>mh_has_bits := presence_bits h\<rparr>, payload = body\<rparr>) \<and> arrived s' = queue @ extra \<or>
     (\<forall>e. r \<noteq> Inr (Some e)) \<and> arrived s' = arrived s @ extra)"
proof -
  note dec = decode_encodeHeader [OF assms(2,3,4,6)]
  from assms(1,7) show ?thesis
  proof (rule zmq_socket.recv_aligned [where rt = rt and dontwait = dontwait and env = env])
    fix f fs s' extra
    assume recv: "wire_recv rt api dontwait env s =
        Some (Inr (map_option (\<lambda>h. \<lparr>header = h, payload = (case fs of [] \<Rightarrow> [] | p # _ \<Rightarrow> p)\<rparr>)
           (decode_frame rt f (header env))), s')"
      and msg: "arrived s @ extra = (f # fs) # arrived s'" and rest: "receiving s' = []"
    from msg assms(8) have "f = encodeHeader rt h" "fs = (if body = [] then [] else [body])" "arrived s' = queue @ extra"
      by (auto simp: message_frames_def)
    with recv rest dec assms(5) show ?thesis
      by (cases "body = []") auto
  qed blast
qed

subsection \<open>Properties\<close>

text \<open>
  Sends are atomic. On a socket that is between two messages, \<open>wire::send\<close> and \<open>sendToClient\<close> leave it
  between two messages; \<open>wire::send\<close> returns true exactly when the header frame and the payload frame (none
  for an empty payload) went out as one message, and otherwise, an exception included, nothing went out;
  \<open>sendToClient\<close> puts out the routing id, header and payload as one message or nothing.
\<close>

theorem wire_send_atomic:
  assumes "zmq_socket api sent sending arrived receiving" "sending s = []"
  shows "(\<exists>r s'. wire_send rt api env s = (r, s') \<and> sending s' = [] \<and> receiving s' = receiving s \<and>
      sent s' = (if r = Inr True then sent s @ [message_frames (encodeHeader rt (header env)) (payload env)]
                 else sent s)) \<and>
    (let s' = sendToClient api cid frame body s in
      sending s' = [] \<and> receiving s' = receiving s \<and>
      (sent s' = sent s \<or> sent s' = sent s @ [cid # message_frames frame body]))"
proof -
  obtain r s' where "sendFrames api (encodeHeader rt (header env)) (payload env) s = (r, s')"
    by (cases "sendFrames api (encodeHeader rt (header env)) (payload env) s")
  then show ?thesis
    using zmq_socket.sendFrames_atomic [OF assms] zmq_socket.sendToClient_atomic [OF assms refl]
    by (simp add: wire_send_def Let_def)
qed

text \<open>An in-memory socket with room for one message takes the first send only.\<close>

definition mem_example :: mem_socket where
  "mem_example = \<lparr>ms_sent = [], ms_sending = [], ms_arrived = [], ms_receiving = [], ms_hwm = 1\<rparr>"

theorem wire_send_atomic_witness:
  "ms_sending mem_example = [] \<and>
   (\<exists>r s'. wire_send pb_wire_format mem_api \<lparr>header = header_example, payload = ''p''\<rparr> mem_example = (r, s') \<and>
      ms_sending s' = []) \<and>
   ms_sent (sendToClient mem_api ''c'' ''h'' ''p'' mem_example) = [[''c'', ''h'', ''p'']]"
proof -
  have idle: "ms_sending mem_example = []" by (simp add: mem_example_def)
  have "ms_sent (sendToClient mem_api ''c'' ''h'' ''p'' mem_example) = [[''c'', ''h'', ''p'']]"
    by (simp add: mem_example_def mem_api_def sendToClient_def socket_send_def)
  with idle show ?thesis
    using wire_send_atomic [OF mem.zmq_socket_axioms idle, of pb_wire_format
        "\<lparr>header = header_example, payload = ''p''\<rparr>" "''c''" "''h''" "''p''"]
    by blast
qed

text \<open>
  C9. Receives stay frame-aligned. On a socket that is between two messages \<open>wire::recv\<close> returns (its drain
  loops end) and leaves the socket between two messages, whatever arrives; if it returns true it consumed
  exactly one whole message, whose first frame decodes to the header and whose second frame is the payload.
\<close>

theorem wire_recv_aligned:
  assumes "zmq_socket api sent sending arrived receiving" "receiving s = []"
  shows "\<exists>r s'. wire_recv rt api dontwait env s = Some (r, s') \<and> receiving s' = [] \<and>
    sent s' = sent s \<and> sending s' = sending s \<and>
    (\<forall>e. r = Inr (Some e) \<longrightarrow>
      (\<exists>f fs extra. arrived s @ extra = (f # fs) # arrived s' \<and>
        decode_frame rt f (header env) = Some (header e) \<and> payload e = (case fs of [] \<Rightarrow> [] | p # _ \<Rightarrow> p)))"
proof (rule zmq_socket.recv_aligned [OF assms, where rt = rt and dontwait = dontwait and env = env])
  fix f fs s' extra
  assume recv: "wire_recv rt api dontwait env s =
      Some (Inr (map_option (\<lambda>h. \<lparr>header = h, payload = (case fs of [] \<Rightarrow> [] | p # _ \<Rightarrow> p)\<rparr>)
         (decode_frame rt f (header env))), s')"
    and msg: "arrived s @ extra = (f # fs) # arrived s'"
    and rest: "receiving s' = []" "sent s' = sent s" "sending s' = sending s"
  have "decode_frame rt f (header env) = Some (header e) \<and> payload e = (case fs of [] \<Rightarrow> [] | p # _ \<Rightarrow> p)"
    if "map_option (\<lambda>h. \<lparr>header = h, payload = (case fs of [] \<Rightarrow> [] | p # _ \<Rightarrow> p)\<rparr>)
         (decode_frame rt f (header env)) = Some e" for e
    using that by (cases "decode_frame rt f (header env)") auto
  with msg have "\<forall>e. Inr (map_option (\<lambda>h. \<lparr>header = h, payload = (case fs of [] \<Rightarrow> [] | p # _ \<Rightarrow> p)\<rparr>)
         (decode_frame rt f (header env))) = (Inr (Some e) :: int + Envelope option) \<longrightarrow>
      (\<exists>f fs extra. arrived s @ extra = (f # fs) # arrived s' \<and>
        decode_frame rt f (header env) = Some (header e) \<and> payload e = (case fs of [] \<Rightarrow> [] | p # _ \<Rightarrow> p))"
    by (metis sum.inject(2))
  with recv rest show ?thesis by blast
qed blast

text \<open>Witness for C9: a three-frame message with an unknown format byte is skipped as a whole.\<close>

definition mem_garbage :: "bytes list \<Rightarrow> mem_socket" where
  "mem_garbage fs = mem_example\<lparr>ms_receiving := fs\<rparr>"

lemma mem_garbage_recv:
  "socket_recv mem_api True (mem_example\<lparr>ms_arrived := [f # fs]\<rparr>) = (Inr (Some f), mem_garbage fs)"
  "socket_recv mem_api False (mem_garbage (f # fs)) = (Inr (Some f), mem_garbage fs)"
  "zmq_rcvmore mem_api (mem_garbage fs) = (fs \<noteq> [])" "\<not> zmq_rcvmore mem_api mem_example"
  "mem_garbage [] = mem_example"
  by (simp_all add: socket_recv_def mem_api_def mem_garbage_def mem_example_def)

lemma mem_garbage_skipped:
  "wire_recv pb_wire_format mem_api True Envelope_new (mem_example\<lparr>ms_arrived := [[''x'', ''y'', ''z'']]\<rparr>) =
     Some (Inr None, mem_example)"
proof -
  have "decode_frame rt ''x'' h = None" for rt h
    by (simp add: decode_frame_def codecFor_def)
  moreover have "drainMultipart mem_api (mem_garbage [''y'', ''z'']) = Some (Inr (), mem_example)"
    by (simp add: mem_garbage_recv drainMultipart_unfold)
  ultimately show ?thesis
    by (simp add: wire_recv_def mem_garbage_recv)
qed

theorem wire_recv_aligned_witness:
  "wire_recv pb_wire_format mem_api True Envelope_new (mem_example\<lparr>ms_arrived := [[''x'', ''y'', ''z'']]\<rparr>) =
     Some (Inr None, mem_example) \<and> ms_receiving mem_example = []"
proof -
  have "ms_receiving (mem_example\<lparr>ms_arrived := [[''x'', ''y'', ''z'']]\<rparr>) = []"
    by (simp add: mem_example_def)
  from wire_recv_aligned [OF mem.zmq_socket_axioms, OF this, of pb_wire_format True Envelope_new]
  show ?thesis
    by (simp only: mem_garbage_skipped option.inject prod.inject simp_thms ex_simps) simp
qed



end
