(* ===== verification/Message_Keys.thy ===== *)
theory Message_Keys
  imports Wisp_Prelude
begin

text \<open>
  The reserved handler keys of \<open>common/messagekeys.h\<close> and the connection parameters of
  \<open>common/config.h\<close>.
\<close>

definition Keys_CONNECT :: string where "Keys_CONNECT = ''__CONNECT__''"
definition Keys_DISCONNECT :: string where "Keys_DISCONNECT = ''__DISCONNECT__''"
definition Keys_RESET :: string where "Keys_RESET = ''__RESET__''"
definition Keys_HEARTBEAT :: string where "Keys_HEARTBEAT = ''__HEARTBEAT__''"
definition Keys_HEARTBEAT_ACK :: string where "Keys_HEARTBEAT_ACK = ''__HEARTBEAT_ACK__''"
definition Keys_SUBSCRIBE :: string where "Keys_SUBSCRIBE = ''__SUBSCRIBE__''"
definition Keys_UNSUBSCRIBE :: string where "Keys_UNSUBSCRIBE = ''__UNSUBSCRIBE__''"
definition Keys_SYS_STATS :: string where "Keys_SYS_STATS = ''__SYS_STATS__''"

definition isSystemPacket :: "string \<Rightarrow> bool" where
  "isSystemPacket key \<longleftrightarrow>
     key = Keys_HEARTBEAT \<or> key = Keys_HEARTBEAT_ACK \<or> key = Keys_CONNECT
     \<or> key = Keys_DISCONNECT \<or> key = Keys_RESET"

definition isControlMessage :: "string \<Rightarrow> bool" where
  "isControlMessage key \<longleftrightarrow>
     key = Keys_HEARTBEAT \<or> key = Keys_HEARTBEAT_ACK \<or> key = Keys_SUBSCRIBE \<or> key = Keys_UNSUBSCRIBE
     \<or> key = Keys_CONNECT \<or> key = Keys_DISCONNECT \<or> key = Keys_RESET"

lemmas Keys_defs = Keys_CONNECT_def Keys_DISCONNECT_def Keys_RESET_def Keys_HEARTBEAT_def
  Keys_HEARTBEAT_ACK_def Keys_SUBSCRIBE_def Keys_UNSUBSCRIBE_def Keys_SYS_STATS_def

definition MAX_MESSAGE_SIZE_BYTES :: int where
  "MAX_MESSAGE_SIZE_BYTES = 16 * 1024 * 1024"

datatype ProtocolType = ZMQ

record ConnectionConfig =
  cfg_address :: string
  cfg_clientId :: string
  cfg_protocol :: ProtocolType
  cfg_keepAliveTime :: int
  cfg_keepAliveTimeout :: int
  cfg_compressionAlgorithm :: int

definition ConnectionConfig_default :: ConnectionConfig where
  "ConnectionConfig_default = \<lparr>cfg_address = '''', cfg_clientId = '''', cfg_protocol = ZMQ,
     cfg_keepAliveTime = 10000, cfg_keepAliveTimeout = 5000, cfg_compressionAlgorithm = 2\<rparr>"

text \<open>The reserved keys are pairwise different, so the order of the broker's tests is immaterial.\<close>

lemma Keys_distinct:
  "distinct [Keys_CONNECT, Keys_DISCONNECT, Keys_RESET, Keys_HEARTBEAT, Keys_HEARTBEAT_ACK,
     Keys_SUBSCRIBE, Keys_UNSUBSCRIBE, Keys_SYS_STATS]"
  by (simp add: Keys_defs)

lemma Keys_distinct_rev:
  "distinct [Keys_SYS_STATS, Keys_UNSUBSCRIBE, Keys_SUBSCRIBE, Keys_HEARTBEAT_ACK, Keys_HEARTBEAT,
     Keys_RESET, Keys_DISCONNECT, Keys_CONNECT]"
  by (simp add: Keys_defs)

lemma Keys_nonempty [simp]:
  "Keys_CONNECT \<noteq> []" "Keys_DISCONNECT \<noteq> []" "Keys_RESET \<noteq> []" "Keys_HEARTBEAT \<noteq> []"
  "Keys_HEARTBEAT_ACK \<noteq> []" "Keys_SUBSCRIBE \<noteq> []" "Keys_UNSUBSCRIBE \<noteq> []" "Keys_SYS_STATS \<noteq> []"
  by (simp_all add: Keys_defs)

lemmas Keys_neq [simp] = Keys_distinct [simplified] Keys_distinct_rev [simplified]

lemma isControlMessage_iff:
  "isControlMessage key \<longleftrightarrow> isSystemPacket key \<or> key = Keys_SUBSCRIBE \<or> key = Keys_UNSUBSCRIBE"
  by (auto simp: isControlMessage_def isSystemPacket_def)

end
