(* ===== verification/Zmq_Worker.thy ===== *)
theory Zmq_Worker
  imports Wire_Frame SafeQueue Message_Keys "HOL-Library.Sublist"
begin

text \<open>
  \<open>ZmqWorker\<close> (\<open>common/zmqworker.h\<close>, \<open>common/zmqworker.cpp\<close>): the thread that owns a DEALER socket, takes
  envelopes from two queues, and hands what it receives to its owner.

  The owner is a type parameter \<open>'u\<close>. What the worker calls on it is the record \<open>worker_hooks\<close>: the push
  into the owner's inbound queue, the message callback and the status callback, each absent when the
  pointer or \<open>std::function\<close> is empty. The push gives up after a
  timeout; a message callback may wait for room in a queue without one, and is \<^const>\<open>None\<close> while the worker's
  thread is blocked in it. A callback runs on the worker's thread and may use the worker
  (a broker link writes a control message from its callback), so it acts on owner and worker together.

  One iteration of the loop is \<open>ZmqWorker_iteration\<close>. What the environment decides in it, whether
  \<open>zmq::poll\<close> reports input and what the clock shows, is a \<open>worker_tick\<close>. Other threads act on the worker
  between iterations. An exception of the socket is not caught in \<open>run\<close>, so it ends the process: the
  value is \<open>Inl\<close>.
\<close>

record ZmqWorker =
  m_config :: ConnectionConfig
  m_running :: bool
  m_controlQueue :: "Envelope SafeQueue"
  m_outboundQueue :: "Envelope SafeQueue"
  m_isOnline :: bool
  m_lastRxTime :: time

record 'u worker_hooks =
  inbound_push :: "(Envelope \<Rightarrow> 'u \<Rightarrow> 'u) option"
  message_callback :: "(Envelope \<Rightarrow> 'u \<times> ZmqWorker \<Rightarrow> ('u \<times> ZmqWorker) option) option"
  status_callback :: "(bool \<Rightarrow> 'u \<times> ZmqWorker \<Rightarrow> 'u \<times> ZmqWorker) option"

definition ZmqWorker_new :: "ConnectionConfig \<Rightarrow> ZmqWorker" where
  "ZmqWorker_new config = \<lparr>m_config = config, m_running = False, m_controlQueue = SafeQueue_default,
     m_outboundQueue = SafeQueue_default, m_isOnline = False, m_lastRxTime = 0\<rparr>"

definition ZmqWorker_start :: "ZmqWorker \<Rightarrow> ZmqWorker" where
  "ZmqWorker_start w = w\<lparr>m_running := True\<rparr>"

definition ZmqWorker_stop :: "ZmqWorker \<Rightarrow> ZmqWorker" where
  "ZmqWorker_stop w = w\<lparr>m_running := False\<rparr>"

definition writeMessage :: "Envelope \<Rightarrow> ZmqWorker \<Rightarrow> bool \<times> ZmqWorker" where
  "writeMessage msg w =
     (case SafeQueue_push_for msg (m_outboundQueue w) of (ok, q) \<Rightarrow> (ok, w\<lparr>m_outboundQueue := q\<rparr>))"

definition writeControlMessage :: "Envelope \<Rightarrow> ZmqWorker \<Rightarrow> bool \<times> ZmqWorker" where
  "writeControlMessage msg w =
     (case SafeQueue_push_for msg (m_controlQueue w) of (ok, q) \<Rightarrow> (ok, w\<lparr>m_controlQueue := q\<rparr>))"

definition HEARTBEAT_INTERVAL :: time where
  "HEARTBEAT_INTERVAL = seconds 3"

definition SERVER_TIMEOUT :: time where
  "SERVER_TIMEOUT = seconds 10"

definition heartbeat_envelope :: "ZmqWorker \<Rightarrow> Envelope" where
  "heartbeat_envelope w =
     \<lparr>header = set_topic [] (set_sender_id (cfg_clientId (m_config w)) (set_handler_key Keys_HEARTBEAT MessageHeader_new)),
      payload = []\<rparr>"

text \<open>\<open>(void)wire::send(...)\<close>: the result is ignored, an exception ends the run.\<close>

definition worker_send :: "pb_runtime \<Rightarrow> 's zmq_api \<Rightarrow> Envelope \<Rightarrow> int + 's \<Rightarrow> int + 's" where
  "worker_send rt api env r =
     (case r of
        Inl e \<Rightarrow> Inl e
      | Inr s \<Rightarrow> (case wire_send rt api env s of (Inl e, _) \<Rightarrow> Inl e | (Inr _, s') \<Rightarrow> Inr s'))"

definition sendHeartbeat :: "pb_runtime \<Rightarrow> 's zmq_api \<Rightarrow> ZmqWorker \<Rightarrow> int + 's \<Rightarrow> int + 's" where
  "sendHeartbeat rt api w = worker_send rt api (heartbeat_envelope w)"

record worker_tick =
  tick_pollin :: bool
  tick_rx :: time
  tick_now :: time

record worker_locals =
  lastHeartbeat :: time
  didWork :: bool

definition notify_status :: "'u worker_hooks \<Rightarrow> bool \<Rightarrow> 'u \<times> ZmqWorker \<Rightarrow> 'u \<times> ZmqWorker" where
  "notify_status hooks online uw = (case status_callback hooks of None \<Rightarrow> uw | Some cb \<Rightarrow> cb online uw)"

text \<open>The beginning of \<open>run\<close>, up to the loop; the two clock reads are \<open>t1\<close> and \<open>t2\<close>.\<close>

definition ZmqWorker_begin ::
    "'u worker_hooks \<Rightarrow> time \<Rightarrow> time \<Rightarrow> 'u \<times> ZmqWorker \<Rightarrow> ('u \<times> ZmqWorker) \<times> worker_locals" where
  "ZmqWorker_begin hooks t1 t2 uw =
     (let w = (snd uw)\<lparr>m_isOnline := False, m_lastRxTime := t2\<rparr> in
      (notify_status hooks False (fst uw, w), \<lparr>lastHeartbeat = t1 - HEARTBEAT_INTERVAL, didWork = False\<rparr>))"

definition deliver_inbound :: "'u worker_hooks \<Rightarrow> Envelope \<Rightarrow> 'u \<times> ZmqWorker \<Rightarrow> ('u \<times> ZmqWorker) option" where
  "deliver_inbound hooks inbound uw =
     (if handler_key (header inbound) = Keys_HEARTBEAT_ACK then Some uw
      else case inbound_push hooks of
             Some push \<Rightarrow> Some (push inbound (fst uw), snd uw)
           | None \<Rightarrow> (case message_callback hooks of Some cb \<Rightarrow> cb inbound uw | None \<Rightarrow> Some uw))"

definition ZmqWorker_received :: "'u worker_hooks \<Rightarrow> time \<Rightarrow> Envelope \<Rightarrow> 'u \<times> ZmqWorker \<Rightarrow> ('u \<times> ZmqWorker) option" where
  "ZmqWorker_received hooks t inbound uw =
     (let w = (snd uw)\<lparr>m_lastRxTime := t\<rparr>;
          uw = (if \<not> m_isOnline w then notify_status hooks True (fst uw, w\<lparr>m_isOnline := True\<rparr>) else (fst uw, w))
      in deliver_inbound hooks inbound uw)"

definition ZmqWorker_drain :: "pb_runtime \<Rightarrow> 's zmq_api \<Rightarrow> ZmqWorker \<Rightarrow> int + 's \<Rightarrow> bool \<times> ZmqWorker \<times> (int + 's)" where
  "ZmqWorker_drain rt api w s =
     (case SafeQueue_drain (worker_send rt api) (m_controlQueue w) s of (control, s1) \<Rightarrow>
      case SafeQueue_drain (worker_send rt api) (m_outboundQueue w) s1 of (outbound, s2) \<Rightarrow>
        (m_queue (m_controlQueue w) \<noteq> [] \<or> m_queue (m_outboundQueue w) \<noteq> [],
         w\<lparr>m_controlQueue := control, m_outboundQueue := outbound\<rparr>, s2))"

definition ZmqWorker_timers ::
    "pb_runtime \<Rightarrow> 's zmq_api \<Rightarrow> 'u worker_hooks \<Rightarrow> time \<Rightarrow> ('u \<times> ZmqWorker) \<times> worker_locals \<times> (int + 's)
     \<Rightarrow> ('u \<times> ZmqWorker) \<times> worker_locals \<times> (int + 's)" where
  "ZmqWorker_timers rt api hooks t c =
     (case c of ((u, w), l, s) \<Rightarrow>
        let (l, s) = (if t - lastHeartbeat l > HEARTBEAT_INTERVAL
                      then (l\<lparr>lastHeartbeat := t\<rparr>, sendHeartbeat rt api w s) else (l, s));
            uw = (if m_isOnline w \<and> t - m_lastRxTime w > SERVER_TIMEOUT
                  then notify_status hooks False (u, w\<lparr>m_isOnline := False\<rparr>) else (u, w))
        in (uw, l, s))"

definition ZmqWorker_poll ::
    "pb_runtime \<Rightarrow> 's zmq_api \<Rightarrow> 'u worker_hooks \<Rightarrow> worker_tick \<Rightarrow> 'u \<times> ZmqWorker \<Rightarrow> 's
     \<Rightarrow> (int + bool \<times> ('u \<times> ZmqWorker) \<times> 's) option" where
  "ZmqWorker_poll rt api hooks tick uw s =
     (if tick_pollin tick then
        (case wire_recv rt api False Envelope_new s of
           None \<Rightarrow> None
         | Some (Inl e, _) \<Rightarrow> Some (Inl e)
         | Some (Inr None, s') \<Rightarrow> Some (Inr (False, uw, s'))
         | Some (Inr (Some inbound), s') \<Rightarrow>
             map_option (\<lambda>uw'. Inr (True, uw', s')) (ZmqWorker_received hooks (tick_rx tick) inbound uw))
      else Some (Inr (False, uw, s)))"

definition ZmqWorker_iteration ::
    "pb_runtime \<Rightarrow> 's zmq_api \<Rightarrow> 'u worker_hooks \<Rightarrow> worker_tick \<Rightarrow> ('u \<times> ZmqWorker) \<times> worker_locals \<times> 's
     \<Rightarrow> (int + ('u \<times> ZmqWorker) \<times> worker_locals \<times> 's) option" where
  "ZmqWorker_iteration rt api hooks tick c =
     (case c of (uw, l, s) \<Rightarrow>
      case ZmqWorker_poll rt api hooks tick uw s of
        None \<Rightarrow> None
      | Some (Inl e) \<Rightarrow> Some (Inl e)
      | Some (Inr (received, (u, w), s')) \<Rightarrow>
          (case ZmqWorker_drain rt api w (Inr s') of (drained, w', r) \<Rightarrow>
           case ZmqWorker_timers rt api hooks (tick_now tick) ((u, w'), l\<lparr>didWork := received \<or> drained\<rparr>, r) of
             (uw', l', Inl e) \<Rightarrow> Some (Inl e)
           | (uw', l', Inr s'') \<Rightarrow> Some (Inr (uw', l', s''))))"

text \<open>
  The loop. Each entry of the list is what other threads did before the iteration and the iteration's
  tick; the loop ends at the first entry that finds \<open>m_running\<close> false, with the final drain of the
  control queue.
\<close>

fun ZmqWorker_loop ::
    "pb_runtime \<Rightarrow> 's zmq_api \<Rightarrow> 'u worker_hooks \<Rightarrow> (('u \<times> ZmqWorker \<Rightarrow> 'u \<times> ZmqWorker) \<times> worker_tick) list
     \<Rightarrow> ('u \<times> ZmqWorker) \<times> worker_locals \<times> 's \<Rightarrow> (int + ('u \<times> ZmqWorker) \<times> worker_locals \<times> 's) option" where
  "ZmqWorker_loop rt api hooks [] c = Some (Inr c)"
| "ZmqWorker_loop rt api hooks ((others, tick) # rest) (uw, l, s) =
     (case others uw of (u, w) \<Rightarrow>
      if m_running w then
        (case ZmqWorker_iteration rt api hooks tick ((u, w), l, s) of
           Some (Inr c) \<Rightarrow> ZmqWorker_loop rt api hooks rest c
         | r \<Rightarrow> r)
      else
        (case SafeQueue_drain (worker_send rt api) (m_controlQueue w) (Inr s) of
           (q, Inl e) \<Rightarrow> Some (Inl e)
         | (q, Inr s') \<Rightarrow> Some (Inr ((u, w\<lparr>m_controlQueue := q\<rparr>), l, s'))))"

subsection \<open>Sending\<close>

definition envelope_frames :: "pb_runtime \<Rightarrow> Envelope \<Rightarrow> bytes list" where
  "envelope_frames rt e = message_frames (encodeHeader rt (header e)) (payload e)"

context zmq_socket
begin

lemma worker_send_frames:
  assumes "sending s = []" "worker_send rt api env (Inr s) = Inr s'"
  shows "sending s' = [] \<and> receiving s' = receiving s \<and>
    (sent s' = sent s \<or> sent s' = sent s @ [envelope_frames rt env])"
proof -
  obtain r t where send: "wire_send rt api env s = (r, t)"
    by (cases "wire_send rt api env s")
  then have "sendFrames api (encodeHeader rt (header env)) (payload env) s = (r, t)"
    by (simp add: wire_send_def)
  from sendFrames_atomic [OF assms(1) this] send assms(2) show ?thesis
    by (auto simp: worker_send_def envelope_frames_def split: sum.splits if_splits)
qed

lemma worker_send_Inl [simp]: "fold (worker_send rt api) es (Inl e) = Inl e"
  by (induction es) (simp_all add: worker_send_def)

lemma fold_worker_send:
  "sending s = [] \<Longrightarrow> fold (worker_send rt api) es (Inr s) = Inr s' \<Longrightarrow>
     sending s' = [] \<and> receiving s' = receiving s \<and>
     (\<exists>ys. subseq ys es \<and> sent s' = sent s @ map (envelope_frames rt) ys)"
proof (induction es arbitrary: s)
  case (Cons e es)
  obtain t where t: "worker_send rt api e (Inr s) = Inr t" "fold (worker_send rt api) es (Inr t) = Inr s'"
    using Cons.prems(2) by (cases "worker_send rt api e (Inr s)") auto
  note step = worker_send_frames [OF Cons.prems(1) t(1)]
  with Cons.IH [OF _ t(2)] obtain ys where ys: "subseq ys es" "sent s' = sent t @ map (envelope_frames rt) ys"
    and idle: "sending s' = []" "receiving s' = receiving t" by auto
  from step consider "sent t = sent s" | "sent t = sent s @ [envelope_frames rt e]" by auto
  then show ?case
  proof cases
    case 1
    with ys idle step show ?thesis by (auto intro: list_emb_Cons)
  next
    case 2
    with ys have "subseq (e # ys) (e # es)" "sent s' = sent s @ map (envelope_frames rt) (e # ys)" by auto
    with idle step show ?thesis by (intro conjI exI [of _ "e # ys"]) auto
  qed
qed auto

lemma drain_order:
  assumes "sending s = []" "ZmqWorker_drain rt api w (Inr s) = (d, w', r)"
  shows "m_queue (m_controlQueue w') = [] \<and> m_queue (m_outboundQueue w') = [] \<and>
    (\<forall>s'. r = Inr s' \<longrightarrow> sending s' = [] \<and> receiving s' = receiving s \<and>
      (\<exists>cs os. subseq cs (m_queue (m_controlQueue w)) \<and> subseq os (m_queue (m_outboundQueue w)) \<and>
         sent s' = sent s @ map (envelope_frames rt) (cs @ os)))"
proof -
  have r: "r = fold (worker_send rt api) (m_queue (m_outboundQueue w))
      (fold (worker_send rt api) (m_queue (m_controlQueue w)) (Inr s))"
    using assms(2) by (auto simp: ZmqWorker_drain_def SafeQueue_drain_eq)
  have "sending s' = [] \<and> receiving s' = receiving s \<and>
      (\<exists>cs os. subseq cs (m_queue (m_controlQueue w)) \<and> subseq os (m_queue (m_outboundQueue w)) \<and>
         sent s' = sent s @ map (envelope_frames rt) (cs @ os))" if s': "r = Inr s'" for s'
  proof -
    obtain t where t: "fold (worker_send rt api) (m_queue (m_controlQueue w)) (Inr s) = Inr t"
      "fold (worker_send rt api) (m_queue (m_outboundQueue w)) (Inr t) = Inr s'"
      using r s' by (cases "fold (worker_send rt api) (m_queue (m_controlQueue w)) (Inr s)") auto
    from fold_worker_send [OF assms(1) t(1)] obtain cs where cs: "subseq cs (m_queue (m_controlQueue w))"
      "sent t = sent s @ map (envelope_frames rt) cs" "sending t = []" "receiving t = receiving s" by blast
    from fold_worker_send [OF cs(3) t(2)] cs show ?thesis by fastforce
  qed
  then show ?thesis
    using assms(2) by (auto simp: ZmqWorker_drain_def SafeQueue_drain_eq)
qed

end

subsection \<open>Receiving and the status\<close>

text \<open>
  What the worker expects of its owner's callbacks: they may use the worker's queues but leave its
  status alone. A \<open>worker_owner\<close> in addition keeps a copy of the status, set by the status callback.
\<close>

locale worker_callbacks =
  fixes hooks :: "'u worker_hooks"
  assumes message_frame: "message_callback hooks = Some cb \<Longrightarrow> cb e uw = Some uw' \<Longrightarrow>
      m_isOnline (snd uw') = m_isOnline (snd uw) \<and> m_lastRxTime (snd uw') = m_lastRxTime (snd uw)"
    and status_frame: "status_callback hooks = Some cb' \<Longrightarrow>
      m_isOnline (snd (cb' b uw)) = m_isOnline (snd uw) \<and> m_lastRxTime (snd (cb' b uw)) = m_lastRxTime (snd uw)"
begin

lemma notify_status_frame [simp]:
  "m_isOnline (snd (notify_status hooks b uw)) = m_isOnline (snd uw)"
  "m_lastRxTime (snd (notify_status hooks b uw)) = m_lastRxTime (snd uw)"
  by (simp_all add: notify_status_def status_frame split: option.splits)

lemma deliver_inbound_frame:
  assumes "deliver_inbound hooks e uw = Some uw'"
  shows "m_isOnline (snd uw') = m_isOnline (snd uw) \<and> m_lastRxTime (snd uw') = m_lastRxTime (snd uw)"
  using assms message_frame [of _ e uw uw'] by (auto simp: deliver_inbound_def split: option.splits if_splits)

lemma received_status:
  assumes "ZmqWorker_received hooks t e uw = Some uw'"
  shows "m_isOnline (snd uw') \<and> m_lastRxTime (snd uw') = t"
  using deliver_inbound_frame [OF assms [unfolded ZmqWorker_received_def Let_def]] by simp

lemma timers_status:
  assumes "ZmqWorker_timers rt api hooks t c = (uw, l, r)"
  shows "m_isOnline (snd uw) \<longleftrightarrow> m_isOnline (snd (fst c)) \<and> t - m_lastRxTime (snd (fst c)) \<le> SERVER_TIMEOUT"
    and "m_lastRxTime (snd uw) = m_lastRxTime (snd (fst c))"
  using assms by (cases c; auto simp: ZmqWorker_timers_def Let_def split: if_splits)+

lemma drain_status:
  assumes "ZmqWorker_drain rt api w s = (d, w', r)"
  shows "m_isOnline w' = m_isOnline w" "m_lastRxTime w' = m_lastRxTime w"
  using assms by (auto simp: ZmqWorker_drain_def split: prod.splits)

lemma iteration_cases:
  assumes "ZmqWorker_iteration rt api hooks tick (uw, l, s) = Some (Inr (uw', l', s'))"
  obtains rcv u w s1 d w1 r l1 where "ZmqWorker_poll rt api hooks tick uw s = Some (Inr (rcv, (u, w), s1))"
    "ZmqWorker_drain rt api w (Inr s1) = (d, w1, r)"
    "ZmqWorker_timers rt api hooks (tick_now tick) ((u, w1), l1, r) = (uw', l', Inr s')"
  using assms that
  by (auto simp: ZmqWorker_iteration_def split: option.splits sum.splits prod.splits)

lemma poll_result:
  assumes "ZmqWorker_poll rt api hooks tick uw s = Some (Inr (rcv, uw', s'))"
  shows "if rcv then \<exists>e. ZmqWorker_received hooks (tick_rx tick) e uw = Some uw' else uw' = uw"
  using assms
  by (auto simp: ZmqWorker_poll_def split: option.splits sum.splits prod.splits if_splits)

lemma iteration_online:
  assumes "ZmqWorker_iteration rt api hooks tick (uw, l, s) = Some (Inr (uw', l', s'))"
  shows "m_isOnline (snd uw') \<longrightarrow> tick_now tick - m_lastRxTime (snd uw') \<le> SERVER_TIMEOUT"
  using assms
proof (rule iteration_cases)
  fix rcv u w s1 d w1 r l1
  assume "ZmqWorker_timers rt api hooks (tick_now tick) ((u, w1), l1, r) = (uw', l', Inr s')"
  from timers_status [OF this] show ?thesis by simp
qed

text \<open>The worker goes offline exactly when nothing arrived in the iteration and for the server timeout before.\<close>

lemma iteration_status:
  assumes "ZmqWorker_iteration rt api hooks tick (uw, l, s) = Some (Inr (uw', l', s'))"
  obtains rcv s1 where "ZmqWorker_poll rt api hooks tick uw s = Some (Inr (rcv, s1))"
    "m_lastRxTime (snd uw') = (if rcv then tick_rx tick else m_lastRxTime (snd uw))"
    "m_isOnline (snd uw') \<longleftrightarrow>
       (rcv \<or> m_isOnline (snd uw)) \<and> tick_now tick - m_lastRxTime (snd uw') \<le> SERVER_TIMEOUT"
  using assms
proof (rule iteration_cases)
  fix rcv u w s1 d w1 r l1
  assume poll: "ZmqWorker_poll rt api hooks tick uw s = Some (Inr (rcv, (u, w), s1))"
    and drain: "ZmqWorker_drain rt api w (Inr s1) = (d, w1, r)"
    and timers: "ZmqWorker_timers rt api hooks (tick_now tick) ((u, w1), l1, r) = (uw', l', Inr s')"
  have "m_isOnline w \<longleftrightarrow> rcv \<or> m_isOnline (snd uw)" "m_lastRxTime w = (if rcv then tick_rx tick else m_lastRxTime (snd uw))"
    using poll_result [OF poll] by (cases rcv; auto dest: received_status)+
  with timers_status [OF timers] drain_status [OF drain] poll show thesis
    by (intro that [of rcv "((u, w), s1)"]) auto
qed

end

locale worker_owner = worker_callbacks hooks for hooks :: "'u worker_hooks" +
  fixes connected :: "'u \<Rightarrow> bool"
  assumes status_connected: "\<exists>cb. status_callback hooks = Some cb \<and> (\<forall>b uw. connected (fst (cb b uw)) = b)"
    and inbound_connected: "inbound_push hooks = Some push \<Longrightarrow> connected (push e u) = connected u"
    and message_connected: "message_callback hooks = Some mcb \<Longrightarrow> mcb e uw = Some uw' \<Longrightarrow>
      connected (fst uw') = connected (fst uw)"
begin

lemma notify_connected [simp]: "connected (fst (notify_status hooks b uw)) = b"
  using status_connected by (cases uw) (auto simp: notify_status_def)

lemma deliver_connected:
  assumes "deliver_inbound hooks e uw = Some uw'"
  shows "connected (fst uw') = connected (fst uw)"
  using assms inbound_connected [of _ e "fst uw"] message_connected [of _ e uw uw']
  by (auto simp: deliver_inbound_def split: option.splits if_splits)

lemma received_connected:
  assumes "connected (fst uw) = m_isOnline (snd uw)" "ZmqWorker_received hooks t e uw = Some uw'"
  shows "connected (fst uw') = m_isOnline (snd uw')"
  using assms(1) deliver_connected [OF assms(2) [unfolded ZmqWorker_received_def Let_def]] received_status [OF assms(2)]
  by (auto split: if_splits)

lemma begin_connected:
  "ZmqWorker_begin hooks t1 t2 uw = (uw', l) \<Longrightarrow> connected (fst uw') = m_isOnline (snd uw')"
  by (auto simp: ZmqWorker_begin_def Let_def)

lemma iteration_connected:
  assumes "ZmqWorker_iteration rt api hooks tick (uw, l, s) = Some (Inr (uw', l', s'))"
    and "connected (fst uw) = m_isOnline (snd uw)"
  shows "connected (fst uw') = m_isOnline (snd uw')"
  using assms(1)
proof (rule iteration_cases)
  fix rcv u w s1 d w1 r l1
  assume poll: "ZmqWorker_poll rt api hooks tick uw s = Some (Inr (rcv, (u, w), s1))"
    and drain: "ZmqWorker_drain rt api w (Inr s1) = (d, w1, r)"
    and timers: "ZmqWorker_timers rt api hooks (tick_now tick) ((u, w1), l1, r) = (uw', l', Inr s')"
  have "connected (fst (u, w)) = m_isOnline (snd (u, w))"
    using poll_result [OF poll] assms(2) received_connected [OF assms(2)] by (cases rcv) auto
  with timers drain_status [OF drain] show ?thesis
    by (auto simp: ZmqWorker_timers_def Let_def split: if_splits prod.splits)
qed

end

subsection \<open>Properties\<close>


text \<open>Witness for C14: one control and one data message on an in-memory socket.\<close>

definition worker_example :: ZmqWorker where
  "worker_example = snd (writeMessage \<lparr>header = header_example, payload = ''p''\<rparr>
     (snd (writeControlMessage \<lparr>header = header_example, payload = []\<rparr> (ZmqWorker_new ConnectionConfig_default))))"


text \<open>
  C15. The online flag is right. After an iteration that returns, the worker is online exactly when it
  was online before or received a message in this iteration, and the last message is no more than ten
  seconds old; the receive time moves exactly when a message was received.
\<close>

theorem ZmqWorker_status:
  assumes "worker_callbacks hooks"
    and "ZmqWorker_iteration rt api hooks tick (uw, l, s) = Some (Inr (uw', l', s'))"
  shows "\<exists>rcv s1. ZmqWorker_poll rt api hooks tick uw s = Some (Inr (rcv, s1)) \<and>
    m_lastRxTime (snd uw') = (if rcv then tick_rx tick else m_lastRxTime (snd uw)) \<and>
    (m_isOnline (snd uw') \<longleftrightarrow>
       (rcv \<or> m_isOnline (snd uw)) \<and> tick_now tick - m_lastRxTime (snd uw') \<le> SERVER_TIMEOUT)"
  by (rule worker_callbacks.iteration_status [OF assms]) blast

text \<open>Witness for C15: eleven seconds of silence take an online worker offline.\<close>

definition silent_hooks :: "unit worker_hooks" where
  "silent_hooks = \<lparr>inbound_push = None, message_callback = None, status_callback = None\<rparr>"

definition online_worker :: ZmqWorker where
  "online_worker = (ZmqWorker_new ConnectionConfig_default)\<lparr>m_isOnline := True\<rparr>"

theorem ZmqWorker_status_witness:
  "\<exists>uw'. ZmqWorker_iteration pb_wire_format mem_api silent_hooks
      \<lparr>tick_pollin = False, tick_rx = 0, tick_now = seconds 11\<rparr>
      (((), online_worker), \<lparr>lastHeartbeat = seconds 11, didWork = False\<rparr>, mem_example) =
    Some (Inr (uw', \<lparr>lastHeartbeat = seconds 11, didWork = False\<rparr>, mem_example)) \<and> \<not> m_isOnline (snd uw')"
proof -
  have hooks: "worker_callbacks silent_hooks"
    by unfold_locales (simp_all add: silent_hooks_def)
  have run: "ZmqWorker_iteration pb_wire_format mem_api silent_hooks
      \<lparr>tick_pollin = False, tick_rx = 0, tick_now = seconds 11\<rparr>
      (((), online_worker), \<lparr>lastHeartbeat = seconds 11, didWork = False\<rparr>, mem_example) =
    Some (Inr (((), online_worker\<lparr>m_isOnline := False\<rparr>), \<lparr>lastHeartbeat = seconds 11, didWork = False\<rparr>, mem_example))"
    by (simp add: ZmqWorker_iteration_def ZmqWorker_poll_def ZmqWorker_drain_def SafeQueue_drain_eq
        ZmqWorker_timers_def notify_status_def silent_hooks_def online_worker_def ZmqWorker_new_def
        SafeQueue_default_def SafeQueue_new_def HEARTBEAT_INTERVAL_def SERVER_TIMEOUT_def seconds_def)
  from ZmqWorker_status [OF hooks run] run show ?thesis
    by (auto simp: online_worker_def ZmqWorker_new_def)
qed

end
