(* ===== verification/Protobuf_Any.thy ===== *)
theory Protobuf_Any
  imports Protobuf_Runtime
begin

text \<open>
  \<open>google::protobuf::Any\<close> is part of the protobuf runtime, not of the repository: the functions of it that
  the sources call are the record \<open>any_runtime\<close>, a parameter of the code that uses them. A message enters by
  its full name and its encoding. The locale states what the documentation of \<open>Any\<close> promises: \<open>PackFrom\<close> sets the
  type URL to \<open>type.googleapis.com/\<close> and the full name, \<open>Is\<close> compares that name, and an \<open>Any\<close> survives
  serialization.

  The instance \<open>any_wire\<close> is the documented message: field 1 the type URL, field 2 the value.
\<close>

record Any =
  type_url :: string
  any_value :: bytes

record any_runtime =
  PackFrom :: "string \<Rightarrow> bytes \<Rightarrow> Any"
  Any_Is :: "string \<Rightarrow> Any \<Rightarrow> bool"
  Any_SerializeAsString :: "Any \<Rightarrow> bytes"
  Any_ParseFromString :: "bytes \<Rightarrow> Any option"

definition any_prefix :: string where
  "any_prefix = ''type.googleapis.com/''"

locale protobuf_any =
  fixes ar :: any_runtime
  assumes pack: "PackFrom ar name bs = \<lparr>type_url = any_prefix @ name, any_value = bs\<rparr>"
    and is_packed: "CHR ''/'' \<notin> set name \<Longrightarrow> Any_Is ar name' (PackFrom ar name bs) \<longleftrightarrow> name' = name"
    and parse_serialize: "length name < 2 ^ 30 \<Longrightarrow> length bs < 2 ^ 31 \<Longrightarrow>
      Any_ParseFromString ar (Any_SerializeAsString ar (PackFrom ar name bs)) = Some (PackFrom ar name bs)"
    and serialize_not_Nil: "Any_SerializeAsString ar (PackFrom ar name bs) \<noteq> []"

fun any_field :: "wire_field \<Rightarrow> Any \<Rightarrow> Any" where
  "any_field (n, LengthDelimited s) a =
     (if n = 1 then a\<lparr>type_url := s\<rparr> else if n = 2 then a\<lparr>any_value := s\<rparr> else a)"
| "any_field _ a = a"

definition any_wire :: any_runtime where
  "any_wire = \<lparr>
     PackFrom = (\<lambda>name bs. \<lparr>type_url = any_prefix @ name, any_value = bs\<rparr>),
     Any_Is = (\<lambda>name a. name = rev (takeWhile (\<lambda>c. c \<noteq> CHR ''/'') (rev (type_url a)))),
     Any_SerializeAsString = (\<lambda>a.
       (if type_url a = [] then [] else WriteString pb_wire_format 1 (type_url a))
       @ (if any_value a = [] then [] else WriteString pb_wire_format 2 (any_value a))),
     Any_ParseFromString = (\<lambda>bs.
       map_option (\<lambda>fs. fold any_field fs \<lparr>type_url = [], any_value = []\<rparr>) (ParseFields pb_wire_format bs))\<rparr>"

lemma write_string_not_Nil: "0 < length (WriteString pb_wire_format 1 s)"
  using wire.size_string [of 1 s] by simp

interpretation any: protobuf_any any_wire
proof unfold_locales
  fix name name' :: string and bs :: bytes
  show "PackFrom any_wire name bs = \<lparr>type_url = any_prefix @ name, any_value = bs\<rparr>"
    by (simp add: any_wire_def)
  show "Any_Is any_wire name' (PackFrom any_wire name bs) \<longleftrightarrow> name' = name" if "CHR ''/'' \<notin> set name"
    using that by (simp add: any_wire_def any_prefix_def takeWhile_append)
  have prefix: "any_prefix \<noteq> []" "length any_prefix = 20" by (simp_all add: any_prefix_def)
  show "Any_SerializeAsString any_wire (PackFrom any_wire name bs) \<noteq> []"
    using write_string_not_Nil [of "any_prefix @ name"] prefix by (simp add: any_wire_def)
  assume "length name < 2 ^ 30" "length bs < 2 ^ 31"
  with prefix show "Any_ParseFromString any_wire (Any_SerializeAsString any_wire (PackFrom any_wire name bs)) =
      Some (PackFrom any_wire name bs)"
    using wire.parse_string [of 1 "any_prefix @ name" "[]"] wire.parse_string [of 1 "any_prefix @ name" "WriteString pb_wire_format 2 bs"]
      wire.parse_string [of 2 bs "[]"]
    by (simp add: any_wire_def wire.parse_nil field_number_def)
qed

end
