(* ===== verification/Uuid_Helper.thy ===== *)
theory Uuid_Helper
  imports Protobuf_Runtime
begin

text \<open>
  \<open>generateUUID\<close> of \<open>common/uuidhelper.h\<close>. The draws of \<open>std::uniform_int_distribution\<close> over the thread's
  \<open>std::mt19937\<close> are an argument: the k-th draw from 0 to 15 is the 4-bit word \<open>draw k\<close>, the draw from 8 to
  11 is 8 plus the 2-bit word \<open>variant\<close>.
\<close>

definition hex_chars :: string where
  "hex_chars = ''0123456789abcdef''"

definition set_hex :: "(nat \<Rightarrow> 4 word) \<Rightarrow> nat \<Rightarrow> string \<times> nat \<Rightarrow> string \<times> nat" where
  "set_hex draw index st = (case st of (uuid, k) \<Rightarrow> (uuid[index := hex_chars ! unat (draw k)], Suc k))"

definition generateUUID :: "(nat \<Rightarrow> 4 word) \<Rightarrow> 2 word \<Rightarrow> string" where
  "generateUUID draw variant =
     (let uuid = replicate 36 (CHR '' '');
          uuid = uuid[8 := CHR ''-'', 13 := CHR ''-'', 18 := CHR ''-'', 23 := CHR ''-''];
          st = fold (set_hex draw) [0..<8] (uuid, 0);
          st = fold (set_hex draw) [9..<13] st;
          st = apfst (\<lambda>uuid. uuid[14 := CHR ''4'']) st;
          st = fold (set_hex draw) [15..<18] st;
          st = apfst (\<lambda>uuid. uuid[19 := hex_chars ! (8 + unat variant)]) st;
          st = fold (set_hex draw) [20..<23] st;
          st = fold (set_hex draw) [24..<36] st
      in fst st)"

definition hex_digit :: "4 word \<Rightarrow> char" where
  "hex_digit x = hex_chars ! unat x"

definition variant_digit :: "2 word \<Rightarrow> char" where
  "variant_digit v = hex_chars ! (8 + unat v)"

text \<open>The value the loops compute, written out.\<close>

lemma generateUUID_eq:
  "generateUUID d v =
     map (hex_digit \<circ> d) [0..<8] @ CHR ''-'' # map (hex_digit \<circ> d) [8..<12] @ CHR ''-'' # CHR ''4'' #
     map (hex_digit \<circ> d) [12..<15] @ CHR ''-'' # variant_digit v # map (hex_digit \<circ> d) [15..<18] @
     CHR ''-'' # map (hex_digit \<circ> d) [18..<30]"
proof -
  have upt: "[0..<8] = [0, 1, 2, 3, 4, 5, 6, 7 :: nat]" "[8..<12] = [8, 9, 10, 11 :: nat]"
    "[9..<13] = [9, 10, 11, 12 :: nat]" "[12..<15] = [12, 13, 14 :: nat]" "[15..<18] = [15, 16, 17 :: nat]"
    "[20..<23] = [20, 21, 22 :: nat]" "[18..<30] = [18, 19, 20, 21, 22, 23, 24, 25, 26, 27, 28, 29 :: nat]"
    "[24..<36] = [24, 25, 26, 27, 28, 29, 30, 31, 32, 33, 34, 35 :: nat]"
    by (simp_all add: upt_rec)
  show ?thesis
    unfolding generateUUID_def upt
    by (simp add: Let_def set_hex_def hex_digit_def variant_digit_def numeral_eq_Suc)
qed

lemma unat_nibble: "unat (x :: 4 word) < 16"
  using unsigned_less [of x, where ?'a = nat] by simp

lemma unat_variant: "unat (v :: 2 word) < 4"
  using unsigned_less [of v, where ?'a = nat] by simp

lemma distinct_hex_chars: "distinct hex_chars" "length hex_chars = 16"
  by (simp_all add: hex_chars_def)

lemma hex_digit_inject: "hex_digit x = hex_digit y \<longleftrightarrow> x = y"
  using nth_eq_iff_index_eq [OF distinct_hex_chars(1), of "unat x" "unat y"] unat_nibble [of x] unat_nibble [of y]
  by (simp add: hex_digit_def distinct_hex_chars word_unat_eq_iff)

lemma variant_digit_inject: "variant_digit v = variant_digit w \<longleftrightarrow> v = w"
  using nth_eq_iff_index_eq [OF distinct_hex_chars(1), of "8 + unat v" "8 + unat w"]
    unat_variant [of v] unat_variant [of w]
  by (simp add: variant_digit_def distinct_hex_chars word_unat_eq_iff)

lemma hex_digit_in: "hex_digit x \<in> set hex_chars"
  using unat_nibble [of x] by (simp add: hex_digit_def distinct_hex_chars)

lemma variant_digit_in: "variant_digit v \<in> set ''89ab''"
proof -
  have "unat v \<in> {0, 1, 2, 3}" using unat_variant [of v] by auto
  then show ?thesis by (auto simp: variant_digit_def hex_chars_def)
qed

lemma set_generateUUID: "set (generateUUID d v) \<subseteq> insert (CHR ''-'') (set hex_chars)"
proof -
  have "set ''89ab'' \<subseteq> set hex_chars" "CHR ''4'' \<in> set hex_chars" by (simp_all add: hex_chars_def)
  with variant_digit_in [of v] have "variant_digit v \<in> set hex_chars" "CHR ''4'' \<in> set hex_chars" by blast+
  moreover have "set (map (hex_digit \<circ> d) ks) \<subseteq> set hex_chars" for ks
    using hex_digit_in by auto
  ultimately show ?thesis unfolding generateUUID_eq set_append set_simps by blast
qed

lemma generateUUID_clean: "generateUUID d v \<noteq> []" "CHR ''|'' \<notin> set (generateUUID d v)" "ascii (generateUUID d v)"
proof -
  show "generateUUID d v \<noteq> []" by (simp add: generateUUID_eq)
  have "CHR ''|'' \<notin> insert (CHR ''-'') (set hex_chars)"
    and ascii_chars: "\<forall>c \<in> insert (CHR ''-'') (set hex_chars). of_char c < (128 :: nat)"
    by (simp_all add: hex_chars_def)
  with set_generateUUID show "CHR ''|'' \<notin> set (generateUUID d v)" by blast
  from ascii_chars set_generateUUID show "ascii (generateUUID d v)" unfolding ascii_def by blast
qed

definition uuid_layout :: "char set list" where
  "uuid_layout = replicate 8 (set hex_chars) @ [{CHR ''-''}] @ replicate 4 (set hex_chars) @ [{CHR ''-''}] @
     [{CHR ''4''}] @ replicate 3 (set hex_chars) @ [{CHR ''-''}] @ [set ''89ab''] @ replicate 3 (set hex_chars) @
     [{CHR ''-''}] @ replicate 12 (set hex_chars)"

lemma generateUUID_inject:
  "generateUUID d v = generateUUID d' v' \<longleftrightarrow> map d [0..<30] = map d' [0..<30] \<and> v = v'"
proof -
  have upt: "[0..<30] = [0..<8] @ [8..<12] @ [12..<15] @ [15..<18] @ [18..<30 :: nat]"
    by (simp add: upt_rec)
  show ?thesis
    unfolding upt by (simp add: generateUUID_eq hex_digit_inject variant_digit_inject) blast
qed

lemma hex_digits_layout: "length ks = n \<Longrightarrow> list_all2 (\<in>) (map (hex_digit \<circ> d) ks) (replicate n (set hex_chars))"
  by (simp add: list_all2_conv_all_nth hex_digit_in)

text \<open>
  C32. Identifiers have the layout of a version 4 UUID, contain neither a beacon separator nor a byte
  outside ASCII, and two identifiers are equal only if all thirty-one draws behind them are equal.
\<close>

theorem generateUUID_correct:
  "list_all2 (\<in>) (generateUUID d v) uuid_layout \<and> length (generateUUID d v) = 36 \<and>
   CHR ''|'' \<notin> set (generateUUID d v) \<and> ascii (generateUUID d v) \<and>
   (generateUUID d v = generateUUID d' v' \<longleftrightarrow> map d [0..<30] = map d' [0..<30] \<and> v = v')"
proof -
  have "list_all2 (\<in>) (generateUUID d v) uuid_layout"
    unfolding generateUUID_eq uuid_layout_def append_Cons append_Nil
    by (intro list_all2_appendI list.rel_intros(2) hex_digits_layout variant_digit_in) simp_all
  moreover have "length (generateUUID d v) = 36" by (simp add: generateUUID_eq)
  ultimately show ?thesis using generateUUID_inject generateUUID_clean by blast
qed

end
