(* ===== verification/Cxx_String.thy ===== *)
theory Cxx_String
  imports Wisp_Prelude
begin

text \<open>
  The parts of \<open>std::string\<close> and of the numeric conversions the program uses, with the behaviour the C++
  standard gives them: \<open>find\<close> and \<open>rfind\<close> of a character, \<open>std::to_string\<close> of an unsigned value, and
  \<open>std::stoi\<close>, which skips white space, takes an optional sign and as many digits as there are, ignores
  what follows, and throws when there is no digit or the value does not fit an \<open>int\<close>.
\<close>

definition find_from :: "char \<Rightarrow> string \<Rightarrow> nat \<Rightarrow> nat option" where
  "find_from c s start =
     (let k = length (takeWhile (\<lambda>d. d \<noteq> c) (drop start s)) in
      if start + k < length s then Some (start + k) else None)"

fun rfind_char :: "char \<Rightarrow> string \<Rightarrow> nat option" where
  "rfind_char c [] = None"
| "rfind_char c (d # ds) =
     (case rfind_char c ds of Some i \<Rightarrow> Some (Suc i) | None \<Rightarrow> if d = c then Some 0 else None)"

definition starts_with :: "string \<Rightarrow> string \<Rightarrow> bool" where
  "starts_with pre s \<longleftrightarrow> take (length pre) s = pre"

definition digit_char :: "nat \<Rightarrow> char" where
  "digit_char d = char_of (48 + d)"

fun to_string :: "nat \<Rightarrow> string" where
  "to_string n = (if n < 10 then [digit_char n] else to_string (n div 10) @ [digit_char (n mod 10)])"

declare to_string.simps [simp del]

definition is_digit :: "char \<Rightarrow> bool" where
  "is_digit c \<longleftrightarrow> 48 \<le> (of_char c :: nat) \<and> of_char c \<le> (57 :: nat)"

definition digit_value :: "char \<Rightarrow> nat" where
  "digit_value c = of_char c - 48"

definition is_space :: "char \<Rightarrow> bool" where
  "is_space c \<longleftrightarrow> (of_char c :: nat) = 32 \<or> 9 \<le> (of_char c :: nat) \<and> of_char c \<le> (13 :: nat)"

definition digits_value :: "string \<Rightarrow> nat" where
  "digits_value ds = fold (\<lambda>c v. 10 * v + digit_value c) ds 0"

datatype stoi_error = invalid_argument | out_of_range

definition stoi :: "string \<Rightarrow> stoi_error + int" where
  "stoi s =
     (let s = dropWhile is_space s;
          neg = (case s of c # _ \<Rightarrow> c = CHR ''-'' | [] \<Rightarrow> False);
          s = (case s of c # cs \<Rightarrow> if c = CHR ''-'' \<or> c = CHR ''+'' then cs else s | [] \<Rightarrow> []);
          ds = takeWhile is_digit s;
          v = (if neg then - int (digits_value ds) else int (digits_value ds))
      in if ds = [] then Inl invalid_argument
         else if v < - (2 ^ 31) \<or> v \<ge> 2 ^ 31 then Inl out_of_range
         else Inr v)"

subsection \<open>Digits\<close>

lemma of_char_digit_char [simp]: "d < 10 \<Longrightarrow> of_char (digit_char d) = 48 + d"
  by (simp add: digit_char_def)

lemma is_digit_digit_char [simp]: "d < 10 \<Longrightarrow> is_digit (digit_char d)"
  by (simp add: is_digit_def)

lemma digit_value_digit_char [simp]: "d < 10 \<Longrightarrow> digit_value (digit_char d) = d"
  by (simp add: digit_value_def)

lemma is_digit_not_space: "is_digit c \<Longrightarrow> \<not> is_space c"
  by (auto simp: is_digit_def is_space_def)

lemma is_digit_not_sign: "is_digit c \<Longrightarrow> c \<noteq> CHR ''-'' \<and> c \<noteq> CHR ''+'' \<and> c \<noteq> CHR ''|''"
  by (auto simp: is_digit_def)

lemma to_string_nonempty [simp]: "to_string n \<noteq> []"
  by (simp add: to_string.simps [of n])

lemma to_string_digits: "list_all is_digit (to_string n)"
proof (induction n rule: to_string.induct)
  case (1 n)
  then show ?case by (subst to_string.simps) simp
qed

lemma digits_value_append: "digits_value (ds @ [c]) = 10 * digits_value ds + digit_value c"
  by (simp add: digits_value_def)

lemma digits_value_to_string: "digits_value (to_string n) = n"
proof (induction n rule: to_string.induct)
  case (1 n)
  show ?case
  proof (cases "n < 10")
    case True
    then show ?thesis by (simp add: to_string.simps [of n] digits_value_def)
  next
    case False
    then show ?thesis by (simp add: to_string.simps [of n] digits_value_append 1)
  qed
qed

lemma to_string_length: "0 < k \<Longrightarrow> n < 10 ^ k \<Longrightarrow> length (to_string n) \<le> k"
proof (induction n arbitrary: k rule: to_string.induct)
  case (1 n)
  show ?case
  proof (cases "n < 10")
    case True
    with 1 show ?thesis by (simp add: to_string.simps [of n])
  next
    case False
    with 1(3) obtain j where k: "k = Suc j" "0 < j"
      by (cases k; cases "k - 1") auto
    with 1(3) have "n div 10 < 10 ^ j" by (simp add: less_mult_imp_div_less mult.commute)
    with 1(1) False k show ?thesis by (simp add: to_string.simps [of n])
  qed
qed

text \<open>\<open>stoi\<close> undoes \<open>to_string\<close>, and ignores what follows the digits.\<close>

lemma stoi_to_string:
  assumes "n < 2 ^ 31" "s = [] \<or> \<not> is_digit (hd s)"
  shows "stoi (to_string n @ s) = Inr (int n)"
proof -
  obtain c cs where t: "to_string n = c # cs"
    by (cases "to_string n") auto
  have digits: "list_all is_digit (to_string n)" by (rule to_string_digits)
  then have c: "is_digit c" using t by simp
  have "takeWhile is_digit (to_string n @ s) = to_string n"
    using digits assms(2) by (cases s) (auto simp: list_all_iff takeWhile_append)
  with t c assms(1) digits_value_to_string [of n] show ?thesis
    using is_digit_not_space [OF c] is_digit_not_sign [OF c] by (simp add: stoi_def)
qed

subsection \<open>Searching\<close>

lemma find_from_Some:
  "find_from c s start = Some pos \<Longrightarrow> start \<le> pos \<and> pos < length s \<and> s ! pos = c \<and> c \<notin> set (take (pos - start) (drop start s))"
proof -
  assume find: "find_from c s start = Some pos"
  define k where "k = length (takeWhile (\<lambda>d. d \<noteq> c) (drop start s))"
  from find have pos: "pos = start + k" "start + k < length s"
    by (auto simp: find_from_def k_def Let_def split: if_splits)
  then have "k < length (drop start s)" by simp
  then have "drop start s ! k = c"
    using nth_length_takeWhile [of "\<lambda>d. d \<noteq> c" "drop start s"] by (simp add: k_def)
  moreover have "take k (drop start s) = takeWhile (\<lambda>d. d \<noteq> c) (drop start s)"
    by (simp add: k_def takeWhile_eq_take [symmetric])
  then have "c \<notin> set (take k (drop start s))" by (auto dest: set_takeWhileD)
  ultimately show ?thesis using pos by simp
qed

lemma find_from_None: "find_from c s start = None \<Longrightarrow> c \<notin> set (drop start s)"
proof
  assume find: "find_from c s start = None" and c: "c \<in> set (drop start s)"
  then have "length (takeWhile (\<lambda>d. d \<noteq> c) (drop start s)) < length (drop start s)"
    by (metis (mono_tags) length_takeWhile_le linorder_neqE_nat not_le takeWhile_eq_all_conv takeWhile_eq_take take_all)
  with find show False by (auto simp: find_from_def Let_def split: if_splits)
qed

lemma rfind_char_None [simp]: "rfind_char c s = None \<longleftrightarrow> c \<notin> set s"
  by (induction s) (auto split: option.splits)

lemma rfind_char_append: "c \<notin> set t \<Longrightarrow> rfind_char c (s @ c # t) = Some (length s)"
proof (induction s)
  case Nil
  then show ?case by (simp split: option.splits)
qed simp

end
