(* ===== verification/Connection_Manager.thy ===== *)
theory Connection_Manager
  imports Zmq_Worker Protobuf_Any Uuid_Helper Cxx_String
begin

text \<open>
  \<open>ConnectionManager\<close> (\<open>common/connectionmanager.h\<close>, \<open>common/connectionmanager.cpp\<close>): the client side. One object holds
  the callbacks by topic, a worker, and the queue the worker fills; a processing thread takes messages from the
  queue and calls the callbacks.

  The static state is the record \<open>client\<close>: the instance, the registrations made before \<open>init\<close>, and the values of
  the promises that \<open>sendRequest\<close> waits for. What a user callback does is a parameter \<open>user\<close>: it gets the reply topic of
  the message being handled (the thread-local variable of the code) and the payload, may use the whole client
  state, and may throw, which \<open>handleMessage\<close> swallows. The ordered \<open>std::map\<close> of handlers is a list sorted by key. An
  instance pointer is a number, 0 the null pointer.

  \<open>sendRequest\<close> waits for other threads in the middle, so it is two operations: \<open>sendRequest_begin\<close> up to the wait and
  \<open>sendRequest_end\<close> after it, where the promise has a value or the time is over.
\<close>

subsection \<open>Payloads\<close>

text \<open>The four branches of the \<open>if constexpr\<close> chain, with what each needs to know of the type.\<close>

datatype 'a payload_type =
    Specialized "'a \<Rightarrow> string" "string \<Rightarrow> 'a option"
  | ProtobufMessage string "'a \<Rightarrow> bytes" "bytes \<Rightarrow> 'a option"
  | StdString "'a \<Rightarrow> string" "string \<Rightarrow> 'a"
  | TriviallyCopyable nat "'a \<Rightarrow> bytes" "bytes \<Rightarrow> 'a"

definition tryUnpack :: "any_runtime \<Rightarrow> string \<Rightarrow> (bytes \<Rightarrow> 'a option) \<Rightarrow> string \<Rightarrow> 'a option" where
  "tryUnpack ar name parse raw =
     (case Any_ParseFromString ar raw of
        Some any \<Rightarrow>
          if starts_with ''type.googleapis.com/'' (type_url any)
          then (if Any_Is ar name any then parse (any_value any) else None)
          else parse raw
      | None \<Rightarrow> parse raw)"

fun encodePayload :: "any_runtime \<Rightarrow> 'a payload_type \<Rightarrow> 'a \<Rightarrow> string" where
  "encodePayload ar (Specialized serialize deserialize) v = serialize v"
| "encodePayload ar (ProtobufMessage name serialize parse) v = Any_SerializeAsString ar (PackFrom ar name (serialize v))"
| "encodePayload ar (StdString toString ofString) v = toString v"
| "encodePayload ar (TriviallyCopyable sz toBytes ofBytes) v = toBytes v"

fun decodePayload :: "any_runtime \<Rightarrow> 'a payload_type \<Rightarrow> string \<Rightarrow> 'a option" where
  "decodePayload ar (Specialized serialize deserialize) raw = deserialize raw"
| "decodePayload ar (ProtobufMessage name serialize parse) raw = tryUnpack ar name parse raw"
| "decodePayload ar (StdString toString ofString) raw = Some (ofString raw)"
| "decodePayload ar (TriviallyCopyable sz toBytes ofBytes) raw =
     (if length raw \<noteq> sz then None else Some (ofBytes raw))"

subsection \<open>State\<close>

text \<open>A callback is the user's or the one that \<open>sendRequest\<close> registers, which sets the promise with its number.\<close>

datatype 'u MessageCallback = UserCallback 'u | SetPromise nat

record 'u CallbackEntry =
  ce_instance :: nat
  ce_func :: "'u MessageCallback option"

type_synonym 'u handlers = "(string \<times> 'u CallbackEntry list) list"

record 'u ConnectionManager =
  cm_clientId :: string
  cm_worker :: "ZmqWorker option"
  cm_queue :: "Envelope SafeQueue"
  cm_running :: bool
  cm_connected :: bool
  cm_handlers :: "'u handlers"

record 'u client =
  c_instance :: "'u ConnectionManager option"
  c_pending :: "(string \<times> 'u MessageCallback option \<times> nat) list"
  c_promises :: "nat \<Rightarrow> string option"

datatype callback_outcome = Returned | ThrewException string | ThrewOther

type_synonym 'u user_code = "'u \<Rightarrow> string \<Rightarrow> string \<Rightarrow> 'u client \<Rightarrow> callback_outcome \<times> 'u client"

fun omap_put :: "'k::linorder \<Rightarrow> 'v \<Rightarrow> ('k \<times> 'v) list \<Rightarrow> ('k \<times> 'v) list" where
  "omap_put k v [] = [(k, v)]"
| "omap_put k v ((k', v') # m) =
     (if k < k' then (k, v) # (k', v') # m else if k = k' then (k, v) # m else (k', v') # omap_put k v m)"

subsection \<open>The object\<close>

definition createControlEnvelope :: "string \<Rightarrow> string \<Rightarrow> 'u ConnectionManager \<Rightarrow> Envelope" where
  "createControlEnvelope controlKey tpc cm =
     \<lparr>header = set_topic tpc (set_sender_id (cm_clientId cm) (set_handler_key controlKey MessageHeader_new)), payload = []\<rparr>"

definition sendRawEnvelope :: "Envelope \<Rightarrow> 'u ConnectionManager \<Rightarrow> bool \<times> 'u ConnectionManager" where
  "sendRawEnvelope env cm =
     (case cm_worker cm of
        None \<Rightarrow> (False, cm)
      | Some w \<Rightarrow>
          (case (if isControlMessage (handler_key (header env)) then writeControlMessage env w else writeMessage env w) of
             (ok, w') \<Rightarrow> (ok, cm\<lparr>cm_worker := Some w'\<rparr>)))"

definition send_subscriptions :: "string list \<Rightarrow> 'u ConnectionManager \<Rightarrow> 'u ConnectionManager" where
  "send_subscriptions topics cm =
     fold (\<lambda>tpc cm. snd (sendRawEnvelope (createControlEnvelope Keys_SUBSCRIBE tpc cm) cm)) topics cm"

definition statusHandler :: "bool \<Rightarrow> 'u ConnectionManager \<Rightarrow> 'u ConnectionManager" where
  "statusHandler online cm =
     (let cm = cm\<lparr>cm_connected := online\<rparr> in
      if online then
        send_subscriptions (map fst (cm_handlers cm))
          (snd (sendRawEnvelope (createControlEnvelope Keys_CONNECT [] cm) cm))
      else cm)"

definition ConnectionManager_new :: "ConnectionConfig \<Rightarrow> 'u ConnectionManager" where
  "ConnectionManager_new config =
     \<lparr>cm_clientId = cfg_clientId config,
      cm_worker = (if cfg_protocol config = ZMQ then Some (ZmqWorker_start (ZmqWorker_new config)) else None),
      cm_queue = SafeQueue_default, cm_running = True, cm_connected = False, cm_handlers = []\<rparr>"

definition ConnectionManager_delete :: "'u ConnectionManager \<Rightarrow> 'u ConnectionManager" where
  "ConnectionManager_delete cm =
     cm\<lparr>cm_running := False, cm_queue := SafeQueue_stop (cm_queue cm), cm_worker := map_option ZmqWorker_stop (cm_worker cm)\<rparr>"

definition resubscribeAll :: "'u ConnectionManager \<Rightarrow> 'u ConnectionManager" where
  "resubscribeAll cm = send_subscriptions (map fst (cm_handlers cm)) cm"

definition performRegistration :: "string \<Rightarrow> 'u MessageCallback option \<Rightarrow> nat \<Rightarrow> 'u ConnectionManager \<Rightarrow> 'u ConnectionManager" where
  "performRegistration key callback inst cm =
     (let entries = vec_of (map_of (cm_handlers cm) key);
          cm = cm\<lparr>cm_handlers := omap_put key (entries @ [\<lparr>ce_instance = inst, ce_func = callback\<rparr>]) (cm_handlers cm)\<rparr>
      in if cm_connected cm then snd (sendRawEnvelope (createControlEnvelope Keys_SUBSCRIBE key cm) cm) else cm)"

definition performUnregistration :: "string \<Rightarrow> nat \<Rightarrow> 'u ConnectionManager \<Rightarrow> 'u ConnectionManager" where
  "performUnregistration key inst cm =
     (case map_of (cm_handlers cm) key of
        None \<Rightarrow> cm
      | Some vec \<Rightarrow>
          let vec = filter (\<lambda>entry. ce_instance entry \<noteq> inst) vec in
          if vec = [] then
            let cm = cm\<lparr>cm_handlers := AList.delete key (cm_handlers cm)\<rparr> in
            if cm_connected cm then
              snd (sendRawEnvelope \<lparr>header = set_topic key (set_sender_id (cm_clientId cm) (set_handler_key Keys_UNSUBSCRIBE MessageHeader_new)),
                                    payload = []\<rparr> cm)
            else cm
          else cm\<lparr>cm_handlers := omap_put key vec (cm_handlers cm)\<rparr>)"

definition sendDataInternal :: "string \<Rightarrow> string \<Rightarrow> 'u ConnectionManager \<Rightarrow> bool \<times> 'u ConnectionManager" where
  "sendDataInternal key data cm =
     sendRawEnvelope \<lparr>header = set_topic key (set_sender_id (cm_clientId cm) (set_handler_key key MessageHeader_new)), payload = data\<rparr> cm"

definition sendReplyEnvelope :: "string \<Rightarrow> Envelope \<Rightarrow> 'u ConnectionManager \<Rightarrow> bool \<times> 'u ConnectionManager" where
  "sendReplyEnvelope currentReplyTopic reply cm =
     (if currentReplyTopic = [] then (False, cm)
      else sendRawEnvelope (reply\<lparr>header := set_topic currentReplyTopic (set_sender_id (cm_clientId cm)
             (set_handler_key currentReplyTopic (header reply)))\<rparr>) cm)"

subsection \<open>The static interface\<close>

definition client_new :: "'u client" where
  "client_new = \<lparr>c_instance = None, c_pending = [], c_promises = (\<lambda>_. None)\<rparr>"

definition ConnectionManager_init :: "ConnectionConfig \<Rightarrow> 'u client \<Rightarrow> 'u client" where
  "ConnectionManager_init config c =
     (case c_instance c of
        Some _ \<Rightarrow> c
      | None \<Rightarrow>
          c\<lparr>c_instance := Some (fold (\<lambda>(key, cb, inst). performRegistration key cb inst) (c_pending c) (ConnectionManager_new config)),
            c_pending := []\<rparr>)"

text \<open>The second component is the object whose last reference \<open>shutdown\<close> drops, after its destructor ran.\<close>

definition say_goodbye :: "'u ConnectionManager \<Rightarrow> 'u ConnectionManager" where
  "say_goodbye cm =
     (let cm = cm\<lparr>cm_running := False\<rparr> in
      case cm_worker cm of
        Some w \<Rightarrow>
          if cm_connected cm
          then cm\<lparr>cm_worker := Some (snd (writeControlMessage
                 \<lparr>header = set_topic [] (set_sender_id (cm_clientId cm) (set_handler_key Keys_DISCONNECT MessageHeader_new)), payload = []\<rparr> w))\<rparr>
          else cm
      | None \<Rightarrow> cm)"

definition ConnectionManager_shutdown :: "'u client \<Rightarrow> 'u client \<times> 'u ConnectionManager option" where
  "ConnectionManager_shutdown c =
     (case c_instance c of
        None \<Rightarrow> (c, None)
      | Some cm \<Rightarrow> (c\<lparr>c_instance := None\<rparr>, Some (ConnectionManager_delete (say_goodbye cm))))"

definition getInstance :: "'u client \<Rightarrow> 'u ConnectionManager option" where
  "getInstance c = c_instance c"

definition with_instance :: "('u ConnectionManager \<Rightarrow> bool \<times> 'u ConnectionManager) \<Rightarrow> 'u client \<Rightarrow> bool \<times> 'u client" where
  "with_instance f c =
     (case getInstance c of
        None \<Rightarrow> (False, c)
      | Some self \<Rightarrow> (case f self of (ok, self') \<Rightarrow> (ok, c\<lparr>c_instance := Some self'\<rparr>)))"

definition ConnectionManager_sendMessage :: "string \<Rightarrow> string \<Rightarrow> 'u client \<Rightarrow> bool \<times> 'u client" where
  "ConnectionManager_sendMessage key message c = with_instance (sendDataInternal key message) c"

definition ConnectionManager_sendData :: "string \<Rightarrow> string \<Rightarrow> 'u client \<Rightarrow> bool \<times> 'u client" where
  "ConnectionManager_sendData key data c = with_instance (sendDataInternal key data) c"

definition ConnectionManager_sendDataRaw :: "string \<Rightarrow> string \<Rightarrow> nat \<Rightarrow> 'u client \<Rightarrow> bool \<times> 'u client" where
  "ConnectionManager_sendDataRaw key data len c = with_instance (sendDataInternal key (take len data)) c"

definition sendMessage_typed :: "any_runtime \<Rightarrow> 'a payload_type \<Rightarrow> string \<Rightarrow> 'a \<Rightarrow> 'u client \<Rightarrow> bool \<times> 'u client" where
  "sendMessage_typed ar ty key v c =
     with_instance (\<lambda>self. sendRawEnvelope
       \<lparr>header = set_topic key (set_sender_id (cm_clientId self) (set_handler_key key MessageHeader_new)),
        payload = encodePayload ar ty v\<rparr> self) c"

definition registerInternal :: "string \<Rightarrow> 'u MessageCallback option \<Rightarrow> nat \<Rightarrow> 'u client \<Rightarrow> 'u client" where
  "registerInternal key callback inst c =
     (case c_instance c of
        Some cm \<Rightarrow> c\<lparr>c_instance := Some (performRegistration key callback inst cm)\<rparr>
      | None \<Rightarrow> c\<lparr>c_pending := c_pending c @ [(key, callback, inst)]\<rparr>)"

definition registerCallback :: "string \<Rightarrow> 'u MessageCallback option \<Rightarrow> 'u client \<Rightarrow> 'u client" where
  "registerCallback key callback c = registerInternal key callback 0 c"

definition unregisterCallback :: "string \<Rightarrow> nat \<Rightarrow> 'u client \<Rightarrow> 'u client" where
  "unregisterCallback key inst c =
     (case getInstance c of
        None \<Rightarrow> c
      | Some self \<Rightarrow> c\<lparr>c_instance := Some (performUnregistration key inst self)\<rparr>)"

definition ConnectionManager_replyToSender :: "any_runtime \<Rightarrow> 'a payload_type \<Rightarrow> string \<Rightarrow> 'a \<Rightarrow> 'u client \<Rightarrow> bool \<times> 'u client" where
  "ConnectionManager_replyToSender ar ty currentReplyTopic v c =
     with_instance (sendReplyEnvelope currentReplyTopic \<lparr>header = MessageHeader_new, payload = encodePayload ar ty v\<rparr>) c"

definition sendRequest_begin ::
    "(nat \<Rightarrow> 4 word) \<times> 2 word \<Rightarrow> nat \<Rightarrow> string \<Rightarrow> string \<Rightarrow> 'u client \<Rightarrow> (string \<times> 'u client) option" where
  "sendRequest_begin rnd promise requestTopic body c =
     (case getInstance c of
        None \<Rightarrow> None
      | Some self \<Rightarrow>
          let replyTopic = requestTopic @ generateUUID (fst rnd) (snd rnd);
              self = performRegistration replyTopic (Some (SetPromise promise)) promise self;
              request = \<lparr>header = set_reply_topic replyTopic (set_topic requestTopic (set_sender_id (cm_clientId self)
                           (set_handler_key requestTopic MessageHeader_new))), payload = body\<rparr>;
              self = snd (sendRawEnvelope request self)
          in Some (replyTopic, c\<lparr>c_instance := Some self\<rparr>))"

definition sendRequest_end :: "nat \<Rightarrow> string \<Rightarrow> 'u client \<Rightarrow> string option \<times> 'u client" where
  "sendRequest_end promise replyTopic c =
     (c_promises c promise,
      case c_instance c of
        None \<Rightarrow> c
      | Some self \<Rightarrow> c\<lparr>c_instance := Some (performUnregistration replyTopic promise self)\<rparr>)"

text \<open>The template \<open>sendRequest<ReqT, ResT>\<close> sends the bare encoding of the request and decodes the reply.\<close>

definition sendRequest_typed_end :: "any_runtime \<Rightarrow> 'a payload_type \<Rightarrow> nat \<Rightarrow> string \<Rightarrow> 'u client \<Rightarrow> 'a option \<times> 'u client" where
  "sendRequest_typed_end ar ty promise replyTopic c =
     (case sendRequest_end promise replyTopic c of
        (Some raw, c) \<Rightarrow> (decodePayload ar ty raw, c)
      | (None, c) \<Rightarrow> (None, c))"

text \<open>The lambda that the typed \<open>registerCallback\<close> wraps around a function of the decoded value.\<close>

definition typed_callback :: "any_runtime \<Rightarrow> 'a payload_type \<Rightarrow> ('a \<Rightarrow> string \<Rightarrow> 'u client \<Rightarrow> callback_outcome \<times> 'u client)
     \<Rightarrow> string \<Rightarrow> string \<Rightarrow> 'u client \<Rightarrow> callback_outcome \<times> 'u client" where
  "typed_callback ar ty func replyTopic raw c =
     (case decodePayload ar ty raw of
        Some v \<Rightarrow> func v replyTopic c
      | None \<Rightarrow> (Returned, c))"

subsection \<open>The processing thread\<close>

definition set_promise :: "nat \<Rightarrow> string \<Rightarrow> 'u client \<Rightarrow> 'u client" where
  "set_promise p data c =
     (case c_promises c p of
        None \<Rightarrow> c\<lparr>c_promises := (c_promises c)(p := Some data)\<rparr>
      | Some _ \<Rightarrow> c)"

definition run_callback :: "'u user_code \<Rightarrow> string \<Rightarrow> string \<Rightarrow> 'u CallbackEntry \<Rightarrow> 'u client \<Rightarrow> 'u client" where
  "run_callback user replyTopic data entry c =
     (case ce_func entry of
        None \<Rightarrow> c
      | Some (SetPromise p) \<Rightarrow> set_promise p data c
      | Some (UserCallback f) \<Rightarrow> (case user f replyTopic data c of (_, c') \<Rightarrow> c'))"

definition handleMessage :: "'u user_code \<Rightarrow> Envelope \<Rightarrow> 'u client \<Rightarrow> 'u client" where
  "handleMessage user env c =
     (case c_instance c of
        None \<Rightarrow> c
      | Some self \<Rightarrow>
          fold (run_callback user (reply_topic (header env)) (payload env))
            (vec_of (map_of (cm_handlers self) (topic (header env)))) c)"

text \<open>
  One turn of the loop on the instance: \<^const>\<open>None\<close> while the thread waits for a message, \<open>Some (False, c)\<close> when the
  loop ends.
\<close>

definition processing_step :: "'u user_code \<Rightarrow> 'u client \<Rightarrow> (bool \<times> 'u client) option" where
  "processing_step user c =
     (case c_instance c of
        None \<Rightarrow> Some (False, c)
      | Some self \<Rightarrow>
          (case SafeQueue_pop (cm_queue self) of
             None \<Rightarrow> None
           | Some (None, q) \<Rightarrow> Some (False, c\<lparr>c_instance := Some (self\<lparr>cm_queue := q\<rparr>)\<rparr>)
           | Some (Some env, q) \<Rightarrow>
               let self = self\<lparr>cm_queue := q\<rparr>; c = c\<lparr>c_instance := Some self\<rparr> in
               if \<not> cm_running self then Some (False, c)
               else if handler_key (header env) = Keys_RESET then Some (True, c\<lparr>c_instance := Some (resubscribeAll self)\<rparr>)
               else Some (True, handleMessage user env c)))"

subsection \<open>The worker's owner\<close>

definition manager_push :: "Envelope \<Rightarrow> 'u ConnectionManager \<Rightarrow> 'u ConnectionManager" where
  "manager_push env cm = cm\<lparr>cm_queue := snd (SafeQueue_push_for env (cm_queue cm))\<rparr>"

text \<open>The status handler runs on the worker's thread and writes to that worker.\<close>

definition manager_status :: "bool \<Rightarrow> 'u ConnectionManager \<times> ZmqWorker \<Rightarrow> 'u ConnectionManager \<times> ZmqWorker" where
  "manager_status online uw =
     (let cm = statusHandler online ((fst uw)\<lparr>cm_worker := Some (snd uw)\<rparr>) in
      (cm, case cm_worker cm of Some w \<Rightarrow> w | None \<Rightarrow> snd uw))"

definition manager_hooks :: "'u ConnectionManager worker_hooks" where
  "manager_hooks = \<lparr>inbound_push = Some manager_push, message_callback = None, status_callback = Some manager_status\<rparr>"

end
