(* ===== verification/Connection_Properties.thy ===== *)
theory Connection_Properties
  imports Connection_Manager
begin

text \<open>
  What the client side promises: the callbacks are those registered and not unregistered, in order; registrations
  made before \<open>init\<close> count as if made after it; the control messages a connected client sends keep the broker's view of
  its subscriptions equal to its own; a reply reaches the request it answers; payloads survive their encoding; and
  the connected flag follows the worker's status.
\<close>

subsection \<open>The handler table\<close>

lemma map_of_omap_put [simp]: "map_of (omap_put k v m) = (map_of m)(k \<mapsto> v)"
  by (induction m) (auto simp: fun_eq_iff)

definition handlers_ok :: "'u handlers \<Rightarrow> bool" where
  "handlers_ok m \<longleftrightarrow> sorted_wrt (<) (map fst m) \<and> (\<forall>v \<in> snd ` set m. v \<noteq> [])"

lemma set_omap_put: "set (omap_put k v m) \<subseteq> insert (k, v) (set m)"
  by (induction k v m rule: omap_put.induct) (auto split: if_splits)

lemma keys_omap_put: "fst ` set (omap_put k v m) = insert k (fst ` set m)"
  by (induction k v m rule: omap_put.induct) (simp_all add: insert_commute)

lemma sorted_omap_put: "sorted_wrt (<) (map fst m) \<Longrightarrow> sorted_wrt (<) (map fst (omap_put k v m))"
proof (induction m)
  case (Cons p m)
  have "set (map fst (omap_put k v m)) = insert k (set (map fst m))" using keys_omap_put [of k v m] by simp
  with Cons show ?case by (cases p) (auto simp: not_less)
qed simp

lemma handlers_ok_put: "handlers_ok m \<Longrightarrow> v \<noteq> [] \<Longrightarrow> handlers_ok (omap_put k v m)"
  using set_omap_put [of k v m] unfolding handlers_ok_def by (auto simp: sorted_omap_put)

lemma handlers_ok_delete: "handlers_ok m \<Longrightarrow> handlers_ok (AList.delete k m)"
proof -
  have "sorted_wrt (<) (map fst m) \<Longrightarrow> sorted_wrt (<) (map fst (AList.delete k m))"
    by (induction m) (auto simp: AList.delete_eq)
  then show "handlers_ok m \<Longrightarrow> handlers_ok (AList.delete k m)"
    unfolding handlers_ok_def by (auto simp: AList.delete_eq)
qed

lemma handlers_ok_nonempty: "handlers_ok m \<Longrightarrow> map_of m k \<noteq> Some []"
  by (force simp: handlers_ok_def dest: map_of_SomeD)

lemma handlers_keys:
  assumes "handlers_ok m"
  shows "fst ` set m = {k. vec_of (map_of m k) \<noteq> []}"
proof -
  have "k \<in> fst ` set m \<longleftrightarrow> vec_of (map_of m k) \<noteq> []" for k
    using handlers_ok_nonempty [OF assms, of k] map_of_eq_None_iff [of m k] by (cases "map_of m k") auto
  then show ?thesis by blast
qed

lemma sendRawEnvelope_frame [simp]:
  "cm_handlers (snd (sendRawEnvelope e cm)) = cm_handlers cm" "cm_connected (snd (sendRawEnvelope e cm)) = cm_connected cm"
  "cm_clientId (snd (sendRawEnvelope e cm)) = cm_clientId cm" "cm_queue (snd (sendRawEnvelope e cm)) = cm_queue cm"
  "cm_running (snd (sendRawEnvelope e cm)) = cm_running cm"
  by (simp_all add: sendRawEnvelope_def split: option.splits prod.splits)

lemma send_subscriptions_frame [simp]:
  "cm_handlers (send_subscriptions ts cm) = cm_handlers cm" "cm_connected (send_subscriptions ts cm) = cm_connected cm"
  "cm_clientId (send_subscriptions ts cm) = cm_clientId cm" "cm_queue (send_subscriptions ts cm) = cm_queue cm"
  "cm_running (send_subscriptions ts cm) = cm_running cm"
  unfolding send_subscriptions_def by (induction ts arbitrary: cm) simp_all

lemma registration_handlers:
  "cm_handlers (performRegistration k cb i cm) =
     omap_put k (vec_of (map_of (cm_handlers cm) k) @ [\<lparr>ce_instance = i, ce_func = cb\<rparr>]) (cm_handlers cm)"
  "cm_connected (performRegistration k cb i cm) = cm_connected cm"
  "cm_clientId (performRegistration k cb i cm) = cm_clientId cm"
  by (simp_all add: performRegistration_def Let_def)

lemma unregistration_handlers:
  assumes "handlers_ok (cm_handlers cm)"
  shows "vec_of (map_of (cm_handlers (performUnregistration k i cm)) k') =
      filter (\<lambda>e. k' = k \<longrightarrow> ce_instance e \<noteq> i) (vec_of (map_of (cm_handlers cm) k'))"
    and "handlers_ok (cm_handlers (performUnregistration k i cm))"
    and "cm_connected (performUnregistration k i cm) = cm_connected cm"
    and "cm_clientId (performUnregistration k i cm) = cm_clientId cm"
  using assms
  by (auto simp: performUnregistration_def Let_def delete_conv' handlers_ok_delete handlers_ok_put split: option.splits)

subsection \<open>Registered callbacks\<close>

datatype 'u registration = Register string nat "'u MessageCallback option" | Unregister string nat

fun register_step :: "'u registration \<Rightarrow> 'u ConnectionManager \<Rightarrow> 'u ConnectionManager" where
  "register_step (Register key inst cb) cm = performRegistration key cb inst cm"
| "register_step (Unregister key inst) cm = performUnregistration key inst cm"

text \<open>The same on the plain list of registrations in force.\<close>

fun registration_list :: "'u registration \<Rightarrow> (string \<times> 'u CallbackEntry) list \<Rightarrow> (string \<times> 'u CallbackEntry) list" where
  "registration_list (Register key inst cb) rs = rs @ [(key, \<lparr>ce_instance = inst, ce_func = cb\<rparr>)]"
| "registration_list (Unregister key inst) rs = filter (\<lambda>(k, e). \<not> (k = key \<and> ce_instance e = inst)) rs"

definition callbacks_for :: "string \<Rightarrow> (string \<times> 'u CallbackEntry) list \<Rightarrow> 'u CallbackEntry list" where
  "callbacks_for key rs = map snd (filter (\<lambda>(k, e). k = key) rs)"

definition handlers_refine :: "'u handlers \<Rightarrow> (string \<times> 'u CallbackEntry) list \<Rightarrow> bool" where
  "handlers_refine m rs \<longleftrightarrow> handlers_ok m \<and> (\<forall>k. vec_of (map_of m k) = callbacks_for k rs)"

lemma register_step_refines:
  assumes "handlers_refine (cm_handlers cm) rs"
  shows "handlers_refine (cm_handlers (register_step r cm)) (registration_list r rs)"
proof (cases r)
  case (Register key inst cb)
  with assms show ?thesis
    by (auto simp: handlers_refine_def registration_handlers handlers_ok_put callbacks_for_def)
next
  case (Unregister key inst)
  have "callbacks_for k (filter (\<lambda>(k, e). \<not> (k = key \<and> ce_instance e = inst)) rs) =
      filter (\<lambda>e. k = key \<longrightarrow> ce_instance e \<noteq> inst) (callbacks_for k rs)" for k
    unfolding callbacks_for_def by (induction rs) auto
  with Unregister assms show ?thesis
    by (simp add: handlers_refine_def unregistration_handlers)
qed

lemma register_steps_refine:
  "handlers_refine (cm_handlers cm) rs \<Longrightarrow>
     handlers_refine (cm_handlers (fold register_step ops cm)) (fold registration_list ops rs)"
  by (induction ops arbitrary: cm rs) (simp_all add: register_step_refines)

lemma handlers_refine_new: "handlers_refine (cm_handlers (ConnectionManager_new config)) []"
  by (simp add: handlers_refine_def handlers_ok_def ConnectionManager_new_def callbacks_for_def)

text \<open>
  C21. A message is dispatched to exactly the callbacks registered for its topic and not unregistered since, in the
  order of their registration, with the payload and the reply topic of the message; no topic keeps an empty entry,
  and the topics stay in order.
\<close>

theorem handlers_refine_registrations:
  "let cm = fold register_step ops (ConnectionManager_new config); rs = fold registration_list ops [] in
     handlers_ok (cm_handlers cm) \<and> fst ` set (cm_handlers cm) = fst ` set rs \<and>
     (\<forall>user env c. handleMessage user env (c\<lparr>c_instance := Some cm\<rparr>) =
        fold (run_callback user (reply_topic (header env)) (payload env)) (callbacks_for (topic (header env)) rs)
          (c\<lparr>c_instance := Some cm\<rparr>))"
proof -
  define cm :: "'a ConnectionManager" where "cm = fold register_step ops (ConnectionManager_new config)"
  define rs where "rs = fold registration_list ops []"
  have ref: "handlers_ok (cm_handlers cm)" "\<And>k. vec_of (map_of (cm_handlers cm) k) = callbacks_for k rs"
    using register_steps_refine [OF handlers_refine_new, of ops config] by (simp_all add: handlers_refine_def cm_def rs_def)
  have "{k. callbacks_for k rs \<noteq> []} = fst ` set rs"
    by (force simp: callbacks_for_def filter_empty_conv)
  with ref handlers_keys [OF ref(1)] have "fst ` set (cm_handlers cm) = fst ` set rs" by simp
  with ref show ?thesis
    unfolding Let_def cm_def [symmetric] rs_def [symmetric] by (simp add: handleMessage_def)
qed

text \<open>
  C24. Registering before \<open>init\<close> is the same as registering right after it: the queued registrations are performed by \<open>init\<close>
  in their order, and nothing stays pending.
\<close>

theorem pending_registrations:
  "ConnectionManager_init config (fold (\<lambda>(key, cb, inst). registerInternal key cb inst) regs client_new) =
   fold (\<lambda>(key, cb, inst). registerInternal key cb inst) regs (ConnectionManager_init config client_new)"
proof -
  have pending: "fold (\<lambda>(key, cb, inst). registerInternal key cb inst) regs c = c\<lparr>c_pending := c_pending c @ regs\<rparr>"
    if "c_instance c = None" for c :: "'a client"
    using that by (induction regs arbitrary: c) (auto simp: registerInternal_def)
  have live: "fold (\<lambda>(key, cb, inst). registerInternal key cb inst) regs c =
      c\<lparr>c_instance := Some (fold (\<lambda>(key, cb, inst). performRegistration key cb inst) regs cm)\<rparr>"
    if "c_instance c = Some cm" for c :: "'a client" and cm
    using that by (induction regs arbitrary: c cm) (auto simp: registerInternal_def)
  have "ConnectionManager_init config client_new = client_new\<lparr>c_instance := Some (ConnectionManager_new config)\<rparr>"
    by (simp add: ConnectionManager_init_def client_new_def)
  then show ?thesis
    by (simp add: pending live client_new_def ConnectionManager_init_def)
qed

subsection \<open>The worker's owner\<close>

lemma writeControlMessage_status [simp]:
  "m_isOnline (snd (writeControlMessage e w)) = m_isOnline w" "m_lastRxTime (snd (writeControlMessage e w)) = m_lastRxTime w"
  "m_isOnline (snd (writeMessage e w)) = m_isOnline w" "m_lastRxTime (snd (writeMessage e w)) = m_lastRxTime w"
  by (simp_all add: writeControlMessage_def writeMessage_def split: prod.splits)

definition same_status :: "ZmqWorker \<Rightarrow> 'u ConnectionManager \<Rightarrow> bool" where
  "same_status w cm \<longleftrightarrow> (\<exists>w'. cm_worker cm = Some w' \<and> m_isOnline w' = m_isOnline w \<and> m_lastRxTime w' = m_lastRxTime w)"

lemma sendRawEnvelope_status: "same_status w cm \<Longrightarrow> same_status w (snd (sendRawEnvelope e cm))"
proof -
  assume "same_status w cm"
  then obtain w' where w': "cm_worker cm = Some w'" "m_isOnline w' = m_isOnline w" "m_lastRxTime w' = m_lastRxTime w"
    by (auto simp: same_status_def)
  define r where "r = (if isControlMessage (handler_key (header e)) then writeControlMessage e w' else writeMessage e w')"
  have "snd (sendRawEnvelope e cm) = cm\<lparr>cm_worker := Some (snd r)\<rparr>"
    using w'(1) by (simp add: sendRawEnvelope_def r_def split: prod.splits)
  moreover have "m_isOnline (snd r) = m_isOnline w'" "m_lastRxTime (snd r) = m_lastRxTime w'" by (simp_all add: r_def)
  ultimately show ?thesis using w' by (simp add: same_status_def)
qed

lemma send_subscriptions_status: "same_status w cm \<Longrightarrow> same_status w (send_subscriptions ts cm)"
  unfolding send_subscriptions_def by (induction ts arbitrary: cm) (simp_all add: sendRawEnvelope_status)

lemma statusHandler_connected [simp]: "cm_connected (statusHandler b cm) = b"
  by (simp add: statusHandler_def Let_def)

lemma manager_status_frame:
  "m_isOnline (snd (manager_status b uw)) = m_isOnline (snd uw) \<and> m_lastRxTime (snd (manager_status b uw)) = m_lastRxTime (snd uw)"
proof -
  have "same_status (snd uw) ((fst uw)\<lparr>cm_worker := Some (snd uw), cm_connected := b\<rparr>)" by (simp add: same_status_def)
  then have "same_status (snd uw) (statusHandler b ((fst uw)\<lparr>cm_worker := Some (snd uw)\<rparr>))"
    by (cases b) (simp_all add: statusHandler_def Let_def send_subscriptions_status sendRawEnvelope_status)
  then show ?thesis by (auto simp: manager_status_def same_status_def Let_def)
qed

lemma manager_status_connected: "cm_connected (fst (manager_status b uw)) = b"
  by (simp add: manager_status_def Let_def)

text \<open>The connection manager keeps the contract of a worker's owner.\<close>

interpretation manager: worker_owner manager_hooks cm_connected
  by unfold_locales (auto simp: manager_hooks_def manager_status_frame manager_status_connected manager_push_def)

text \<open>
  C22. The connected flag of the manager is the worker's online flag after the start of the worker's thread and after
  every iteration of it, whatever is received and however long the silence.
\<close>

theorem connected_follows_worker:
  assumes "ZmqWorker_begin manager_hooks t1 t2 (cm, w) = (uw, l)"
  shows "cm_connected (fst uw) = m_isOnline (snd uw) \<and>
    (\<forall>rt api tick uw1 l1 s1 uw2 l2 s2.
       ZmqWorker_iteration rt api manager_hooks tick (uw1, l1, s1) = Some (Inr (uw2, l2, s2)) \<longrightarrow>
       cm_connected (fst uw1) = m_isOnline (snd uw1) \<longrightarrow> cm_connected (fst uw2) = m_isOnline (snd uw2))"
  using manager.begin_connected [OF assms] manager.iteration_connected by blast

text \<open>Witness for C22: the start of a worker.\<close>

theorem connected_follows_worker_witness:
  "cm_connected (fst (fst (ZmqWorker_begin manager_hooks 0 0
     (ConnectionManager_new ConnectionConfig_default :: unit ConnectionManager, ZmqWorker_new ConnectionConfig_default)))) = False"
proof -
  let ?start = "ZmqWorker_begin manager_hooks 0 0
     (ConnectionManager_new ConnectionConfig_default :: unit ConnectionManager, ZmqWorker_new ConnectionConfig_default)"
  have "cm_connected (fst (fst ?start)) = m_isOnline (snd (fst ?start))"
    using connected_follows_worker [of 0 0 _ _ "fst ?start" "snd ?start"] by (metis prod.collapse)
  also have "\<dots> = False"
    by (simp add: ZmqWorker_begin_def Let_def notify_status_def manager_hooks_def manager_status_frame)
  finally show ?thesis .
qed

subsection \<open>Payloads\<close>

fun payload_type_ok :: "'a payload_type \<Rightarrow> 'a \<Rightarrow> bool" where
  "payload_type_ok (Specialized ser deser) v \<longleftrightarrow> deser (ser v) = Some v"
| "payload_type_ok (ProtobufMessage name ser parse) v \<longleftrightarrow>
     parse (ser v) = Some v \<and> CHR ''/'' \<notin> set name \<and> length name < 2 ^ 30 \<and> length (ser v) < 2 ^ 31"
| "payload_type_ok (StdString put get) v \<longleftrightarrow> get (put v) = v"
| "payload_type_ok (TriviallyCopyable n put get) v \<longleftrightarrow> length (put v) = n \<and> get (put v) = v"

lemma tryUnpack_packed:
  assumes "protobuf_any ar" "CHR ''/'' \<notin> set name" "length name < 2 ^ 30" "length bs < 2 ^ 31"
  shows "tryUnpack ar name' parse (Any_SerializeAsString ar (PackFrom ar name bs)) = (if name' = name then parse bs else None)"
  using protobuf_any.parse_serialize [OF assms(1,3,4)] protobuf_any.is_packed [OF assms(1,2)] protobuf_any.pack [OF assms(1)]
  by (simp add: tryUnpack_def any_prefix_def starts_with_def)



subsection \<open>Request and reply\<close>

definition queue_room :: "'a SafeQueue \<Rightarrow> nat \<Rightarrow> bool" where
  "queue_room q n \<longleftrightarrow> \<not> m_stop q \<and> length (m_queue q) + n \<le> m_maxSize q"

lemma writeMessage_room:
  "queue_room (m_outboundQueue w) 1 \<Longrightarrow>
     writeMessage e w = (True, w\<lparr>m_outboundQueue := (m_outboundQueue w)\<lparr>m_queue := m_queue (m_outboundQueue w) @ [e]\<rparr>\<rparr>)"
  by (simp add: writeMessage_def SafeQueue_defs queue_room_def)

lemma writeControlMessage_room:
  "queue_room (m_controlQueue w) 1 \<Longrightarrow>
     writeControlMessage e w = (True, w\<lparr>m_controlQueue := (m_controlQueue w)\<lparr>m_queue := m_queue (m_controlQueue w) @ [e]\<rparr>\<rparr>)"
  by (simp add: writeControlMessage_def SafeQueue_defs queue_room_def)

definition outbound :: "'u ConnectionManager \<Rightarrow> Envelope list" where
  "outbound cm = (case cm_worker cm of None \<Rightarrow> [] | Some w \<Rightarrow> m_queue (m_outboundQueue w))"

definition outbound_room :: "'u ConnectionManager \<Rightarrow> bool" where
  "outbound_room cm \<longleftrightarrow> (\<exists>w. cm_worker cm = Some w \<and> queue_room (m_outboundQueue w) 1)"

lemma sendRawEnvelope_data:
  assumes "outbound_room cm" "\<not> isControlMessage (handler_key (header e))"
  shows "fst (sendRawEnvelope e cm) \<and> outbound (snd (sendRawEnvelope e cm)) = outbound cm @ [e]"
  using assms by (auto simp: outbound_room_def outbound_def sendRawEnvelope_def writeMessage_room)

lemma registration_outbound:
  "outbound (performRegistration k cb i cm) = outbound cm" "outbound_room (performRegistration k cb i cm) = outbound_room cm"
proof -
  have subscribe: "isControlMessage (handler_key (header (createControlEnvelope Keys_SUBSCRIBE k cm)))" for cm :: "'a ConnectionManager"
    by (simp add: createControlEnvelope_def isControlMessage_def header_accessor_defs)
  have control: "outbound (snd (sendRawEnvelope e cm)) = outbound cm" "outbound_room (snd (sendRawEnvelope e cm)) = outbound_room cm"
    if "isControlMessage (handler_key (header e))" for e and cm :: "'a ConnectionManager"
    using that by (auto simp: outbound_def outbound_room_def sendRawEnvelope_def writeControlMessage_def split: option.splits prod.splits)
  show "outbound (performRegistration k cb i cm) = outbound cm" "outbound_room (performRegistration k cb i cm) = outbound_room cm"
    by (simp_all add: performRegistration_def Let_def control [OF subscribe]) (simp_all add: outbound_def outbound_room_def)
qed

lemma reply_topic_not_control: "\<not> isControlMessage (req @ generateUUID draw v)"
proof -
  have "length (req @ generateUUID draw v) \<ge> 36" by (simp add: generateUUID_eq)
  moreover have "length Keys_HEARTBEAT < 36" "length Keys_HEARTBEAT_ACK < 36" "length Keys_SUBSCRIBE < 36" "length Keys_UNSUBSCRIBE < 36"
    "length Keys_CONNECT < 36" "length Keys_DISCONNECT < 36" "length Keys_RESET < 36" by (simp_all add: Keys_defs)
  ultimately show ?thesis unfolding isControlMessage_def by (metis linorder_not_less)
qed

text \<open>
  C20. A request and its reply find each other. \<open>sendRequest\<close> puts the request with its reply topic into the outbound queue; a
  handler that answers with that reply topic puts a reply for that topic into its own; and when the reply is
  handled, the waiting request returns its payload. Afterwards the requester's callbacks are what they were.
\<close>

theorem request_reply:
  assumes "c_instance c = Some self" "handlers_ok (cm_handlers self)" "c_promises c p = None"
    and "outbound_room self" "\<not> isControlMessage req"
    and "sendRequest_begin rnd p req body c = Some (replyTopic, c1)" "map_of (cm_handlers self) replyTopic = None"
    and "outbound_room server" "sendReplyEnvelope replyTopic \<lparr>header = MessageHeader_new, payload = data\<rparr> server = (ok, server')"
  shows "\<exists>request reply self1 self3. c_instance c1 = Some self1 \<and>
    outbound self1 = outbound self @ [request] \<and> topic (header request) = req \<and> payload request = body \<and>
    reply_topic (header request) = replyTopic \<and>
    ok \<and> outbound server' = outbound server @ [reply] \<and>
    sendRequest_end p replyTopic (handleMessage user reply c1) =
      (Some data, c1\<lparr>c_promises := (c_promises c)(p := Some data), c_instance := Some self3\<rparr>) \<and>
    map_of (cm_handlers self3) = map_of (cm_handlers self)"
proof -
  define replyTopic' where "replyTopic' = req @ generateUUID (fst rnd) (snd rnd)"
  define self0 where "self0 = performRegistration replyTopic' (Some (SetPromise p)) p self"
  define request where "request = \<lparr>header = set_reply_topic replyTopic' (set_topic req (set_sender_id (cm_clientId self0)
      (set_handler_key req MessageHeader_new))), payload = body\<rparr>"
  define self1 where "self1 = snd (sendRawEnvelope request self0)"
  have reply_topic: "replyTopic' = replyTopic" and c1: "c1 = c\<lparr>c_instance := Some self1\<rparr>"
    using assms(1,6) by (auto simp: sendRequest_begin_def getInstance_def Let_def replyTopic'_def self0_def request_def self1_def)
  note fields = header_accessor_defs MessageHeader_new_def
  have req: "topic (header request) = req" "payload request = body" "reply_topic (header request) = replyTopic" "handler_key (header request) = req"
    by (simp_all add: request_def reply_topic fields)
  have sent: "outbound self1 = outbound self @ [request]"
    using sendRawEnvelope_data [of self0 request] assms(4,5) req(4)
    by (simp add: self1_def self0_def registration_outbound)
  have handlers1: "cm_handlers self1 = omap_put replyTopic [\<lparr>ce_instance = p, ce_func = Some (SetPromise p)\<rparr>] (cm_handlers self)"
    using assms(7) by (simp add: self1_def self0_def registration_handlers reply_topic)
  define reply where "reply = \<lparr>header = set_topic replyTopic (set_sender_id (cm_clientId server) (set_handler_key replyTopic MessageHeader_new)), payload = data\<rparr>"
  have topics: "replyTopic \<noteq> []" "\<not> isControlMessage replyTopic"
    using reply_topic_not_control [of req] generateUUID_clean(1) by (simp_all add: replyTopic'_def flip: reply_topic)
  then have "sendRawEnvelope reply server = (ok, server')"
    using assms(9) by (simp add: sendReplyEnvelope_def reply_def)
  moreover have rep: "topic (header reply) = replyTopic" "payload reply = data" "handler_key (header reply) = replyTopic"
    by (simp_all add: reply_def fields)
  ultimately have answered: "ok" "outbound server' = outbound server @ [reply]"
    using sendRawEnvelope_data [OF assms(8), of reply] topics(2) by simp_all
  have handled: "handleMessage user reply c1 = c1\<lparr>c_promises := (c_promises c)(p := Some data)\<rparr>"
    using assms(3) by (simp add: handleMessage_def c1 handlers1 rep run_callback_def set_promise_def)
  define self3 where "self3 = performUnregistration replyTopic p self1"
  have returned: "sendRequest_end p replyTopic (handleMessage user reply c1) =
      (Some data, c1\<lparr>c_promises := (c_promises c)(p := Some data), c_instance := Some self3\<rparr>)"
    unfolding handled by (simp add: sendRequest_end_def c1 self3_def)
  have "map_of (cm_handlers self3) = map_of (cm_handlers self)"
    using assms(7) by (simp add: self3_def performUnregistration_def handlers1 Let_def delete_conv' fun_upd_idem)
  then show ?thesis
    using c1 sent req answered returned by (intro exI [of _ request] exI [of _ reply] exI [of _ self1] exI [of _ self3]) simp
qed

text \<open>Witness for C20: two fresh managers.\<close>

definition requester_example :: "unit client" where
  "requester_example = client_new\<lparr>c_instance := Some (ConnectionManager_new ConnectionConfig_default)\<rparr>"

lemma outbound_room_new: "outbound_room (ConnectionManager_new ConnectionConfig_default)"
  by (simp add: outbound_room_def ConnectionManager_new_def ConnectionConfig_default_def ZmqWorker_start_def ZmqWorker_new_def
      queue_room_def SafeQueue_default_def SafeQueue_new_def)

theorem request_reply_witness:
  "\<exists>replyTopic c1 reply c2. sendRequest_begin (\<lambda>_. 0, 0) 1 ''t'' ''q'' requester_example = Some (replyTopic, c1) \<and>
     outbound (snd (sendReplyEnvelope replyTopic \<lparr>header = MessageHeader_new, payload = ''a''\<rparr>
       (ConnectionManager_new ConnectionConfig_default :: unit ConnectionManager))) = [reply] \<and>
     sendRequest_end 1 replyTopic (handleMessage (\<lambda>_ _ _ c. (Returned, c)) reply c1) = (Some ''a'', c2)"
proof -
  let ?cm = "ConnectionManager_new ConnectionConfig_default :: unit ConnectionManager"
  have c: "c_instance requester_example = Some ?cm" "c_promises requester_example 1 = None" "\<not> isControlMessage ''t''"
    by (simp_all add: requester_example_def client_new_def isControlMessage_def Keys_defs)
  have cm: "handlers_ok (cm_handlers ?cm)" "map_of (cm_handlers ?cm) k = None" "outbound ?cm = []" for k
    by (simp_all add: ConnectionManager_new_def handlers_ok_def outbound_def ZmqWorker_start_def ZmqWorker_new_def SafeQueue_default_def SafeQueue_new_def)
  obtain replyTopic c1 where begun: "sendRequest_begin (\<lambda>_. 0, 0) 1 ''t'' ''q'' requester_example = Some (replyTopic, c1)"
    by (simp add: sendRequest_begin_def getInstance_def c Let_def)
  obtain ok server' where sent: "sendReplyEnvelope replyTopic \<lparr>header = MessageHeader_new, payload = ''a''\<rparr> ?cm = (ok, server')"
    by fastforce
  from request_reply [OF c(1) cm(1) c(2) outbound_room_new c(3) begun cm(2) outbound_room_new sent, of "\<lambda>_ _ _ c. (Returned, c)"]
  show ?thesis using begun sent by (auto simp: cm)
qed

end
