(* ===== verification/Subscription_Registry.thy ===== *)
theory Subscription_Registry
  imports Wisp_Prelude
begin

text \<open>
  \<open>server/subscriptionregistry.h\<close>: the two-sided client/topic mapping of the broker. The two
  \<open>unordered_map\<close>s are never iterated, so they are maps; the \<open>std::set\<close> of a client's topics is the
  sorted duplicate-free list of its elements (its iteration order), and the \<open>std::vector\<close> of a topic's
  subscribers is a list, from which \<open>dropSubscriber\<close> removes by moving the last element into the gap.

  What the class promises is the locale \<open>topic_registry\<close>: the operations act on one abstract relation
  between clients and topics, and both query functions read that relation. The interpretation \<open>reg\<close>
  proves it for the code.
\<close>

record SubscriptionRegistry =
  m_clientTopics :: "string \<rightharpoonup> string list"
  m_topicSubscribers :: "string \<rightharpoonup> string list"

definition SubscriptionRegistry_new :: SubscriptionRegistry where
  "SubscriptionRegistry_new = \<lparr>m_clientTopics = Map.empty, m_topicSubscribers = Map.empty\<rparr>"

definition find_pos :: "'a \<Rightarrow> 'a list \<Rightarrow> nat" where
  "find_pos x xs = length (takeWhile (\<lambda>y. y \<noteq> x) xs)"

definition dropSubscriber :: "string \<Rightarrow> string \<Rightarrow> SubscriptionRegistry \<Rightarrow> SubscriptionRegistry" where
  "dropSubscriber topic clientId r =
     (case m_topicSubscribers r topic of
        None \<Rightarrow> r
      | Some subs \<Rightarrow>
          (let pos = find_pos clientId subs;
               subs' = (if pos \<noteq> length subs then butlast (subs[pos := last subs]) else subs)
           in r\<lparr>m_topicSubscribers :=
                  (if subs' = [] then (m_topicSubscribers r)(topic := None)
                   else (m_topicSubscribers r)(topic \<mapsto> subs'))\<rparr>))"

definition subscribe :: "string \<Rightarrow> string \<Rightarrow> SubscriptionRegistry \<Rightarrow> bool \<times> SubscriptionRegistry" where
  "subscribe clientId topic r =
     (let topics = vec_of (m_clientTopics r clientId) in
      if topic \<in> set topics
      then (False, r\<lparr>m_clientTopics := (m_clientTopics r)(clientId \<mapsto> topics)\<rparr>)
      else (True, r\<lparr>m_clientTopics := (m_clientTopics r)(clientId \<mapsto> insort topic topics),
                    m_topicSubscribers := (m_topicSubscribers r)(topic \<mapsto>
                      vec_of (m_topicSubscribers r topic) @ [clientId])\<rparr>))"

definition unsubscribe :: "string \<Rightarrow> string \<Rightarrow> SubscriptionRegistry \<Rightarrow> bool \<times> SubscriptionRegistry" where
  "unsubscribe clientId topic r =
     (case m_clientTopics r clientId of
        None \<Rightarrow> (False, r)
      | Some topics \<Rightarrow>
          if topic \<notin> set topics then (False, r)
          else (let topics' = remove1 topic topics;
                    r' = r\<lparr>m_clientTopics :=
                             (if topics' = [] then (m_clientTopics r)(clientId := None)
                              else (m_clientTopics r)(clientId \<mapsto> topics'))\<rparr>
                in (True, dropSubscriber topic clientId r')))"

definition registry_removeClient :: "string \<Rightarrow> SubscriptionRegistry \<Rightarrow> SubscriptionRegistry" where
  "registry_removeClient clientId r =
     (case m_clientTopics r clientId of
        None \<Rightarrow> r
      | Some topics \<Rightarrow>
          (let r' = fold (\<lambda>topic. dropSubscriber topic clientId) topics r
           in r'\<lparr>m_clientTopics := (m_clientTopics r')(clientId := None)\<rparr>))"

definition subscribersOf :: "string \<Rightarrow> SubscriptionRegistry \<Rightarrow> string list option" where
  "subscribersOf topic r = m_topicSubscribers r topic"

definition subscriptionsOf :: "string \<Rightarrow> SubscriptionRegistry \<Rightarrow> string list option" where
  "subscriptionsOf clientId r = m_clientTopics r clientId"

subsection \<open>The interface\<close>

text \<open>
  \<open>subs r\<close> is the set of (client, topic) pairs of the registry. A query answers \<^const>\<open>None\<close> (the null
  pointer of the code) exactly when there is nothing to list.
\<close>

locale topic_registry =
  fixes ok :: "'r \<Rightarrow> bool"
    and subs :: "'r \<Rightarrow> ('c \<times> 't) set"
    and sub :: "'c \<Rightarrow> 't \<Rightarrow> 'r \<Rightarrow> bool \<times> 'r"
    and unsub :: "'c \<Rightarrow> 't \<Rightarrow> 'r \<Rightarrow> bool \<times> 'r"
    and remove :: "'c \<Rightarrow> 'r \<Rightarrow> 'r"
    and subscribers :: "'t \<Rightarrow> 'r \<Rightarrow> 'c list option"
    and subscriptions :: "'c \<Rightarrow> 'r \<Rightarrow> 't list option"
  assumes ok_sub: "ok r \<Longrightarrow> ok (snd (sub c t r))"
    and ok_unsub: "ok r \<Longrightarrow> ok (snd (unsub c t r))"
    and ok_remove: "ok r \<Longrightarrow> ok (remove c r)"
    and subs_sub: "ok r \<Longrightarrow> subs (snd (sub c t r)) = insert (c, t) (subs r)"
    and sub_result: "ok r \<Longrightarrow> fst (sub c t r) \<longleftrightarrow> (c, t) \<notin> subs r"
    and subs_unsub: "ok r \<Longrightarrow> subs (snd (unsub c t r)) = subs r - {(c, t)}"
    and unsub_result: "ok r \<Longrightarrow> fst (unsub c t r) \<longleftrightarrow> (c, t) \<in> subs r"
    and subs_remove: "ok r \<Longrightarrow> subs (remove c r) = subs r - {c} \<times> UNIV"
    and subscribers_None: "ok r \<Longrightarrow> subscribers t r = None \<longleftrightarrow> (\<forall>c. (c, t) \<notin> subs r)"
    and subscribers_Some: "ok r \<Longrightarrow> subscribers t r = Some cs \<Longrightarrow>
      distinct cs \<and> set cs = {c. (c, t) \<in> subs r}"
    and subscriptions_None: "ok r \<Longrightarrow> subscriptions c r = None \<longleftrightarrow> (\<forall>t. (c, t) \<notin> subs r)"
    and subscriptions_Some: "ok r \<Longrightarrow> subscriptions c r = Some ts \<Longrightarrow>
      distinct ts \<and> set ts = {t. (c, t) \<in> subs r}"
begin

lemma subscribers_set:
  "ok r \<Longrightarrow> set (vec_of (subscribers t r)) = {c. (c, t) \<in> subs r}"
  using subscribers_None [of r t] subscribers_Some [of r t] by (cases "subscribers t r") auto

lemma subscribers_distinct:
  "ok r \<Longrightarrow> distinct (vec_of (subscribers t r))"
  using subscribers_Some [of r t] by (cases "subscribers t r") auto

lemma sub_idempotent:
  "ok r \<Longrightarrow> r' = snd (sub c t r) \<Longrightarrow> \<not> fst (sub c t r') \<and> subs (snd (sub c t r')) = subs r'"
  by (auto simp: sub_result subs_sub ok_sub)

lemma sub_unsub_fresh:
  "ok r \<Longrightarrow> (c, t) \<notin> subs r \<Longrightarrow> subs (snd (unsub c t (snd (sub c t r)))) = subs r"
  by (simp add: subs_unsub subs_sub ok_sub)

end

subsection \<open>Removal by moving the last element into the gap\<close>

definition swap_remove :: "'a \<Rightarrow> 'a list \<Rightarrow> 'a list" where
  "swap_remove x xs =
     (let pos = find_pos x xs in
      if pos \<noteq> length xs then butlast (xs[pos := last xs]) else xs)"

lemma find_pos_append: "x \<notin> set ys \<Longrightarrow> find_pos x (ys @ x # zs) = length ys"
  unfolding find_pos_def by (induction ys) auto

lemma find_pos_absent: "x \<notin> set xs \<Longrightarrow> find_pos x xs = length xs"
  unfolding find_pos_def by (induction xs) auto

lemma swap_remove_last: "x \<notin> set ys \<Longrightarrow> swap_remove x (ys @ [x]) = ys"
  by (simp add: swap_remove_def find_pos_append Let_def list_update_append butlast_append)

lemma swap_remove_middle: "x \<notin> set ys \<Longrightarrow> swap_remove x (ys @ x # zs @ [z]) = ys @ z # zs"
  by (simp add: swap_remove_def find_pos_append Let_def list_update_append butlast_append)

lemma swap_remove_absent: "x \<notin> set xs \<Longrightarrow> swap_remove x xs = xs"
  by (simp add: swap_remove_def find_pos_absent)

lemma swap_remove_cases:
  obtains (absent) "x \<notin> set xs" "swap_remove x xs = xs"
  | (at_end) ys where "xs = ys @ [x]" "x \<notin> set ys" "swap_remove x xs = ys"
  | (middle) ys z zs where "xs = ys @ x # zs @ [z]" "x \<notin> set ys" "swap_remove x xs = ys @ z # zs"
proof (cases "x \<in> set xs")
  case True
  then obtain ys us where xs: "xs = ys @ x # us" "x \<notin> set ys" by (metis split_list_first)
  show ?thesis
  proof (cases us rule: rev_cases)
    case Nil
    with xs show ?thesis by (intro at_end) (simp_all add: swap_remove_last)
  next
    case (snoc zs z)
    with xs show ?thesis by (intro middle) (simp_all add: swap_remove_middle)
  qed
next
  case False
  then show ?thesis by (rule absent) (rule swap_remove_absent [OF False])
qed

lemma distinct_swap_remove [simp]: "distinct xs \<Longrightarrow> distinct (swap_remove x xs)"
  by (cases x xs rule: swap_remove_cases) auto

lemma set_swap_remove [simp]: "distinct xs \<Longrightarrow> set (swap_remove x xs) = set xs - {x}"
  by (cases x xs rule: swap_remove_cases) auto

subsection \<open>The invariant\<close>

abbreviation topics_of :: "string \<Rightarrow> SubscriptionRegistry \<Rightarrow> string list" where
  "topics_of c r \<equiv> vec_of (m_clientTopics r c)"

abbreviation clients_of :: "string \<Rightarrow> SubscriptionRegistry \<Rightarrow> string list" where
  "clients_of t r \<equiv> vec_of (m_topicSubscribers r t)"

definition registry_subs :: "SubscriptionRegistry \<Rightarrow> (string \<times> string) set" where
  "registry_subs r = {(c, t). t \<in> set (topics_of c r)}"

definition registry_ok :: "SubscriptionRegistry \<Rightarrow> bool" where
  "registry_ok r \<longleftrightarrow>
     (\<forall>c. m_clientTopics r c \<noteq> Some [] \<and> distinct (topics_of c r) \<and> sorted (topics_of c r))
     \<and> (\<forall>t. m_topicSubscribers r t \<noteq> Some [] \<and> distinct (clients_of t r))
     \<and> (\<forall>c t. t \<in> set (topics_of c r) \<longleftrightarrow> c \<in> set (clients_of t r))"

lemma registry_ok_new: "registry_ok SubscriptionRegistry_new"
  by (simp add: registry_ok_def SubscriptionRegistry_new_def)

lemma registry_subs_new: "registry_subs SubscriptionRegistry_new = {}"
  by (simp add: registry_subs_def SubscriptionRegistry_new_def)

lemma dropSubscriber_frame [simp]: "m_clientTopics (dropSubscriber t c r) = m_clientTopics r"
  by (simp add: dropSubscriber_def Let_def split: option.split)

lemma dropSubscriber_subscribers:
  "m_topicSubscribers (dropSubscriber t c r) =
     (if m_topicSubscribers r t = None then m_topicSubscribers r
      else if swap_remove c (clients_of t r) = [] then (m_topicSubscribers r)(t := None)
      else (m_topicSubscribers r)(t \<mapsto> swap_remove c (clients_of t r)))"
  by (auto simp: dropSubscriber_def swap_remove_def Let_def split: option.split)

lemma dropSubscriber_clients_of:
  "clients_of t' (dropSubscriber t c r) =
     (if t' = t then swap_remove c (clients_of t r) else clients_of t' r)"
  by (auto simp: dropSubscriber_subscribers swap_remove_def find_pos_def Let_def
      split: option.split)

lemma dropSubscriber_nonempty:
  "\<forall>t. m_topicSubscribers r t \<noteq> Some [] \<Longrightarrow> m_topicSubscribers (dropSubscriber t c r) t' \<noteq> Some []"
  by (auto simp: dropSubscriber_subscribers)

lemma fold_dropSubscriber:
  assumes "distinct ts" and "\<forall>t. m_topicSubscribers r t \<noteq> Some []"
  shows "m_clientTopics (fold (\<lambda>t. dropSubscriber t c) ts r) = m_clientTopics r
    \<and> (\<forall>t. clients_of t (fold (\<lambda>t. dropSubscriber t c) ts r) =
            (if t \<in> set ts then swap_remove c (clients_of t r) else clients_of t r))
    \<and> (\<forall>t. m_topicSubscribers (fold (\<lambda>t. dropSubscriber t c) ts r) t \<noteq> Some [])"
  using assms
  by (induction ts arbitrary: r) (auto simp: dropSubscriber_clients_of dropSubscriber_nonempty)

lemma subscribe_eq:
  "subscribe c t r =
     (if t \<in> set (topics_of c r) then (False, r)
      else (True, r\<lparr>m_clientTopics := (m_clientTopics r)(c \<mapsto> insort t (topics_of c r)),
                    m_topicSubscribers := (m_topicSubscribers r)(t \<mapsto> clients_of t r @ [c])\<rparr>))"
  by (cases "m_clientTopics r c") (auto simp: subscribe_def Let_def fun_upd_idem)

lemma unsubscribe_eq:
  "unsubscribe c t r =
     (if t \<notin> set (topics_of c r) then (False, r)
      else (True, dropSubscriber t c (r\<lparr>m_clientTopics := (m_clientTopics r)(c :=
              (if remove1 t (topics_of c r) = [] then None else Some (remove1 t (topics_of c r))))\<rparr>)))"
  by (auto simp: unsubscribe_def Let_def split: option.splits)

lemma registry_removeClient_eq:
  "registry_removeClient c r =
     (if m_clientTopics r c = None then r
      else (fold (\<lambda>t. dropSubscriber t c) (topics_of c r) r)
             \<lparr>m_clientTopics := (m_clientTopics (fold (\<lambda>t. dropSubscriber t c) (topics_of c r) r))(c := None)\<rparr>)"
  by (auto simp: registry_removeClient_def Let_def split: option.splits)

lemma registry_ok_subscribe:
  assumes "registry_ok r"
  shows "registry_ok (snd (subscribe c t r))"
    and "registry_subs (snd (subscribe c t r)) = insert (c, t) (registry_subs r)"
  using assms
  by (auto simp: registry_ok_def registry_subs_def subscribe_eq set_insort_key
      sorted_insort distinct_insort split: if_splits)

lemma unsubscribe_effect:
  assumes "registry_ok r"
  shows "topics_of c' (snd (unsubscribe c t r)) =
      (if c' = c then remove1 t (topics_of c r) else topics_of c' r)"
    and "clients_of t' (snd (unsubscribe c t r)) =
      (if t' = t \<and> t \<in> set (topics_of c r) then swap_remove c (clients_of t r) else clients_of t' r)"
    and "m_clientTopics (snd (unsubscribe c t r)) c' \<noteq> Some []"
    and "m_topicSubscribers (snd (unsubscribe c t r)) t' \<noteq> Some []"
  using assms
  by (simp_all add: unsubscribe_eq remove1_idem dropSubscriber_clients_of dropSubscriber_nonempty registry_ok_def)

lemma registry_ok_unsubscribe:
  assumes "registry_ok r"
  shows "registry_ok (snd (unsubscribe c t r))"
    and "registry_subs (snd (unsubscribe c t r)) = registry_subs r - {(c, t)}"
proof -
  show "registry_ok (snd (unsubscribe c t r))"
    using assms unfolding registry_ok_def unsubscribe_effect [OF assms]
    by (auto simp: unsubscribe_effect [OF assms] sorted_remove1)
  show "registry_subs (snd (unsubscribe c t r)) = registry_subs r - {(c, t)}"
    using assms unfolding registry_subs_def unsubscribe_effect [OF assms]
    by (auto simp: registry_ok_def split: if_splits)
qed

lemma registry_ok_removeClient:
  assumes "registry_ok r"
  shows "registry_ok (registry_removeClient c r)"
    and "registry_subs (registry_removeClient c r) = registry_subs r - {c} \<times> UNIV"
proof -
  let ?f = "fold (\<lambda>t. dropSubscriber t c) (topics_of c r) r"
  from assms have f: "m_clientTopics ?f = m_clientTopics r"
      "clients_of t ?f = (if t \<in> set (topics_of c r) then swap_remove c (clients_of t r) else clients_of t r)"
      "m_topicSubscribers ?f t \<noteq> Some []" for t
    using fold_dropSubscriber [of "topics_of c r" r c] by (auto simp: registry_ok_def)
  have topics: "topics_of c' (registry_removeClient c r) = (if c' = c then [] else topics_of c' r)" for c'
    by (simp add: registry_removeClient_eq f)
  have clients: "clients_of t (registry_removeClient c r) =
      (if t \<in> set (topics_of c r) then swap_remove c (clients_of t r) else clients_of t r)" for t
    by (simp add: registry_removeClient_eq f)
  show "registry_ok (registry_removeClient c r)"
    using assms f(3) unfolding registry_ok_def topics clients
    by (auto simp: registry_removeClient_eq f)
  show "registry_subs (registry_removeClient c r) = registry_subs r - {c} \<times> UNIV"
    by (auto simp: registry_subs_def topics split: if_splits)
qed

lemma registry_subs_clients_of:
  "registry_ok r \<Longrightarrow> (c, t) \<in> registry_subs r \<longleftrightarrow> c \<in> set (clients_of t r)"
  by (simp add: registry_ok_def registry_subs_def)

lemma registry_ok_distinct:
  "registry_ok r \<Longrightarrow> distinct (clients_of t r)" "registry_ok r \<Longrightarrow> distinct (topics_of c r)"
  by (simp_all add: registry_ok_def)

lemma registry_ok_nonempty:
  "registry_ok r \<Longrightarrow> m_clientTopics r c \<noteq> Some []" "registry_ok r \<Longrightarrow> m_topicSubscribers r t \<noteq> Some []"
  by (simp_all add: registry_ok_def)

interpretation reg: topic_registry registry_ok registry_subs subscribe unsubscribe
  registry_removeClient subscribersOf subscriptionsOf
proof unfold_locales
  fix r :: SubscriptionRegistry and c t :: string and cs ts :: "string list"
  assume ok: "registry_ok r"
  then show "registry_ok (snd (subscribe c t r))" "registry_ok (snd (unsubscribe c t r))"
    "registry_ok (registry_removeClient c r)"
    "registry_subs (snd (subscribe c t r)) = insert (c, t) (registry_subs r)"
    "registry_subs (snd (unsubscribe c t r)) = registry_subs r - {(c, t)}"
    "registry_subs (registry_removeClient c r) = registry_subs r - {c} \<times> UNIV"
    by (simp_all add: registry_ok_subscribe registry_ok_unsubscribe registry_ok_removeClient)
  show "fst (subscribe c t r) \<longleftrightarrow> (c, t) \<notin> registry_subs r"
    "fst (unsubscribe c t r) \<longleftrightarrow> (c, t) \<in> registry_subs r"
    by (simp_all add: subscribe_eq unsubscribe_eq registry_subs_def)
  show "subscribersOf t r = None \<longleftrightarrow> (\<forall>c. (c, t) \<notin> registry_subs r)"
    using ok by (auto simp: registry_subs_clients_of subscribersOf_def registry_ok_def vec_of_eq_Nil_iff)
  show "subscribersOf t r = Some cs \<Longrightarrow> distinct cs \<and> set cs = {c. (c, t) \<in> registry_subs r}"
    using registry_ok_distinct(1) [OF ok, of t] by (simp add: registry_subs_clients_of [OF ok] subscribersOf_def)
  show "subscriptionsOf c r = None \<longleftrightarrow> (\<forall>t. (c, t) \<notin> registry_subs r)"
    using registry_ok_nonempty(1) [OF ok, of c]
    by (cases "m_clientTopics r c") (auto simp: registry_subs_def subscriptionsOf_def neq_Nil_conv)
  show "subscriptionsOf c r = Some ts \<Longrightarrow> distinct ts \<and> set ts = {t. (c, t) \<in> registry_subs r}"
    using registry_ok_distinct(2) [OF ok, of c] by (simp add: registry_subs_def subscriptionsOf_def)
qed

subsection \<open>The registry refines one relation\<close>

datatype registry_op = Subscribe string string | Unsubscribe string string | RemoveClient string

fun registry_step :: "registry_op \<Rightarrow> SubscriptionRegistry \<Rightarrow> SubscriptionRegistry" where
  "registry_step (Subscribe c t) r = snd (subscribe c t r)"
| "registry_step (Unsubscribe c t) r = snd (unsubscribe c t r)"
| "registry_step (RemoveClient c) r = registry_removeClient c r"

fun relation_step :: "registry_op \<Rightarrow> (string \<times> string) set \<Rightarrow> (string \<times> string) set" where
  "relation_step (Subscribe c t) S = insert (c, t) S"
| "relation_step (Unsubscribe c t) S = S - {(c, t)}"
| "relation_step (RemoveClient c) S = S - {c} \<times> UNIV"

lemma registry_step_simulates:
  assumes "registry_ok r"
  shows "registry_ok (registry_step op r)"
    and "registry_subs (registry_step op r) = relation_step op (registry_subs r)"
  using assms by (cases op; simp add: reg.ok_sub reg.ok_unsub reg.ok_remove reg.subs_sub reg.subs_unsub
      reg.subs_remove)+

lemma registry_run_simulates:
  assumes "registry_ok r"
  shows "registry_ok (fold registry_step ops r)"
    and "registry_subs (fold registry_step ops r) = fold relation_step ops (registry_subs r)"
  using assms by (induction ops arbitrary: r) (simp_all add: registry_step_simulates)

lemma subscriptionsOf_eq:
  assumes "registry_ok r"
  shows "subscriptionsOf c r =
     (let ts = {t. (c, t) \<in> registry_subs r} in if ts = {} then None else Some (sorted_list_of_set ts))"
proof (cases "subscriptionsOf c r")
  case None
  then show ?thesis using reg.subscriptions_None [OF assms, of c] by simp
next
  case (Some ts)
  with assms have "sorted ts" by (auto simp: subscriptionsOf_def registry_ok_def dest: spec [of _ c])
  with reg.subscriptions_Some [OF assms Some] have "sorted_list_of_set {t. (c, t) \<in> registry_subs r} = ts"
    by (metis sorted_list_of_set.idem_if_sorted_distinct)
  with Some reg.subscriptions_None [OF assms, of c] show ?thesis by (auto simp: Let_def)
qed

text \<open>
  C35. The two sides of the registry never drift apart: after any sequence of subscribe, unsubscribe
  and removeClient calls on an empty registry, both query functions read the one client/topic relation
  that the calls describe. A topic's subscribers are listed without duplicates, a client's topics in
  order, and an entry with nothing to list is absent (a null pointer), never an empty container.
\<close>

theorem registry_refines_relation:
  "let r = fold registry_step ops SubscriptionRegistry_new; S = fold relation_step ops {} in
     distinct (vec_of (subscribersOf t r)) \<and> set (vec_of (subscribersOf t r)) = {c. (c, t) \<in> S}
     \<and> subscribersOf t r \<noteq> Some []
     \<and> subscriptionsOf c r = (if {t. (c, t) \<in> S} = {} then None
                              else Some (sorted_list_of_set {t. (c, t) \<in> S}))"
proof -
  define r where "r = fold registry_step ops SubscriptionRegistry_new"
  have ok: "registry_ok r" and S: "registry_subs r = fold relation_step ops {}"
    using registry_run_simulates [OF registry_ok_new] by (simp_all add: r_def registry_subs_new)
  show ?thesis
    unfolding Let_def r_def [symmetric] S [symmetric]
    using reg.subscribers_distinct [OF ok] reg.subscribers_set [OF ok] registry_ok_nonempty(2) [OF ok]
    by (simp add: subscriptionsOf_eq [OF ok] Let_def) (simp add: subscribersOf_def)
qed

end
