(* ===== verification/System_Stats.thy ===== *)
theory System_Stats
  imports Message_Header
begin

text \<open>
  The generated classes \<open>broker::ClientInfo\<close> and \<open>broker::SystemStats\<close> (\<open>common/generated/broker.pb.h\<close> and
  \<open>broker.pb.cc\<close>), the payload of the broker's statistics message, modelled as \<open>MessageHeader\<close> is.
  A \<open>RepeatedPtrField\<close> is a list; reading or writing it out of range is undefined in C++ and is
  \<^const>\<open>None\<close> here. A \<open>double\<close> is its IEEE 754 bit pattern, a 64-bit word, which is all the generated
  code looks at.
\<close>

unbundle bit_operations_syntax

subsection \<open>\<open>ClientInfo\<close>\<close>

record ClientInfo =
  ci_has_bits :: "32 word"
  ci_subscriptions :: "string list"
  ci_id :: string
  ci_unknown :: "wire_field list"

definition ClientInfo_new :: ClientInfo where
  "ClientInfo_new = \<lparr>ci_has_bits = 0, ci_subscriptions = [], ci_id = [], ci_unknown = []\<rparr>"

definition clear_id :: "ClientInfo \<Rightarrow> ClientInfo" where
  "clear_id m = m\<lparr>ci_id := [], ci_has_bits := ci_has_bits m AND NOT 0x00000001\<rparr>"

definition ClientInfo_id :: "ClientInfo \<Rightarrow> string" where
  "ClientInfo_id m = ci_id m"

definition set_id :: "string \<Rightarrow> ClientInfo \<Rightarrow> ClientInfo" where
  "set_id arg m = m\<lparr>ci_has_bits := ci_has_bits m OR 0x00000001, ci_id := arg\<rparr>"

definition mutable_id :: "(string \<Rightarrow> string) \<Rightarrow> ClientInfo \<Rightarrow> ClientInfo" where
  "mutable_id edit m = m\<lparr>ci_has_bits := ci_has_bits m OR 0x00000001, ci_id := edit (ci_id m)\<rparr>"

definition release_id :: "ClientInfo \<Rightarrow> string option \<times> ClientInfo" where
  "release_id m =
     (if ci_has_bits m AND 0x00000001 = 0 then (None, m)
      else (Some (ci_id m), m\<lparr>ci_has_bits := ci_has_bits m AND NOT 0x00000001, ci_id := []\<rparr>))"

definition set_allocated_id :: "string option \<Rightarrow> ClientInfo \<Rightarrow> ClientInfo" where
  "set_allocated_id p m =
     (case p of
        Some s \<Rightarrow> m\<lparr>ci_has_bits := ci_has_bits m OR 0x00000001, ci_id := s\<rparr>
      | None \<Rightarrow> m\<lparr>ci_has_bits := ci_has_bits m AND NOT 0x00000001, ci_id := []\<rparr>)"

definition subscriptions_size :: "ClientInfo \<Rightarrow> nat" where
  "subscriptions_size m = length (ci_subscriptions m)"

definition clear_subscriptions :: "ClientInfo \<Rightarrow> ClientInfo" where
  "clear_subscriptions m = m\<lparr>ci_subscriptions := []\<rparr>"

definition add_subscriptions :: "string \<Rightarrow> ClientInfo \<Rightarrow> ClientInfo" where
  "add_subscriptions s m = m\<lparr>ci_subscriptions := ci_subscriptions m @ [s]\<rparr>"

definition subscriptions_at :: "nat \<Rightarrow> ClientInfo \<Rightarrow> string option" where
  "subscriptions_at i m = (if i < length (ci_subscriptions m) then Some (ci_subscriptions m ! i) else None)"

definition subscriptions :: "ClientInfo \<Rightarrow> string list" where
  "subscriptions m = ci_subscriptions m"

definition mutable_subscriptions :: "nat \<Rightarrow> (string \<Rightarrow> string) \<Rightarrow> ClientInfo \<Rightarrow> ClientInfo option" where
  "mutable_subscriptions i edit m =
     (if i < length (ci_subscriptions m)
      then Some (m\<lparr>ci_subscriptions := (ci_subscriptions m)[i := edit (ci_subscriptions m ! i)]\<rparr>) else None)"

definition set_subscriptions :: "nat \<Rightarrow> string \<Rightarrow> ClientInfo \<Rightarrow> ClientInfo option" where
  "set_subscriptions i s m =
     (if i < length (ci_subscriptions m)
      then Some (m\<lparr>ci_subscriptions := (ci_subscriptions m)[i := s]\<rparr>) else None)"

definition ClientInfo_Clear :: "ClientInfo \<Rightarrow> ClientInfo" where
  "ClientInfo_Clear m =
     (let m = clear_subscriptions m;
          cached_has_bits = ci_has_bits m;
          m = (if cached_has_bits AND 0x00000001 \<noteq> 0 then m\<lparr>ci_id := []\<rparr> else m)
      in m\<lparr>ci_has_bits := 0, ci_unknown := []\<rparr>)"

definition ClientInfo_InternalSerialize :: "pb_runtime \<Rightarrow> ClientInfo \<Rightarrow> bytes" where
  "ClientInfo_InternalSerialize rt m =
     serialize_string rt (ci_has_bits m) 0x00000001 1 (ci_id m)
     @ concat (map (WriteString rt 2) (ci_subscriptions m))
     @ (if ci_unknown m \<noteq> [] then WriteUnknown rt (ci_unknown m) else [])"

definition ClientInfo_ByteSizeLong :: "pb_runtime \<Rightarrow> ClientInfo \<Rightarrow> nat" where
  "ClientInfo_ByteSizeLong rt m =
     1 * length (ci_subscriptions m) + sum_list (map (StringSize rt) (ci_subscriptions m))
     + string_size rt (ci_has_bits m) 0x00000001 (ci_id m)
     + (if ci_unknown m \<noteq> [] then UnknownSize rt (ci_unknown m) else 0)"

definition ClientInfo_MergeImpl :: "ClientInfo \<Rightarrow> ClientInfo \<Rightarrow> ClientInfo" where
  "ClientInfo_MergeImpl this from =
     (let this = this\<lparr>ci_subscriptions := ci_subscriptions this @ ci_subscriptions from\<rparr>;
          cached_has_bits = ci_has_bits from;
          this = merge_string_field cached_has_bits 0x00000001 ClientInfo_id set_id from this
      in this\<lparr>ci_has_bits := ci_has_bits this OR cached_has_bits,
              ci_unknown := ci_unknown this @ ci_unknown from\<rparr>)"

definition ClientInfo_CopyFrom :: "ClientInfo \<Rightarrow> ClientInfo \<Rightarrow> ClientInfo" where
  "ClientInfo_CopyFrom this from = ClientInfo_MergeImpl (ClientInfo_Clear this) from"

definition ClientInfo_InternalSwap :: "ClientInfo \<Rightarrow> ClientInfo \<Rightarrow> ClientInfo \<times> ClientInfo" where
  "ClientInfo_InternalSwap this other =
     (this\<lparr>ci_unknown := ci_unknown other, ci_has_bits := ci_has_bits other,
           ci_subscriptions := ci_subscriptions other, ci_id := ci_id other\<rparr>,
      other\<lparr>ci_unknown := ci_unknown this, ci_has_bits := ci_has_bits this,
            ci_subscriptions := ci_subscriptions this, ci_id := ci_id this\<rparr>)"

definition ClientInfo_table :: "pb_runtime \<Rightarrow> wire_field \<Rightarrow> ClientInfo \<Rightarrow> ClientInfo option" where
  "ClientInfo_table rt f m =
     (case f of
        (n, LengthDelimited s) \<Rightarrow>
          if n = 1 then parse_string_field rt set_id s m
          else if n = 2 then parse_string_field rt add_subscriptions s m
          else Some (m\<lparr>ci_unknown := ci_unknown m @ [f]\<rparr>)
      | _ \<Rightarrow> Some (m\<lparr>ci_unknown := ci_unknown m @ [f]\<rparr>))"

subsection \<open>\<open>SystemStats\<close>\<close>

record SystemStats =
  ss_has_bits :: "32 word"
  ss_connected_clients :: "ClientInfo list"
  ss_broker_id :: string
  ss_clients_count :: "32 word"
  ss_peers_count :: "32 word"
  ss_kb_per_sec :: "64 word"
  ss_total_msgs :: "64 word"
  ss_uptime_sec :: "64 word"
  ss_msgs_per_sec :: "32 word"
  ss_unknown :: "wire_field list"

definition SystemStats_new :: SystemStats where
  "SystemStats_new = \<lparr>ss_has_bits = 0, ss_connected_clients = [], ss_broker_id = [],
     ss_clients_count = 0, ss_peers_count = 0, ss_kb_per_sec = 0,
     ss_total_msgs = 0, ss_uptime_sec = 0, ss_msgs_per_sec = 0, ss_unknown = []\<rparr>"

definition clear_broker_id :: "SystemStats \<Rightarrow> SystemStats" where
  "clear_broker_id m = m\<lparr>ss_broker_id := [], ss_has_bits := ss_has_bits m AND NOT 0x00000001\<rparr>"

definition broker_id :: "SystemStats \<Rightarrow> string" where
  "broker_id m = ss_broker_id m"

definition set_broker_id :: "string \<Rightarrow> SystemStats \<Rightarrow> SystemStats" where
  "set_broker_id arg m = m\<lparr>ss_has_bits := ss_has_bits m OR 0x00000001, ss_broker_id := arg\<rparr>"

definition mutable_broker_id :: "(string \<Rightarrow> string) \<Rightarrow> SystemStats \<Rightarrow> SystemStats" where
  "mutable_broker_id edit m = m\<lparr>ss_has_bits := ss_has_bits m OR 0x00000001, ss_broker_id := edit (ss_broker_id m)\<rparr>"

definition release_broker_id :: "SystemStats \<Rightarrow> string option \<times> SystemStats" where
  "release_broker_id m =
     (if ss_has_bits m AND 0x00000001 = 0 then (None, m)
      else (Some (ss_broker_id m), m\<lparr>ss_has_bits := ss_has_bits m AND NOT 0x00000001, ss_broker_id := []\<rparr>))"

definition set_allocated_broker_id :: "string option \<Rightarrow> SystemStats \<Rightarrow> SystemStats" where
  "set_allocated_broker_id p m =
     (case p of
        Some s \<Rightarrow> m\<lparr>ss_has_bits := ss_has_bits m OR 0x00000001, ss_broker_id := s\<rparr>
      | None \<Rightarrow> m\<lparr>ss_has_bits := ss_has_bits m AND NOT 0x00000001, ss_broker_id := []\<rparr>)"

definition clear_clients_count :: "SystemStats \<Rightarrow> SystemStats" where
  "clear_clients_count m = m\<lparr>ss_clients_count := 0, ss_has_bits := ss_has_bits m AND NOT 0x00000002\<rparr>"

definition clients_count :: "SystemStats \<Rightarrow> 32 word" where
  "clients_count m = ss_clients_count m"

definition set_clients_count :: "32 word \<Rightarrow> SystemStats \<Rightarrow> SystemStats" where
  "set_clients_count v m = m\<lparr>ss_clients_count := v, ss_has_bits := ss_has_bits m OR 0x00000002\<rparr>"

definition clear_peers_count :: "SystemStats \<Rightarrow> SystemStats" where
  "clear_peers_count m = m\<lparr>ss_peers_count := 0, ss_has_bits := ss_has_bits m AND NOT 0x00000004\<rparr>"

definition peers_count :: "SystemStats \<Rightarrow> 32 word" where
  "peers_count m = ss_peers_count m"

definition set_peers_count :: "32 word \<Rightarrow> SystemStats \<Rightarrow> SystemStats" where
  "set_peers_count v m = m\<lparr>ss_peers_count := v, ss_has_bits := ss_has_bits m OR 0x00000004\<rparr>"

definition clear_msgs_per_sec :: "SystemStats \<Rightarrow> SystemStats" where
  "clear_msgs_per_sec m = m\<lparr>ss_msgs_per_sec := 0, ss_has_bits := ss_has_bits m AND NOT 0x00000040\<rparr>"

definition msgs_per_sec :: "SystemStats \<Rightarrow> 32 word" where
  "msgs_per_sec m = ss_msgs_per_sec m"

definition set_msgs_per_sec :: "32 word \<Rightarrow> SystemStats \<Rightarrow> SystemStats" where
  "set_msgs_per_sec v m = m\<lparr>ss_msgs_per_sec := v, ss_has_bits := ss_has_bits m OR 0x00000040\<rparr>"

definition clear_kb_per_sec :: "SystemStats \<Rightarrow> SystemStats" where
  "clear_kb_per_sec m = m\<lparr>ss_kb_per_sec := 0, ss_has_bits := ss_has_bits m AND NOT 0x00000008\<rparr>"

definition kb_per_sec :: "SystemStats \<Rightarrow> 64 word" where
  "kb_per_sec m = ss_kb_per_sec m"

definition set_kb_per_sec :: "64 word \<Rightarrow> SystemStats \<Rightarrow> SystemStats" where
  "set_kb_per_sec v m = m\<lparr>ss_kb_per_sec := v, ss_has_bits := ss_has_bits m OR 0x00000008\<rparr>"

definition clear_total_msgs :: "SystemStats \<Rightarrow> SystemStats" where
  "clear_total_msgs m = m\<lparr>ss_total_msgs := 0, ss_has_bits := ss_has_bits m AND NOT 0x00000010\<rparr>"

definition total_msgs :: "SystemStats \<Rightarrow> 64 word" where
  "total_msgs m = ss_total_msgs m"

definition set_total_msgs :: "64 word \<Rightarrow> SystemStats \<Rightarrow> SystemStats" where
  "set_total_msgs v m = m\<lparr>ss_total_msgs := v, ss_has_bits := ss_has_bits m OR 0x00000010\<rparr>"

definition clear_uptime_sec :: "SystemStats \<Rightarrow> SystemStats" where
  "clear_uptime_sec m = m\<lparr>ss_uptime_sec := 0, ss_has_bits := ss_has_bits m AND NOT 0x00000020\<rparr>"

definition uptime_sec :: "SystemStats \<Rightarrow> 64 word" where
  "uptime_sec m = ss_uptime_sec m"

definition set_uptime_sec :: "64 word \<Rightarrow> SystemStats \<Rightarrow> SystemStats" where
  "set_uptime_sec v m = m\<lparr>ss_uptime_sec := v, ss_has_bits := ss_has_bits m OR 0x00000020\<rparr>"

definition connected_clients_size :: "SystemStats \<Rightarrow> nat" where
  "connected_clients_size m = length (ss_connected_clients m)"

definition clear_connected_clients :: "SystemStats \<Rightarrow> SystemStats" where
  "clear_connected_clients m = m\<lparr>ss_connected_clients := []\<rparr>"

definition mutable_connected_clients :: "nat \<Rightarrow> (ClientInfo \<Rightarrow> ClientInfo) \<Rightarrow> SystemStats \<Rightarrow> SystemStats option" where
  "mutable_connected_clients i edit m =
     (if i < length (ss_connected_clients m)
      then Some (m\<lparr>ss_connected_clients := (ss_connected_clients m)[i := edit (ss_connected_clients m ! i)]\<rparr>)
      else None)"

definition connected_clients_at :: "nat \<Rightarrow> SystemStats \<Rightarrow> ClientInfo option" where
  "connected_clients_at i m =
     (if i < length (ss_connected_clients m) then Some (ss_connected_clients m ! i) else None)"

definition add_connected_clients :: "(ClientInfo \<Rightarrow> ClientInfo) \<Rightarrow> SystemStats \<Rightarrow> SystemStats" where
  "add_connected_clients fill m =
     m\<lparr>ss_connected_clients := ss_connected_clients m @ [fill ClientInfo_new]\<rparr>"

definition connected_clients :: "SystemStats \<Rightarrow> ClientInfo list" where
  "connected_clients m = ss_connected_clients m"

definition SystemStats_Clear :: "SystemStats \<Rightarrow> SystemStats" where
  "SystemStats_Clear m =
     (let m = clear_connected_clients m;
          cached_has_bits = ss_has_bits m;
          m = ss_broker_id_update (\<lambda>s. if cached_has_bits AND 0x00000001 \<noteq> 0 then [] else s) m;
          m = (if cached_has_bits AND 0x0000007e \<noteq> 0 then
                 m\<lparr>ss_clients_count := 0, ss_peers_count := 0, ss_kb_per_sec := 0,
                   ss_total_msgs := 0, ss_uptime_sec := 0, ss_msgs_per_sec := 0\<rparr>
               else m)
      in m\<lparr>ss_has_bits := 0, ss_unknown := []\<rparr>)"

definition serialize_int64 :: "pb_runtime \<Rightarrow> 32 word \<Rightarrow> 32 word \<Rightarrow> nat \<Rightarrow> 64 word \<Rightarrow> bytes" where
  "serialize_int64 rt has_bits has_mask n v =
     (if has_bits AND has_mask \<noteq> 0 then (if v \<noteq> 0 then WriteInt64 rt n v else []) else [])"

definition serialize_double :: "pb_runtime \<Rightarrow> 32 word \<Rightarrow> 32 word \<Rightarrow> nat \<Rightarrow> 64 word \<Rightarrow> bytes" where
  "serialize_double rt has_bits has_mask n v =
     (if has_bits AND has_mask \<noteq> 0 then (if v \<noteq> 0 then WriteDouble rt n v else []) else [])"

definition SystemStats_InternalSerialize :: "pb_runtime \<Rightarrow> SystemStats \<Rightarrow> bytes" where
  "SystemStats_InternalSerialize rt m =
     serialize_string rt (ss_has_bits m) 0x00000001 1 (ss_broker_id m)
     @ serialize_int32 rt (ss_has_bits m) 0x00000002 2 (ss_clients_count m)
     @ serialize_int32 rt (ss_has_bits m) 0x00000004 3 (ss_peers_count m)
     @ serialize_int32 rt (ss_has_bits m) 0x00000040 4 (ss_msgs_per_sec m)
     @ serialize_double rt (ss_has_bits m) 0x00000008 5 (ss_kb_per_sec m)
     @ serialize_int64 rt (ss_has_bits m) 0x00000010 6 (ss_total_msgs m)
     @ serialize_int64 rt (ss_has_bits m) 0x00000020 7 (ss_uptime_sec m)
     @ concat (map (WriteMessage rt 8 \<circ> ClientInfo_InternalSerialize rt) (ss_connected_clients m))
     @ (if ss_unknown m \<noteq> [] then WriteUnknown rt (ss_unknown m) else [])"

definition int64_size :: "pb_runtime \<Rightarrow> 32 word \<Rightarrow> 32 word \<Rightarrow> 64 word \<Rightarrow> nat" where
  "int64_size rt has_bits has_mask v =
     (if has_bits AND has_mask \<noteq> 0 then (if v \<noteq> 0 then Int64SizePlusOne rt v else 0) else 0)"

definition double_size :: "pb_runtime \<Rightarrow> 32 word \<Rightarrow> 32 word \<Rightarrow> 64 word \<Rightarrow> nat" where
  "double_size rt has_bits has_mask v =
     (if has_bits AND has_mask \<noteq> 0 then (if v \<noteq> 0 then 9 else 0) else 0)"

definition SystemStats_ByteSizeLong :: "pb_runtime \<Rightarrow> SystemStats \<Rightarrow> nat" where
  "SystemStats_ByteSizeLong rt m =
     (let cached_has_bits = ss_has_bits m;
          total_size =
            1 * length (ss_connected_clients m)
            + sum_list (map (LengthDelimitedSize rt \<circ> ClientInfo_ByteSizeLong rt) (ss_connected_clients m))
            + (if cached_has_bits AND 0x0000007f \<noteq> 0 then
                 string_size rt cached_has_bits 0x00000001 (ss_broker_id m)
                 + int32_size rt cached_has_bits 0x00000002 (ss_clients_count m)
                 + int32_size rt cached_has_bits 0x00000004 (ss_peers_count m)
                 + double_size rt cached_has_bits 0x00000008 (ss_kb_per_sec m)
                 + int64_size rt cached_has_bits 0x00000010 (ss_total_msgs m)
                 + int64_size rt cached_has_bits 0x00000020 (ss_uptime_sec m)
                 + int32_size rt cached_has_bits 0x00000040 (ss_msgs_per_sec m)
               else 0)
      in total_size + (if ss_unknown m \<noteq> [] then UnknownSize rt (ss_unknown m) else 0))"

definition merge_number :: "32 word \<Rightarrow> 32 word \<Rightarrow> 'a \<Rightarrow> 'a \<Rightarrow> 'a::zero" where
  "merge_number has_bits has_mask new old =
     (if has_bits AND has_mask \<noteq> 0 then (if new \<noteq> 0 then new else old) else old)"

definition SystemStats_MergeImpl :: "SystemStats \<Rightarrow> SystemStats \<Rightarrow> SystemStats" where
  "SystemStats_MergeImpl this from =
     (let this = this\<lparr>ss_connected_clients :=
            ss_connected_clients this @ map (ClientInfo_MergeImpl ClientInfo_new) (ss_connected_clients from)\<rparr>;
          cached_has_bits = ss_has_bits from;
          this = (if cached_has_bits AND 0x0000007f \<noteq> 0 then
            (let this = merge_string_field cached_has_bits 0x00000001 broker_id set_broker_id from this;
                 this = ss_clients_count_update (merge_number cached_has_bits 0x00000002 (ss_clients_count from)) this;
                 this = ss_peers_count_update (merge_number cached_has_bits 0x00000004 (ss_peers_count from)) this;
                 this = ss_kb_per_sec_update (merge_number cached_has_bits 0x00000008 (ss_kb_per_sec from)) this;
                 this = ss_total_msgs_update (merge_number cached_has_bits 0x00000010 (ss_total_msgs from)) this;
                 this = ss_uptime_sec_update (merge_number cached_has_bits 0x00000020 (ss_uptime_sec from)) this;
                 this = ss_msgs_per_sec_update (merge_number cached_has_bits 0x00000040 (ss_msgs_per_sec from)) this
             in this)
           else this)
      in this\<lparr>ss_has_bits := ss_has_bits this OR cached_has_bits,
              ss_unknown := ss_unknown this @ ss_unknown from\<rparr>)"

definition SystemStats_CopyFrom :: "SystemStats \<Rightarrow> SystemStats \<Rightarrow> SystemStats" where
  "SystemStats_CopyFrom this from = SystemStats_MergeImpl (SystemStats_Clear this) from"

definition SystemStats_InternalSwap :: "SystemStats \<Rightarrow> SystemStats \<Rightarrow> SystemStats \<times> SystemStats" where
  "SystemStats_InternalSwap this other =
     (this\<lparr>ss_unknown := ss_unknown other,
           ss_has_bits := ss_has_bits other,
           ss_connected_clients := ss_connected_clients other,
           ss_broker_id := ss_broker_id other,
           ss_clients_count := ss_clients_count other,
           ss_peers_count := ss_peers_count other,
           ss_kb_per_sec := ss_kb_per_sec other,
           ss_total_msgs := ss_total_msgs other,
           ss_uptime_sec := ss_uptime_sec other,
           ss_msgs_per_sec := ss_msgs_per_sec other\<rparr>,
      other\<lparr>ss_unknown := ss_unknown this,
            ss_has_bits := ss_has_bits this,
            ss_connected_clients := ss_connected_clients this,
            ss_broker_id := ss_broker_id this,
            ss_clients_count := ss_clients_count this,
            ss_peers_count := ss_peers_count this,
            ss_kb_per_sec := ss_kb_per_sec this,
            ss_total_msgs := ss_total_msgs this,
            ss_uptime_sec := ss_uptime_sec this,
            ss_msgs_per_sec := ss_msgs_per_sec this\<rparr>)"

text \<open>A nested message is parsed into a new element of the repeated field.\<close>

definition parse_client :: "pb_runtime \<Rightarrow> bytes \<Rightarrow> ClientInfo option" where
  "parse_client rt bs =
     (case ParseFields rt bs of
        None \<Rightarrow> None
      | Some fs \<Rightarrow> parse_loop (ClientInfo_table rt) fs ClientInfo_new)"

definition SystemStats_table :: "pb_runtime \<Rightarrow> wire_field \<Rightarrow> SystemStats \<Rightarrow> SystemStats option" where
  "SystemStats_table rt f m =
     (case f of
        (n, LengthDelimited s) \<Rightarrow>
          if n = 1 then parse_string_field rt set_broker_id s m
          else if n = 8 then
            (case parse_client rt s of
               None \<Rightarrow> None
             | Some c \<Rightarrow> Some (add_connected_clients (\<lambda>_. c) m))
          else Some (m\<lparr>ss_unknown := ss_unknown m @ [f]\<rparr>)
      | (n, Varint v) \<Rightarrow>
          if n = 2 then Some (set_clients_count (ucast v) m)
          else if n = 3 then Some (set_peers_count (ucast v) m)
          else if n = 4 then Some (set_msgs_per_sec (ucast v) m)
          else if n = 6 then Some (set_total_msgs v m)
          else if n = 7 then Some (set_uptime_sec v m)
          else Some (m\<lparr>ss_unknown := ss_unknown m @ [f]\<rparr>)
      | (n, Fixed64 v) \<Rightarrow>
          if n = 5 then Some (set_kb_per_sec v m)
          else Some (m\<lparr>ss_unknown := ss_unknown m @ [f]\<rparr>)
      | _ \<Rightarrow> Some (m\<lparr>ss_unknown := ss_unknown m @ [f]\<rparr>))"

definition SystemStats_ParseFromArray :: "pb_runtime \<Rightarrow> bytes \<Rightarrow> SystemStats \<Rightarrow> SystemStats option" where
  "SystemStats_ParseFromArray rt bs m =
     (case ParseFields rt bs of
        None \<Rightarrow> None
      | Some fs \<Rightarrow> parse_loop (SystemStats_table rt) fs (SystemStats_Clear m))"

subsection \<open>Invariants\<close>

definition ClientInfo_ok :: "ClientInfo \<Rightarrow> bool" where
  "ClientInfo_ok m \<longleftrightarrow> (ci_id m \<noteq> [] \<longrightarrow> ci_has_bits m AND 0x00000001 \<noteq> 0)"

definition SystemStats_ok :: "SystemStats \<Rightarrow> bool" where
  "SystemStats_ok m \<longleftrightarrow>
     (ss_broker_id m \<noteq> [] \<longrightarrow> ss_has_bits m AND 0x00000001 \<noteq> 0) \<and>
     (ss_clients_count m \<noteq> 0 \<longrightarrow> ss_has_bits m AND 0x00000002 \<noteq> 0) \<and>
     (ss_peers_count m \<noteq> 0 \<longrightarrow> ss_has_bits m AND 0x00000004 \<noteq> 0) \<and>
     (ss_kb_per_sec m \<noteq> 0 \<longrightarrow> ss_has_bits m AND 0x00000008 \<noteq> 0) \<and>
     (ss_total_msgs m \<noteq> 0 \<longrightarrow> ss_has_bits m AND 0x00000010 \<noteq> 0) \<and>
     (ss_uptime_sec m \<noteq> 0 \<longrightarrow> ss_has_bits m AND 0x00000020 \<noteq> 0) \<and>
     (ss_msgs_per_sec m \<noteq> 0 \<longrightarrow> ss_has_bits m AND 0x00000040 \<noteq> 0) \<and>
     list_all ClientInfo_ok (ss_connected_clients m)"

text \<open>The text fields, the fields on the wire, and the presence bits a parse restores.\<close>

definition ClientInfo_strings :: "ClientInfo \<Rightarrow> string list" where
  "ClientInfo_strings m = ci_id m # ci_subscriptions m"

definition ClientInfo_fields :: "ClientInfo \<Rightarrow> wire_field list" where
  "ClientInfo_fields m =
     string_field 1 (ci_id m) @ map (\<lambda>s. (2, LengthDelimited s)) (ci_subscriptions m) @ ci_unknown m"

definition ClientInfo_canonical :: "ClientInfo \<Rightarrow> ClientInfo" where
  "ClientInfo_canonical m = m\<lparr>ci_has_bits := if ci_id m = [] then 0 else 0x00000001\<rparr>"

definition ClientInfo_encodable :: "ClientInfo \<Rightarrow> bool" where
  "ClientInfo_encodable m \<longleftrightarrow>
     list_all (\<lambda>s. length s < 2 ^ 31) (ClientInfo_strings m) \<and>
     list_all (\<lambda>f. wire_field_ok f \<and> (case f of (n, LengthDelimited _) \<Rightarrow> n \<notin> {1, 2} | _ \<Rightarrow> True)) (ci_unknown m)"

definition int64_field :: "nat \<Rightarrow> 64 word \<Rightarrow> wire_field list" where
  "int64_field n v = (if v = 0 then [] else [(n, Varint v)])"

definition double_field :: "nat \<Rightarrow> 64 word \<Rightarrow> wire_field list" where
  "double_field n v = (if v = 0 then [] else [(n, Fixed64 v)])"

definition SystemStats_fields :: "pb_runtime \<Rightarrow> SystemStats \<Rightarrow> wire_field list" where
  "SystemStats_fields rt m =
     string_field 1 (ss_broker_id m)
     @ int32_field 2 (ss_clients_count m)
     @ int32_field 3 (ss_peers_count m)
     @ int32_field 4 (ss_msgs_per_sec m)
     @ double_field 5 (ss_kb_per_sec m)
     @ int64_field 6 (ss_total_msgs m)
     @ int64_field 7 (ss_uptime_sec m)
     @ map (\<lambda>c. (8, LengthDelimited (ClientInfo_InternalSerialize rt c))) (ss_connected_clients m)
     @ ss_unknown m"

definition SystemStats_strings :: "SystemStats \<Rightarrow> string list" where
  "SystemStats_strings m = ss_broker_id m # concat (map ClientInfo_strings (ss_connected_clients m))"

definition SystemStats_foreign :: "wire_field \<Rightarrow> bool" where
  "SystemStats_foreign f \<longleftrightarrow>
     (case f of
        (n, LengthDelimited _) \<Rightarrow> n \<notin> {1, 8}
      | (n, Varint _) \<Rightarrow> n \<notin> {2, 3, 4, 6, 7}
      | (n, Fixed64 _) \<Rightarrow> n \<noteq> 5
      | _ \<Rightarrow> True)"

definition SystemStats_encodable :: "pb_runtime \<Rightarrow> SystemStats \<Rightarrow> bool" where
  "SystemStats_encodable rt m \<longleftrightarrow>
     length (ss_broker_id m) < 2 ^ 31 \<and>
     list_all (\<lambda>c. ClientInfo_encodable c \<and> length (ClientInfo_InternalSerialize rt c) < 2 ^ 31)
       (ss_connected_clients m) \<and>
     list_all (\<lambda>f. wire_field_ok f \<and> SystemStats_foreign f) (ss_unknown m)"

definition SystemStats_canonical :: "SystemStats \<Rightarrow> SystemStats" where
  "SystemStats_canonical m = m\<lparr>
     ss_has_bits :=
       (if ss_broker_id m = [] then 0 else 0x00000001)
       OR (if ss_clients_count m = 0 then 0 else 0x00000002)
       OR (if ss_peers_count m = 0 then 0 else 0x00000004)
       OR (if ss_msgs_per_sec m = 0 then 0 else 0x00000040)
       OR (if ss_kb_per_sec m = 0 then 0 else 0x00000008)
       OR (if ss_total_msgs m = 0 then 0 else 0x00000010)
       OR (if ss_uptime_sec m = 0 then 0 else 0x00000020),
     ss_connected_clients := map ClientInfo_canonical (ss_connected_clients m)\<rparr>"

lemmas ClientInfo_defs = clear_id_def ClientInfo_id_def set_id_def mutable_id_def release_id_def
  set_allocated_id_def clear_subscriptions_def add_subscriptions_def mutable_subscriptions_def
  set_subscriptions_def

lemmas SystemStats_defs = clear_broker_id_def broker_id_def set_broker_id_def mutable_broker_id_def
  release_broker_id_def set_allocated_broker_id_def
  clear_clients_count_def clients_count_def set_clients_count_def
  clear_peers_count_def peers_count_def set_peers_count_def
  clear_msgs_per_sec_def msgs_per_sec_def set_msgs_per_sec_def
  clear_kb_per_sec_def kb_per_sec_def set_kb_per_sec_def
  clear_total_msgs_def total_msgs_def set_total_msgs_def
  clear_uptime_sec_def uptime_sec_def set_uptime_sec_def
  clear_connected_clients_def mutable_connected_clients_def add_connected_clients_def connected_clients_def

lemma ClientInfo_ok_new [simp]: "ClientInfo_ok ClientInfo_new"
  by (simp add: ClientInfo_ok_def ClientInfo_new_def)

lemma ClientInfo_ok_accessors [wisp_inv]:
  assumes "ClientInfo_ok m"
  shows "ClientInfo_ok (clear_id m)" and "ClientInfo_ok (set_id s m)" and "ClientInfo_ok (mutable_id edit m)"
    and "ClientInfo_ok (snd (release_id m))" and "ClientInfo_ok (set_allocated_id p m)"
    and "ClientInfo_ok (clear_subscriptions m)" and "ClientInfo_ok (add_subscriptions s m)"
    and "mutable_subscriptions i edit m = Some m' \<Longrightarrow> ClientInfo_ok m'"
    and "set_subscriptions i s m = Some m' \<Longrightarrow> ClientInfo_ok m'"
  using assms by (auto simp: ClientInfo_ok_def ClientInfo_defs bit_simps split: option.splits if_splits)

lemma SystemStats_ok_new [simp]: "SystemStats_ok SystemStats_new"
  by (simp add: SystemStats_ok_def SystemStats_new_def)

lemma SystemStats_ok_accessors [wisp_inv]:
  assumes "SystemStats_ok m"
  shows "SystemStats_ok (clear_broker_id m)" and "SystemStats_ok (set_broker_id s m)"
    and "SystemStats_ok (mutable_broker_id edit m)" and "SystemStats_ok (snd (release_broker_id m))"
    and "SystemStats_ok (set_allocated_broker_id p m)"
    and "SystemStats_ok (clear_clients_count m)" and "SystemStats_ok (set_clients_count v m)"
    and "SystemStats_ok (clear_peers_count m)" and "SystemStats_ok (set_peers_count v m)"
    and "SystemStats_ok (clear_msgs_per_sec m)" and "SystemStats_ok (set_msgs_per_sec v m)"
    and "SystemStats_ok (clear_kb_per_sec m)" and "SystemStats_ok (set_kb_per_sec w m)"
    and "SystemStats_ok (clear_total_msgs m)" and "SystemStats_ok (set_total_msgs w m)"
    and "SystemStats_ok (clear_uptime_sec m)" and "SystemStats_ok (set_uptime_sec w m)"
    and "SystemStats_ok (clear_connected_clients m)"
    and "ClientInfo_ok (fill ClientInfo_new) \<Longrightarrow> SystemStats_ok (add_connected_clients fill m)"
  using assms by (auto simp: SystemStats_ok_def SystemStats_defs bit_simps split: option.splits if_splits)

lemma word_eq_0_iff_bits: "y = 0 \<longleftrightarrow> (\<forall>i. \<not> bit y i)" for y :: "32 word"
  by (auto intro: bit_eqI)

lemma block_mask_7e: "(x AND 126 = 0) = (\<forall>i < 7. 0 < i \<longrightarrow> \<not> bit x i)" for x :: "32 word"
proof -
  have "x AND 126 = (x AND mask 7) AND NOT 1"
    by (simp add: mask_eq_exp_minus_1 and.assoc)
  also have "(\<dots> = 0) = (\<forall>i < 7. 0 < i \<longrightarrow> \<not> bit x i)"
    using bit_imp_le_length [of x] unfolding word_eq_0_iff_bits by (auto simp: bit_simps)
  finally show ?thesis .
qed

lemma ClientInfo_Clear_eq: "ClientInfo_ok m \<Longrightarrow> ClientInfo_Clear m = ClientInfo_new"
  by (cases m) (auto simp: ClientInfo_ok_def ClientInfo_Clear_def ClientInfo_new_def clear_subscriptions_def Let_def)

lemma ClientInfo_MergeImpl_eq:
  "ClientInfo_MergeImpl this from =
     \<lparr>ci_has_bits = ci_has_bits this OR ci_has_bits from,
      ci_subscriptions = ci_subscriptions this @ ci_subscriptions from,
      ci_id = merged_string (bit (ci_has_bits from) 0) (ci_id from) (ci_id this),
      ci_unknown = ci_unknown this @ ci_unknown from\<rparr>"
  using absorb_bit [of "ci_has_bits from" 0 "ci_has_bits this"]
  by (cases this) (auto simp: ClientInfo_MergeImpl_def merge_string_field_def ClientInfo_defs merged_string_def
      Let_def or.assoc)

lemma ClientInfo_merge_new [simp]:
  "ClientInfo_ok from \<Longrightarrow> ClientInfo_MergeImpl ClientInfo_new from = from"
  by (cases "from") (simp add: ClientInfo_MergeImpl_eq ClientInfo_new_def ClientInfo_ok_def)

lemma SystemStats_Clear_eq: "SystemStats_ok m \<Longrightarrow> SystemStats_Clear m = SystemStats_new"
  by (cases m) (auto simp: SystemStats_ok_def SystemStats_Clear_def SystemStats_new_def
      clear_connected_clients_def Let_def block_mask_7e all_less_7_8)

definition stats_absorb :: "SystemStats \<Rightarrow> SystemStats \<Rightarrow> SystemStats" where
  "stats_absorb from this = this\<lparr>ss_has_bits := ss_has_bits this OR ss_has_bits from,
     ss_unknown := ss_unknown this @ ss_unknown from\<rparr>"

lemma merge_number_bit:
  "merge_number x m = merged_int (x AND m \<noteq> 0)"
  by (auto simp: merge_number_def [abs_def] merged_int_def [abs_def] fun_eq_iff)

lemma stats_absorb_merge:
  shows "stats_absorb from (merge_string_field (ss_has_bits from) 1 broker_id set_broker_id from this) =
       ss_broker_id_update (merged_string (bit (ss_has_bits from) 0) (ss_broker_id from)) (stats_absorb from this)"
    and "stats_absorb from (ss_clients_count_update f this) = ss_clients_count_update f (stats_absorb from this)"
    and "stats_absorb from (ss_peers_count_update f this) = ss_peers_count_update f (stats_absorb from this)"
    and "stats_absorb from (ss_kb_per_sec_update g this) = ss_kb_per_sec_update g (stats_absorb from this)"
    and "stats_absorb from (ss_total_msgs_update g this) = ss_total_msgs_update g (stats_absorb from this)"
    and "stats_absorb from (ss_uptime_sec_update g this) = ss_uptime_sec_update g (stats_absorb from this)"
    and "stats_absorb from (ss_msgs_per_sec_update f this) = ss_msgs_per_sec_update f (stats_absorb from this)"
  using absorb_bit [of "ss_has_bits from" 0 "ss_has_bits this"]
  by (auto simp: stats_absorb_def merge_string_field_def merged_string_def broker_id_def set_broker_id_def or.assoc)

lemma SystemStats_MergeImpl_eq:
  "SystemStats_MergeImpl this from =
     \<lparr>ss_has_bits = ss_has_bits this OR ss_has_bits from,
      ss_connected_clients =
        ss_connected_clients this @ map (ClientInfo_MergeImpl ClientInfo_new) (ss_connected_clients from),
      ss_broker_id = merged_string (bit (ss_has_bits from) 0) (ss_broker_id from) (ss_broker_id this),
      ss_clients_count = merged_int (bit (ss_has_bits from) 1) (ss_clients_count from) (ss_clients_count this),
      ss_peers_count = merged_int (bit (ss_has_bits from) 2) (ss_peers_count from) (ss_peers_count this),
      ss_kb_per_sec = merged_int (bit (ss_has_bits from) 3) (ss_kb_per_sec from) (ss_kb_per_sec this),
      ss_total_msgs = merged_int (bit (ss_has_bits from) 4) (ss_total_msgs from) (ss_total_msgs this),
      ss_uptime_sec = merged_int (bit (ss_has_bits from) 5) (ss_uptime_sec from) (ss_uptime_sec this),
      ss_msgs_per_sec = merged_int (bit (ss_has_bits from) 6) (ss_msgs_per_sec from) (ss_msgs_per_sec this),
      ss_unknown = ss_unknown this @ ss_unknown from\<rparr>"
proof (cases "ss_has_bits from AND 127 = 0")
  case True
  then show ?thesis
    by (cases this) (simp add: SystemStats_MergeImpl_def merged_string_def merged_int_def all_less_7_8)
next
  case False
  then show ?thesis
    unfolding SystemStats_MergeImpl_def Let_def stats_absorb_def [symmetric]
    by (cases this) (simp add: stats_absorb_merge merge_number_bit del: block_mask, simp add: stats_absorb_def)
qed

lemma SystemStats_CopyFrom_eq:
  assumes "SystemStats_ok this" "SystemStats_ok from"
  shows "SystemStats_CopyFrom this from = from"
proof -
  have "map (ClientInfo_MergeImpl ClientInfo_new) (ss_connected_clients from) = ss_connected_clients from"
    using assms(2) by (intro map_idI) (auto simp: SystemStats_ok_def list_all_iff)
  with assms show ?thesis
    by (cases "from") (simp add: SystemStats_CopyFrom_def SystemStats_Clear_eq SystemStats_MergeImpl_eq
      SystemStats_new_def SystemStats_ok_def)
qed

lemma SystemStats_InternalSwap_eq: "SystemStats_InternalSwap this other = (other, this)"
  by (cases this, cases other) (simp add: SystemStats_InternalSwap_def)

subsection \<open>Size and round trip\<close>

lemma ClientInfo_ByteSizeLong_eq:
  assumes "protobuf_runtime rt"
  shows "ClientInfo_ByteSizeLong rt m = length (ClientInfo_InternalSerialize rt m)"
proof -
  have "length (concat (map (WriteString rt 2) ss)) = length ss + sum_list (map (StringSize rt) ss)" for ss
    using assms by (induction ss) (simp_all add: protobuf_runtime.size_string)
  then show ?thesis
    using assms by (simp add: ClientInfo_ByteSizeLong_def ClientInfo_InternalSerialize_def serialize_size
        protobuf_runtime.size_unknown)
qed

lemma serialize_size_64:
  assumes "protobuf_runtime rt" "1 \<le> n" "n < 16"
  shows "length (serialize_int64 rt b m n v) = int64_size rt b m v"
    and "length (serialize_double rt b m n v) = double_size rt b m v"
  using assms
  by (simp_all add: serialize_int64_def int64_size_def serialize_double_def double_size_def
      protobuf_runtime.size_int64 protobuf_runtime.size_double)

lemma SystemStats_ByteSizeLong_eq:
  assumes "protobuf_runtime rt"
  shows "SystemStats_ByteSizeLong rt m = length (SystemStats_InternalSerialize rt m)"
proof -
  have absent: "string_size rt b k s = 0" "int32_size rt b k v = 0" "int64_size rt b k u = 0"
    "double_size rt b k u = 0" if "b AND k = 0" for b k s v u
    using that by (simp_all add: string_size_def int32_size_def int64_size_def double_size_def)
  have "length (concat (map (WriteMessage rt 8 \<circ> ClientInfo_InternalSerialize rt) cs)) =
      length cs + sum_list (map (LengthDelimitedSize rt \<circ> ClientInfo_ByteSizeLong rt) cs)" for cs
    using assms by (induction cs) (simp_all add: protobuf_runtime.size_message ClientInfo_ByteSizeLong_eq)
  then show ?thesis
    by (simp add: SystemStats_ByteSizeLong_def SystemStats_InternalSerialize_def Let_def assms
        serialize_size serialize_size_64 absent all_less_7_8 protobuf_runtime.size_unknown)
qed

lemma parse_written_list:
  assumes "\<And>x bs. x \<in> set xs \<Longrightarrow> ParseFields rt (write x @ bs) = map_option (Cons (field x)) (ParseFields rt bs)"
  shows "ParseFields rt (concat (map write xs) @ bs) = map_option ((@) (map field xs)) (ParseFields rt bs)"
  using assms by (induction xs) (auto simp: map_option_case split: option.splits)

lemma ClientInfo_ParseFields:
  assumes "protobuf_runtime rt" "ClientInfo_ok m" "ClientInfo_encodable m"
  shows "ParseFields rt (ClientInfo_InternalSerialize rt m) = Some (ClientInfo_fields m)"
  using assms parse_written_list [of "ci_subscriptions m" rt "WriteString rt 2" "\<lambda>s. (2, LengthDelimited s)"]
  by (simp add: ClientInfo_InternalSerialize_def ClientInfo_fields_def ClientInfo_ok_def
      ClientInfo_encodable_def ClientInfo_strings_def parse_serialized parse_unknown_set
      protobuf_runtime.parse_string field_number_def list_all_iff)

lemma parse_subscriptions:
  "parse_loop (ClientInfo_table rt) (map (\<lambda>s. (2, LengthDelimited s)) ss) m =
     (if list_all (Utf8Valid rt) ss then Some (m\<lparr>ci_subscriptions := ci_subscriptions m @ ss\<rparr>) else None)"
  by (induction ss arbitrary: m) (simp_all add: ClientInfo_table_def parse_string_field_def add_subscriptions_def)

lemma parse_client_foreign:
  "list_all (\<lambda>f. case f of (n, LengthDelimited _) \<Rightarrow> n \<notin> {1, 2} | _ \<Rightarrow> True) us \<Longrightarrow>
     parse_loop (ClientInfo_table rt) us m = Some (m\<lparr>ci_unknown := ci_unknown m @ us\<rparr>)"
proof (induction us arbitrary: m)
  case (Cons f us)
  then have "ClientInfo_table rt f m = Some (m\<lparr>ci_unknown := ci_unknown m @ [f]\<rparr>)"
    by (auto simp: ClientInfo_table_def split: prod.splits wire_value.splits)
  with Cons show ?case by simp
qed simp

lemma parse_client_serialized:
  assumes "protobuf_runtime rt" "ClientInfo_ok m" "ClientInfo_encodable m"
  shows "parse_client rt (ClientInfo_InternalSerialize rt m) =
    (if list_all (Utf8Valid rt) (ClientInfo_strings m) then Some (ClientInfo_canonical m) else None)"
proof -
  have foreign: "list_all (\<lambda>f. case f of (n, LengthDelimited _) \<Rightarrow> n \<notin> {1, 2} | _ \<Rightarrow> True) (ci_unknown m)"
    using assms(3) unfolding ClientInfo_encodable_def by (simp add: list_all_iff)
  have id: "ci_id c = [] \<Longrightarrow> parse_loop (ClientInfo_table rt) (string_field 1 s) c =
     (if Utf8Valid rt s then Some (c\<lparr>ci_id := s, ci_has_bits := ci_has_bits c OR (if s = [] then 0 else 1)\<rparr>)
      else None)" for s c
    using protobuf_runtime.utf8_ascii [OF assms(1), of "[]"]
    by (auto simp: string_field_def ClientInfo_table_def parse_string_field_def set_id_def ascii_def)
  have "parse_client rt (ClientInfo_InternalSerialize rt m) =
      parse_loop (ClientInfo_table rt) (ClientInfo_fields m) ClientInfo_new"
    by (simp add: parse_client_def ClientInfo_ParseFields [OF assms])
  then show ?thesis
    using foreign
    by (cases m) (simp add: ClientInfo_fields_def parse_loop_append
        id parse_subscriptions parse_client_foreign ClientInfo_strings_def ClientInfo_canonical_def
        ClientInfo_new_def bind_if if_if_None del: One_nat_def cong: if_cong split del: if_split)
qed

lemma parse_serialized_64:
  assumes "protobuf_runtime rt" "field_number n" "v \<noteq> 0 \<longrightarrow> b AND m \<noteq> 0"
  shows "ParseFields rt (serialize_int64 rt b m n v @ bs) = map_option ((@) (int64_field n v)) (ParseFields rt bs)"
    and "ParseFields rt (serialize_double rt b m n v @ bs) = map_option ((@) (double_field n v)) (ParseFields rt bs)"
  using assms
  by (auto simp: serialize_int64_def int64_field_def serialize_double_def double_field_def
      protobuf_runtime.parse_int64 protobuf_runtime.parse_double map_option_case split: option.splits)

lemma SystemStats_ParseFields:
  assumes "protobuf_runtime rt" "SystemStats_ok m" "SystemStats_encodable rt m"
  shows "ParseFields rt (SystemStats_InternalSerialize rt m) = Some (SystemStats_fields rt m)"
proof -
  have clients: "ParseFields rt
      (concat (map (WriteMessage rt 8 \<circ> ClientInfo_InternalSerialize rt) (ss_connected_clients m)) @ bs) =
      map_option ((@) (map (\<lambda>c. (8, LengthDelimited (ClientInfo_InternalSerialize rt c))) (ss_connected_clients m)))
        (ParseFields rt bs)" for bs
    using assms(1,3)
    by (intro parse_written_list)
       (simp add: SystemStats_encodable_def list_all_iff protobuf_runtime.parse_message field_number_def)
  show ?thesis
    using assms clients
    by (simp add: SystemStats_InternalSerialize_def SystemStats_fields_def SystemStats_ok_def
        SystemStats_encodable_def parse_serialized parse_serialized_64 parse_unknown_set
        field_number_def list_all_iff)
qed

lemma stats_parse_string:
  assumes "protobuf_runtime rt"
  shows "ss_broker_id m = [] \<Longrightarrow> parse_loop (SystemStats_table rt) (string_field 1 s) m =
    (if Utf8Valid rt s then Some (m\<lparr>ss_broker_id := s, ss_has_bits := ss_has_bits m OR (if s = [] then 0 else 1)\<rparr>)
     else None)"
  using protobuf_runtime.utf8_ascii [OF assms, of "[]"]
  by (auto simp: string_field_def SystemStats_table_def parse_string_field_def set_broker_id_def ascii_def)

lemma stats_parse_number:
  shows "ss_clients_count m = 0 \<Longrightarrow> parse_loop (SystemStats_table rt) (int32_field 2 v) m =
       Some (m\<lparr>ss_clients_count := v, ss_has_bits := ss_has_bits m OR (if v = 0 then 0 else 0x00000002)\<rparr>)"
    and "ss_peers_count m = 0 \<Longrightarrow> parse_loop (SystemStats_table rt) (int32_field 3 v) m =
       Some (m\<lparr>ss_peers_count := v, ss_has_bits := ss_has_bits m OR (if v = 0 then 0 else 0x00000004)\<rparr>)"
    and "ss_msgs_per_sec m = 0 \<Longrightarrow> parse_loop (SystemStats_table rt) (int32_field 4 v) m =
       Some (m\<lparr>ss_msgs_per_sec := v, ss_has_bits := ss_has_bits m OR (if v = 0 then 0 else 0x00000040)\<rparr>)"
    and "ss_kb_per_sec m = 0 \<Longrightarrow> parse_loop (SystemStats_table rt) (double_field 5 w) m =
       Some (m\<lparr>ss_kb_per_sec := w, ss_has_bits := ss_has_bits m OR (if w = 0 then 0 else 0x00000008)\<rparr>)"
    and "ss_total_msgs m = 0 \<Longrightarrow> parse_loop (SystemStats_table rt) (int64_field 6 w) m =
       Some (m\<lparr>ss_total_msgs := w, ss_has_bits := ss_has_bits m OR (if w = 0 then 0 else 0x00000010)\<rparr>)"
    and "ss_uptime_sec m = 0 \<Longrightarrow> parse_loop (SystemStats_table rt) (int64_field 7 w) m =
       Some (m\<lparr>ss_uptime_sec := w, ss_has_bits := ss_has_bits m OR (if w = 0 then 0 else 0x00000020)\<rparr>)"
  by (auto simp: int32_field_def int64_field_def double_field_def SystemStats_table_def SystemStats_defs ucast_scast_32)

lemma stats_parse_clients:
  assumes "protobuf_runtime rt"
  shows "list_all (\<lambda>c. ClientInfo_ok c \<and> ClientInfo_encodable c) cs \<Longrightarrow>
    parse_loop (SystemStats_table rt) (map (\<lambda>c. (8, LengthDelimited (ClientInfo_InternalSerialize rt c))) cs) m =
      (if list_all (Utf8Valid rt) (concat (map ClientInfo_strings cs))
       then Some (m\<lparr>ss_connected_clients := ss_connected_clients m @ map ClientInfo_canonical cs\<rparr>) else None)"
  by (induction cs arbitrary: m)
     (simp_all add: SystemStats_table_def parse_client_serialized assms add_connected_clients_def)

lemma stats_parse_foreign:
  "list_all SystemStats_foreign us \<Longrightarrow>
     parse_loop (SystemStats_table rt) us m = Some (m\<lparr>ss_unknown := ss_unknown m @ us\<rparr>)"
proof (induction us arbitrary: m)
  case (Cons f us)
  then have "SystemStats_table rt f m = Some (m\<lparr>ss_unknown := ss_unknown m @ [f]\<rparr>)"
    by (auto simp: SystemStats_table_def SystemStats_foreign_def split: prod.splits wire_value.splits)
  with Cons show ?case by simp
qed simp

lemma SystemStats_parse_serialized:
  assumes "protobuf_runtime rt" "SystemStats_ok m" "SystemStats_encodable rt m" "SystemStats_ok m0"
  shows "SystemStats_ParseFromArray rt (SystemStats_InternalSerialize rt m) m0 =
    (if list_all (Utf8Valid rt) (SystemStats_strings m) then Some (SystemStats_canonical m) else None)"
proof -
  have clients: "list_all (\<lambda>c. ClientInfo_ok c \<and> ClientInfo_encodable c) (ss_connected_clients m)"
    and foreign: "list_all SystemStats_foreign (ss_unknown m)"
    using assms(2,3) by (auto simp: SystemStats_ok_def SystemStats_encodable_def list_all_iff)
  have "SystemStats_ParseFromArray rt (SystemStats_InternalSerialize rt m) m0 =
      parse_loop (SystemStats_table rt) (SystemStats_fields rt m) SystemStats_new"
    by (simp add: SystemStats_ParseFromArray_def SystemStats_ParseFields [OF assms(1-3)]
        SystemStats_Clear_eq [OF assms(4)])
  then show ?thesis
    using assms(1) clients foreign
    by (cases m) (simp add: SystemStats_fields_def SystemStats_strings_def SystemStats_canonical_def
        SystemStats_new_def parse_loop_append stats_parse_string stats_parse_number stats_parse_clients
        stats_parse_foreign bind_if if_if_None or.assoc
        del: One_nat_def cong: if_cong split del: if_split)
qed

subsection \<open>Properties\<close>

text \<open>
  C39. The statistics message survives the wire: \<open>ByteSizeLong\<close> is the number of bytes
  \<open>_InternalSerialize\<close> writes, nested clients included, and parsing them gives back every field,
  every client and every subscription in order when all text is valid UTF-8, and fails otherwise.
\<close>

theorem SystemStats_serialization:
  assumes "protobuf_runtime rt" "SystemStats_ok m" "SystemStats_encodable rt m" "SystemStats_ok m0"
  shows "SystemStats_ByteSizeLong rt m = length (SystemStats_InternalSerialize rt m) \<and>
    SystemStats_ParseFromArray rt (SystemStats_InternalSerialize rt m) m0 =
      (if list_all (Utf8Valid rt) (SystemStats_strings m) then Some (SystemStats_canonical m) else None)"
  using assms by (simp add: SystemStats_ByteSizeLong_eq SystemStats_parse_serialized)

definition stats_example :: SystemStats where
  "stats_example =
     add_connected_clients (set_id ''c'' \<circ> add_subscriptions ''t'')
       (set_kb_per_sec 0x3FF0000000000000 (set_clients_count 1 (set_broker_id ''b'' SystemStats_new)))"

text \<open>Witness for C39: one client with one subscription, in the documented wire format.\<close>

theorem SystemStats_serialization_witness:
  "SystemStats_ok stats_example \<and> SystemStats_encodable pb_wire_format stats_example \<and>
   SystemStats_ParseFromArray pb_wire_format
     (SystemStats_InternalSerialize pb_wire_format stats_example) SystemStats_new = Some stats_example"
proof -
  have ex: "stats_example = \<lparr>ss_has_bits = 0xB,
      ss_connected_clients = [\<lparr>ci_has_bits = 1, ci_subscriptions = [''t''], ci_id = ''c'', ci_unknown = []\<rparr>],
      ss_broker_id = ''b'', ss_clients_count = 1, ss_peers_count = 0, ss_kb_per_sec = 0x3FF0000000000000,
      ss_total_msgs = 0, ss_uptime_sec = 0, ss_msgs_per_sec = 0, ss_unknown = []\<rparr>"
    by (simp add: stats_example_def SystemStats_new_def set_kb_per_sec_def set_clients_count_def
        set_broker_id_def add_connected_clients_def ClientInfo_new_def set_id_def add_subscriptions_def)
  have ok: "SystemStats_ok stats_example"
    by (simp add: ex SystemStats_ok_def ClientInfo_ok_def bit_simps)
  have canonical: "SystemStats_canonical stats_example = stats_example"
    by (simp add: ex SystemStats_canonical_def ClientInfo_canonical_def)
  have utf8: "list_all (Utf8Valid pb_wire_format) (SystemStats_strings stats_example)"
    by (simp add: ex SystemStats_strings_def ClientInfo_strings_def wire.utf8_ascii ascii_def)
  have enc: "SystemStats_encodable pb_wire_format stats_example"
    by (simp add: ex SystemStats_encodable_def ClientInfo_encodable_def ClientInfo_strings_def
        ClientInfo_InternalSerialize_def serialize_string_def wire_writers varint_small)
  show ?thesis
    using SystemStats_serialization [OF wire.protobuf_runtime_axioms ok enc SystemStats_ok_new]
    by (simp add: ok enc utf8 canonical)
qed

end
