(* ===== verification/Cxx_Double.thy ===== *)
theory Cxx_Double
  imports Wisp_Prelude Complex_Main "HOL-Library.Log_Nat"
begin

text \<open>
  IEEE 754 binary64 values by their bits, as far as the statistics need them: the conversion of an unsigned
  integer, rounded to nearest with ties to even, and the division by 1024, which only lowers the exponent.
\<close>

definition round_even :: "nat \<Rightarrow> nat \<Rightarrow> nat" where
  "round_even n k =
     (let q = n div 2 ^ k; r = n mod 2 ^ k in
      if 2 * r > 2 ^ k \<or> 2 * r = 2 ^ k \<and> odd q then q + 1 else q)"

text \<open>A mantissa rounded up to \<open>2^53\<close> carries into the exponent field, as it should.\<close>

definition double_of_uint64 :: "64 word \<Rightarrow> 64 word" where
  "double_of_uint64 w =
     (let n = unat w; e = floorlog 2 n - 1;
          m = (if e \<le> 52 then n * 2 ^ (52 - e) else round_even n (e - 52))
      in if n = 0 then 0 else of_nat ((1023 + e) * 2 ^ 52 + (m - 2 ^ 52)))"

definition double_div_1024 :: "64 word \<Rightarrow> 64 word" where
  "double_div_1024 b = (if b = 0 then 0 else b - of_nat (10 * 2 ^ 52))"

text \<open>The value of a non-negative normal number or zero.\<close>

definition double_value :: "64 word \<Rightarrow> real" where
  "double_value b =
     (if b = 0 then 0
      else real (2 ^ 52 + unat b mod 2 ^ 52) * 2 ^ (unat b div 2 ^ 52) / 2 ^ 1075)"

lemma normalized:
  assumes "0 < n" "n < 2 ^ 53"
  obtains e where "floorlog 2 n = Suc e" "e \<le> 52" "2 ^ 52 \<le> n * 2 ^ (52 - e)" "n * 2 ^ (52 - e) < 2 ^ 53"
proof -
  define e where "e = floorlog 2 n - 1"
  have pos: "floorlog 2 n \<noteq> 0" using assms(1) by (simp add: floorlog_eq_zero_iff)
  have bounds: "2 ^ e \<le> n" "n < 2 ^ Suc e"
    using floorlog_bounds [of n 2] assms(1) pos by (simp_all add: e_def)
  with assms(2) have "(2 :: nat) ^ e < 2 ^ 53" by linarith
  then have e: "e \<le> 52" using power_strict_increasing_iff [of "2 :: nat" e 53] by simp
  then have split: "(2 :: nat) ^ 52 = 2 ^ e * 2 ^ (52 - e)" "(2 :: nat) ^ 53 = 2 ^ Suc e * 2 ^ (52 - e)"
    by (simp_all flip: power_add)
  show thesis
  proof (rule that [of e])
    show "floorlog 2 n = Suc e" using pos by (simp add: e_def)
    show "2 ^ 52 \<le> n * 2 ^ (52 - e)" unfolding split by (rule mult_le_mono1) (rule bounds)
    show "n * 2 ^ (52 - e) < 2 ^ 53" unfolding split by (rule mult_less_mono1) (use bounds in simp_all)
  qed (rule e)
qed

lemma scale_power: "n = k + j + i \<Longrightarrow> x * 2 ^ k * 2 ^ j / 2 ^ n = x / (2 :: real) ^ i"
  by (simp add: power_add)

lemma unat_small: "k < 2 ^ 64 \<Longrightarrow> unat (of_nat k :: 64 word) = k"
  by (simp add: unat_of_nat take_bit_nat_eq_self)

lemma double_value_nat:
  assumes "f < 2 ^ 52" "0 < e" "e < 2048"
  shows "double_value (of_nat (e * 2 ^ 52 + f)) = real (2 ^ 52 + f) * 2 ^ e / 2 ^ 1075"
proof -
  have "e * 2 ^ 52 + f < 2 ^ 64" using assms by simp
  then have u: "unat (of_nat (e * 2 ^ 52 + f) :: 64 word) = e * 2 ^ 52 + f"
    by (rule unat_small)
  with assms(2) have nz: "(of_nat (e * 2 ^ 52 + f) :: 64 word) \<noteq> 0"
    by (metis add_is_0 mult_is_0 neq0_conv power_eq_0_iff unat_0 zero_neq_numeral)
  have "(e * 2 ^ 52 + f) div 2 ^ 52 = e" "(e * 2 ^ 52 + f) mod 2 ^ 52 = f"
    using assms(1) by simp_all
  then show ?thesis unfolding double_value_def u by (simp only: nz if_False)
qed

lemma kb_exact:
  assumes "unat w < 2 ^ 53"
  shows "double_value (double_div_1024 (double_of_uint64 w)) = real (unat w) / 1024"
proof (cases "unat w = 0")
  case True
  then show ?thesis by (simp add: double_of_uint64_def double_div_1024_def double_value_def)
next
  case False
  then obtain e where e: "floorlog 2 (unat w) = Suc e" "e \<le> 52"
    and m: "2 ^ 52 \<le> unat w * 2 ^ (52 - e)" "unat w * 2 ^ (52 - e) < 2 ^ 53"
    using normalized [of "unat w"] assms by auto
  define f where "f = unat w * 2 ^ (52 - e) - 2 ^ 52"
  have f: "f < 2 ^ 52" "2 ^ 52 + f = unat w * 2 ^ (52 - e)" using m by (simp_all add: f_def)
  have bits: "double_of_uint64 w = of_nat ((1023 + e) * 2 ^ 52 + f)"
    using False e by (simp add: double_of_uint64_def Let_def f_def)
  have "(1023 + e) * 2 ^ 52 + f < 2 ^ 64" using f(1) e(2) by simp
  then have "unat (double_of_uint64 w) = (1023 + e) * 2 ^ 52 + f"
    unfolding bits by (rule unat_small)
  then have nz: "double_of_uint64 w \<noteq> 0" by auto
  have "(1023 + e) * 2 ^ 52 + f = ((1013 + e) * 2 ^ 52 + f) + 10 * 2 ^ 52" by simp
  then have "(of_nat ((1023 + e) * 2 ^ 52 + f) :: 64 word) = of_nat ((1013 + e) * 2 ^ 52 + f) + of_nat (10 * 2 ^ 52)"
    by (simp only: of_nat_add)
  with nz have kb: "double_div_1024 (double_of_uint64 w) = of_nat ((1013 + e) * 2 ^ 52 + f)"
    unfolding double_div_1024_def bits by (simp only: if_False add_diff_cancel_right')
  have "double_value (double_div_1024 (double_of_uint64 w)) = real (2 ^ 52 + f) * 2 ^ (1013 + e) / 2 ^ 1075"
    unfolding kb by (rule double_value_nat [OF f(1)]) (use e(2) in simp_all)
  also have "real (2 ^ 52 + f) = real (unat w) * 2 ^ (52 - e)" unfolding f(2) by simp
  also have "real (unat w) * 2 ^ (52 - e) * 2 ^ (1013 + e) / 2 ^ 1075 = real (unat w) / 2 ^ 10"
    by (rule scale_power) (use e(2) in simp)
  also have "(2 :: real) ^ 10 = 1024" by simp
  finally show ?thesis .
qed

end
