(* ===== verification/Discovery.thy ===== *)
theory Discovery
  imports Cxx_String
begin

text \<open>
  \<open>BrokerDiscovery\<close> (\<open>server/discovery.h\<close>, \<open>server/discovery.cpp\<close>): the beacon format, the decision which
  broker of a pair dials, and the expiry of silent peers. The callbacks \<open>m_dial\<close> and \<open>m_drop\<close> and the
  beacon datagram are actions returned to the caller, in the order of the code; whether a callback is
  set is a field. One turn of the UDP loop is \<open>discovery_iteration\<close>; what the operating system answers
  in it (clock, \<open>poll\<close>, \<open>recvfrom\<close>, \<open>inet_ntop\<close>) is the argument \<open>discovery_tick\<close>.
\<close>

definition kMagic :: string where "kMagic = ''WISP''"
definition kVersion :: string where "kVersion = ''1''"
definition kDefaultPort :: "16 word" where "kDefaultPort = 5670"

record Beacon =
  bc_cluster :: string
  bc_uuid :: string
  bc_routerPort :: "16 word"

record PeerEntry =
  pe_address :: string
  pe_lastSeen :: time

record BrokerDiscovery =
  d_cluster :: string
  d_selfUuid :: string
  d_routerPort :: "16 word"
  d_discoveryPort :: "16 word"
  d_dial :: bool
  d_drop :: bool
  d_running :: bool
  d_dialed :: "(string, PeerEntry) umap"

definition beaconInterval :: time where "beaconInterval = seconds 1"
definition peerTimeout :: time where "peerTimeout = seconds 5"

definition BrokerDiscovery_new :: "string \<Rightarrow> string \<Rightarrow> 16 word \<Rightarrow> 16 word \<Rightarrow> bool \<Rightarrow> bool \<Rightarrow> BrokerDiscovery" where
  "BrokerDiscovery_new cluster selfUuid routerPort discoveryPort dialFn dropFn =
     \<lparr>d_cluster = cluster, d_selfUuid = selfUuid, d_routerPort = routerPort, d_discoveryPort = discoveryPort,
      d_dial = dialFn, d_drop = dropFn, d_running = False, d_dialed = []\<rparr>"

definition encodeBeacon :: "string \<Rightarrow> string \<Rightarrow> 16 word \<Rightarrow> string" where
  "encodeBeacon cluster uuid routerPort =
     kMagic @ ''|'' @ kVersion @ ''|'' @ cluster @ ''|'' @ uuid @ ''|'' @ to_string (unat routerPort)"

function beacon_fields :: "string \<Rightarrow> nat \<Rightarrow> string list" where
  "beacon_fields s start =
     (case find_from (CHR ''|'') s start of
        None \<Rightarrow> [drop start s]
      | Some pos \<Rightarrow> take (pos - start) (drop start s) # beacon_fields s (pos + 1))"
  by pat_completeness auto
termination
  by (relation "measure (\<lambda>(s, start). length s - start)") (auto dest!: find_from_Some)

declare beacon_fields.simps [simp del]

definition decodeBeacon :: "string \<Rightarrow> Beacon option" where
  "decodeBeacon s =
     (let fields = beacon_fields s 0 in
      if length fields \<noteq> 5 \<or> fields ! 0 \<noteq> kMagic \<or> fields ! 1 \<noteq> kVersion then None
      else case stoi (fields ! 4) of
             Inl _ \<Rightarrow> None
           | Inr port \<Rightarrow>
               if port \<le> 0 \<or> port > 65535 then None
               else Some \<lparr>bc_cluster = fields ! 2, bc_uuid = fields ! 3, bc_routerPort = of_int port\<rparr>)"

datatype discovery_action = Dial string string | Drop string | SendBeacon bytes

definition tcp_address :: "string \<Rightarrow> 16 word \<Rightarrow> string" where
  "tcp_address ip port = ''tcp://'' @ ip @ '':'' @ to_string (unat port)"

definition onDatagram ::
    "string \<Rightarrow> bytes \<Rightarrow> time \<Rightarrow> BrokerDiscovery \<Rightarrow> BrokerDiscovery \<times> discovery_action list" where
  "onDatagram senderIp data now d =
     (case decodeBeacon data of
        None \<Rightarrow> (d, [])
      | Some beacon \<Rightarrow>
          if bc_cluster beacon \<noteq> d_cluster d then (d, [])
          else if bc_uuid beacon = d_selfUuid d then (d, [])
          else if \<not> d_selfUuid d < bc_uuid beacon then (d, [])
          else
            let address = tcp_address senderIp (bc_routerPort beacon);
                isNew = (umap_find (d_dialed d) (bc_uuid beacon) = None);
                d = d\<lparr>d_dialed := umap_put (bc_uuid beacon) \<lparr>pe_address = address, pe_lastSeen = now\<rparr> (d_dialed d)\<rparr>
            in (d, if isNew \<and> d_dial d then [Dial (bc_uuid beacon) address] else []))"

fun expire_loop :: "time \<Rightarrow> (string, PeerEntry) umap \<Rightarrow> string list \<times> (string, PeerEntry) umap" where
  "expire_loop now [] = ([], [])"
| "expire_loop now ((uuid, e) # rest) =
     (case expire_loop now rest of (lost, kept) \<Rightarrow>
      if now - pe_lastSeen e > peerTimeout then (uuid # lost, kept) else (lost, (uuid, e) # kept))"

definition expireStale :: "time \<Rightarrow> BrokerDiscovery \<Rightarrow> BrokerDiscovery \<times> discovery_action list" where
  "expireStale now d =
     (case expire_loop now (d_dialed d) of (lost, kept) \<Rightarrow>
        (d\<lparr>d_dialed := kept\<rparr>, if d_drop d then map Drop lost else []))"

definition BrokerDiscovery_start :: "BrokerDiscovery \<Rightarrow> BrokerDiscovery" where
  "BrokerDiscovery_start d = d\<lparr>d_running := True\<rparr>"

definition BrokerDiscovery_stop :: "BrokerDiscovery \<Rightarrow> BrokerDiscovery" where
  "BrokerDiscovery_stop d = d\<lparr>d_running := False\<rparr>"

record discovery_tick =
  dt_now :: time
  dt_datagram :: "bytes option"
  dt_ip :: "string option"
  dt_rx :: time

text \<open>\<open>recvfrom\<close> cuts a datagram to the 512 bytes of the buffer; an empty datagram gives \<open>n = 0\<close>.\<close>

definition beacon_buffer :: nat where "beacon_buffer = 512"

definition discovery_receive :: "discovery_tick \<Rightarrow> BrokerDiscovery \<Rightarrow> BrokerDiscovery \<times> discovery_action list" where
  "discovery_receive tick d =
     (case dt_datagram tick of
        None \<Rightarrow> (d, [])
      | Some bs \<Rightarrow>
          let buf = take beacon_buffer bs in
          if buf = [] then (d, [])
          else case dt_ip tick of
                 None \<Rightarrow> (d, [])
               | Some ip \<Rightarrow> onDatagram ip buf (dt_rx tick) d)"

definition discovery_iteration ::
    "discovery_tick \<Rightarrow> BrokerDiscovery \<times> time \<Rightarrow> (BrokerDiscovery \<times> time) \<times> discovery_action list" where
  "discovery_iteration tick c =
     (case c of (d, nextBeacon) \<Rightarrow>
        let now = dt_now tick;
            (d, nextBeacon, acts) =
              (if now \<ge> nextBeacon then
                 (case expireStale now d of (d', drops) \<Rightarrow>
                    (d', now + beaconInterval,
                     SendBeacon (encodeBeacon (d_cluster d) (d_selfUuid d) (d_routerPort d)) # drops))
               else (d, nextBeacon, []));
            (d, acts') = discovery_receive tick d
        in ((d, nextBeacon), acts @ acts'))"

fun discovery_run ::
    "discovery_tick list \<Rightarrow> BrokerDiscovery \<times> time \<Rightarrow> (BrokerDiscovery \<times> time) \<times> discovery_action list" where
  "discovery_run [] c = (c, [])"
| "discovery_run (tick # ticks) c =
     (if \<not> d_running (fst c) then (c, [])
      else case discovery_iteration tick c of (c', acts) \<Rightarrow>
           case discovery_run ticks c' of (c'', acts') \<Rightarrow> (c'', acts @ acts'))"

text \<open>The thread: a failing \<open>socket\<close> or \<open>bind\<close> ends it before the loop.\<close>

definition BrokerDiscovery_run ::
    "int \<Rightarrow> int \<Rightarrow> time \<Rightarrow> discovery_tick list \<Rightarrow> BrokerDiscovery \<Rightarrow> BrokerDiscovery \<times> discovery_action list" where
  "BrokerDiscovery_run sock bound t0 ticks d =
     (if sock < 0 then (d, [])
      else if bound < 0 then (d, [])
      else case discovery_run ticks (d, t0) of ((d', _), acts) \<Rightarrow> (d', acts))"

subsection \<open>The beacon format\<close>

lemma beacon_fields_sep:
  assumes "drop start s = f @ CHR ''|'' # rest" "CHR ''|'' \<notin> set f"
  shows "beacon_fields s start = f # beacon_fields s (start + length f + 1)"
proof -
  have len: "start + length f < length s"
    using arg_cong [OF assms(1), of length] by simp
  have "takeWhile (\<lambda>d. d \<noteq> CHR ''|'') (drop start s) = f"
    using assms by (auto simp: takeWhile_append)
  with len have "find_from (CHR ''|'') s start = Some (start + length f)"
    by (simp add: find_from_def)
  with assms show ?thesis by (simp add: beacon_fields.simps [of s start])
qed

lemma beacon_fields_at:
  assumes "CHR ''|'' \<notin> set f"
  shows "beacon_fields (pre @ f @ ''|'' @ rest) (length pre) =
    f # beacon_fields (pre @ f @ ''|'' @ rest) (length (pre @ f @ ''|''))"
  using beacon_fields_sep [of "length pre" "pre @ f @ ''|'' @ rest" f rest] assms by simp

lemma beacon_fields_last:
  assumes "CHR ''|'' \<notin> set (drop start s)" "start \<le> length s"
  shows "beacon_fields s start = [drop start s]"
proof -
  have "length (takeWhile (\<lambda>d. d \<noteq> CHR ''|'') (drop start s)) = length (drop start s)"
    using assms by (subst takeWhile_eq_all_conv [THEN iffD2]) auto
  with assms(2) have "find_from (CHR ''|'') s start = None"
    by (simp add: find_from_def Let_def)
  then show ?thesis by (simp add: beacon_fields.simps [of s start])
qed

lemma length_beacon_fields:
  "start \<le> length s \<Longrightarrow> length (beacon_fields s start) = Suc (count_list (drop start s) (CHR ''|''))"
proof (induction s start rule: beacon_fields.induct)
  case (1 s start)
  show ?case
  proof (cases "find_from (CHR ''|'') s start")
    case None
    then show ?thesis
      using find_from_None [OF None] by (simp add: beacon_fields.simps [of s start] count_notin)
  next
    case (Some pos)
    note pos = find_from_Some [OF Some]
    have split: "drop start s = take (pos - start) (drop start s) @ CHR ''|'' # drop (pos + 1) s"
    proof -
      have "drop (pos - start) (drop start s) = CHR ''|'' # drop (pos + 1) s"
        using pos Cons_nth_drop_Suc [of pos s] by simp
      then show ?thesis by (metis append_take_drop_id)
    qed
    have "count_list (drop start s) (CHR ''|'') = Suc (count_list (drop (pos + 1) s) (CHR ''|''))"
      by (subst split) (use pos in \<open>simp add: count_notin\<close>)
    moreover have "length (beacon_fields s (pos + 1)) = Suc (count_list (drop (pos + 1) s) (CHR ''|''))"
      using "1.IH" [OF Some] pos by simp
    ultimately show ?thesis
      using Some by (simp add: beacon_fields.simps [of s start])
  qed
qed

definition raw_beacon :: "string \<Rightarrow> string \<Rightarrow> string \<Rightarrow> string" where
  "raw_beacon cluster uuid digits = ''WISP|1|'' @ cluster @ ''|'' @ uuid @ ''|'' @ digits"

lemma encodeBeacon_raw: "encodeBeacon c u p = raw_beacon c u (to_string (unat p))"
  by (simp add: encodeBeacon_def raw_beacon_def kMagic_def kVersion_def)

lemma beacon_fields_raw:
  assumes "CHR ''|'' \<notin> set c" "CHR ''|'' \<notin> set u" "CHR ''|'' \<notin> set ds"
  shows "beacon_fields (raw_beacon c u ds) 0 = [''WISP'', ''1'', c, u, ds]"
proof -
  let ?s = "raw_beacon c u ds"
  have 1: "beacon_fields ?s 0 = ''WISP'' # beacon_fields ?s (length ''WISP|'')"
    using beacon_fields_at [of "''WISP''" "[]" "''1|'' @ c @ ''|'' @ u @ ''|'' @ ds"] by (simp add: raw_beacon_def)
  have 2: "beacon_fields ?s (length ''WISP|'') = ''1'' # beacon_fields ?s (length ''WISP|1|'')"
    using beacon_fields_at [of "''1''" "''WISP|''" "c @ ''|'' @ u @ ''|'' @ ds"] by (simp add: raw_beacon_def)
  have 3: "beacon_fields ?s (length ''WISP|1|'') = c # beacon_fields ?s (length (''WISP|1|'' @ c @ ''|''))"
    using beacon_fields_at [of c "''WISP|1|''" "u @ ''|'' @ ds"] assms by (simp add: raw_beacon_def)
  have 4: "beacon_fields ?s (length (''WISP|1|'' @ c @ ''|'')) =
      u # beacon_fields ?s (length (''WISP|1|'' @ c @ ''|'' @ u @ ''|''))"
    using beacon_fields_at [of u "''WISP|1|'' @ c @ ''|''" ds] assms by (simp add: raw_beacon_def)
  have "drop (length (''WISP|1|'' @ c @ ''|'' @ u @ ''|'')) ?s = ds" by (simp add: raw_beacon_def)
  then have 5: "beacon_fields ?s (length (''WISP|1|'' @ c @ ''|'' @ u @ ''|'')) = [ds]"
    using beacon_fields_last [of "length (''WISP|1|'' @ c @ ''|'' @ u @ ''|'')" ?s] assms by (simp add: raw_beacon_def)
  show ?thesis unfolding 1 2 3 4 5 ..
qed

lemma decodeBeacon_raw:
  assumes "CHR ''|'' \<notin> set c" "CHR ''|'' \<notin> set u" "CHR ''|'' \<notin> set ds"
  shows "decodeBeacon (raw_beacon c u ds) =
    (case stoi ds of
       Inl _ \<Rightarrow> None
     | Inr p \<Rightarrow> if p \<le> 0 \<or> p > 65535 then None
                else Some \<lparr>bc_cluster = c, bc_uuid = u, bc_routerPort = of_int p\<rparr>)"
  by (simp add: decodeBeacon_def beacon_fields_raw [OF assms] kMagic_def kVersion_def Let_def numeral_eq_Suc
      split: sum.splits)

lemma unat_port: "unat (p :: 16 word) < 65536"
  using unsigned_less [of p, where ?'a = nat] by simp

lemma to_string_no_sep: "CHR ''|'' \<notin> set (to_string n)"
  using to_string_digits [of n] is_digit_not_sign by (auto simp: list_all_iff)

lemma decode_encodeBeacon:
  "decodeBeacon (encodeBeacon c u p) =
     (if CHR ''|'' \<in> set c \<union> set u \<or> p = 0 then None
      else Some \<lparr>bc_cluster = c, bc_uuid = u, bc_routerPort = p\<rparr>)"
proof (cases "CHR ''|'' \<in> set c \<union> set u")
  case True
  have "count_list (encodeBeacon c u p) (CHR ''|'') = 4 + count_list c (CHR ''|'') + count_list u (CHR ''|'')"
    by (simp add: encodeBeacon_raw raw_beacon_def count_notin [OF to_string_no_sep])
  moreover have "0 < count_list c (CHR ''|'') + count_list u (CHR ''|'')"
    using True by (metis Un_iff add_gr_0 count_list_0_iff neq0_conv)
  ultimately have "length (beacon_fields (encodeBeacon c u p) 0) \<noteq> 5"
    using length_beacon_fields [of 0 "encodeBeacon c u p"] by simp
  then have "decodeBeacon (encodeBeacon c u p) = None"
    unfolding decodeBeacon_def Let_def by (simp only: simp_thms if_True not_False_eq_True)
  then show ?thesis using True by simp
next
  case False
  have "stoi (to_string (unat p)) = Inr (int (unat p))"
    using stoi_to_string [of "unat p" "[]"] unat_port [of p] by simp
  moreover have "int (unat p) = uint p" by simp
  then have "\<not> 65535 < uint p" using unat_port [of p] by linarith
  moreover have "uint p = 0 \<longleftrightarrow> p = 0" by (rule uint_0_iff)
  ultimately show ?thesis
    using False decodeBeacon_raw [of c u "to_string (unat p)"] to_string_no_sep [of "unat p"]
    by (simp add: encodeBeacon_raw)
qed

subsection \<open>Dialing and dropping\<close>

definition discovery_ok :: "BrokerDiscovery \<Rightarrow> bool" where
  "discovery_ok d \<longleftrightarrow> umap_ok (d_dialed d) \<and> (\<forall>k \<in> umap_keys (d_dialed d). d_selfUuid d < k)"

definition stale :: "time \<Rightarrow> string \<times> PeerEntry \<Rightarrow> bool" where
  "stale now p \<longleftrightarrow> now - pe_lastSeen (snd p) > peerTimeout"

lemma expire_loop_eq: "expire_loop now m = (map fst (filter (stale now) m), filter (\<lambda>p. \<not> stale now p) m)"
  by (induction now m rule: expire_loop.induct) (auto simp: stale_def split: prod.splits)

lemma discovery_ok_new [simp]: "discovery_ok (BrokerDiscovery_new c u p q f g)"
  by (simp add: discovery_ok_def BrokerDiscovery_new_def)

text \<open>What the actions do to the set of open links; a link is opened once and closed only when open.\<close>

fun links_after :: "discovery_action list \<Rightarrow> string set \<Rightarrow> string set" where
  "links_after [] L = L"
| "links_after (Dial u a # acts) L = links_after acts (insert u L)"
| "links_after (Drop u # acts) L = links_after acts (L - {u})"
| "links_after (SendBeacon b # acts) L = links_after acts L"

fun links_valid :: "discovery_action list \<Rightarrow> string set \<Rightarrow> bool" where
  "links_valid [] L \<longleftrightarrow> True"
| "links_valid (Dial u a # acts) L \<longleftrightarrow> u \<notin> L \<and> links_valid acts (insert u L)"
| "links_valid (Drop u # acts) L \<longleftrightarrow> u \<in> L \<and> links_valid acts (L - {u})"
| "links_valid (SendBeacon b # acts) L \<longleftrightarrow> links_valid acts L"

lemma links_after_append: "links_after (xs @ ys) L = links_after ys (links_after xs L)"
  by (induction xs L rule: links_after.induct) simp_all

lemma links_valid_append: "links_valid (xs @ ys) L \<longleftrightarrow> links_valid xs L \<and> links_valid ys (links_after xs L)"
  by (induction xs L rule: links_after.induct) simp_all

lemma links_after_drops: "links_after (map Drop us) L = L - set us"
  by (induction us arbitrary: L) auto

lemma links_valid_drops: "distinct us \<Longrightarrow> set us \<subseteq> L \<Longrightarrow> links_valid (map Drop us) L"
proof (induction us arbitrary: L)
  case (Cons u us)
  then have "set us \<subseteq> L - {u}" by auto
  with Cons show ?case by simp
qed simp

text \<open>One step of the discovery: its table of dialed peers is the set of links it holds open.\<close>

definition discovery_step_ok :: "BrokerDiscovery \<Rightarrow> BrokerDiscovery \<Rightarrow> discovery_action list \<Rightarrow> bool" where
  "discovery_step_ok d d' acts \<longleftrightarrow>
     discovery_ok d' \<and> d_dial d' = d_dial d \<and> d_drop d' = d_drop d \<and> d_selfUuid d' = d_selfUuid d \<and>
     d_cluster d' = d_cluster d \<and> d_routerPort d' = d_routerPort d \<and> d_running d' = d_running d \<and>
     links_valid acts (umap_keys (d_dialed d)) \<and>
     links_after acts (umap_keys (d_dialed d)) = umap_keys (d_dialed d')"

lemma discovery_step_ok_refl: "discovery_ok d \<Longrightarrow> discovery_step_ok d d []"
  by (simp add: discovery_step_ok_def)

lemma discovery_step_ok_trans:
  "discovery_step_ok d d' xs \<Longrightarrow> discovery_step_ok d' d'' ys \<Longrightarrow> discovery_step_ok d d'' (xs @ ys)"
  by (auto simp: discovery_step_ok_def links_after_append links_valid_append)

lemma onDatagram_step:
  assumes "discovery_ok d" "d_dial d" "onDatagram ip bs t d = (d', acts)"
  shows "discovery_step_ok d d' acts"
proof (cases "decodeBeacon bs")
  case None
  with assms show ?thesis by (simp add: onDatagram_def discovery_step_ok_refl)
next
  case (Some b)
  show ?thesis
  proof (cases "bc_cluster b = d_cluster d \<and> d_selfUuid d < bc_uuid b")
    case False
    with Some assms have "d' = d" "acts = []" by (auto simp: onDatagram_def split: if_splits)
    with assms(1) show ?thesis by (simp add: discovery_step_ok_refl)
  next
    case True
    with Some assms(2,3) have d': "d' = d\<lparr>d_dialed := umap_put (bc_uuid b)
        \<lparr>pe_address = tcp_address ip (bc_routerPort b), pe_lastSeen = t\<rparr> (d_dialed d)\<rparr>"
      and acts: "acts = (if bc_uuid b \<notin> umap_keys (d_dialed d) then [Dial (bc_uuid b) (tcp_address ip (bc_routerPort b))] else [])"
      by (auto simp: onDatagram_def Let_def map_of_eq_None_iff split: if_splits)
    show ?thesis
      using assms(1) True unfolding d' acts
      by (auto simp: discovery_step_ok_def discovery_ok_def insert_absorb)
  qed
qed

lemma expireStale_step:
  assumes "discovery_ok d" "d_drop d" "expireStale now d = (d', acts)"
  shows "discovery_step_ok d d' acts"
proof -
  let ?m = "d_dialed d"
  have d': "d' = d\<lparr>d_dialed := filter (\<lambda>p. \<not> stale now p) ?m\<rparr>"
    and acts: "acts = map Drop (map fst (filter (stale now) ?m))"
    using assms by (auto simp: expireStale_def expire_loop_eq)
  have dist: "distinct (map fst ?m)" using assms(1) by (simp add: discovery_ok_def umap_ok_def)
  have "fst p \<noteq> fst q" if "p \<in> set ?m" "q \<in> set ?m" "stale now p" "\<not> stale now q" for p q
    using dist that by (metis eq_key_imp_eq_value prod.collapse)
  then have keys: "umap_keys ?m - fst ` set (filter (stale now) ?m) = umap_keys (filter (\<lambda>p. \<not> stale now p) ?m)"
    by (fastforce simp: image_iff)
  have "distinct (map fst (filter (stale now) ?m))"
    using dist by (rule distinct_map_filter)
  moreover have "set (map fst (filter (stale now) ?m)) \<subseteq> umap_keys ?m" by auto
  ultimately have "links_valid acts (umap_keys ?m)"
    unfolding acts by (rule links_valid_drops)
  moreover have "links_after acts (umap_keys ?m) = umap_keys (d_dialed d')"
    unfolding acts d' links_after_drops using keys by simp
  moreover have "discovery_ok d'"
    using assms(1) unfolding d' by (auto simp: discovery_ok_def)
  ultimately show ?thesis unfolding discovery_step_ok_def by (simp add: d')
qed

lemma discovery_step_beacon: "discovery_step_ok d d' acts \<Longrightarrow> discovery_step_ok d d' (SendBeacon b # acts)"
  by (simp add: discovery_step_ok_def)

lemma discovery_receive_step:
  assumes "discovery_ok d" "d_dial d" "discovery_receive tick d = (d', acts)"
  shows "discovery_step_ok d d' acts"
  using assms onDatagram_step [OF assms(1,2)]
  by (auto simp: discovery_receive_def Let_def discovery_step_ok_refl split: option.splits if_splits)

lemma discovery_iteration_step:
  assumes "discovery_ok d" "d_dial d" "d_drop d" "discovery_iteration tick (d, next) = ((d', next'), acts)"
  shows "discovery_step_ok d d' acts"
proof -
  obtain d0 drops where expire: "expireStale (dt_now tick) d = (d0, drops)" by fastforce
  obtain d1 acts1 acts2 where step1: "discovery_step_ok d d1 acts1"
    and step2: "discovery_receive tick d1 = (d', acts2)" and acts: "acts = acts1 @ acts2"
  proof (cases "dt_now tick \<ge> next")
    case True
    with assms(4) expire obtain acts2 where "discovery_receive tick d0 = (d', acts2)"
      and "acts = (SendBeacon (encodeBeacon (d_cluster d) (d_selfUuid d) (d_routerPort d)) # drops) @ acts2"
      by (auto simp: discovery_iteration_def split: prod.splits)
    with discovery_step_beacon [OF expireStale_step [OF assms(1,3) expire]] show ?thesis by (rule that)
  next
    case False
    with assms(4) have "discovery_receive tick d = (d', acts)"
      by (auto simp: discovery_iteration_def split: prod.splits)
    with discovery_step_ok_refl [OF assms(1)] show ?thesis by (rule that) simp
  qed
  from step1 have "discovery_ok d1" "d_dial d1"
    using assms(2) by (simp_all add: discovery_step_ok_def)
  from discovery_step_ok_trans [OF step1 discovery_receive_step [OF this step2]] acts show ?thesis by simp
qed

lemma discovery_run_step:
  "discovery_ok d \<Longrightarrow> d_dial d \<Longrightarrow> d_drop d \<Longrightarrow> discovery_run ticks (d, next) = ((d', next'), acts) \<Longrightarrow>
     discovery_step_ok d d' acts"
proof (induction ticks arbitrary: d "next" acts)
  case Nil
  then show ?case by (simp add: discovery_step_ok_refl)
next
  case (Cons tick ticks)
  show ?case
  proof (cases "d_running d")
    case False
    with Cons.prems show ?thesis by (simp add: discovery_step_ok_refl)
  next
    case True
    obtain d1 next1 acts1 acts2 where step: "discovery_iteration tick (d, next) = ((d1, next1), acts1)"
      "discovery_run ticks (d1, next1) = ((d', next'), acts2)" "acts = acts1 @ acts2"
      using Cons.prems(4) True by (auto split: prod.splits)
    note step1 = discovery_iteration_step [OF Cons.prems(1-3) step(1)]
    then have "discovery_ok d1" "d_dial d1" "d_drop d1"
      using Cons.prems by (simp_all add: discovery_step_ok_def)
    from discovery_step_ok_trans [OF step1 Cons.IH [OF this step(2)]] step(3) show ?thesis by simp
  qed
qed

lemma BrokerDiscovery_run_step:
  assumes "discovery_ok d" "d_dial d" "d_drop d" "BrokerDiscovery_run sock bound t0 ticks d = (d', acts)"
  shows "discovery_step_ok d d' acts"
  using assms(4) discovery_run_step [OF assms(1-3)] discovery_step_ok_refl [OF assms(1)]
  by (auto simp: BrokerDiscovery_run_def split: if_splits prod.splits)

lemma length_encodeBeacon: "length (encodeBeacon c u p) \<le> length c + length u + 14"
proof -
  have "length (to_string (unat p)) \<le> 5"
    by (rule to_string_length) (use unat_port [of p] in simp_all)
  then show ?thesis by (simp add: encodeBeacon_raw raw_beacon_def)
qed

lemma beacon_fits: "length c + length u \<le> 498 \<Longrightarrow> take beacon_buffer (encodeBeacon c u p) = encodeBeacon c u p"
  using length_encodeBeacon [of c u p] by (simp add: beacon_buffer_def)

lemma encodeBeacon_not_Nil: "encodeBeacon c u p \<noteq> []"
  by (simp add: encodeBeacon_def kMagic_def)

lemma receive_beacon:
  assumes "length c + length u \<le> 498" "dt_datagram tick = Some (encodeBeacon c u p)" "dt_ip tick = Some ip"
  shows "discovery_receive tick d = onDatagram ip (encodeBeacon c u p) (dt_rx tick) d"
  using assms by (simp add: discovery_receive_def beacon_fits encodeBeacon_not_Nil)

lemma receive_peer_beacon:
  assumes "CHR ''|'' \<notin> set (d_cluster d) \<union> set u" "p \<noteq> 0" "length (d_cluster d) + length u \<le> 498" "d_dial d"
  shows "discovery_receive \<lparr>dt_now = t, dt_datagram = Some (encodeBeacon (d_cluster d) u p), dt_ip = Some ip, dt_rx = t\<rparr> d =
    (if d_selfUuid d < u then
       (d\<lparr>d_dialed := umap_put u \<lparr>pe_address = tcp_address ip p, pe_lastSeen = t\<rparr> (d_dialed d)\<rparr>,
        if umap_find (d_dialed d) u = None then [Dial u (tcp_address ip p)] else [])
     else (d, []))"
proof -
  have "discovery_receive \<lparr>dt_now = t, dt_datagram = Some (encodeBeacon (d_cluster d) u p), dt_ip = Some ip, dt_rx = t\<rparr> d =
      onDatagram ip (encodeBeacon (d_cluster d) u p) t d"
    by (subst receive_beacon [OF assms(3)]) simp_all
  moreover have "decodeBeacon (encodeBeacon (d_cluster d) u p) =
      Some \<lparr>bc_cluster = d_cluster d, bc_uuid = u, bc_routerPort = p\<rparr>"
    using assms(1,2) by (simp add: decode_encodeBeacon)
  ultimately show ?thesis using assms(4) by (simp add: onDatagram_def Let_def)
qed

text \<open>C18. A beacon survives the datagram and its 512-byte buffer when cluster and uuid have at most 498
  bytes together: the receiver reads back exactly the sender's fields, and rejects it when a field contains
  the separator or the port is 0.\<close>

theorem beacon_roundtrip:
  assumes "length c + length u \<le> 498"
  shows "length (encodeBeacon c u p) \<le> beacon_buffer \<and>
    decodeBeacon (take beacon_buffer (encodeBeacon c u p)) =
      (if CHR ''|'' \<in> set c \<union> set u \<or> p = 0 then None
       else Some \<lparr>bc_cluster = c, bc_uuid = u, bc_routerPort = p\<rparr>)"
  using length_encodeBeacon [of c u p] assms beacon_fits [OF assms] decode_encodeBeacon [of c u p]
  by (simp add: beacon_buffer_def)

text \<open>Witness for C18: a beacon of the default cluster.\<close>

theorem beacon_roundtrip_witness:
  "decodeBeacon (take beacon_buffer (encodeBeacon ''wisp'' ''0a1b'' 5555)) =
     Some \<lparr>bc_cluster = ''wisp'', bc_uuid = ''0a1b'', bc_routerPort = 5555\<rparr>"
  using beacon_roundtrip [of "''wisp''" "''0a1b''" 5555] by auto

text \<open>C17. One link per pair: of two brokers of a cluster that hear each other's beacons, exactly the one with the
  smaller uuid dials, the other one does nothing, and a beacon heard again does not dial again.\<close>

theorem single_initiator:
  assumes cluster: "d_cluster B = d_cluster A" and self: "d_selfUuid A \<noteq> d_selfUuid B"
    and fields: "CHR ''|'' \<notin> set (d_cluster A) \<union> set (d_selfUuid A) \<union> set (d_selfUuid B)" "pa \<noteq> 0" "pb \<noteq> 0"
    and size: "length (d_cluster A) + length (d_selfUuid A) \<le> 498" "length (d_cluster A) + length (d_selfUuid B) \<le> 498"
    and dial: "d_dial A" "d_dial B"
    and new: "umap_find (d_dialed A) (d_selfUuid B) = None" "umap_find (d_dialed B) (d_selfUuid A) = None"
    and tick_A: "\<And>t. tick_A t = \<lparr>dt_now = t, dt_datagram = Some (encodeBeacon (d_cluster B) (d_selfUuid B) pb), dt_ip = Some ipb, dt_rx = t\<rparr>"
    and tick_B: "\<And>t. tick_B t = \<lparr>dt_now = t, dt_datagram = Some (encodeBeacon (d_cluster A) (d_selfUuid A) pa), dt_ip = Some ipa, dt_rx = t\<rparr>"
    and A: "discovery_receive (tick_A t) A = (A', acts_A)" and B: "discovery_receive (tick_B t) B = (B', acts_B)"
  shows "(acts_A, acts_B) =
      (if d_selfUuid A < d_selfUuid B then ([Dial (d_selfUuid B) (tcp_address ipb pb)], [])
       else ([], [Dial (d_selfUuid A) (tcp_address ipa pa)])) \<and>
    snd (discovery_receive (tick_A t') A') = [] \<and> snd (discovery_receive (tick_B t') B') = []"
proof -
  have sep: "CHR ''|'' \<notin> set (d_cluster A) \<union> set (d_selfUuid B)" "CHR ''|'' \<notin> set (d_cluster B) \<union> set (d_selfUuid A)"
    "length (d_cluster B) + length (d_selfUuid A) \<le> 498"
    using fields cluster size by auto
  note recv_A = receive_peer_beacon [OF sep(1) fields(3) size(2) dial(1)]
  note recv_B = receive_peer_beacon [OF sep(2) fields(2) sep(3) dial(2)]
  have A': "A' = A \<and> \<not> d_selfUuid A < d_selfUuid B \<or> d_selfUuid A < d_selfUuid B \<and>
      A' = A\<lparr>d_dialed := umap_put (d_selfUuid B) \<lparr>pe_address = tcp_address ipb pb, pe_lastSeen = t\<rparr> (d_dialed A)\<rparr>"
    using A unfolding tick_A cluster recv_A by (simp split: if_splits)
  have B': "B' = B \<and> \<not> d_selfUuid B < d_selfUuid A \<or> d_selfUuid B < d_selfUuid A \<and>
      B' = B\<lparr>d_dialed := umap_put (d_selfUuid A) \<lparr>pe_address = tcp_address ipa pa, pe_lastSeen = t\<rparr> (d_dialed B)\<rparr>"
    using B unfolding tick_B cluster [symmetric] recv_B by (simp split: if_splits)
  have again_A: "snd (discovery_receive (tick_A t') A') = []"
    using A' receive_peer_beacon [of A' "d_selfUuid B" pb] sep(1) fields(3) size(2) dial(1) cluster
    unfolding tick_A by (auto simp: umap_find_put)
  have again_B: "snd (discovery_receive (tick_B t') B') = []"
    using B' receive_peer_beacon [of B' "d_selfUuid A" pa] sep(2) fields(2) sep(3) dial(2) cluster
    unfolding tick_B by (auto simp: umap_find_put)
  have less: "d_selfUuid B < d_selfUuid A \<longleftrightarrow> \<not> d_selfUuid A < d_selfUuid B"
    using self by (metis linorder_less_linear order_less_asym)
  have "(acts_A, acts_B) = (if d_selfUuid A < d_selfUuid B then ([Dial (d_selfUuid B) (tcp_address ipb pb)], [])
       else ([], [Dial (d_selfUuid A) (tcp_address ipa pa)]))"
    using A B new unfolding tick_A tick_B cluster recv_A recv_B [unfolded cluster] less by auto
  with again_A again_B show ?thesis by blast
qed

text \<open>Witness for C17: two brokers that have just started.\<close>

theorem single_initiator_witness:
  "fst (snd (let A = BrokerDiscovery_new ''wisp'' ''0a'' 5555 5670 True True;
       B = BrokerDiscovery_new ''wisp'' ''0b'' 5556 5670 True True;
       (A', acts_A) = discovery_receive \<lparr>dt_now = 0, dt_datagram = Some (encodeBeacon ''wisp'' ''0b'' 5556), dt_ip = Some ''10.0.0.2'', dt_rx = 0\<rparr> A;
       (B', acts_B) = discovery_receive \<lparr>dt_now = 0, dt_datagram = Some (encodeBeacon ''wisp'' ''0a'' 5555), dt_ip = Some ''10.0.0.1'', dt_rx = 0\<rparr> B
     in (A', (acts_A, acts_B), B'))) = ([Dial ''0b'' (tcp_address ''10.0.0.2'' 5556)], [])"
proof -
  let ?A = "BrokerDiscovery_new ''wisp'' ''0a'' 5555 5670 True True"
  let ?B = "BrokerDiscovery_new ''wisp'' ''0b'' 5556 5670 True True"
  obtain A' acts_A where A: "discovery_receive \<lparr>dt_now = 0, dt_datagram = Some (encodeBeacon ''wisp'' ''0b'' 5556),
      dt_ip = Some ''10.0.0.2'', dt_rx = 0\<rparr> ?A = (A', acts_A)" by fastforce
  obtain B' acts_B where B: "discovery_receive \<lparr>dt_now = 0, dt_datagram = Some (encodeBeacon ''wisp'' ''0a'' 5555),
      dt_ip = Some ''10.0.0.1'', dt_rx = 0\<rparr> ?B = (B', acts_B)" by fastforce
  have less: "''0a'' < ''0b''" by (simp add: less_char_def)
  have "(acts_A, acts_B) = ([Dial ''0b'' (tcp_address ''10.0.0.2'' 5556)], [])"
    using single_initiator [of ?B ?A 5555 5556
      "\<lambda>t. \<lparr>dt_now = t, dt_datagram = Some (encodeBeacon ''wisp'' ''0b'' 5556), dt_ip = Some ''10.0.0.2'', dt_rx = t\<rparr>" "''10.0.0.2''"
      "\<lambda>t. \<lparr>dt_now = t, dt_datagram = Some (encodeBeacon ''wisp'' ''0a'' 5555), dt_ip = Some ''10.0.0.1'', dt_rx = t\<rparr>" "''10.0.0.1''"
      0 A' acts_A B' acts_B] A B less
    by (simp add: BrokerDiscovery_new_def)
  then show ?thesis by (simp add: Let_def A B)
qed

text \<open>C16. Over the whole life of the discovery thread a link is dialed only when it is not open and dropped only when it
  is open, and at every end the table of dialed peers is exactly the set of links left open, all with larger
  uuids than the broker's own.\<close>

theorem discovery_links:
  assumes "BrokerDiscovery_run sock bound t0 ticks (BrokerDiscovery_start (BrokerDiscovery_new c u p q True True)) = (d, acts)"
  shows "links_valid acts {} \<and> links_after acts {} = umap_keys (d_dialed d) \<and> umap_ok (d_dialed d) \<and>
    (\<forall>k \<in> umap_keys (d_dialed d). u < k)"
proof -
  let ?d = "BrokerDiscovery_start (BrokerDiscovery_new c u p q True True)"
  have new: "discovery_ok ?d" "d_dial ?d" "d_drop ?d" "d_dialed ?d = []" "d_selfUuid ?d = u"
    by (simp_all add: BrokerDiscovery_start_def BrokerDiscovery_new_def discovery_ok_def)
  from BrokerDiscovery_run_step [OF new(1-3) assms] new(4,5) show ?thesis
    unfolding discovery_step_ok_def discovery_ok_def by auto
qed

text \<open>Witness for C16: a thread that hears one peer in its first turn.\<close>

theorem discovery_links_witness:
  "links_after (snd (BrokerDiscovery_run 3 0 0
       [\<lparr>dt_now = 0, dt_datagram = Some (encodeBeacon ''wisp'' ''0b'' 5556), dt_ip = Some ''10.0.0.2'', dt_rx = 1\<rparr>]
       (BrokerDiscovery_start (BrokerDiscovery_new ''wisp'' ''0a'' 5555 5670 True True)))) {} = {''0b''}"
proof -
  have less: "''0a'' < ''0b''" by (simp add: less_char_def)
  obtain d acts where run: "BrokerDiscovery_run 3 0 0
       [\<lparr>dt_now = 0, dt_datagram = Some (encodeBeacon ''wisp'' ''0b'' 5556), dt_ip = Some ''10.0.0.2'', dt_rx = 1\<rparr>]
       (BrokerDiscovery_start (BrokerDiscovery_new ''wisp'' ''0a'' 5555 5670 True True)) = (d, acts)" by fastforce
  have recv: "discovery_receive \<lparr>dt_now = 0, dt_datagram = Some (encodeBeacon ''wisp'' ''0b'' 5556), dt_ip = Some ''10.0.0.2'', dt_rx = 1\<rparr> e
      = onDatagram ''10.0.0.2'' (encodeBeacon ''wisp'' ''0b'' 5556) 1 e" for e
    by (subst receive_beacon [of "''wisp''" "''0b''" _ 5556 "''10.0.0.2''"]) simp_all
  from run less have "umap_keys (d_dialed d) = {''0b''}"
    by (auto simp: BrokerDiscovery_run_def BrokerDiscovery_start_def BrokerDiscovery_new_def discovery_iteration_def
        expireStale_def recv decode_encodeBeacon onDatagram_def Let_def)
  with run show ?thesis using discovery_links [OF run] by simp
qed

text \<open>A beacon turn drops exactly the peers that have been silent for more than five seconds and forgets them, and it
  touches no other peer.\<close>

theorem expireStale_exact:
  assumes "discovery_ok d" "d_drop d" "expireStale now d = (d', acts)"
  shows "set acts = {Drop k | k e. umap_find (d_dialed d) k = Some e \<and> now - pe_lastSeen e > seconds 5} \<and> distinct acts \<and>
    umap_find (d_dialed d') k = (case umap_find (d_dialed d) k of
        None \<Rightarrow> None
      | Some e \<Rightarrow> if now - pe_lastSeen e > seconds 5 then None else Some e)"
proof -
  have ok: "distinct (map fst (d_dialed d))" using assms(1) by (simp add: discovery_ok_def umap_ok_def)
  have acts: "acts = map Drop (map fst (filter (stale now) (d_dialed d)))"
    and d': "d_dialed d' = filter (\<lambda>p. \<not> stale now p) (d_dialed d)"
    using assms(2,3) by (auto simp: expireStale_def expire_loop_eq)
  have "set acts = {Drop k | k e. umap_find (d_dialed d) k = Some e \<and> now - pe_lastSeen e > seconds 5}"
    unfolding acts using ok by (auto simp: stale_def peerTimeout_def image_iff map_of_eq_Some_iff)
  moreover have "distinct acts"
    unfolding acts distinct_map [of Drop] using distinct_map_filter [OF ok] by (simp add: inj_on_def)
  moreover have "umap_find (d_dialed d') k = (case umap_find (d_dialed d) k of None \<Rightarrow> None
      | Some e \<Rightarrow> if now - pe_lastSeen e > seconds 5 then None else Some e)"
    unfolding d' using map_of_filter_distinct [OF ok, of "\<lambda>p. \<not> stale now p" k]
    by (auto simp: stale_def peerTimeout_def split: option.splits)
  ultimately show ?thesis by simp
qed

text \<open>An instance: one silent and one fresh peer.\<close>

theorem expireStale_exact_witness:
  "set (snd (expireStale (seconds 6) ((BrokerDiscovery_new ''wisp'' ''0a'' 5555 5670 True True)\<lparr>d_dialed :=
     [(''0b'', \<lparr>pe_address = ''tcp://h:1'', pe_lastSeen = 0\<rparr>),
      (''0c'', \<lparr>pe_address = ''tcp://h:2'', pe_lastSeen = seconds 2\<rparr>)]\<rparr>))) = {Drop ''0b''}"
proof -
  let ?d = "(BrokerDiscovery_new ''wisp'' ''0a'' 5555 5670 True True)\<lparr>d_dialed :=
     [(''0b'', \<lparr>pe_address = ''tcp://h:1'', pe_lastSeen = 0\<rparr>), (''0c'', \<lparr>pe_address = ''tcp://h:2'', pe_lastSeen = seconds 2\<rparr>)]\<rparr>"
  have d: "discovery_ok ?d" "d_drop ?d"
    by (simp_all add: discovery_ok_def umap_ok_def BrokerDiscovery_new_def less_char_def)
  have "set (snd (expireStale (seconds 6) ?d)) =
      {Drop k | k e. umap_find (d_dialed ?d) k = Some e \<and> seconds 6 - pe_lastSeen e > seconds 5}"
    by (rule conjunct1 [OF expireStale_exact [OF d prod.collapse [symmetric]]])
  also have "\<dots> = {Drop ''0b''}"
  proof -
    have "umap_find (d_dialed ?d) k = Some e \<and> seconds 6 - pe_lastSeen e > seconds 5 \<longleftrightarrow>
        k = ''0b'' \<and> e = \<lparr>pe_address = ''tcp://h:1'', pe_lastSeen = 0\<rparr>" for k e
      by (cases "k = ''0b''"; cases "k = ''0c''") (simp_all add: seconds_def, auto)
    then show ?thesis by simp
  qed
  finally show ?thesis .
qed

end
