(* ===== verification/Broker.thy ===== *)
theory Broker
  imports Zmq_Worker Subscription_Registry System_Stats Protobuf_Any Cxx_Double Uuid_Helper Discovery
begin

text \<open>
  \<open>ZmqBroker\<close> (\<open>server/zmqbroker.h\<close>, \<open>server/zmqbroker.cpp\<close>).

  The broker thread decides on its state what goes out and then sends it; no send feeds back into the
  state. So \<open>processMessage\<close> and \<open>broadcastStats\<close> return what they send as a list of \<open>broker_out\<close>, in the order
  of the code, and \<open>broker_emit\<close> performs one of them on the ROUTER and the inspector socket. The clock and
  the random generator are arguments. An exception of the ROUTER's receive or of the inspector's send is
  not caught in \<open>run\<close> and ends the process: the value is \<open>Inl\<close>.

  The peer links are the workers of \<open>m_peers\<close>; their message callback is \<open>link_callback\<close>, which acts on the
  inbound queue and the worker (\<open>peer_link_hooks\<close>). Other threads (the links, the discovery thread, the owner)
  change the broker only through \<open>m_peers\<close> and \<open>m_peerInboundQueue\<close>, both guarded by a mutex.
\<close>

record ClientState =
  cs_identity :: string
  cs_lastSeen :: time

record ZmqBroker =
  b_running :: bool
  b_brokerId :: string
  b_clients :: "(string, ClientState) umap"
  b_subscriptions :: SubscriptionRegistry
  b_peers :: "(string, ZmqWorker) umap"
  b_peerInboundQueue :: "Envelope SafeQueue"
  b_discovery :: "BrokerDiscovery option"
  b_discoveryEnabled :: bool
  b_clusterName :: string
  b_discoveryPort :: "16 word"
  b_seenMessageIds :: "string set"
  b_messageIdOrder :: "string list"
  b_startTime :: time
  b_lastStatsTime :: time
  b_totalMessages :: "64 word"
  b_totalBytes :: "64 word"
  b_msgsInterval :: "64 word"
  b_bytesInterval :: "64 word"

definition ClientTimeout :: time where "ClientTimeout = seconds 10"
definition MaxHistorySize :: nat where "MaxHistorySize = 10000"

type_synonym random_source = "(nat \<Rightarrow> 4 word) \<times> 2 word"

definition ZmqBroker_new :: "random_source \<Rightarrow> ZmqBroker" where
  "ZmqBroker_new rnd = \<lparr>b_running = False, b_brokerId = generateUUID (fst rnd) (snd rnd), b_clients = [],
     b_subscriptions = SubscriptionRegistry_new, b_peers = [], b_peerInboundQueue = SafeQueue_default,
     b_discovery = None, b_discoveryEnabled = False, b_clusterName = [], b_discoveryPort = kDefaultPort,
     b_seenMessageIds = {}, b_messageIdOrder = [], b_startTime = 0, b_lastStatsTime = 0,
     b_totalMessages = 0, b_totalBytes = 0, b_msgsInterval = 0, b_bytesInterval = 0\<rparr>"

datatype broker_out = ToClient string string string | ToInspector string string

subsection \<open>Routing\<close>

definition broker_removeClient :: "string \<Rightarrow> ZmqBroker \<Rightarrow> ZmqBroker" where
  "broker_removeClient clientId b =
     b\<lparr>b_subscriptions := registry_removeClient clientId (b_subscriptions b),
       b_clients := umap_erase clientId (b_clients b)\<rparr>"

definition isDuplicate :: "string \<Rightarrow> ZmqBroker \<Rightarrow> bool \<times> ZmqBroker" where
  "isDuplicate uuid b =
     (if uuid \<in> b_seenMessageIds b then (True, b)
      else
        let b = b\<lparr>b_seenMessageIds := insert uuid (b_seenMessageIds b),
                  b_messageIdOrder := b_messageIdOrder b @ [uuid]\<rparr>
        in if length (b_messageIdOrder b) > MaxHistorySize
           then (False, b\<lparr>b_seenMessageIds := b_seenMessageIds b - {hd (b_messageIdOrder b)},
                          b_messageIdOrder := tl (b_messageIdOrder b)\<rparr>)
           else (False, b))"

definition deliverable :: "string \<Rightarrow> bool \<Rightarrow> ZmqBroker \<Rightarrow> string \<Rightarrow> bool" where
  "deliverable senderId isFromPeer b cid \<longleftrightarrow>
     \<not> (\<not> isFromPeer \<and> cid = senderId) \<and> umap_find (b_clients b) cid \<noteq> None"

definition recipients :: "string \<Rightarrow> string \<Rightarrow> bool \<Rightarrow> ZmqBroker \<Rightarrow> string list" where
  "recipients tpc senderId isFromPeer b =
     (let exactSubs = subscribersOf tpc (b_subscriptions b);
          wildcardSubs = (if tpc = [] then None else subscribersOf [] (b_subscriptions b))
      in filter (deliverable senderId isFromPeer b) (vec_of exactSubs)
         @ filter (deliverable senderId isFromPeer b)
             (filter (\<lambda>cid. \<not> (exactSubs \<noteq> None \<and> cid \<in> set (vec_of exactSubs))) (vec_of wildcardSubs)))"

definition flood_peers :: "MessageHeader \<Rightarrow> string \<Rightarrow> ZmqBroker \<Rightarrow> ZmqBroker" where
  "flood_peers hdr body b =
     b\<lparr>b_peers := map (\<lambda>(k, w). (k, snd (writeMessage \<lparr>header = hdr, payload = body\<rparr> w))) (b_peers b)\<rparr>"

definition route_message ::
    "MessageHeader \<Rightarrow> string \<Rightarrow> string \<Rightarrow> string \<Rightarrow> bool \<Rightarrow> ZmqBroker \<Rightarrow> ZmqBroker \<times> broker_out list" where
  "route_message hdr headerBytes body senderId isFromPeer b =
     (case isDuplicate (message_uuid hdr) b of
        (True, b) \<Rightarrow> (b, [])
      | (False, b) \<Rightarrow>
          (flood_peers hdr body b,
           map (\<lambda>cid. ToClient cid headerBytes body) (recipients (topic hdr) senderId isFromPeer b)))"

definition reset_header :: MessageHeader where
  "reset_header = set_topic [] (set_handler_key Keys_RESET MessageHeader_new)"

definition ack_header :: MessageHeader where
  "ack_header = set_topic [] (set_handler_key Keys_HEARTBEAT_ACK MessageHeader_new)"

definition stamp_identity :: "random_source \<Rightarrow> MessageHeader \<Rightarrow> ZmqBroker \<Rightarrow> MessageHeader" where
  "stamp_identity rnd hdr b =
     (if message_uuid hdr = []
      then set_origin_broker_id (b_brokerId b) (set_message_uuid (generateUUID (fst rnd) (snd rnd)) hdr)
      else hdr)"

definition processMessage ::
    "pb_runtime \<Rightarrow> random_source \<Rightarrow> time \<Rightarrow> MessageHeader \<Rightarrow> string \<Rightarrow> string \<Rightarrow> bool \<Rightarrow> ZmqBroker
     \<Rightarrow> ZmqBroker \<times> broker_out list" where
  "processMessage rt rnd now hdr body senderId isFromPeer b =
     (let hdr = stamp_identity rnd hdr b;
          headerBytes = encodeHeader rt hdr;
          tap = ToInspector headerBytes body;
          key = handler_key hdr;
          route = (\<lambda>b. case route_message hdr headerBytes body senderId isFromPeer b of (b, outs) \<Rightarrow> (b, tap # outs))
      in
      if \<not> isFromPeer then
        if key = Keys_DISCONNECT then (broker_removeClient senderId b, [tap])
        else
          let newClient = (umap_find (b_clients b) senderId = None);
              b = b\<lparr>b_clients := umap_put senderId \<lparr>cs_identity = senderId, cs_lastSeen = now\<rparr> (b_clients b)\<rparr>
          in
          if newClient then (b, [tap, ToClient senderId (encodeHeader rt reset_header) []])
          else if key = Keys_CONNECT \<or> key = Keys_HEARTBEAT then
            (b, tap # (if key = Keys_HEARTBEAT then [ToClient senderId (encodeHeader rt ack_header) []] else []))
          else if key = Keys_SUBSCRIBE then
            (b\<lparr>b_subscriptions := snd (subscribe senderId (topic hdr) (b_subscriptions b))\<rparr>, [tap])
          else if key = Keys_UNSUBSCRIBE then
            (b\<lparr>b_subscriptions := snd (unsubscribe senderId (topic hdr) (b_subscriptions b))\<rparr>, [tap])
          else route b
      else
        if key = Keys_RESET \<or> key = Keys_HEARTBEAT_ACK \<or> key = Keys_HEARTBEAT then (b, [tap])
        else route b)"

subsection \<open>Statistics\<close>

definition duration_seconds :: "time \<Rightarrow> int" where
  "duration_seconds d = (if d \<ge> 0 then d div 1000000000 else - ((- d) div 1000000000))"

definition client_info :: "SubscriptionRegistry \<Rightarrow> string \<Rightarrow> ClientInfo \<Rightarrow> ClientInfo" where
  "client_info reg cid ci =
     fold add_subscriptions (vec_of (subscriptionsOf cid reg)) (set_id cid ci)"

definition broker_stats :: "time \<Rightarrow> ZmqBroker \<Rightarrow> SystemStats" where
  "broker_stats now b =
     fold (\<lambda>(cid, _). add_connected_clients (client_info (b_subscriptions b) cid)) (b_clients b)
       (set_uptime_sec (of_int (duration_seconds (now - b_startTime b)))
       (set_total_msgs (b_totalMessages b)
       (set_kb_per_sec (double_div_1024 (double_of_uint64 (b_bytesInterval b)))
       (set_msgs_per_sec (ucast (b_msgsInterval b))
       (set_peers_count (of_nat (length (b_peers b)))
       (set_clients_count (of_nat (length (b_clients b)))
       (set_broker_id (b_brokerId b) SystemStats_new)))))))"

definition stats_header :: MessageHeader where
  "stats_header = set_sender_id ''BROKER_SYSTEM'' (set_topic Keys_SYS_STATS (set_handler_key Keys_SYS_STATS MessageHeader_new))"

definition broadcastStats :: "pb_runtime \<Rightarrow> any_runtime \<Rightarrow> time \<Rightarrow> ZmqBroker \<Rightarrow> broker_out list" where
  "broadcastStats rt ar now b =
     (let any = PackFrom ar ''broker.SystemStats'' (SystemStats_InternalSerialize rt (broker_stats now b));
          body = Any_SerializeAsString ar any;
          headerBytes = encodeHeader rt stats_header
      in ToInspector headerBytes body
         # map (\<lambda>cid. ToClient cid headerBytes body) (vec_of (subscribersOf Keys_SYS_STATS (b_subscriptions b))))"

fun cleanup_loop :: "time \<Rightarrow> (string \<times> ClientState) list \<Rightarrow> ZmqBroker \<Rightarrow> ZmqBroker" where
  "cleanup_loop now [] b = b"
| "cleanup_loop now ((cid, c) # rest) b =
     (if now - cs_lastSeen c > ClientTimeout then cleanup_loop now rest (broker_removeClient cid b)
      else cleanup_loop now rest b)"

subsection \<open>Peer links\<close>

definition link_config :: "string \<Rightarrow> ZmqBroker \<Rightarrow> ConnectionConfig" where
  "link_config peerAddress b =
     ConnectionConfig_default\<lparr>cfg_address := peerAddress, cfg_clientId := ''BrokerLink-'' @ take 8 (b_brokerId b)\<rparr>"

definition link_subscription :: "string \<Rightarrow> Envelope" where
  "link_subscription linkId =
     \<lparr>header = set_topic [] (set_sender_id linkId (set_handler_key Keys_SUBSCRIBE MessageHeader_new)), payload = []\<rparr>"

definition link_callback ::
    "string \<Rightarrow> Envelope \<Rightarrow> Envelope SafeQueue \<times> ZmqWorker \<Rightarrow> (Envelope SafeQueue \<times> ZmqWorker) option" where
  "link_callback linkId env qw =
     (if handler_key (header env) = Keys_RESET
      then Some (fst qw, snd (writeControlMessage (link_subscription linkId) (snd qw)))
      else map_option (\<lambda>r. (snd r, snd qw)) (SafeQueue_push env (fst qw)))"

definition peer_link_hooks :: "string \<Rightarrow> Envelope SafeQueue worker_hooks" where
  "peer_link_hooks linkId =
     \<lparr>inbound_push = None, message_callback = Some (link_callback linkId), status_callback = None\<rparr>"

definition addPeer :: "string \<Rightarrow> string \<Rightarrow> ZmqBroker \<Rightarrow> ZmqBroker" where
  "addPeer key peerAddress b =
     (let worker = ZmqWorker_new (link_config peerAddress b) in
      if umap_find (b_peers b) key \<noteq> None then b
      else b\<lparr>b_peers := umap_put key (ZmqWorker_start worker) (b_peers b)\<rparr>)"

text \<open>The second component is the worker whose thread is joined, outside the lock.\<close>

definition removePeer :: "string \<Rightarrow> ZmqBroker \<Rightarrow> ZmqBroker \<times> ZmqWorker option" where
  "removePeer key b =
     (case umap_find (b_peers b) key of
        None \<Rightarrow> (b, None)
      | Some worker \<Rightarrow> (b\<lparr>b_peers := umap_erase key (b_peers b)\<rparr>, Some (ZmqWorker_stop worker)))"

definition connectToPeer :: "string \<Rightarrow> ZmqBroker \<Rightarrow> ZmqBroker" where
  "connectToPeer peerAddress b = addPeer peerAddress peerAddress b"

definition enableDiscovery :: "string \<Rightarrow> 16 word \<Rightarrow> ZmqBroker \<Rightarrow> ZmqBroker" where
  "enableDiscovery clusterName discoveryPort b =
     b\<lparr>b_discoveryEnabled := True, b_clusterName := clusterName, b_discoveryPort := discoveryPort\<rparr>"

text \<open>The callbacks that \<open>start\<close> gives to the discovery.\<close>

fun broker_discovery_action :: "discovery_action \<Rightarrow> ZmqBroker \<Rightarrow> ZmqBroker" where
  "broker_discovery_action (Dial uuid address) b = addPeer uuid address b"
| "broker_discovery_action (Drop uuid) b = fst (removePeer uuid b)"
| "broker_discovery_action (SendBeacon _) b = b"

fun parseTcpPort :: "string list \<Rightarrow> 16 word" where
  "parseTcpPort [] = 0"
| "parseTcpPort (addr # rest) =
     (if \<not> starts_with ''tcp://'' addr then parseTcpPort rest
      else case rfind_char (CHR '':'') addr of
             None \<Rightarrow> parseTcpPort rest
           | Some colon \<Rightarrow>
               (case stoi (drop (colon + 1) addr) of
                  Inl _ \<Rightarrow> parseTcpPort rest
                | Inr port \<Rightarrow> if port > 0 \<and> port \<le> 65535 then of_int port else parseTcpPort rest))"

subsection \<open>Life cycle\<close>

definition ZmqBroker_start :: "time \<Rightarrow> time \<Rightarrow> string list \<Rightarrow> ZmqBroker \<Rightarrow> ZmqBroker" where
  "ZmqBroker_start t1 t2 bindAddresses b =
     (let b = b\<lparr>b_running := True, b_startTime := t1, b_lastStatsTime := t2\<rparr> in
      if b_discoveryEnabled b then
        let routerPort = parseTcpPort bindAddresses in
        if routerPort = 0 then b
        else b\<lparr>b_discovery := Some (BrokerDiscovery_start (BrokerDiscovery_new (b_clusterName b) (b_brokerId b) routerPort
                 (b_discoveryPort b) True True))\<rparr>
      else b)"

definition ZmqBroker_stop :: "ZmqBroker \<Rightarrow> ZmqBroker \<times> ZmqWorker list" where
  "ZmqBroker_stop b =
     (let b = b\<lparr>b_running := False\<rparr>;
          b = b\<lparr>b_discovery := map_option BrokerDiscovery_stop (b_discovery b)\<rparr>;
          b = b\<lparr>b_peerInboundQueue := SafeQueue_stop (b_peerInboundQueue b)\<rparr>;
          peers = b_peers b;
          b = b\<lparr>b_peers := []\<rparr>
      in (b, map (\<lambda>(key, peer). ZmqWorker_stop peer) peers))"

subsection \<open>The broker thread\<close>

fun broker_emit :: "'s zmq_api \<Rightarrow> broker_out \<Rightarrow> int + 's \<times> 's \<Rightarrow> int + 's \<times> 's" where
  "broker_emit api out (Inl e) = Inl e"
| "broker_emit api (ToClient cid headerBytes body) (Inr (router, inspector)) =
     Inr (sendToClient api cid headerBytes body router, inspector)"
| "broker_emit api (ToInspector headerBytes body) (Inr (router, inspector)) =
     (case sendFrames api headerBytes body inspector of
        (Inl e, _) \<Rightarrow> Inl e
      | (Inr _, inspector') \<Rightarrow> Inr (router, inspector'))"

definition broker_emits :: "'s zmq_api \<Rightarrow> broker_out list \<Rightarrow> ZmqBroker \<Rightarrow> 's \<times> 's \<Rightarrow> int + ZmqBroker \<times> 's \<times> 's" where
  "broker_emits api outs b socks =
     (case fold (broker_emit api) outs (Inr socks) of Inl e \<Rightarrow> Inl e | Inr socks' \<Rightarrow> Inr (b, socks'))"

record broker_tick =
  bt_pollin :: bool
  bt_rx :: time
  bt_random :: "nat \<Rightarrow> random_source"
  bt_now :: time
  bt_stats :: time

definition count_message :: "pb_runtime \<Rightarrow> Envelope \<Rightarrow> ZmqBroker \<Rightarrow> ZmqBroker" where
  "count_message rt env b =
     (let wireBytes = of_nat (MessageHeader_ByteSizeLong rt (header env) + length (payload env)) in
      b\<lparr>b_totalMessages := b_totalMessages b + 1, b_msgsInterval := b_msgsInterval b + 1,
        b_totalBytes := b_totalBytes b + wireBytes, b_bytesInterval := b_bytesInterval b + wireBytes\<rparr>)"

text \<open>The flag of the result is the \<open>continue\<close> after a message of a single frame.\<close>

definition broker_poll ::
    "pb_runtime \<Rightarrow> 's zmq_api \<Rightarrow> broker_tick \<Rightarrow> ZmqBroker \<times> 's \<times> 's \<Rightarrow> (int + bool \<times> ZmqBroker \<times> 's \<times> 's) option" where
  "broker_poll rt api tick c =
     (case c of (b, router, inspector) \<Rightarrow>
      if bt_pollin tick then
        (case socket_recv api False router of
           (Inl e, _) \<Rightarrow> Some (Inl e)
         | (Inr None, router) \<Rightarrow> Some (Inr (False, b, router, inspector))
         | (Inr (Some identity), router) \<Rightarrow>
             if \<not> zmq_rcvmore api router then Some (Inr (True, b, router, inspector))
             else
               (case wire_recv rt api False Envelope_new router of
                  None \<Rightarrow> None
                | Some (Inl e, _) \<Rightarrow> Some (Inl e)
                | Some (Inr None, router) \<Rightarrow> Some (Inr (False, b, router, inspector))
                | Some (Inr (Some env), router) \<Rightarrow>
                    (case processMessage rt (bt_random tick 0) (bt_rx tick) (header env) (payload env) identity False
                            (count_message rt env b) of
                       (b, outs) \<Rightarrow> Some (map_sum id (Pair False) (broker_emits api outs b (router, inspector))))))
      else Some (Inr (False, b, router, inspector)))"

definition peer_message ::
    "pb_runtime \<Rightarrow> 's zmq_api \<Rightarrow> broker_tick \<Rightarrow> Envelope \<Rightarrow> nat \<times> (int + ZmqBroker \<times> 's \<times> 's)
     \<Rightarrow> nat \<times> (int + ZmqBroker \<times> 's \<times> 's)" where
  "peer_message rt api tick env c =
     (Suc (fst c),
      case snd c of
        Inl e \<Rightarrow> Inl e
      | Inr (b, socks) \<Rightarrow>
          (case processMessage rt (bt_random tick (Suc (fst c))) (bt_rx tick) (header env) (payload env) ''PEER'' True b of
             (b, outs) \<Rightarrow> broker_emits api outs b socks))"

definition broker_peer_messages ::
    "pb_runtime \<Rightarrow> 's zmq_api \<Rightarrow> broker_tick \<Rightarrow> ZmqBroker \<times> 's \<times> 's \<Rightarrow> int + ZmqBroker \<times> 's \<times> 's" where
  "broker_peer_messages rt api tick c =
     (case SafeQueue_drain (peer_message rt api tick) (b_peerInboundQueue (fst c)) (0, Inr c) of
        (q, _, r) \<Rightarrow> map_sum id (\<lambda>(b, socks). (b\<lparr>b_peerInboundQueue := q\<rparr>, socks)) r)"

definition broker_timers ::
    "pb_runtime \<Rightarrow> 's zmq_api \<Rightarrow> any_runtime \<Rightarrow> broker_tick \<Rightarrow> time \<Rightarrow> ZmqBroker \<times> 's \<times> 's
     \<Rightarrow> int + time \<times> ZmqBroker \<times> 's \<times> 's" where
  "broker_timers rt api ar tick lastCleanup c =
     (case c of (b, socks) \<Rightarrow>
        let (lastCleanup, b) =
              (if bt_now tick - lastCleanup > seconds 2 then (bt_now tick, cleanup_loop (bt_now tick) (b_clients b) b)
               else (lastCleanup, b))
        in if bt_now tick - b_lastStatsTime b > seconds 1
           then map_sum id (Pair lastCleanup)
             (broker_emits api (broadcastStats rt ar (bt_stats tick) b)
                (b\<lparr>b_lastStatsTime := bt_now tick, b_msgsInterval := 0, b_bytesInterval := 0\<rparr>) socks)
           else Inr (lastCleanup, b, socks))"

definition ZmqBroker_iteration ::
    "pb_runtime \<Rightarrow> 's zmq_api \<Rightarrow> any_runtime \<Rightarrow> broker_tick \<Rightarrow> time \<times> ZmqBroker \<times> 's \<times> 's
     \<Rightarrow> (int + time \<times> ZmqBroker \<times> 's \<times> 's) option" where
  "ZmqBroker_iteration rt api ar tick c =
     (case c of (lastCleanup, b) \<Rightarrow>
      case broker_poll rt api tick b of
        None \<Rightarrow> None
      | Some (Inl e) \<Rightarrow> Some (Inl e)
      | Some (Inr (True, b)) \<Rightarrow> Some (Inr (lastCleanup, b))
      | Some (Inr (False, b)) \<Rightarrow>
          (case broker_peer_messages rt api tick b of
             Inl e \<Rightarrow> Some (Inl e)
           | Inr b \<Rightarrow> Some (broker_timers rt api ar tick lastCleanup b)))"

text \<open>Each entry of the list is what other threads did before the iteration, and the iteration's tick.\<close>

fun ZmqBroker_loop ::
    "pb_runtime \<Rightarrow> 's zmq_api \<Rightarrow> any_runtime \<Rightarrow> ((ZmqBroker \<Rightarrow> ZmqBroker) \<times> broker_tick) list
     \<Rightarrow> time \<times> ZmqBroker \<times> 's \<times> 's \<Rightarrow> (int + time \<times> ZmqBroker \<times> 's \<times> 's) option" where
  "ZmqBroker_loop rt api ar [] c = Some (Inr c)"
| "ZmqBroker_loop rt api ar ((others, tick) # rest) (lastCleanup, b, socks) =
     (let b = others b in
      if b_running b then
        (case ZmqBroker_iteration rt api ar tick (lastCleanup, b, socks) of
           Some (Inr c) \<Rightarrow> ZmqBroker_loop rt api ar rest c
         | r \<Rightarrow> r)
      else Some (Inr (lastCleanup, b, socks)))"

end
