(* ===== verification/Broker_Invariant.thy ===== *)
theory Broker_Invariant
  imports Broker
begin

text \<open>
  What holds of the broker at every moment, and what each operation does. The invariant \<open>broker_ok\<close> ties the
  parts of the state together: only connected clients have subscriptions, the two halves of the duplicate
  history agree, and the containers have no duplicate keys. \<open>foreign_step\<close> is what other threads may do between
  two iterations of the broker thread.
\<close>

definition history_ok :: "string set \<Rightarrow> string list \<Rightarrow> bool" where
  "history_ok seen order \<longleftrightarrow> seen = set order \<and> distinct order \<and> length order \<le> MaxHistorySize"

definition clients_ok :: "SubscriptionRegistry \<Rightarrow> (string, ClientState) umap \<Rightarrow> bool" where
  "clients_ok reg clients \<longleftrightarrow>
     registry_ok reg \<and> umap_ok clients \<and> fst ` registry_subs reg \<subseteq> umap_keys clients \<and>
     (\<forall>(k, c) \<in> set clients. cs_identity c = k)"

definition peers_ok :: "(string, ZmqWorker) umap \<Rightarrow> bool" where
  "peers_ok peers \<longleftrightarrow> umap_ok peers \<and> (\<forall>(k, w) \<in> set peers. m_running w)"

definition inbound_ok :: "'a SafeQueue \<Rightarrow> bool" where
  "inbound_ok q \<longleftrightarrow> length (m_queue q) \<le> m_maxSize q"

definition broker_ok :: "ZmqBroker \<Rightarrow> bool" where
  "broker_ok b \<longleftrightarrow>
     clients_ok (b_subscriptions b) (b_clients b) \<and>
     history_ok (b_seenMessageIds b) (b_messageIdOrder b) \<and>
     peers_ok (b_peers b) \<and> inbound_ok (b_peerInboundQueue b)"

lemma broker_ok_new: "broker_ok (ZmqBroker_new rnd)"
  by (simp add: broker_ok_def ZmqBroker_new_def clients_ok_def history_ok_def peers_ok_def inbound_ok_def
      registry_ok_new registry_subs_new SafeQueue_default_def SafeQueue_new_def)

subsection \<open>Clients and subscriptions\<close>

lemma clients_ok_remove:
  assumes "clients_ok reg clients"
  shows "clients_ok (registry_removeClient c reg) (umap_erase c clients)"
proof -
  have "fst ` (registry_subs reg - {c} \<times> UNIV) \<subseteq> umap_keys clients - {c}"
    using assms by (auto simp: clients_ok_def)
  moreover have "\<forall>(k, d) \<in> set (umap_erase c clients). cs_identity d = k"
    using assms set_umap_erase [of c clients] unfolding clients_ok_def by blast
  ultimately show ?thesis
    using assms unfolding clients_ok_def umap_keys_erase by (simp add: reg.ok_remove reg.subs_remove)
qed

lemma clients_ok_seen:
  assumes "clients_ok reg clients"
  shows "clients_ok reg (umap_put c \<lparr>cs_identity = c, cs_lastSeen = t\<rparr> clients)"
proof -
  have "\<forall>(k, d) \<in> set (umap_put c \<lparr>cs_identity = c, cs_lastSeen = t\<rparr> clients). cs_identity d = k"
    using assms set_umap_put [of c "\<lparr>cs_identity = c, cs_lastSeen = t\<rparr>" clients] by (auto simp: clients_ok_def)
  with assms show ?thesis unfolding clients_ok_def umap_keys_put by (simp add: subset_insertI2)
qed

lemma clients_ok_subscribe:
  assumes "clients_ok reg clients" "c \<in> umap_keys clients"
  shows "clients_ok (snd (subscribe c t reg)) clients"
  using assms by (auto simp: clients_ok_def reg.ok_sub reg.subs_sub)

lemma clients_ok_unsubscribe:
  assumes "clients_ok reg clients"
  shows "clients_ok (snd (unsubscribe c t reg)) clients"
  using assms by (auto simp: clients_ok_def reg.ok_unsub reg.subs_unsub)

lemma broker_ok_removeClient [simp]: "broker_ok b \<Longrightarrow> broker_ok (broker_removeClient c b)"
  by (simp add: broker_ok_def broker_removeClient_def clients_ok_remove)

subsection \<open>The duplicate history\<close>

text \<open>The history as a list: the uuids still remembered, oldest first.\<close>

definition remember :: "string \<Rightarrow> string list \<Rightarrow> string list" where
  "remember u order = (let os = order @ [u] in if length os > MaxHistorySize then tl os else os)"

lemma isDuplicate_eq:
  assumes "history_ok (b_seenMessageIds b) (b_messageIdOrder b)"
  shows "isDuplicate u b =
    (if u \<in> set (b_messageIdOrder b) then (True, b)
     else (False, b\<lparr>b_seenMessageIds := set (remember u (b_messageIdOrder b)),
                    b_messageIdOrder := remember u (b_messageIdOrder b)\<rparr>))"
proof -
  have seen: "b_seenMessageIds b = set (b_messageIdOrder b)" and dist: "distinct (b_messageIdOrder b)"
    using assms by (simp_all add: history_ok_def)
  have "insert u (set order) - {hd (order @ [u])} = set (tl (order @ [u]))" if "distinct order" "u \<notin> set order" for order
    using that by (cases order) auto
  from this [OF dist] show ?thesis
    by (simp add: isDuplicate_def seen remember_def Let_def)
qed

lemma history_ok_remember:
  assumes "history_ok seen order" "u \<notin> set order"
  shows "history_ok (set (remember u order)) (remember u order)"
  using assms by (cases order) (auto simp: history_ok_def remember_def Let_def)

lemma isDuplicate_frame:
  assumes "isDuplicate u b = (r, b')"
  shows "b_subscriptions b' = b_subscriptions b" "b_clients b' = b_clients b" "b_peers b' = b_peers b"
    "b_peerInboundQueue b' = b_peerInboundQueue b" "b_running b' = b_running b" "b_brokerId b' = b_brokerId b"
  using assms by (auto simp: isDuplicate_def Let_def split: if_splits)

lemma broker_ok_isDuplicate:
  assumes "broker_ok b" "isDuplicate u b = (r, b')"
  shows "broker_ok b'"
proof -
  from assms(1) have "history_ok (b_seenMessageIds b) (b_messageIdOrder b)" by (simp add: broker_ok_def)
  with assms isDuplicate_eq [OF this, of u] history_ok_remember [OF this, of u] show ?thesis
    by (auto simp: broker_ok_def split: if_splits)
qed

subsection \<open>Peers\<close>

lemma writeMessage_running [simp]: "m_running (snd (writeMessage m w)) = m_running w"
  by (simp add: writeMessage_def split: prod.split)

lemma writeControlMessage_running [simp]: "m_running (snd (writeControlMessage m w)) = m_running w"
  by (simp add: writeControlMessage_def split: prod.split)

lemma umap_keys_map_values: "umap_keys (map (\<lambda>(k, v). (k, f v)) m) = umap_keys m"
  by (induction m) auto

lemma umap_ok_map_values [simp]: "umap_ok (map (\<lambda>(k, v). (k, f v)) m) = umap_ok m"
  by (simp add: umap_ok_def case_prod_unfold comp_def)

lemma umap_find_map_values: "umap_find (map (\<lambda>(k, v). (k, f v)) m) k = map_option f (umap_find m k)"
  by (induction m) auto

lemma peers_ok_flood: "peers_ok m \<Longrightarrow> peers_ok (map (\<lambda>(k, w). (k, snd (writeMessage e w))) m)"
  by (auto simp: peers_ok_def)

lemma peers_ok_put: "peers_ok m \<Longrightarrow> m_running w \<Longrightarrow> peers_ok (umap_put k w m)"
  using set_umap_put [of k w m] by (auto simp: peers_ok_def)

lemma peers_ok_erase: "peers_ok m \<Longrightarrow> peers_ok (umap_erase k m)"
  using set_umap_erase [of k m] by (auto simp: peers_ok_def)

lemma broker_ok_addPeer: "broker_ok b \<Longrightarrow> broker_ok (addPeer k a b)"
  by (simp add: addPeer_def broker_ok_def peers_ok_put ZmqWorker_start_def Let_def)

lemma broker_ok_removePeer: "broker_ok b \<Longrightarrow> broker_ok (fst (removePeer k b))"
  by (simp add: removePeer_def broker_ok_def peers_ok_erase split: option.split)

lemma broker_ok_discovery: "broker_ok b \<Longrightarrow> broker_ok (broker_discovery_action act b)"
  by (cases act) (simp_all add: broker_ok_addPeer broker_ok_removePeer)

subsection \<open>Messages\<close>

lemma route_message_ok:
  assumes "broker_ok b" "route_message hdr bytes body sender fromPeer b = (b', outs)"
  shows "broker_ok b'"
proof -
  obtain r b1 where dup: "isDuplicate (message_uuid hdr) b = (r, b1)" by fastforce
  with assms broker_ok_isDuplicate [OF assms(1) dup] show ?thesis
    by (cases r) (auto simp: route_message_def flood_peers_def broker_ok_def peers_ok_flood)
qed

lemma route_message_frame:
  assumes "route_message hdr bytes body sender fromPeer b = (b', outs)"
  shows "b_subscriptions b' = b_subscriptions b" "b_clients b' = b_clients b"
    "b_peerInboundQueue b' = b_peerInboundQueue b" "b_running b' = b_running b" "b_brokerId b' = b_brokerId b"
proof -
  obtain r b1 where dup: "isDuplicate (message_uuid hdr) b = (r, b1)" by fastforce
  with assms isDuplicate_frame [OF dup] show "b_subscriptions b' = b_subscriptions b" "b_clients b' = b_clients b"
    "b_peerInboundQueue b' = b_peerInboundQueue b" "b_running b' = b_running b" "b_brokerId b' = b_brokerId b"
    by (auto simp: route_message_def flood_peers_def split: bool.splits)
qed

lemma processMessage_cases:
  assumes "processMessage rt rnd now hdr body sender fromPeer b = (b', outs)"
  obtains
    (disconnect) "\<not> fromPeer" "handler_key (stamp_identity rnd hdr b) = Keys_DISCONNECT" "b' = broker_removeClient sender b"
  | (seen) c where "\<not> fromPeer" "c = b\<lparr>b_clients := umap_put sender \<lparr>cs_identity = sender, cs_lastSeen = now\<rparr> (b_clients b)\<rparr>"
      "b' = c \<or> b' = c\<lparr>b_subscriptions := snd (subscribe sender (topic (stamp_identity rnd hdr b)) (b_subscriptions b))\<rparr>
       \<or> b' = c\<lparr>b_subscriptions := snd (unsubscribe sender (topic (stamp_identity rnd hdr b)) (b_subscriptions b))\<rparr>"
  | (ignored) "fromPeer" "b' = b"
  | (routed) c outs' where "c = (if fromPeer then b else b\<lparr>b_clients := umap_put sender \<lparr>cs_identity = sender, cs_lastSeen = now\<rparr> (b_clients b)\<rparr>)"
      "route_message (stamp_identity rnd hdr b) (encodeHeader rt (stamp_identity rnd hdr b)) body sender fromPeer c = (b', outs')"
      "outs = ToInspector (encodeHeader rt (stamp_identity rnd hdr b)) body # outs'"
proof (cases fromPeer)
  case True
  then show ?thesis
    using assms ignored routed by (simp add: processMessage_def Let_def split: prod.splits if_splits)
next
  case False
  then show ?thesis
    using assms disconnect seen routed
    by (simp add: processMessage_def Let_def split: prod.splits if_splits)
qed

lemma broker_ok_seen:
  "broker_ok b \<Longrightarrow> broker_ok (b\<lparr>b_clients := umap_put c \<lparr>cs_identity = c, cs_lastSeen = t\<rparr> (b_clients b)\<rparr>)"
  by (simp add: broker_ok_def clients_ok_seen)

lemma processMessage_ok:
  assumes "broker_ok b" "processMessage rt rnd now hdr body sender fromPeer b = (b', outs)"
  shows "broker_ok b'"
  using assms(2)
proof (cases rule: processMessage_cases)
  case disconnect
  with assms(1) show ?thesis by simp
next
  case (seen c)
  have c: "broker_ok c" unfolding seen(2) by (rule broker_ok_seen [OF assms(1)])
  have sender: "sender \<in> umap_keys (b_clients c)" and subs: "b_subscriptions c = b_subscriptions b"
    unfolding seen(2) by simp_all
  have "broker_ok (c\<lparr>b_subscriptions := snd (subscribe sender t (b_subscriptions c))\<rparr>)"
    "broker_ok (c\<lparr>b_subscriptions := snd (unsubscribe sender t (b_subscriptions c))\<rparr>)" for t
    using c clients_ok_subscribe [OF _ sender] clients_ok_unsubscribe by (simp_all add: broker_ok_def)
  with c seen(3) subs show ?thesis by auto
next
  case ignored
  with assms(1) show ?thesis by simp
next
  case (routed c outs')
  have "broker_ok c" unfolding routed(1) using assms(1) broker_ok_seen by simp
  from route_message_ok [OF this routed(2)] show ?thesis .
qed

lemma processMessage_frame:
  assumes "processMessage rt rnd now hdr body sender fromPeer b = (b', outs)"
  shows "b_peerInboundQueue b' = b_peerInboundQueue b" "b_running b' = b_running b" "b_brokerId b' = b_brokerId b"
proof -
  have "b_peerInboundQueue b' = b_peerInboundQueue b \<and> b_running b' = b_running b \<and> b_brokerId b' = b_brokerId b"
    using assms
  proof (cases rule: processMessage_cases)
    case (seen c)
    then show ?thesis by auto
  next
    case (routed c outs')
    with route_message_frame [OF routed(2)] show ?thesis by (auto split: if_splits)
  qed (simp_all add: broker_removeClient_def)
  then show "b_peerInboundQueue b' = b_peerInboundQueue b" "b_running b' = b_running b" "b_brokerId b' = b_brokerId b"
    by simp_all
qed

subsection \<open>Cleanup\<close>

lemma cleanup_loop_ok: "broker_ok b \<Longrightarrow> broker_ok (cleanup_loop now cs b)"
  by (induction now cs b rule: cleanup_loop.induct) simp_all

lemma cleanup_loop_eq:
  assumes "registry_ok (b_subscriptions b)"
  shows "let dead = {k. \<exists>c. (k, c) \<in> set cs \<and> now - cs_lastSeen c > ClientTimeout}; b' = cleanup_loop now cs b in
    b_clients b' = filter (\<lambda>p. fst p \<notin> dead) (b_clients b) \<and>
    registry_subs (b_subscriptions b') = registry_subs (b_subscriptions b) - dead \<times> UNIV \<and>
    b_peers b' = b_peers b \<and> b_seenMessageIds b' = b_seenMessageIds b \<and> b_messageIdOrder b' = b_messageIdOrder b \<and>
    b_peerInboundQueue b' = b_peerInboundQueue b \<and> b_running b' = b_running b \<and> b_lastStatsTime b' = b_lastStatsTime b"
  using assms
proof (induction now cs b rule: cleanup_loop.induct)
  case (1 now b)
  then show ?case by simp
next
  case (2 now cid c rest b)
  show ?case
  proof (cases "now - cs_lastSeen c > ClientTimeout")
    case True
    have ok: "registry_ok (b_subscriptions (broker_removeClient cid b))"
      using "2.prems" by (simp add: broker_removeClient_def reg.ok_remove)
    have dead: "{k. \<exists>c'. (k, c') \<in> set ((cid, c) # rest) \<and> now - cs_lastSeen c' > ClientTimeout} =
        insert cid {k. \<exists>c'. (k, c') \<in> set rest \<and> now - cs_lastSeen c' > ClientTimeout}" using True by auto
    have clients: "b_clients (broker_removeClient cid b) = filter (\<lambda>p. cid \<noteq> fst p) (b_clients b)"
      and subs: "registry_subs (b_subscriptions (broker_removeClient cid b)) =
        registry_subs (b_subscriptions b) - {cid} \<times> UNIV"
      using "2.prems" by (simp_all add: broker_removeClient_def AList.delete_eq case_prod_unfold reg.subs_remove)
    have frame: "b_peers (broker_removeClient cid b) = b_peers b" "b_seenMessageIds (broker_removeClient cid b) = b_seenMessageIds b"
      "b_messageIdOrder (broker_removeClient cid b) = b_messageIdOrder b"
      "b_peerInboundQueue (broker_removeClient cid b) = b_peerInboundQueue b" "b_running (broker_removeClient cid b) = b_running b"
      "b_lastStatsTime (broker_removeClient cid b) = b_lastStatsTime b"
      by (simp_all add: broker_removeClient_def)
    show ?thesis
      unfolding dead using True "2.IH"(1) [OF True ok, unfolded clients subs frame Let_def]
      by (auto simp: Let_def intro!: filter_cong)
  next
    case False
    then have "{k. \<exists>c'. (k, c') \<in> set ((cid, c) # rest) \<and> now - cs_lastSeen c' > ClientTimeout} =
        {k. \<exists>c'. (k, c') \<in> set rest \<and> now - cs_lastSeen c' > ClientTimeout}" by auto
    with False "2.IH"(2) [OF False "2.prems"] show ?thesis by (simp only: cleanup_loop.simps if_False)
  qed
qed

subsection \<open>The peer links\<close>

text \<open>A broker link keeps the worker's contract for its callbacks.\<close>

interpretation link: worker_callbacks "peer_link_hooks linkId" for linkId
  by unfold_locales
     (auto simp: peer_link_hooks_def link_callback_def writeControlMessage_def split: if_splits prod.splits)

lemma SafeQueue_push_ok:
  assumes "inbound_ok q" "SafeQueue_push x q = Some (r, q')"
  shows "inbound_ok q'"
  using assms by (auto simp: inbound_ok_def SafeQueue_defs split: if_splits)

lemma link_callback_ok:
  assumes "inbound_ok q" "link_callback linkId env (q, w) = Some (q', w')"
  shows "inbound_ok q' \<and> m_running w' = m_running w"
  using assms SafeQueue_push_ok [OF assms(1)]
  by (auto simp: link_callback_def split: if_splits)

lemma link_received_ok:
  assumes "inbound_ok q" "ZmqWorker_received (peer_link_hooks linkId) t env (q, w) = Some (q', w')"
  shows "inbound_ok q' \<and> m_running w' = m_running w"
proof -
  from assms(2) obtain w0 where w0: "deliver_inbound (peer_link_hooks linkId) env (q, w0) = Some (q', w')" "m_running w0 = m_running w"
    by (simp add: ZmqWorker_received_def notify_status_def peer_link_hooks_def Let_def split: if_splits)
  with assms(1) link_callback_ok [OF assms(1), of linkId env w0 q' w'] show ?thesis
    by (auto simp: deliver_inbound_def peer_link_hooks_def split: if_splits)
qed

lemma link_iteration_ok:
  assumes "inbound_ok q" "ZmqWorker_iteration rt api (peer_link_hooks linkId) tick ((q, w), l, s) = Some (Inr ((q', w'), l', s'))"
  shows "inbound_ok q' \<and> m_running w' = m_running w"
  using assms(2)
proof (rule link.iteration_cases)
  fix rcv u w1 s1 d w2 r l1
  assume poll: "ZmqWorker_poll rt api (peer_link_hooks linkId) tick (q, w) s = Some (Inr (rcv, (u, w1), s1))"
    and drain: "ZmqWorker_drain rt api w1 (Inr s1) = (d, w2, r)"
    and timers: "ZmqWorker_timers rt api (peer_link_hooks linkId) (tick_now tick) ((u, w2), l1, r) = ((q', w'), l', Inr s')"
  have "inbound_ok u \<and> m_running w1 = m_running w"
    using link.poll_result [OF poll] assms(1) link_received_ok [OF assms(1)] by (cases rcv) auto
  moreover have "m_running w2 = m_running w1"
    using drain by (auto simp: ZmqWorker_drain_def split: prod.splits)
  moreover have "q' = u \<and> m_running w' = m_running w2"
    using timers by (auto simp: ZmqWorker_timers_def notify_status_def peer_link_hooks_def Let_def split: if_splits prod.splits)
  ultimately show ?thesis by simp
qed

text \<open>What other threads can do to the broker: a link's iteration, the discovery's callbacks, the owner's calls.\<close>

inductive foreign_step :: "pb_runtime \<Rightarrow> 's zmq_api \<Rightarrow> ZmqBroker \<Rightarrow> ZmqBroker \<Rightarrow> bool" for rt api where
  link_runs: "umap_find (b_peers b) k = Some w \<Longrightarrow>
    ZmqWorker_iteration rt api (peer_link_hooks (cfg_clientId (m_config w))) tick ((b_peerInboundQueue b, w), l, s) =
      Some (Inr ((q, w'), l', s')) \<Longrightarrow>
    foreign_step rt api b (b\<lparr>b_peerInboundQueue := q, b_peers := umap_put k w' (b_peers b)\<rparr>)"
| discovery_acts: "foreign_step rt api b (broker_discovery_action act b)"
| owner_connects: "foreign_step rt api b (connectToPeer a b)"
| owner_stops: "foreign_step rt api b
    (b\<lparr>b_running := False, b_discovery := map_option BrokerDiscovery_stop (b_discovery b),
       b_peerInboundQueue := SafeQueue_stop (b_peerInboundQueue b)\<rparr>)"

lemma foreign_step_ok:
  assumes "foreign_step rt api b b'" "broker_ok b"
  shows "broker_ok b'"
  using assms
proof (induction rule: foreign_step.induct)
  case (link_runs b k w tick l s q w' l' s')
  have "m_running w"
    using link_runs(1,3) map_of_SomeD [OF link_runs(1)] by (auto simp: broker_ok_def peers_ok_def)
  with link_runs(3) link_iteration_ok [OF _ link_runs(2)] show ?case
    by (auto simp: broker_ok_def intro: peers_ok_put)
next
  case (owner_stops b)
  then show ?case by (simp add: broker_ok_def inbound_ok_def SafeQueue_stop_def)
qed (simp_all add: broker_ok_discovery connectToPeer_def broker_ok_addPeer)

lemma foreign_steps_ok: "(foreign_step rt api)\<^sup>*\<^sup>* b b' \<Longrightarrow> broker_ok b \<Longrightarrow> broker_ok b'"
  by (induction rule: rtranclp_induct) (simp_all add: foreign_step_ok)

subsection \<open>The loop\<close>

lemma broker_emits_state: "broker_emits api outs b socks = Inr (b', socks') \<Longrightarrow> b' = b"
  by (auto simp: broker_emits_def split: sum.splits)

lemma map_sum_Pair_iff: "map_sum id (Pair x) r = Inr (y, z) \<longleftrightarrow> y = x \<and> r = Inr z"
  by (cases r) auto

lemma count_message_ok [simp]: "broker_ok (count_message rt env b) = broker_ok b"
  by (simp add: count_message_def broker_ok_def Let_def)

lemma broker_poll_ok:
  assumes "broker_ok b" "broker_poll rt api tick (b, socks) = Some (Inr (f, b', socks'))"
  shows "broker_ok b'"
proof -
  obtain router inspector where socks: "socks = (router, inspector)" by fastforce
  show ?thesis
  proof (cases "b' = b")
    case True
    with assms(1) show ?thesis by simp
  next
    case False
    with assms(2) obtain env identity b1 outs socks1 where
      msg: "processMessage rt (bt_random tick 0) (bt_rx tick) (header env) (payload env) identity False (count_message rt env b) = (b1, outs)"
      and emits: "broker_emits api outs b1 socks1 = Inr (b', socks')"
      unfolding socks broker_poll_def
      by (auto simp: map_sum_Pair_iff split: if_splits option.splits sum.splits prod.splits)
    from processMessage_ok [OF _ msg] assms(1) broker_emits_state [OF emits] show ?thesis by simp
  qed
qed

lemma fold_peer_message_Inl: "snd (fold (peer_message rt api tick) envs (n, Inl e)) = Inl e"
  by (induction envs arbitrary: n) (simp_all add: peer_message_def)

lemma peer_message_step:
  "processMessage rt (bt_random tick (Suc n)) (bt_rx tick) (header env) (payload env) ''PEER'' True b = (b1, outs) \<Longrightarrow>
     peer_message rt api tick env (n, Inr (b, socks)) = (Suc n, broker_emits api outs b1 socks)"
  by (simp add: peer_message_def)

lemma fold_peer_message_ok:
  "broker_ok b \<Longrightarrow> fold (peer_message rt api tick) envs (n, Inr (b, socks)) = (n', Inr (b', socks')) \<Longrightarrow>
     broker_ok b' \<and> b_peerInboundQueue b' = b_peerInboundQueue b \<and> b_running b' = b_running b"
proof (induction envs arbitrary: n b socks)
  case (Cons env envs)
  obtain b1 outs where msg: "processMessage rt (bt_random tick (Suc n)) (bt_rx tick) (header env) (payload env) ''PEER'' True b = (b1, outs)"
    by fastforce
  show ?case
  proof (cases "broker_emits api outs b1 socks")
    case (Inl e)
    with Cons.prems(2) msg fold_peer_message_Inl [of rt api tick envs "Suc n" e] show ?thesis
      by (simp add: peer_message_step [OF msg])
  next
    case (Inr r)
    then obtain socks1 where "r = (b1, socks1)" using broker_emits_state by (metis prod.collapse)
    with Inr msg Cons.prems(2) Cons.IH [OF processMessage_ok [OF Cons.prems(1) msg], of "Suc n" socks1]
      processMessage_frame [OF msg] show ?thesis by (simp add: peer_message_step [OF msg])
  qed
qed simp

lemma broker_peer_messages_ok:
  assumes "broker_ok b" "broker_peer_messages rt api tick (b, socks) = Inr (b', socks')"
  shows "broker_ok b'"
proof -
  let ?q = "b_peerInboundQueue b"
  obtain n r where fold: "fold (peer_message rt api tick) (m_queue ?q) (0, Inr (b, socks)) = (n, r)" by fastforce
  with assms(2) obtain b1 where r: "r = Inr (b1, socks')" and b': "b' = b1\<lparr>b_peerInboundQueue := ?q\<lparr>m_queue := []\<rparr>\<rparr>"
    by (cases r) (auto simp: broker_peer_messages_def SafeQueue_drain_eq)
  from fold_peer_message_ok [OF assms(1) fold [unfolded r]] show ?thesis
    unfolding b' by (simp add: broker_ok_def inbound_ok_def)
qed

lemma broker_timers_ok:
  assumes "broker_ok b" "broker_timers rt api ar tick t (b, socks) = Inr (t', b', socks')"
  shows "broker_ok b'"
proof -
  define c where "c = (if bt_now tick - t > seconds 2 then cleanup_loop (bt_now tick) (b_clients b) b else b)"
  have c: "broker_ok c" unfolding c_def using assms(1) cleanup_loop_ok by simp
  have "b' = c \<or> b' = c\<lparr>b_lastStatsTime := bt_now tick, b_msgsInterval := 0, b_bytesInterval := 0\<rparr>"
    using assms(2) unfolding broker_timers_def c_def
    by (cases "bt_now tick - t > seconds 2")
       (auto simp: Let_def map_sum_Pair_iff dest: broker_emits_state split: if_splits)
  with c show ?thesis by (auto simp: broker_ok_def)
qed

lemma ZmqBroker_iteration_ok:
  assumes "broker_ok b" "ZmqBroker_iteration rt api ar tick (t, b, socks) = Some (Inr (t', b', socks'))"
  shows "broker_ok b'"
proof -
  from assms(2) obtain f b1 socks1 where poll: "broker_poll rt api tick (b, socks) = Some (Inr (f, b1, socks1))"
    by (auto simp: ZmqBroker_iteration_def split: option.splits sum.splits bool.splits)
  note b1 = broker_poll_ok [OF assms(1) poll]
  show ?thesis
  proof (cases f)
    case True
    with poll assms(2) b1 show ?thesis by (simp add: ZmqBroker_iteration_def)
  next
    case False
    with poll assms(2) obtain b2 socks2 where peers: "broker_peer_messages rt api tick (b1, socks1) = Inr (b2, socks2)"
      and timers: "broker_timers rt api ar tick t (b2, socks2) = Inr (t', b', socks')"
      by (auto simp: ZmqBroker_iteration_def split: sum.splits)
    from broker_timers_ok [OF broker_peer_messages_ok [OF b1 peers] timers] show ?thesis .
  qed
qed

lemma ZmqBroker_loop_ok:
  assumes "\<And>f tick b. (f, tick) \<in> set entries \<Longrightarrow> (foreign_step rt api)\<^sup>*\<^sup>* b (f b)"
    and "broker_ok b" "ZmqBroker_loop rt api ar entries (t, b, socks) = Some (Inr (t', b', socks'))"
  shows "broker_ok b'"
  using assms
proof (induction entries arbitrary: t b socks)
  case (Cons entry entries)
  obtain f tick where entry: "entry = (f, tick)" by fastforce
  from Cons.prems(1) [of f tick b] Cons.prems(2) entry have ok: "broker_ok (f b)" using foreign_steps_ok by simp
  show ?case
  proof (cases "b_running (f b)")
    case True
    with Cons.prems(3) entry obtain t1 b1 socks1 where
      step: "ZmqBroker_iteration rt api ar tick (t, f b, socks) = Some (Inr (t1, b1, socks1))"
      and rest: "ZmqBroker_loop rt api ar entries (t1, b1, socks1) = Some (Inr (t', b', socks'))"
      by (auto simp: Let_def split: option.splits sum.splits)
    show ?thesis
      by (rule Cons.IH [OF _ ZmqBroker_iteration_ok [OF ok step] rest]) (use Cons.prems(1) in auto)
  next
    case False
    with Cons.prems(3) entry ok show ?thesis by simp
  qed
qed simp

end
