(* ===== verification/Broker_Properties.thy ===== *)
theory Broker_Properties
  imports Broker_Invariant
begin

text \<open>
  What the broker promises: the invariant over every run, who receives a message, how control messages are
  answered, that a message is routed once, that silent clients are forgotten, what the statistics say, and
  what reaches the sockets.
\<close>

subsection \<open>The invariant\<close>

text \<open>
  C2. However the broker thread's iterations interleave with the peer links, the discovery thread and the
  owner's calls, the broker's state stays consistent: the subscription registry's two sides agree and mention
  only connected clients, no client or peer is registered twice, every registered peer link is running, the
  duplicate history holds each remembered uuid once and at most 10000 of them, and the inbound queue never
  exceeds its capacity.
\<close>

theorem broker_invariant:
  assumes "(foreign_step rt api)\<^sup>*\<^sup>* (ZmqBroker_new rnd) b0"
    and "\<forall>(f, tick) \<in> set entries. \<forall>b. (foreign_step rt api)\<^sup>*\<^sup>* b (f b)"
    and "ZmqBroker_loop rt api ar entries (t0, ZmqBroker_start t1 t2 addrs b0, socks) = Some (Inr (t, b, socks'))"
  shows "broker_ok b"
proof -
  have "broker_ok (ZmqBroker_start t1 t2 addrs b0)"
    using foreign_steps_ok [OF assms(1) broker_ok_new] by (simp add: ZmqBroker_start_def Let_def broker_ok_def)
  from _ this assms(3) show ?thesis by (rule ZmqBroker_loop_ok) (use assms(2) in blast)
qed

text \<open>Witness for C2: a broker with one manual peer runs an idle iteration and is then stopped.\<close>

definition idle_tick :: broker_tick where
  "idle_tick = \<lparr>bt_pollin = False, bt_rx = 0, bt_random = (\<lambda>_. (\<lambda>_. 0, 0)), bt_now = 0, bt_stats = 0\<rparr>"

definition broker_example :: ZmqBroker where
  "broker_example = connectToPeer ''tcp://h:5555'' (ZmqBroker_new (\<lambda>_. 0, 0))"

theorem broker_invariant_witness:
  "\<exists>b. ZmqBroker_loop pb_wire_format mem_api any_wire
       [(connectToPeer ''tcp://h:5556'', idle_tick)]
       (0, ZmqBroker_start 0 0 [''tcp://*:5555''] broker_example, mem_example, mem_example) =
     Some (Inr (0, b, mem_example, mem_example)) \<and> broker_ok b \<and> length (b_peers b) = 2"
proof -
  let ?b = "connectToPeer ''tcp://h:5556'' (ZmqBroker_start 0 0 [''tcp://*:5555''] broker_example)"
  have b0: "(foreign_step pb_wire_format mem_api)\<^sup>*\<^sup>* (ZmqBroker_new (\<lambda>_. 0, 0)) broker_example"
    unfolding broker_example_def by (intro r_into_rtranclp owner_connects)
  have others: "\<forall>(f, tick) \<in> set [(connectToPeer ''tcp://h:5556'', idle_tick)].
      \<forall>b. (foreign_step pb_wire_format mem_api)\<^sup>*\<^sup>* b (f b)"
    by (auto intro: r_into_rtranclp owner_connects)
  have fields: "b_running ?b" "b_discoveryEnabled ?b = False" "m_queue (b_peerInboundQueue ?b) = []" "b_lastStatsTime ?b = 0"
    "length (b_peers ?b) = 2" "b_peerInboundQueue ?b = SafeQueue_new 5000"
    by (simp_all add: broker_example_def connectToPeer_def addPeer_def ZmqBroker_start_def ZmqBroker_new_def
        SafeQueue_default_def SafeQueue_new_def Let_def)
  have "?b\<lparr>b_peerInboundQueue := b_peerInboundQueue ?b\<lparr>m_queue := []\<rparr>\<rparr> = ?b"
    using fields(3) by simp
  with fields have run: "ZmqBroker_loop pb_wire_format mem_api any_wire [(connectToPeer ''tcp://h:5556'', idle_tick)]
       (0, ZmqBroker_start 0 0 [''tcp://*:5555''] broker_example, mem_example, mem_example) =
     Some (Inr (0, ?b, mem_example, mem_example))"
    by (simp add: ZmqBroker_iteration_def broker_poll_def broker_peer_messages_def SafeQueue_drain_eq broker_timers_def
        idle_tick_def seconds_def Let_def)
  from broker_invariant [OF b0 others run] run fields(5) show ?thesis by blast
qed

subsection \<open>Delivery\<close>

lemma recipients_eq:
  assumes "clients_ok (b_subscriptions b) (b_clients b)"
  shows "distinct (recipients t sender fromPeer b) \<and>
    set (recipients t sender fromPeer b) = {c \<in> umap_keys (b_clients b). (fromPeer \<or> c \<noteq> sender) \<and>
      ((c, t) \<in> registry_subs (b_subscriptions b) \<or> (c, []) \<in> registry_subs (b_subscriptions b))}"
proof -
  let ?reg = "b_subscriptions b"
  have ok: "registry_ok ?reg" using assms by (simp add: clients_ok_def)
  let ?exact = "vec_of (subscribersOf t ?reg)"
  let ?wild = "vec_of (if t = [] then None else subscribersOf [] ?reg)"
  have wild: "distinct ?wild" "set ?wild = (if t = [] then {} else {c. (c, []) \<in> registry_subs ?reg})"
    using reg.subscribers_distinct [OF ok] reg.subscribers_set [OF ok] by simp_all
  have "recipients t sender fromPeer b = filter (deliverable sender fromPeer b) ?exact
      @ filter (deliverable sender fromPeer b) (filter (\<lambda>cid. cid \<notin> set ?exact) ?wild)"
    by (cases "subscribersOf t ?reg") (simp_all add: recipients_def Let_def)
  then show ?thesis
    using reg.subscribers_distinct [OF ok, of t] reg.subscribers_set [OF ok, of t] wild
    by (auto simp: deliverable_def umap_find_None_iff)
qed

definition control_key :: "bool \<Rightarrow> string \<Rightarrow> bool" where
  "control_key fromPeer key \<longleftrightarrow>
     (if fromPeer then key \<in> {Keys_RESET, Keys_HEARTBEAT_ACK, Keys_HEARTBEAT}
      else key \<in> {Keys_DISCONNECT, Keys_CONNECT, Keys_HEARTBEAT, Keys_SUBSCRIBE, Keys_UNSUBSCRIBE})"

lemma processMessage_routes:
  assumes "\<not> control_key fromPeer (handler_key (stamp_identity rnd hdr b))" "fromPeer \<or> sender \<in> umap_keys (b_clients b)"
  shows "processMessage rt rnd now hdr body sender fromPeer b =
    (let hdr' = stamp_identity rnd hdr b; hb = encodeHeader rt hdr';
         c = (if fromPeer then b else b\<lparr>b_clients := umap_put sender \<lparr>cs_identity = sender, cs_lastSeen = now\<rparr> (b_clients b)\<rparr>);
         (b', outs) = route_message hdr' hb body sender fromPeer c
     in (b', ToInspector hb body # outs))"
  using assms unfolding processMessage_def Let_def control_key_def
  by (simp add: umap_find_None_iff split: if_splits)

text \<open>
  C1. A data message that is not a duplicate, from a connected client or from a peer link, is sent exactly once to
  each connected client that subscribes to its topic or to everything (the empty topic), and to nobody else; a
  client never gets its own message back. All of them and the inspector receive the same header bytes and the
  payload unchanged, and every peer link gets the message in its outbound queue.
\<close>

theorem delivery_exact:
  assumes "broker_ok b" "\<not> control_key fromPeer (handler_key (stamp_identity rnd hdr b))"
    and "fromPeer \<or> sender \<in> umap_keys (b_clients b)"
    and "message_uuid (stamp_identity rnd hdr b) \<notin> set (b_messageIdOrder b)"
    and "processMessage rt rnd now hdr body sender fromPeer b = (b', outs)"
  shows "\<exists>ids. outs = ToInspector (encodeHeader rt (stamp_identity rnd hdr b)) body
        # map (\<lambda>cid. ToClient cid (encodeHeader rt (stamp_identity rnd hdr b)) body) ids \<and>
      distinct ids \<and>
      set ids = {c \<in> umap_keys (b_clients b). (fromPeer \<or> c \<noteq> sender) \<and>
        ((c, topic (stamp_identity rnd hdr b)) \<in> registry_subs (b_subscriptions b) \<or> (c, []) \<in> registry_subs (b_subscriptions b))} \<and>
      b_peers b' = map (\<lambda>(k, w). (k, snd (writeMessage \<lparr>header = stamp_identity rnd hdr b, payload = body\<rparr> w))) (b_peers b)"
proof -
  let ?hdr = "stamp_identity rnd hdr b"
  define c where "c = (if fromPeer then b else b\<lparr>b_clients := umap_put sender \<lparr>cs_identity = sender, cs_lastSeen = now\<rparr> (b_clients b)\<rparr>)"
  have ok: "broker_ok c" unfolding c_def using assms(1) broker_ok_seen by simp
  have frame: "b_messageIdOrder c = b_messageIdOrder b" "b_subscriptions c = b_subscriptions b" "b_peers c = b_peers b"
    "umap_keys (b_clients c) = umap_keys (b_clients b)"
    using assms(3) by (auto simp: c_def insert_absorb)
  have hist: "history_ok (b_seenMessageIds c) (b_messageIdOrder c)" using ok by (simp add: broker_ok_def)
  obtain c' where dup: "isDuplicate (message_uuid ?hdr) c = (False, c')"
    using assms(4) isDuplicate_eq [OF hist] frame(1) by simp
  note dup_frame = isDuplicate_frame [OF dup]
  let ?ids = "recipients (topic ?hdr) sender fromPeer c'"
  have outs: "outs = ToInspector (encodeHeader rt ?hdr) body # map (\<lambda>cid. ToClient cid (encodeHeader rt ?hdr) body) ?ids"
    and b': "b' = flood_peers ?hdr body c'"
    using assms(5) processMessage_routes [OF assms(2,3)] dup by (simp_all add: route_message_def Let_def flip: c_def)
  have "clients_ok (b_subscriptions c') (b_clients c')" using ok dup_frame by (simp add: broker_ok_def)
  from recipients_eq [OF this, of "topic ?hdr" sender fromPeer] outs b' show ?thesis
    unfolding dup_frame frame by (intro exI [of _ ?ids]) (simp add: flood_peers_def dup_frame frame)
qed

text \<open>Witness for C1: one subscriber and one wildcard subscriber.\<close>

definition routing_example :: ZmqBroker where
  "routing_example = (ZmqBroker_new (\<lambda>_. 0, 0))\<lparr>
     b_clients := [(''a'', \<lparr>cs_identity = ''a'', cs_lastSeen = 0\<rparr>), (''b'', \<lparr>cs_identity = ''b'', cs_lastSeen = 0\<rparr>),
                   (''c'', \<lparr>cs_identity = ''c'', cs_lastSeen = 0\<rparr>)],
     b_subscriptions := snd (subscribe ''c'' [] (snd (subscribe ''b'' ''t'' SubscriptionRegistry_new)))\<rparr>"

lemma routing_example_ok: "broker_ok routing_example"
  and routing_example_subs: "registry_subs (b_subscriptions routing_example) = {(''b'', ''t''), (''c'', [])}"
proof -
  have reg: "registry_ok (b_subscriptions routing_example)"
    by (simp add: routing_example_def reg.ok_sub registry_ok_new)
  show subs: "registry_subs (b_subscriptions routing_example) = {(''b'', ''t''), (''c'', [])}"
    by (auto simp: routing_example_def reg.subs_sub reg.ok_sub registry_ok_new registry_subs_new)
  show "broker_ok routing_example"
    unfolding broker_ok_def clients_ok_def subs using reg
    by (simp add: routing_example_def ZmqBroker_new_def umap_ok_def history_ok_def peers_ok_def inbound_ok_def
        SafeQueue_default_def SafeQueue_new_def)
qed

theorem delivery_exact_witness:
  "\<exists>ids. snd (processMessage pb_wire_format (\<lambda>_. 0, 0) 0 (set_message_uuid ''u'' (set_topic ''t'' MessageHeader_new)) ''p'' ''a'' False routing_example) =
     ToInspector (encodeHeader pb_wire_format (set_message_uuid ''u'' (set_topic ''t'' MessageHeader_new))) ''p''
     # map (\<lambda>cid. ToClient cid (encodeHeader pb_wire_format (set_message_uuid ''u'' (set_topic ''t'' MessageHeader_new))) ''p'') ids \<and>
     distinct ids \<and> set ids = {''b'', ''c''}"
proof -
  let ?h = "set_message_uuid ''u'' (set_topic ''t'' MessageHeader_new)"
  have hdr: "stamp_identity (\<lambda>_. 0, 0) ?h routing_example = ?h" "handler_key ?h = []" "topic ?h = ''t''" "message_uuid ?h = ''u''"
    by (simp_all add: stamp_identity_def header_accessor_defs MessageHeader_new_def)
  have keys: "\<not> control_key False []" by (simp add: control_key_def Keys_defs)
  have clients: "umap_keys (b_clients routing_example) = {''a'', ''b'', ''c''}" "b_messageIdOrder routing_example = []"
    by (simp_all add: routing_example_def ZmqBroker_new_def)
  obtain b' outs where run: "processMessage pb_wire_format (\<lambda>_. 0, 0) 0 ?h ''p'' ''a'' False routing_example = (b', outs)" by fastforce
  have "{c \<in> {''a'', ''b'', ''c''}. (False \<or> c \<noteq> ''a'') \<and> ((c, ''t'') \<in> {(''b'', ''t''), (''c'', [])} \<or> (c, []) \<in> {(''b'', ''t''), (''c'', [])})} = {''b'', ''c''}"
    by auto
  with delivery_exact [OF routing_example_ok _ _ _ run] run show ?thesis
    unfolding hdr clients routing_example_subs using keys by auto
qed

subsection \<open>Routing once\<close>

text \<open>The uuids that a sequence of messages gets past the duplicate check, and the same from the last 10000 accepted ones.\<close>

fun routed_ids :: "string list \<Rightarrow> ZmqBroker \<Rightarrow> string list" where
  "routed_ids [] b = []"
| "routed_ids (u # us) b =
     (case isDuplicate u b of (dup, b') \<Rightarrow> if dup then routed_ids us b' else u # routed_ids us b')"

definition last_n :: "nat \<Rightarrow> 'a list \<Rightarrow> 'a list" where
  "last_n n xs = drop (length xs - n) xs"

fun accept_window :: "string list \<Rightarrow> string list \<Rightarrow> string list" where
  "accept_window [] accepted = []"
| "accept_window (u # us) accepted =
     (if u \<in> set (last_n MaxHistorySize accepted) then accept_window us accepted
      else u # accept_window us (accepted @ [u]))"

lemma remember_last_n:
  "remember u (last_n MaxHistorySize accepted) = last_n MaxHistorySize (accepted @ [u])"
proof (cases "length accepted \<ge> MaxHistorySize")
  case True
  let ?k = "length accepted - MaxHistorySize"
  have ne: "drop ?k accepted \<noteq> []" using True by (simp add: MaxHistorySize_def)
  have "Suc (length accepted) - MaxHistorySize = Suc ?k" "Suc 0 - MaxHistorySize = 0"
    using True by (simp_all add: MaxHistorySize_def)
  with True show ?thesis
    by (simp add: remember_def last_n_def Let_def tl_append2 [OF ne] drop_Suc tl_drop)
qed (simp add: remember_def last_n_def)

lemma routed_ids_window:
  assumes "history_ok (b_seenMessageIds b) (b_messageIdOrder b)" "b_messageIdOrder b = last_n MaxHistorySize accepted"
  shows "routed_ids us b = accept_window us accepted"
  using assms
proof (induction us arbitrary: b accepted)
  case (Cons u us)
  show ?case
  proof (cases "u \<in> set (last_n MaxHistorySize accepted)")
    case True
    with Cons show ?thesis by (simp add: isDuplicate_eq)
  next
    case False
    let ?b = "b\<lparr>b_seenMessageIds := set (remember u (b_messageIdOrder b)), b_messageIdOrder := remember u (b_messageIdOrder b)\<rparr>"
    have "routed_ids us ?b = accept_window us (accepted @ [u])"
      by (rule Cons.IH)
         (use Cons.prems False history_ok_remember [OF Cons.prems(1), of u] in \<open>simp_all add: remember_last_n\<close>)
    with Cons.prems False show ?thesis by (simp add: isDuplicate_eq)
  qed
qed simp

lemma accept_window_once:
  "distinct accepted \<Longrightarrow> card (set accepted \<union> set us) \<le> MaxHistorySize \<Longrightarrow>
     distinct (accepted @ accept_window us accepted) \<and>
     set accepted \<union> set (accept_window us accepted) = set accepted \<union> set us"
proof (induction us accepted rule: accept_window.induct)
  case (2 u us accepted)
  have "length accepted \<le> card (set accepted \<union> set (u # us))"
    using 2(3) by (metis card_mono distinct_card finite_UnI finite_set sup_ge1)
  with 2(4) have window: "last_n MaxHistorySize accepted = accepted" by (simp add: last_n_def)
  show ?case
  proof (cases "u \<in> set accepted")
    case True
    with 2 window show ?thesis by (auto simp: insert_absorb)
  next
    case False
    with 2(2) [unfolded window] 2(3,4) show ?thesis by (simp add: window)
  qed
qed simp

text \<open>
  C3. The duplicate check is a sliding window: from an empty history, a uuid gets through exactly when it is not
  among the last 10000 uuids that got through. As long as no more than 10000 different uuids are seen, each of
  them gets through exactly once, however often and in whatever order it arrives.
\<close>

theorem routed_once:
  "routed_ids us (ZmqBroker_new rnd) = accept_window us [] \<and>
   (card (set us) \<le> MaxHistorySize \<longrightarrow>
      distinct (routed_ids us (ZmqBroker_new rnd)) \<and> set (routed_ids us (ZmqBroker_new rnd)) = set us)"
proof -
  have window: "routed_ids us (ZmqBroker_new rnd) = accept_window us []"
    by (rule routed_ids_window) (simp_all add: ZmqBroker_new_def history_ok_def last_n_def)
  with accept_window_once [of "[]" us] show ?thesis by simp
qed

text \<open>Witness for C3: a message that comes back through the mesh.\<close>

theorem routed_once_witness:
  "set (routed_ids [''u'', ''v'', ''u''] (ZmqBroker_new (\<lambda>_. 0, 0))) = {''u'', ''v''}"
proof -
  have "card (set [''u'', ''v'', ''u'']) \<le> MaxHistorySize"
    by (rule order_trans [OF card_length]) (simp add: MaxHistorySize_def)
  with routed_once [of "[''u'', ''v'', ''u'']" "(\<lambda>_. 0, 0)"]
  have "set (routed_ids [''u'', ''v'', ''u''] (ZmqBroker_new (\<lambda>_. 0, 0))) = set [''u'', ''v'', ''u'']" by blast
  then show ?thesis by (simp add: insert_commute)
qed

subsection \<open>Control messages\<close>

text \<open>
  C4. What a local client's control message does, on every branch. DISCONNECT forgets the client and all its
  subscriptions. The first message of an unknown client registers it and is answered with RESET, whatever it was,
  and is not processed further. From a known client every message renews its last-seen time; HEARTBEAT is
  answered with an acknowledgement, CONNECT with nothing, SUBSCRIBE and UNSUBSCRIBE change exactly the one
  subscription. None of these is forwarded to other clients or to peers; the inspector sees all of them.
\<close>

theorem control_messages:
  assumes "broker_ok b" "processMessage rt rnd now hdr body sender False b = (b', outs)"
    and "hdr' = stamp_identity rnd hdr b" "key = handler_key hdr'"
    and "control_key False key \<or> sender \<notin> umap_keys (b_clients b)"
  shows "outs = ToInspector (encodeHeader rt hdr') body #
      (if key = Keys_DISCONNECT then []
       else if sender \<notin> umap_keys (b_clients b) then [ToClient sender (encodeHeader rt reset_header) []]
       else if key = Keys_HEARTBEAT then [ToClient sender (encodeHeader rt ack_header) []] else []) \<and>
    umap_find (b_clients b') =
      (umap_find (b_clients b))(sender :=
         (if key = Keys_DISCONNECT then None else Some \<lparr>cs_identity = sender, cs_lastSeen = now\<rparr>)) \<and>
    registry_subs (b_subscriptions b') =
      (if key = Keys_DISCONNECT then registry_subs (b_subscriptions b) - {sender} \<times> UNIV
       else if sender \<in> umap_keys (b_clients b) \<and> key = Keys_SUBSCRIBE
         then insert (sender, topic hdr') (registry_subs (b_subscriptions b))
       else if sender \<in> umap_keys (b_clients b) \<and> key = Keys_UNSUBSCRIBE
         then registry_subs (b_subscriptions b) - {(sender, topic hdr')}
       else registry_subs (b_subscriptions b)) \<and>
    b_peers b' = b_peers b \<and> b_messageIdOrder b' = b_messageIdOrder b"
proof -
  have ok: "registry_ok (b_subscriptions b)" using assms(1) by (simp add: broker_ok_def clients_ok_def)
  note keys = Keys_distinct Keys_distinct_rev
  show ?thesis
  proof (cases "key = Keys_DISCONNECT")
    case True
    with assms(2-4) have "b' = broker_removeClient sender b" "outs = [ToInspector (encodeHeader rt hdr') body]"
      by (simp_all add: processMessage_def Let_def)
    with True show ?thesis
      by (simp add: broker_removeClient_def reg.subs_remove [OF ok] umap_find_erase)
  next
    case other: False
    show ?thesis
    proof (cases "sender \<in> umap_keys (b_clients b)")
      case False
      with other assms(2-4) have "b' = b\<lparr>b_clients := umap_put sender \<lparr>cs_identity = sender, cs_lastSeen = now\<rparr> (b_clients b)\<rparr>"
        "outs = [ToInspector (encodeHeader rt hdr') body, ToClient sender (encodeHeader rt reset_header) []]"
        by (simp_all add: processMessage_def Let_def umap_find_None_iff)
      with False other show ?thesis by (simp add: umap_find_put)
    next
      case True
      with assms(5) other have key: "key = Keys_CONNECT \<or> key = Keys_HEARTBEAT \<or> key = Keys_SUBSCRIBE \<or> key = Keys_UNSUBSCRIBE"
        by (auto simp: control_key_def)
      from True have "umap_find (b_clients b) sender \<noteq> None" by (simp add: umap_find_None_iff)
      with True other key assms(2-4) keys show ?thesis
        by (auto simp: processMessage_def Let_def umap_find_put reg.subs_sub [OF ok] reg.subs_unsub [OF ok] split: if_splits)
    qed
  qed
qed

text \<open>Witness for C4: a heartbeat of a client the broker does not know.\<close>

theorem control_messages_witness:
  "\<exists>b' hb. processMessage pb_wire_format (\<lambda>_. 0, 0) 7 (set_message_uuid ''u'' (set_handler_key Keys_HEARTBEAT MessageHeader_new)) [] ''d'' False routing_example =
     (b', [ToInspector hb [], ToClient ''d'' (encodeHeader pb_wire_format reset_header) []]) \<and>
     umap_find (b_clients b') ''d'' = Some \<lparr>cs_identity = ''d'', cs_lastSeen = 7\<rparr>"
proof -
  let ?h = "set_message_uuid ''u'' (set_handler_key Keys_HEARTBEAT MessageHeader_new)"
  have hdr: "stamp_identity (\<lambda>_. 0, 0) ?h routing_example = ?h" "handler_key ?h = Keys_HEARTBEAT"
    by (simp_all add: stamp_identity_def header_accessor_defs MessageHeader_new_def)
  have keys: "Keys_HEARTBEAT \<noteq> Keys_DISCONNECT" "control_key False Keys_HEARTBEAT" by (simp_all add: control_key_def Keys_defs)
  have new: "''d'' \<notin> umap_keys (b_clients routing_example)" by (simp add: routing_example_def)
  obtain b' outs where run: "processMessage pb_wire_format (\<lambda>_. 0, 0) 7 ?h [] ''d'' False routing_example = (b', outs)" by fastforce
  from control_messages [OF routing_example_ok run refl refl] keys new run show ?thesis
    unfolding hdr by auto
qed

subsection \<open>Silent clients\<close>

text \<open>
  C12. The cleanup forgets exactly the clients not heard from for more than ten seconds, together with all their
  subscriptions, and keeps every other client and subscription.
\<close>

theorem zombie_cleanup:
  assumes "broker_ok b"
  shows "umap_find (b_clients (cleanup_loop now (b_clients b) b)) k =
      (case umap_find (b_clients b) k of
         None \<Rightarrow> None
       | Some c \<Rightarrow> if now - cs_lastSeen c > seconds 10 then None else Some c) \<and>
    registry_subs (b_subscriptions (cleanup_loop now (b_clients b) b)) =
      {(c, t) \<in> registry_subs (b_subscriptions b). c \<in> umap_keys (b_clients (cleanup_loop now (b_clients b) b))} \<and>
    b_peers (cleanup_loop now (b_clients b) b) = b_peers b"
proof -
  let ?b' = "cleanup_loop now (b_clients b) b"
  define dead where "dead = {k. \<exists>c. (k, c) \<in> set (b_clients b) \<and> now - cs_lastSeen c > ClientTimeout}"
  have ok: "registry_ok (b_subscriptions b)" and dist: "distinct (map fst (b_clients b))"
    and sub: "fst ` registry_subs (b_subscriptions b) \<subseteq> umap_keys (b_clients b)"
    using assms by (simp_all add: broker_ok_def clients_ok_def umap_ok_def)
  have clients: "c \<in> umap_keys (b_clients b)" if "(c, t) \<in> registry_subs (b_subscriptions b)" for c t
    using subsetD [OF sub, of c] that by (metis fst_conv image_eqI)
  have b': "b_clients ?b' = filter (\<lambda>p. fst p \<notin> dead) (b_clients b)"
    "registry_subs (b_subscriptions ?b') = registry_subs (b_subscriptions b) - dead \<times> UNIV" "b_peers ?b' = b_peers b"
    using cleanup_loop_eq [OF ok, of "b_clients b" now] by (simp_all add: Let_def flip: dead_def)
  have dead: "k \<in> dead \<longleftrightarrow> (\<exists>c. umap_find (b_clients b) k = Some c \<and> now - cs_lastSeen c > seconds 10)" for k
    using dist by (simp add: dead_def ClientTimeout_def)
  have "umap_find (b_clients ?b') k = (case umap_find (b_clients b) k of None \<Rightarrow> None
       | Some c \<Rightarrow> if now - cs_lastSeen c > seconds 10 then None else Some c)"
    unfolding b'(1) map_of_filter_distinct [OF dist]
    by (cases "umap_find (b_clients b) k") (simp_all add: dead)
  moreover have "c \<in> umap_keys (b_clients ?b') \<longleftrightarrow> c \<in> umap_keys (b_clients b) \<and> c \<notin> dead" for c
    unfolding b'(1) by force
  then have "registry_subs (b_subscriptions ?b') = {(c, t) \<in> registry_subs (b_subscriptions b). c \<in> umap_keys (b_clients ?b')}"
    unfolding b'(2) using clients by (auto 0 0)
  ultimately show ?thesis using b'(3) by blast
qed

text \<open>Witness for C12: eleven seconds of silence of everybody.\<close>

theorem zombie_cleanup_witness:
  "umap_find (b_clients (cleanup_loop (seconds 11) (b_clients routing_example) routing_example)) ''b'' = None"
  using zombie_cleanup [OF routing_example_ok, of "seconds 11" "''b''"]
  by (simp add: routing_example_def seconds_def)

subsection \<open>Statistics\<close>

lemma fold_add_subscriptions: "fold add_subscriptions ts c = c\<lparr>ci_subscriptions := ci_subscriptions c @ ts\<rparr>"
  by (induction ts arbitrary: c) (simp_all add: add_subscriptions_def)

lemma client_info_eq:
  "ClientInfo_id (client_info reg cid ci) = cid"
  "subscriptions (client_info reg cid ci) = subscriptions ci @ vec_of (subscriptionsOf cid reg)"
  "ClientInfo_ok ci \<Longrightarrow> ClientInfo_ok (client_info reg cid ci)"
  by (simp_all add: client_info_def fold_add_subscriptions ClientInfo_id_def subscriptions_def set_id_def ClientInfo_ok_def)

lemma fold_add_clients:
  "fold (\<lambda>(cid, _). add_connected_clients (client_info reg cid)) cs m =
     m\<lparr>ss_connected_clients := ss_connected_clients m @ map (\<lambda>(cid, _). client_info reg cid ClientInfo_new) cs\<rparr>"
  by (induction cs arbitrary: m) (auto simp: add_connected_clients_def)

definition stats_counters :: "SystemStats \<Rightarrow> 32 word \<times> 32 word \<times> 32 word \<times> 64 word \<times> 64 word \<times> 64 word" where
  "stats_counters m = (clients_count m, peers_count m, msgs_per_sec m, kb_per_sec m, total_msgs m, uptime_sec m)"

lemma broker_stats_eq:
  "broker_id (broker_stats now b) = b_brokerId b"
  "stats_counters (broker_stats now b) =
     (of_nat (length (b_clients b)), of_nat (length (b_peers b)), ucast (b_msgsInterval b),
      double_div_1024 (double_of_uint64 (b_bytesInterval b)), b_totalMessages b,
      of_int (duration_seconds (now - b_startTime b)))"
  "connected_clients (broker_stats now b) =
     map (\<lambda>(cid, _). client_info (b_subscriptions b) cid ClientInfo_new) (b_clients b)"
  "SystemStats_ok (broker_stats now b)"
proof -
  define base where "base = set_uptime_sec (of_int (duration_seconds (now - b_startTime b)))
       (set_total_msgs (b_totalMessages b)
       (set_kb_per_sec (double_div_1024 (double_of_uint64 (b_bytesInterval b)))
       (set_msgs_per_sec (ucast (b_msgsInterval b))
       (set_peers_count (of_nat (length (b_peers b)))
       (set_clients_count (of_nat (length (b_clients b)))
       (set_broker_id (b_brokerId b) SystemStats_new))))))"
  have stats: "broker_stats now b =
      fold (\<lambda>(cid, _). add_connected_clients (client_info (b_subscriptions b) cid)) (b_clients b) base"
    by (simp add: broker_stats_def base_def)
  have ok: "SystemStats_ok base"
    unfolding base_def by (intro SystemStats_ok_accessors SystemStats_ok_new)
  have base: "connected_clients base = []" "broker_id base = b_brokerId b"
    "stats_counters base = (of_nat (length (b_clients b)), of_nat (length (b_peers b)), ucast (b_msgsInterval b),
      double_div_1024 (double_of_uint64 (b_bytesInterval b)), b_totalMessages b,
      of_int (duration_seconds (now - b_startTime b)))"
    by (simp_all add: base_def stats_counters_def SystemStats_defs SystemStats_new_def)
  have infos: "list_all ClientInfo_ok (map (\<lambda>(cid, _). client_info (b_subscriptions b) cid ClientInfo_new) cs)" for cs
    by (simp add: list_all_iff case_prod_unfold client_info_eq)
  show "broker_id (broker_stats now b) = b_brokerId b"
    using base(2) by (simp add: stats fold_add_clients broker_id_def)
  show "stats_counters (broker_stats now b) =
     (of_nat (length (b_clients b)), of_nat (length (b_peers b)), ucast (b_msgsInterval b),
      double_div_1024 (double_of_uint64 (b_bytesInterval b)), b_totalMessages b,
      of_int (duration_seconds (now - b_startTime b)))"
    using base(3) by (simp add: stats fold_add_clients stats_counters_def SystemStats_defs)
  show "connected_clients (broker_stats now b) =
     map (\<lambda>(cid, _). client_info (b_subscriptions b) cid ClientInfo_new) (b_clients b)"
    using base(1) by (simp add: stats fold_add_clients connected_clients_def)
  show "SystemStats_ok (broker_stats now b)"
    using ok infos [of "b_clients b"] unfolding stats fold_add_clients SystemStats_ok_def by simp
qed

text \<open>What a receiver of the statistics reads: the payload unpacked as a \<open>broker.SystemStats\<close>.\<close>

definition read_stats :: "pb_runtime \<Rightarrow> any_runtime \<Rightarrow> bytes \<Rightarrow> SystemStats option" where
  "read_stats rt ar body =
     (case Any_ParseFromString ar body of
        None \<Rightarrow> None
      | Some any \<Rightarrow>
          if Any_Is ar ''broker.SystemStats'' any then SystemStats_ParseFromArray rt (any_value any) SystemStats_new else None)"

lemma SystemStats_canonical_fields:
  "broker_id (SystemStats_canonical m) = broker_id m" "stats_counters (SystemStats_canonical m) = stats_counters m"
  "map (\<lambda>ci. (ClientInfo_id ci, subscriptions ci)) (connected_clients (SystemStats_canonical m)) =
     map (\<lambda>ci. (ClientInfo_id ci, subscriptions ci)) (connected_clients m)"
  by (simp_all add: SystemStats_canonical_def ClientInfo_canonical_def stats_counters_def SystemStats_defs
      ClientInfo_id_def subscriptions_def)

lemma read_broadcast_stats:
  assumes "protobuf_runtime rt" "protobuf_any ar"
    and "SystemStats_encodable rt (broker_stats now b)" "list_all (Utf8Valid rt) (SystemStats_strings (broker_stats now b))"
    and "length (SystemStats_InternalSerialize rt (broker_stats now b)) < 2 ^ 31"
  shows "read_stats rt ar (Any_SerializeAsString ar (PackFrom ar ''broker.SystemStats'' (SystemStats_InternalSerialize rt (broker_stats now b)))) =
    Some (SystemStats_canonical (broker_stats now b))"
proof -
  let ?m = "broker_stats now b"
  let ?any = "PackFrom ar ''broker.SystemStats'' (SystemStats_InternalSerialize rt ?m)"
  have any: "Any_ParseFromString ar (Any_SerializeAsString ar ?any) = Some ?any" "Any_Is ar ''broker.SystemStats'' ?any"
    "any_value ?any = SystemStats_InternalSerialize rt ?m"
    using protobuf_any.parse_serialize [OF assms(2)] protobuf_any.is_packed [OF assms(2)] protobuf_any.pack [OF assms(2)] assms(5)
    by simp_all
  then show ?thesis
    using SystemStats_parse_serialized [OF assms(1) broker_stats_eq(4) assms(3) SystemStats_ok_new] assms(4) by (simp add: read_stats_def)
qed


text \<open>Witness for C13: the statistics of the example broker.\<close>

lemma routing_example_topics:
  "subscriptionsOf ''a'' (b_subscriptions routing_example) = None"
  "subscriptionsOf ''b'' (b_subscriptions routing_example) = Some [''t'']"
  "subscriptionsOf ''c'' (b_subscriptions routing_example) = Some [[]]"
proof -
  have reg: "registry_ok (b_subscriptions routing_example)" using routing_example_ok by (simp add: broker_ok_def clients_ok_def)
  show "subscriptionsOf ''a'' (b_subscriptions routing_example) = None"
    "subscriptionsOf ''b'' (b_subscriptions routing_example) = Some [''t'']"
    "subscriptionsOf ''c'' (b_subscriptions routing_example) = Some [[]]"
    by (simp_all add: subscriptionsOf_eq [OF reg] routing_example_subs Let_def)
qed

lemma routing_example_stats_eq:
  "broker_stats 0 routing_example = \<lparr>ss_has_bits = 127,
     ss_connected_clients =
       [\<lparr>ci_has_bits = 1, ci_subscriptions = [], ci_id = ''a'', ci_unknown = []\<rparr>,
        \<lparr>ci_has_bits = 1, ci_subscriptions = [''t''], ci_id = ''b'', ci_unknown = []\<rparr>,
        \<lparr>ci_has_bits = 1, ci_subscriptions = [[]], ci_id = ''c'', ci_unknown = []\<rparr>],
     ss_broker_id = generateUUID (\<lambda>_. 0) 0, ss_clients_count = 3, ss_peers_count = 0, ss_kb_per_sec = 0,
     ss_total_msgs = 0, ss_uptime_sec = 0, ss_msgs_per_sec = 0, ss_unknown = []\<rparr>"
proof -
  have "b_clients routing_example = [(''a'', \<lparr>cs_identity = ''a'', cs_lastSeen = 0\<rparr>), (''b'', \<lparr>cs_identity = ''b'', cs_lastSeen = 0\<rparr>),
      (''c'', \<lparr>cs_identity = ''c'', cs_lastSeen = 0\<rparr>)]" "b_peers routing_example = []" "b_startTime routing_example = 0"
    "b_totalMessages routing_example = 0" "b_bytesInterval routing_example = 0" "b_msgsInterval routing_example = 0"
    "b_brokerId routing_example = generateUUID (\<lambda>_. 0) 0"
    by (simp_all add: routing_example_def ZmqBroker_new_def)
  then show ?thesis
    by (simp add: broker_stats_def fold_add_clients client_info_def fold_add_subscriptions routing_example_topics SystemStats_defs
        SystemStats_new_def ClientInfo_new_def set_id_def add_subscriptions_def duration_seconds_def double_of_uint64_def double_div_1024_def)
qed

lemma routing_example_stats:
  "SystemStats_encodable pb_wire_format (broker_stats 0 routing_example)"
  "list_all (Utf8Valid pb_wire_format) (SystemStats_strings (broker_stats 0 routing_example))"
  "length (SystemStats_InternalSerialize pb_wire_format (broker_stats 0 routing_example)) < 2 ^ 31"
proof -
  have uuid: "length (generateUUID (\<lambda>_. 0) 0) = 36" by (simp add: generateUUID_eq)
  show "SystemStats_encodable pb_wire_format (broker_stats 0 routing_example)"
    by (simp add: routing_example_stats_eq uuid SystemStats_encodable_def ClientInfo_encodable_def ClientInfo_strings_def
        ClientInfo_InternalSerialize_def serialize_string_def wire_writers varint_small)
  show "list_all (Utf8Valid pb_wire_format) (SystemStats_strings (broker_stats 0 routing_example))"
    using generateUUID_clean(3) [of "\<lambda>_. 0" 0]
    by (simp add: routing_example_stats_eq SystemStats_strings_def ClientInfo_strings_def wire.utf8_ascii)
       (simp add: wire.utf8_ascii ascii_def)
  show "length (SystemStats_InternalSerialize pb_wire_format (broker_stats 0 routing_example)) < 2 ^ 31"
    by (simp add: routing_example_stats_eq uuid SystemStats_InternalSerialize_def
        ClientInfo_InternalSerialize_def serialize_string_def serialize_int32_def serialize_int64_def serialize_double_def
        wire_writers varint_small)
qed


subsection \<open>On the sockets\<close>

fun client_frames :: "broker_out \<Rightarrow> bytes list list" where
  "client_frames (ToClient cid headerBytes body) = [cid # message_frames headerBytes body]"
| "client_frames (ToInspector headerBytes body) = []"

fun inspector_frames :: "broker_out \<Rightarrow> bytes list list" where
  "inspector_frames (ToClient cid headerBytes body) = []"
| "inspector_frames (ToInspector headerBytes body) = [message_frames headerBytes body]"

context zmq_socket
begin

lemma fold_emit_Inl [simp]: "fold (broker_emit api) outs (Inl e) = Inl e"
  by (induction outs) simp_all

lemma broker_emit_frames:
  assumes "sending r = []" "sending i = []" "broker_emit api out (Inr (r, i)) = Inr (r', i')"
  shows "sending r' = [] \<and> sending i' = [] \<and> receiving r' = receiving r \<and> receiving i' = receiving i \<and>
    (\<exists>ys zs. subseq ys (client_frames out) \<and> subseq zs (inspector_frames out) \<and> sent r' = sent r @ ys \<and> sent i' = sent i @ zs)"
proof (cases out)
  case (ToClient cid hb body)
  with assms(3) have i: "i' = i" and r: "sendToClient api cid hb body r = r'" by simp_all
  from sendToClient_atomic [OF assms(1) r] consider "sent r' = sent r @ []" | "sent r' = sent r @ [cid # message_frames hb body]" by auto
  with sendToClient_atomic [OF assms(1) r] assms(2) ToClient i show ?thesis
    by cases fastforce+
next
  case (ToInspector hb body)
  with assms(3) obtain ok where r: "r' = r" and i: "sendFrames api hb body i = (Inr ok, i')"
    by (auto split: sum.splits prod.splits)
  from sendFrames_atomic [OF assms(2) i] assms(1) ToInspector r show ?thesis
    by (cases ok) fastforce+
qed

lemma fold_emit_frames:
  "sending r = [] \<Longrightarrow> sending i = [] \<Longrightarrow> fold (broker_emit api) outs (Inr (r, i)) = Inr (r', i') \<Longrightarrow>
    sending r' = [] \<and> sending i' = [] \<and> receiving r' = receiving r \<and> receiving i' = receiving i \<and>
    (\<exists>ys zs. subseq ys (concat (map client_frames outs)) \<and> subseq zs (concat (map inspector_frames outs)) \<and>
       sent r' = sent r @ ys \<and> sent i' = sent i @ zs)"
proof (induction outs arbitrary: r i)
  case (Cons out outs)
  obtain r1 i1 where step: "broker_emit api out (Inr (r, i)) = Inr (r1, i1)"
    and rest: "fold (broker_emit api) outs (Inr (r1, i1)) = Inr (r', i')"
    using Cons.prems(3) by (cases "broker_emit api out (Inr (r, i))") auto
  from broker_emit_frames [OF Cons.prems(1,2) step] obtain ys zs where
    1: "sending r1 = []" "sending i1 = []" "receiving r1 = receiving r" "receiving i1 = receiving i"
      "subseq ys (client_frames out)" "subseq zs (inspector_frames out)" "sent r1 = sent r @ ys" "sent i1 = sent i @ zs" by blast
  from Cons.IH [OF 1(1,2) rest] obtain ys' zs' where
    2: "sending r' = []" "sending i' = []" "receiving r' = receiving r1" "receiving i' = receiving i1"
      "subseq ys' (concat (map client_frames outs))" "subseq zs' (concat (map inspector_frames outs))"
      "sent r' = sent r1 @ ys'" "sent i' = sent i1 @ zs'" by blast
  have "subseq (ys @ ys') (concat (map client_frames (out # outs)))" "subseq (zs @ zs') (concat (map inspector_frames (out # outs)))"
    using 1(5,6) 2(5,6) by (simp_all add: list_emb_append_mono)
  with 1 2 show ?case by (metis append_assoc)
qed auto

lemma broker_emits_frames:
  assumes "sending r = []" "sending i = []" "broker_emits api outs b (r, i) = Inr (b', r', i')"
  shows "sending r' = [] \<and> sending i' = [] \<and> receiving r' = receiving r"
  using fold_emit_frames [OF assms(1,2), of outs r' i'] assms(3)
  by (auto simp: broker_emits_def split: sum.splits)

text \<open>The receiving half of an iteration returns, and leaves the ROUTER between two messages.\<close>

lemma broker_poll_returns:
  assumes "receiving r = []" "sending r = []" "sending i = []"
  obtains res where "broker_poll rt api tick (b, r, i) = Some res"
    "\<And>f b' r' i'. res = Inr (f, b', r', i') \<Longrightarrow> receiving r' = [] \<and> sending r' = [] \<and> sending i' = []"
proof (cases "bt_pollin tick")
  case False
  then show ?thesis using assms by (intro that [of "Inr (False, b, r, i)"]) (auto simp: broker_poll_def)
next
  case True
  obtain x t where recv: "socket_recv api False r = (x, t)" by fastforce
  from assms(1) recv show ?thesis
  proof (cases rule: socket_recv_cases)
    case none: (nothing extra)
    have idle: "receiving t = []" "sending t = []" using none assms by simp_all
    from none(1) consider e where "x = Inl e" | "x = Inr None" by blast
    then show ?thesis
    proof cases
      case 1
      with True recv show ?thesis by (intro that [of "Inl e"]) (auto simp: broker_poll_def)
    next
      case 2
      with True recv idle assms show ?thesis
        by (intro that [of "Inr (False, b, t, i)"]) (auto simp: broker_poll_def)
    qed
  next
    case (message identity extra)
    show ?thesis
    proof (cases "receiving t")
      case Nil
      with True recv message assms show ?thesis
        by (intro that [of "Inr (True, b, t, i)"]) (auto simp: broker_poll_def rcvmore)
    next
      case (Cons f fs)
      then obtain u where u: "socket_recv api False t = (Inr (Some f), u)" "sent u = sent t" "sending u = sending t"
        by (rule socket_recv_next) blast
      from u(1) obtain v env where v: "wire_recv rt api False Envelope_new t = Some (Inr env, v)" "receiving v = []" "sending v = sending u"
        by (rule recv_after [of False t f u rt Envelope_new]) blast
      have idle: "sending v = []" using u v message assms by simp
      show ?thesis
      proof (cases env)
        case None
        with True recv message Cons v idle assms show ?thesis
          by (intro that [of "Inr (False, b, v, i)"]) (auto simp: broker_poll_def rcvmore)
      next
        case (Some e)
        obtain b1 outs where msg: "processMessage rt (bt_random tick 0) (bt_rx tick) (header e) (payload e) identity False
            (count_message rt e b) = (b1, outs)" by fastforce
        have "broker_poll rt api tick (b, r, i) = Some (map_sum id (Pair False) (broker_emits api outs b1 (v, i)))"
          using True recv message Cons v Some msg by (simp add: broker_poll_def rcvmore)
        then show ?thesis
          by (rule that) (use broker_emits_frames [OF idle assms(3)] v(2) in \<open>auto simp: map_sum_Pair_iff\<close>)
      qed
    qed
  qed
qed

lemma broker_emits_idle:
  assumes "sending r = []" "sending i = []" "broker_emits api outs b (r, i) = Inr (b', r', i')" "receiving r = []"
  shows "receiving r' = [] \<and> sending r' = [] \<and> sending i' = []"
  using broker_emits_frames [OF assms(1-3)] assms(4) by simp

lemma fold_peer_message_idle:
  "sending r = [] \<Longrightarrow> sending i = [] \<Longrightarrow> receiving r = [] \<Longrightarrow>
     fold (peer_message rt api tick) envs (n, Inr (b, r, i)) = (n', Inr (b', r', i')) \<Longrightarrow>
     receiving r' = [] \<and> sending r' = [] \<and> sending i' = []"
proof (induction envs arbitrary: n b r i)
  case (Cons env envs)
  obtain b1 outs where msg: "processMessage rt (bt_random tick (Suc n)) (bt_rx tick) (header env) (payload env) ''PEER'' True b = (b1, outs)"
    by fastforce
  show ?case
  proof (cases "broker_emits api outs b1 (r, i)")
    case (Inl e)
    with Cons.prems(4) fold_peer_message_Inl [of rt api tick envs "Suc n" e] show ?thesis
      by (simp add: peer_message_step [OF msg])
  next
    case (Inr c)
    then obtain b2 r2 i2 where c: "c = (b2, r2, i2)" by (cases c)
    from broker_emits_idle [OF Cons.prems(1,2) Inr [unfolded c] Cons.prems(3)]
      Cons.IH [of r2 i2 "Suc n" b2] Cons.prems(4) Inr c show ?thesis
      by (simp add: peer_message_step [OF msg])
  qed
qed simp

lemma peer_messages_idle:
  assumes "receiving r = [] \<and> sending r = [] \<and> sending i = []" "broker_peer_messages rt api tick (b, r, i) = Inr (b', r', i')"
  shows "receiving r' = [] \<and> sending r' = [] \<and> sending i' = []"
proof -
  obtain n c where fold: "fold (peer_message rt api tick) (m_queue (b_peerInboundQueue b)) (0, Inr (b, r, i)) = (n, c)" by fastforce
  with assms(2) obtain b1 where c: "c = Inr (b1, r', i')"
    by (cases c) (auto simp: broker_peer_messages_def SafeQueue_drain_eq)
  from fold_peer_message_idle [OF _ _ _ fold [unfolded c]] assms(1) show ?thesis by blast
qed

lemma timers_idle:
  assumes "receiving r = [] \<and> sending r = [] \<and> sending i = []" "broker_timers rt api ar tick t (b, r, i) = Inr (t', b', r', i')"
  shows "receiving r' = [] \<and> sending r' = [] \<and> sending i' = []"
  using assms broker_emits_idle [of r i _ _ b' r' i']
  by (cases "bt_now tick - t > seconds 2")
     (auto simp: broker_timers_def Let_def map_sum_Pair_iff split: if_splits)

lemma broker_iteration_returns:
  assumes "receiving r = []" "sending r = []" "sending i = []"
  obtains res where "ZmqBroker_iteration rt api ar tick (t, b, r, i) = Some res"
    "\<And>t' b' r' i'. res = Inr (t', b', r', i') \<Longrightarrow> receiving r' = [] \<and> sending r' = [] \<and> sending i' = []"
proof -
  obtain res where poll: "broker_poll rt api tick (b, r, i) = Some res"
    and idle: "\<And>f b' r' i'. res = Inr (f, b', r', i') \<Longrightarrow> receiving r' = [] \<and> sending r' = [] \<and> sending i' = []"
    using broker_poll_returns [OF assms, of rt tick b] by metis
  show ?thesis
  proof (cases res)
    case (Inl e)
    with poll show ?thesis by (intro that [of "Inl e"]) (auto simp: ZmqBroker_iteration_def)
  next
    case (Inr c)
    obtain f b1 r1 i1 where c: "c = (f, b1, r1, i1)" by (cases c)
    note idle1 = idle [OF Inr [unfolded c]]
    show ?thesis
    proof (cases f)
      case True
      with poll Inr c idle1 show ?thesis by (intro that [of "Inr (t, b1, r1, i1)"]) (auto simp: ZmqBroker_iteration_def)
    next
      case False
      show ?thesis
      proof (cases "broker_peer_messages rt api tick (b1, r1, i1)")
        case (Inl e)
        with False poll Inr c show ?thesis by (intro that [of "Inl e"]) (auto simp: ZmqBroker_iteration_def)
      next
        case peers: (Inr d)
        obtain b2 r2 i2 where d: "d = (b2, r2, i2)" by (cases d)
        have idle2: "receiving r2 = [] \<and> sending r2 = [] \<and> sending i2 = []"
          using idle1 peers [unfolded d] by (rule peer_messages_idle)
        have "ZmqBroker_iteration rt api ar tick (t, b, r, i) = Some (broker_timers rt api ar tick t (b2, r2, i2))"
          using False poll Inr c peers d by (simp add: ZmqBroker_iteration_def)
        then show ?thesis using timers_idle [OF idle2] by (rule that)
      qed
    qed
  qed
qed

end

text \<open>
  C11. What the broker sends stays whole. When the messages of an operation are put on sockets that keep the multipart
  contract, each client message goes out as its routing id, header and payload frames in one piece, in the
  order the broker decided, and the inspector's likewise; on a full pipe whole messages are missing, never parts.
\<close>

theorem broker_sends_whole:
  assumes "zmq_socket api sent sending arrived receiving" "sending r = []" "sending i = []"
    and "fold (broker_emit api) outs (Inr (r, i)) = Inr (r', i')"
  shows "sending r' = [] \<and> sending i' = [] \<and> receiving r' = receiving r \<and>
    (\<exists>ys zs. subseq ys (concat (map client_frames outs)) \<and> subseq zs (concat (map inspector_frames outs)) \<and>
       sent r' = sent r @ ys \<and> sent i' = sent i @ zs)"
  using zmq_socket.fold_emit_frames [OF assms(1), OF assms(2,3,4)] by blast

text \<open>Witness for C11: the answer to a new client on an in-memory socket.\<close>

theorem broker_sends_whole_witness:
  "\<exists>r' i'. fold (broker_emit mem_api) [ToInspector ''h'' [], ToClient ''d'' ''r'' ''p''] (Inr (mem_example, mem_example)) = Inr (r', i') \<and>
     ms_sending r' = [] \<and> ms_sending i' = []"
proof -
  have idle: "ms_sending mem_example = []" by (simp add: mem_example_def)
  obtain r' i' where run: "fold (broker_emit mem_api) [ToInspector ''h'' [], ToClient ''d'' ''r'' ''p''] (Inr (mem_example, mem_example)) = Inr (r', i')"
    by (simp add: sendFrames_def socket_send_def mem_api_def EAGAIN_def mem_example_def)
  with broker_sends_whole [OF mem.zmq_socket_axioms, OF idle idle run] show ?thesis by blast
qed

text \<open>
  C10. An iteration of the broker thread always returns. On sockets that keep the multipart contract and are
  between two messages, it ends with the next state or with the exception of a socket call, never stuck in the
  middle of a message, and a returned state is again between two messages on both sockets.
\<close>

theorem broker_iteration_total:
  assumes "zmq_socket api sent sending arrived receiving"
    and "receiving r = []" "sending r = []" "sending i = []"
  shows "\<exists>res. ZmqBroker_iteration rt api ar tick (t, b, r, i) = Some res \<and>
    (case res of
       Inl e \<Rightarrow> True
     | Inr (t', b', r', i') \<Rightarrow> receiving r' = [] \<and> sending r' = [] \<and> sending i' = [])"
proof -
  obtain res where "ZmqBroker_iteration rt api ar tick (t, b, r, i) = Some res"
    "\<And>t' b' r' i'. res = Inr (t', b', r', i') \<Longrightarrow> receiving r' = [] \<and> sending r' = [] \<and> sending i' = []"
    using zmq_socket.broker_iteration_returns [OF assms(1), OF assms(2-4), of rt ar tick t b] by metis
  then show ?thesis by (auto split: sum.split)
qed

text \<open>Witness for C10: an iteration on in-memory sockets.\<close>

theorem broker_iteration_total_witness:
  "ms_receiving mem_example = [] \<and>
   ZmqBroker_iteration pb_wire_format mem_api any_wire idle_tick (0, routing_example, mem_example, mem_example) \<noteq> None"
proof -
  have idle: "ms_sending mem_example = []" "ms_receiving mem_example = []" by (simp_all add: mem_example_def)
  from broker_iteration_total [OF mem.zmq_socket_axioms, OF idle(2,1,1)] idle(2) show ?thesis by force
qed

end
