(* ===== verification/Client_Broker.thy ===== *)
theory Client_Broker
  imports Connection_Properties Broker_Properties
begin

text \<open>
  The client and the broker together: what the control messages of a \<open>ConnectionManager\<close> make of the subscriptions
  the broker keeps for it. The ROUTER names a client by the routing id its worker sets, which is the client id.
\<close>

subsection \<open>The control messages of a client\<close>

definition control :: "'u ConnectionManager \<Rightarrow> Envelope list" where
  "control cm = (case cm_worker cm of None \<Rightarrow> [] | Some w \<Rightarrow> m_queue (m_controlQueue w))"

definition control_room :: "'u ConnectionManager \<Rightarrow> nat \<Rightarrow> bool" where
  "control_room cm n \<longleftrightarrow> (\<exists>w. cm_worker cm = Some w \<and> queue_room (m_controlQueue w) n)"

lemma sendRawEnvelope_control:
  assumes "control_room cm (Suc n)" "isControlMessage (handler_key (header e))"
  shows "control (snd (sendRawEnvelope e cm)) = control cm @ [e]" "control_room (snd (sendRawEnvelope e cm)) n"
proof -
  obtain w where w: "cm_worker cm = Some w" "queue_room (m_controlQueue w) (Suc n)"
    using assms(1) by (auto simp: control_room_def)
  then have "queue_room (m_controlQueue w) 1" by (simp add: queue_room_def)
  with w assms(2) show "control (snd (sendRawEnvelope e cm)) = control cm @ [e]" "control_room (snd (sendRawEnvelope e cm)) n"
    by (simp_all add: control_def control_room_def sendRawEnvelope_def writeControlMessage_room) (simp add: queue_room_def)
qed

lemma control_keys [simp]:
  "isControlMessage Keys_SUBSCRIBE" "isControlMessage Keys_UNSUBSCRIBE" "isControlMessage Keys_CONNECT"
  by (simp_all add: isControlMessage_def)

lemma createControlEnvelope_fields [simp]:
  "handler_key (header (createControlEnvelope k t cm)) = k" "topic (header (createControlEnvelope k t cm)) = t"
  by (simp_all add: createControlEnvelope_def header_accessor_defs)

lemma createControlEnvelope_update [simp]:
  "createControlEnvelope k t (cm\<lparr>cm_handlers := m\<rparr>) = createControlEnvelope k t cm"
  "createControlEnvelope k t (cm\<lparr>cm_queue := q\<rparr>) = createControlEnvelope k t cm"
  by (simp_all add: createControlEnvelope_def)

lemma control_handlers_update [simp]:
  "control (cm\<lparr>cm_handlers := m\<rparr>) = control cm" "control_room (cm\<lparr>cm_handlers := m\<rparr>) n = control_room cm n"
  "control (cm\<lparr>cm_connected := b\<rparr>) = control cm" "control_room (cm\<lparr>cm_connected := b\<rparr>) n = control_room cm n"
  by (simp_all add: control_def control_room_def)

lemma control_room_less: "control_room cm n \<Longrightarrow> k \<le> n \<Longrightarrow> control_room cm k"
  by (auto simp: control_room_def queue_room_def)

lemma send_subscriptions_control:
  "control_room cm (length ts + n) \<Longrightarrow>
     control (send_subscriptions ts cm) = control cm @ map (\<lambda>t. createControlEnvelope Keys_SUBSCRIBE t cm) ts \<and>
     control_room (send_subscriptions ts cm) n"
proof (induction ts arbitrary: cm)
  case (Cons t ts)
  define cm' where "cm' = snd (sendRawEnvelope (createControlEnvelope Keys_SUBSCRIBE t cm) cm)"
  have "control cm' = control cm @ [createControlEnvelope Keys_SUBSCRIBE t cm]" "control_room cm' (length ts + n)"
    using sendRawEnvelope_control [of cm "length ts + n" "createControlEnvelope Keys_SUBSCRIBE t cm"] Cons.prems by (simp_all add: cm'_def)
  moreover have "createControlEnvelope Keys_SUBSCRIBE t' cm' = createControlEnvelope Keys_SUBSCRIBE t' cm" for t'
    by (simp add: createControlEnvelope_def cm'_def)
  moreover have "send_subscriptions (t # ts) cm = send_subscriptions ts cm'" by (simp add: send_subscriptions_def cm'_def)
  ultimately show ?case using Cons.IH [of cm'] by simp
qed (simp add: send_subscriptions_def)

text \<open>What one control message asks of the set of a client's topics.\<close>

definition asks_for :: "Envelope \<Rightarrow> string set \<Rightarrow> string set" where
  "asks_for e ts =
     (if handler_key (header e) = Keys_SUBSCRIBE then insert (topic (header e)) ts
      else if handler_key (header e) = Keys_UNSUBSCRIBE then ts - {topic (header e)} else ts)"

definition subscription_request :: "Envelope \<Rightarrow> bool" where
  "subscription_request e \<longleftrightarrow> handler_key (header e) = Keys_SUBSCRIBE \<or> handler_key (header e) = Keys_UNSUBSCRIBE"

definition handler_topics :: "'u ConnectionManager \<Rightarrow> string set" where
  "handler_topics cm = fst ` set (cm_handlers cm)"

lemma register_step_control:
  assumes "cm_connected cm" "control_room cm (Suc n)" "handlers_ok (cm_handlers cm)"
  shows "\<exists>envs. control (register_step r cm) = control cm @ envs \<and> control_room (register_step r cm) n \<and>
    (\<forall>e \<in> set envs. subscription_request e) \<and> fold asks_for envs (handler_topics cm) = handler_topics (register_step r cm)"
proof (cases r)
  case (Register key inst cb)
  define cm1 where "cm1 = cm\<lparr>cm_handlers := omap_put key (vec_of (map_of (cm_handlers cm) key) @ [\<lparr>ce_instance = inst, ce_func = cb\<rparr>]) (cm_handlers cm)\<rparr>"
  define e where "e = createControlEnvelope Keys_SUBSCRIBE key cm1"
  have "register_step r cm = snd (sendRawEnvelope e cm1)"
    using assms(1) by (simp add: Register performRegistration_def Let_def cm1_def e_def)
  moreover have "control (snd (sendRawEnvelope e cm1)) = control cm @ [e]" "control_room (snd (sendRawEnvelope e cm1)) n"
    using sendRawEnvelope_control [of cm1 n e] assms(2) by (simp_all add: cm1_def e_def)
  moreover have "handler_topics (snd (sendRawEnvelope e cm1)) = insert key (handler_topics cm)"
    by (simp add: handler_topics_def cm1_def keys_omap_put)
  ultimately show ?thesis
    by (intro exI [of _ "[e]"]) (simp add: subscription_request_def asks_for_def, simp add: e_def)
next
  case (Unregister key inst)
  show ?thesis
  proof (cases "map_of (cm_handlers cm) key = None \<or> filter (\<lambda>e. ce_instance e \<noteq> inst) (vec_of (map_of (cm_handlers cm) key)) \<noteq> []")
    case True
    then have "control (register_step r cm) = control cm" "control_room (register_step r cm) n = control_room cm n"
      by (auto simp: Unregister performUnregistration_def split: option.splits)
    moreover have "key \<in> fst ` set (cm_handlers cm)" if "map_of (cm_handlers cm) key \<noteq> None"
      using that by (simp add: map_of_eq_None_iff)
    with True have "handler_topics (register_step r cm) = handler_topics cm"
      by (cases "map_of (cm_handlers cm) key")
        (simp_all add: Unregister performUnregistration_def handler_topics_def keys_omap_put Let_def insert_absorb)
    ultimately have "control (register_step r cm) = control cm" "control_room (register_step r cm) n = control_room cm n"
      "handler_topics (register_step r cm) = handler_topics cm" by simp_all
    then show ?thesis using control_room_less [OF assms(2)] by (intro exI [of _ "[]"]) simp
  next
    case False
    define cm1 where "cm1 = cm\<lparr>cm_handlers := AList.delete key (cm_handlers cm)\<rparr>"
    define e where "e = \<lparr>header = set_topic key (set_sender_id (cm_clientId cm) (set_handler_key Keys_UNSUBSCRIBE MessageHeader_new)), payload = []\<rparr>"
    have e: "handler_key (header e) = Keys_UNSUBSCRIBE" "topic (header e) = key" by (simp_all add: e_def header_accessor_defs)
    have "register_step r cm = snd (sendRawEnvelope e cm1)"
      using False assms(1) by (auto simp: Unregister performUnregistration_def Let_def cm1_def e_def)
    moreover have "control (snd (sendRawEnvelope e cm1)) = control cm @ [e]" "control_room (snd (sendRawEnvelope e cm1)) n"
      using sendRawEnvelope_control [of cm1 n e] assms(2) by (simp_all add: cm1_def e)
    moreover have "handler_topics (snd (sendRawEnvelope e cm1)) = handler_topics cm - {key}"
      by (auto simp: handler_topics_def cm1_def AList.delete_eq)
    ultimately show ?thesis
      by (intro exI [of _ "[e]"]) (simp add: e subscription_request_def asks_for_def Keys_distinct Keys_distinct_rev)
  qed
qed

lemma register_step_connected [simp]: "handlers_ok (cm_handlers cm) \<Longrightarrow> cm_connected (register_step r cm) = cm_connected cm"
  "handlers_ok (cm_handlers cm) \<Longrightarrow> cm_clientId (register_step r cm) = cm_clientId cm"
  "handlers_ok (cm_handlers cm) \<Longrightarrow> handlers_ok (cm_handlers (register_step r cm))"
  by (cases r; simp add: registration_handlers unregistration_handlers handlers_ok_put)+

lemma register_steps_control:
  assumes "cm_connected cm" "control_room cm (length ops)" "handlers_ok (cm_handlers cm)"
  shows "\<exists>envs. control (fold register_step ops cm) = control cm @ envs \<and>
    (\<forall>e \<in> set envs. subscription_request e) \<and> fold asks_for envs (handler_topics cm) = handler_topics (fold register_step ops cm)"
  using assms
proof (induction ops arbitrary: cm)
  case (Cons r ops)
  obtain envs where "control (register_step r cm) = control cm @ envs" "control_room (register_step r cm) (length ops)"
      "\<forall>e \<in> set envs. subscription_request e" "fold asks_for envs (handler_topics cm) = handler_topics (register_step r cm)"
    using register_step_control [of cm "length ops" r] Cons.prems by auto
  moreover obtain envs' where "control (fold register_step ops (register_step r cm)) = control (register_step r cm) @ envs'"
      "\<forall>e \<in> set envs'. subscription_request e"
      "fold asks_for envs' (handler_topics (register_step r cm)) = handler_topics (fold register_step ops (register_step r cm))"
    using Cons.IH [of "register_step r cm"] Cons.prems calculation(2) by auto
  ultimately show ?case by (intro exI [of _ "envs @ envs'"]) auto
qed simp

subsection \<open>At the broker\<close>

text \<open>The broker takes messages of one client, each with the clock and the random generator of that moment.\<close>

definition broker_takes :: "pb_runtime \<Rightarrow> string \<Rightarrow> (random_source \<times> time) \<times> Envelope \<Rightarrow> ZmqBroker \<Rightarrow> ZmqBroker" where
  "broker_takes rt sender te b =
     fst (processMessage rt (fst (fst te)) (snd (fst te)) (header (snd te)) (payload (snd te)) sender False b)"

definition topics_at :: "string \<Rightarrow> ZmqBroker \<Rightarrow> string set" where
  "topics_at cid b = {t. (cid, t) \<in> registry_subs (b_subscriptions b)}"

definition knows :: "string \<Rightarrow> ZmqBroker \<Rightarrow> bool" where
  "knows cid b \<longleftrightarrow> umap_find (b_clients b) cid \<noteq> None"

lemma broker_takes_ok [simp]: "broker_ok b \<Longrightarrow> broker_ok (broker_takes rt sender te b)"
  unfolding broker_takes_def by (rule processMessage_ok [OF _ prod.collapse [symmetric]])

lemma stamp_identity_fields [simp]:
  "handler_key (stamp_identity rnd hdr b) = handler_key hdr" "topic (stamp_identity rnd hdr b) = topic hdr"
  by (simp_all add: stamp_identity_def header_accessor_defs)

lemma broker_takes_request:
  assumes "broker_ok b" "knows sender b" "subscription_request (snd te)"
  shows "knows sender (broker_takes rt sender te b)" "topics_at sender (broker_takes rt sender te b) = asks_for (snd te) (topics_at sender b)"
    and "c \<noteq> sender \<Longrightarrow> topics_at c (broker_takes rt sender te b) = topics_at c b"
proof -
  have ok: "registry_ok (b_subscriptions b)" using assms(1) by (simp add: broker_ok_def clients_ok_def)
  note defs = broker_takes_def processMessage_def Let_def knows_def topics_at_def subscription_request_def
    reg.subs_sub [OF ok] reg.subs_unsub [OF ok] umap_find_put asks_for_def Keys_distinct Keys_distinct_rev
  show "knows sender (broker_takes rt sender te b)" "topics_at sender (broker_takes rt sender te b) = asks_for (snd te) (topics_at sender b)"
    using assms(2,3) by (auto simp: defs)
  show "topics_at c (broker_takes rt sender te b) = topics_at c b" if "c \<noteq> sender"
    using assms(2,3) that by (auto simp: defs)
qed

lemma broker_takes_requests:
  assumes "broker_ok b" "knows sender b" "\<forall>e \<in> set (map snd tes). subscription_request e"
  shows "topics_at sender (fold (broker_takes rt sender) tes b) = fold asks_for (map snd tes) (topics_at sender b) \<and>
    (\<forall>c. c \<noteq> sender \<longrightarrow> topics_at c (fold (broker_takes rt sender) tes b) = topics_at c b)"
  using assms by (induction tes arbitrary: b) (simp_all add: broker_takes_request)

lemma asks_for_all: "fold asks_for (map (\<lambda>t. createControlEnvelope Keys_SUBSCRIBE t cm) ts) S = set ts \<union> S"
  by (induction ts arbitrary: S) (auto simp: asks_for_def)

text \<open>
  C6. A connected client and the broker agree on the client's topics: when they agree at some moment, they agree
  again once the broker has taken the control messages of any further registrations and unregistrations, whatever
  the callbacks and their order; and the topics of the other clients stay as they are.
\<close>

theorem subscriptions_synchronised:
  assumes "cm_connected cm" "handlers_ok (cm_handlers cm)" "control_room cm (length ops)"
    and "broker_ok b" "knows (cm_clientId cm) b" "topics_at (cm_clientId cm) b = handler_topics cm"
    and "control (fold register_step ops cm) = control cm @ map snd tes"
  shows "let b' = fold (broker_takes rt (cm_clientId cm)) tes b in
    topics_at (cm_clientId cm) b' = handler_topics (fold register_step ops cm) \<and>
    (\<forall>c. c \<noteq> cm_clientId cm \<longrightarrow> topics_at c b' = topics_at c b)"
proof -
  obtain envs where "control (fold register_step ops cm) = control cm @ envs" "\<forall>e \<in> set envs. subscription_request e"
      "fold asks_for envs (handler_topics cm) = handler_topics (fold register_step ops cm)"
    using register_steps_control [OF assms(1,3,2)] by blast
  with assms(6,7) broker_takes_requests [OF assms(4,5), of tes rt] show ?thesis by (simp add: Let_def)
qed

text \<open>Witness for C6: the first registration of a connected client.\<close>

definition connected_example :: "unit ConnectionManager" where
  "connected_example = (ConnectionManager_new ConnectionConfig_default)\<lparr>cm_clientId := ''a'', cm_connected := True\<rparr>"

definition greeted_example :: ZmqBroker where
  "greeted_example = (ZmqBroker_new (\<lambda>_. 0, 0))\<lparr>b_clients := [(''a'', \<lparr>cs_identity = ''a'', cs_lastSeen = 0\<rparr>)]\<rparr>"

lemma connected_example_room: "control_room connected_example 1"
  by (simp add: control_room_def connected_example_def ConnectionManager_new_def ConnectionConfig_default_def
      ZmqWorker_start_def ZmqWorker_new_def queue_room_def SafeQueue_default_def SafeQueue_new_def)

lemma greeted_example_ok: "broker_ok greeted_example"
  using broker_ok_new [of "(\<lambda>_. 0, 0)"]
  by (simp add: greeted_example_def broker_ok_def clients_ok_def ZmqBroker_new_def umap_ok_def)

theorem subscriptions_synchronised_witness:
  "topics_at ''a'' (broker_takes pb_wire_format ''a''
     (((\<lambda>_. 0, 0), 1), createControlEnvelope Keys_SUBSCRIBE ''t'' connected_example) greeted_example) = {''t''}"
proof -
  let ?te = "(((\<lambda>_. 0, 0), 1), createControlEnvelope Keys_SUBSCRIBE ''t'' connected_example)"
  have cm: "cm_connected connected_example" "cm_handlers connected_example = []" "cm_clientId connected_example = ''a''"
    by (simp_all add: connected_example_def ConnectionManager_new_def)
  have "control (register_step (Register ''t'' 0 None) connected_example) = control connected_example @ [snd ?te]"
    using sendRawEnvelope_control [of "connected_example\<lparr>cm_handlers := [(''t'', [\<lparr>ce_instance = 0, ce_func = None\<rparr>])]\<rparr>" 0 "snd ?te"] connected_example_room
    by (simp add: performRegistration_def Let_def cm)
  moreover have "topics_at ''a'' greeted_example = {}" "knows ''a'' greeted_example"
    by (simp_all add: topics_at_def knows_def greeted_example_def ZmqBroker_new_def registry_subs_new)
  moreover have "handler_topics (register_step (Register ''t'' 0 None) connected_example) = {''t''}"
    by (simp add: handler_topics_def registration_handlers cm)
  ultimately show ?thesis
    using subscriptions_synchronised [of connected_example "[Register ''t'' 0 None]" greeted_example "[?te]" pb_wire_format]
      connected_example_room greeted_example_ok by (simp add: cm handlers_ok_def handler_topics_def Let_def)
qed

text \<open>
  C7. A broker that does not know a client (it was restarted, or it forgot the client after a silence) answers its next message
  with RESET; the client that takes the RESET from its queue subscribes again to all its topics, in order, and when the
  broker has taken these messages, it keeps exactly the client's topics.
\<close>

theorem reset_recovers:
  assumes "broker_ok b" "\<not> knows (cm_clientId cm) b" "handler_key hdr \<noteq> Keys_DISCONNECT"
    and "processMessage rt rnd now hdr body (cm_clientId cm) False b = (b1, outs)"
    and "c_instance c = Some cm" "cm_running cm" "SafeQueue_pop (cm_queue cm) = Some (Some \<lparr>header = reset_header, payload = []\<rparr>, q)"
    and "control_room cm (length (cm_handlers cm))"
  shows "last outs = ToClient (cm_clientId cm) (encodeHeader rt reset_header) [] \<and>
    (\<exists>cm'. processing_step user c = Some (True, c\<lparr>c_instance := Some cm'\<rparr>) \<and>
       control cm' = control cm @ map (\<lambda>tpc. createControlEnvelope Keys_SUBSCRIBE tpc cm) (map fst (cm_handlers cm)) \<and>
       (\<forall>tes. control cm' = control cm @ map snd tes \<longrightarrow>
          topics_at (cm_clientId cm) (fold (broker_takes rt (cm_clientId cm)) tes b1) = handler_topics cm))"
proof -
  define cm' where "cm' = resubscribeAll (cm\<lparr>cm_queue := q\<rparr>)"
  have new: "umap_find (b_clients b) (cm_clientId cm) = None" using assms(2) by (simp add: knows_def)
  have b1: "last outs = ToClient (cm_clientId cm) (encodeHeader rt reset_header) []" "knows (cm_clientId cm) b1"
    "b_subscriptions b1 = b_subscriptions b"
    using assms(3,4) new by (auto simp: processMessage_def Let_def knows_def umap_find_put)
  have "fst ` registry_subs (b_subscriptions b) \<subseteq> umap_keys (b_clients b)"
    using assms(1) by (simp add: broker_ok_def clients_ok_def)
  then have "topics_at (cm_clientId cm) b1 = {}"
    using new unfolding topics_at_def b1(3) umap_find_None_iff by force
  have ok1: "broker_ok b1" using processMessage_ok [OF assms(1,4)] .
  have step: "processing_step user c = Some (True, c\<lparr>c_instance := Some cm'\<rparr>)"
    using assms(5-7) by (simp add: processing_step_def Let_def cm'_def reset_header_def header_accessor_defs)
  have same: "control (cm\<lparr>cm_queue := q\<rparr>) = control cm" "control_room (cm\<lparr>cm_queue := q\<rparr>) n = control_room cm n" for n
    by (simp_all add: control_def control_room_def)
  have sent: "control cm' = control cm @ map (\<lambda>tpc. createControlEnvelope Keys_SUBSCRIBE tpc cm) (map fst (cm_handlers cm))"
    using send_subscriptions_control [of "cm\<lparr>cm_queue := q\<rparr>" "map fst (cm_handlers cm)" 0] assms(8)
    by (simp add: cm'_def resubscribeAll_def same)
  have "topics_at (cm_clientId cm) (fold (broker_takes rt (cm_clientId cm)) tes b1) = handler_topics cm"
    if "control cm' = control cm @ map snd tes" for tes
  proof -
    have envs: "map snd tes = map (\<lambda>tpc. createControlEnvelope Keys_SUBSCRIBE tpc cm) (map fst (cm_handlers cm))"
      using that sent by simp
    then have "\<forall>e \<in> set (map snd tes). subscription_request e" by (auto simp: subscription_request_def)
    then have "topics_at (cm_clientId cm) (fold (broker_takes rt (cm_clientId cm)) tes b1) = fold asks_for (map snd tes) {}"
      using broker_takes_requests [OF ok1 b1(2), of tes rt] \<open>topics_at (cm_clientId cm) b1 = {}\<close> by simp
    then show ?thesis unfolding envs by (simp only: asks_for_all) (simp add: handler_topics_def)
  qed
  with b1(1) step sent show ?thesis by blast
qed

text \<open>Witness for C7: a client with one topic, at a broker that was just started.\<close>

definition reset_client_example :: "unit client" where
  "reset_client_example = client_new\<lparr>c_instance := Some (connected_example\<lparr>cm_handlers := [(''t'', [\<lparr>ce_instance = 0, ce_func = None\<rparr>])],
     cm_queue := snd (SafeQueue_push_for \<lparr>header = reset_header, payload = []\<rparr> SafeQueue_default)\<rparr>)\<rparr>"

theorem reset_recovers_witness:
  "\<exists>cm'. processing_step (\<lambda>_ _ _ c. (Returned, c)) reset_client_example =
     Some (True, reset_client_example\<lparr>c_instance := Some cm'\<rparr>) \<and>
     topics_at ''a'' (broker_takes pb_wire_format ''a'' (((\<lambda>_. 0, 0), 2), createControlEnvelope Keys_SUBSCRIBE ''t'' connected_example)
       (fst (processMessage pb_wire_format (\<lambda>_. 0, 0) 1 MessageHeader_new [] ''a'' False (ZmqBroker_new (\<lambda>_. 0, 0))))) = {''t''}"
proof -
  let ?b = "ZmqBroker_new (\<lambda>_. 0, 0)"
  let ?cm = "the (c_instance reset_client_example)"
  let ?te = "(((\<lambda>_. 0, 0), 2), createControlEnvelope Keys_SUBSCRIBE ''t'' connected_example)"
  have cm: "cm_clientId ?cm = ''a''" "c_instance reset_client_example = Some ?cm" "cm_running ?cm"
      "map fst (cm_handlers ?cm) = [''t'']"
    by (simp_all add: reset_client_example_def client_new_def connected_example_def ConnectionManager_new_def)
  have env: "createControlEnvelope Keys_SUBSCRIBE ''t'' ?cm = createControlEnvelope Keys_SUBSCRIBE ''t'' connected_example"
    by (simp add: reset_client_example_def client_new_def)
  have "control_room ?cm (length (cm_handlers ?cm))"
    using connected_example_room by (simp add: reset_client_example_def client_new_def control_room_def)
  moreover have "\<exists>q. SafeQueue_pop (cm_queue ?cm) = Some (Some \<lparr>header = reset_header, payload = []\<rparr>, q)"
    by (simp add: reset_client_example_def client_new_def SafeQueue_defs SafeQueue_default_def SafeQueue_new_def)
  then obtain q where "SafeQueue_pop (cm_queue ?cm) = Some (Some \<lparr>header = reset_header, payload = []\<rparr>, q)" ..
  moreover have "\<not> knows (cm_clientId ?cm) ?b" by (simp add: knows_def ZmqBroker_new_def)
  moreover have "handler_key MessageHeader_new \<noteq> Keys_DISCONNECT" by (simp add: MessageHeader_new_def header_accessor_defs Keys_defs)
  ultimately obtain cm' where step: "processing_step (\<lambda>_ _ _ c. (Returned, c)) reset_client_example = Some (True, reset_client_example\<lparr>c_instance := Some cm'\<rparr>)"
      and sent: "control cm' = control ?cm @ map (\<lambda>tpc. createControlEnvelope Keys_SUBSCRIBE tpc ?cm) (map fst (cm_handlers ?cm))"
      and taken: "\<forall>tes. control cm' = control ?cm @ map snd tes \<longrightarrow> topics_at (cm_clientId ?cm) (fold (broker_takes pb_wire_format (cm_clientId ?cm)) tes
         (fst (processMessage pb_wire_format (\<lambda>_. 0, 0) 1 MessageHeader_new [] (cm_clientId ?cm) False ?b))) = handler_topics ?cm"
    using reset_recovers [where b = ?b and cm = ?cm and hdr = MessageHeader_new and rt = pb_wire_format and rnd = "(\<lambda>_. 0, 0)" and now = 1
        and body = "[]" and c = reset_client_example and user = "\<lambda>_ _ _ c. (Returned, c)", OF broker_ok_new _ _ prod.collapse [symmetric]] cm(2,3) by blast
  have topics: "handler_topics ?cm = {''t''}" using arg_cong [OF cm(4), of set] by (simp add: handler_topics_def)
  have "control cm' = control ?cm @ map snd [?te]" using sent unfolding cm(4) by (simp add: env)
  from mp [OF spec [OF taken] this] step show ?thesis
    unfolding topics cm(1) by auto
qed

end
