(* ===== verification/Mesh.thy ===== *)
theory Mesh
  imports Client_Broker
begin

text \<open>
  A mesh of brokers (\<^verbatim>\<open>server/zmqbroker.cpp\<close>, \<^verbatim>\<open>processMessage\<close> at every broker). A broker that discovers another
  one dials it with a worker whose client id is \<^verbatim>\<open>BrokerLink-...\<close> and subscribes there to the empty topic; a message
  that is not a duplicate goes to the dialled brokers through the workers' outbound queues and to the dialling
  ones because their link client subscribes to everything. The theory composes the broker's \<^const>\<open>processMessage\<close>
  over an arbitrary finite link graph, cycles included, and shows that one published message reaches the subscribers
  of every connected broker exactly once and that the flooding stops.

  The transport between brokers is the one assumed of the links: what a broker hands to a worker or to a link client
  arrives, in any order. A link's queue is emptied between two messages of its broker, so it never fills up.
\<close>

subsection \<open>Brokers and links\<close>

text \<open>
  Brokers are numbered. A pair \<open>(i, j)\<close> of \<open>t_links\<close> says that broker i dialled broker j. \<open>t_lid\<close> is the client id of
  a broker's links, \<open>t_whose\<close> recognises such an id, and \<open>t_addr\<close> gives the broker behind a key of \<^verbatim>\<open>m_peers\<close>.
\<close>

record topology =
  t_brokers :: "nat set"
  t_links :: "(nat \<times> nat) set"
  t_lid :: "nat \<Rightarrow> string"
  t_whose :: "string \<Rightarrow> nat option"
  t_addr :: "string \<Rightarrow> nat"

text \<open>A message in flight: the receiving broker, the sender's client id and whether it comes in over an own link.\<close>

type_synonym arrival = "nat \<times> string \<times> bool"

record mesh =
  m_brokers :: "nat \<Rightarrow> ZmqBroker"
  m_flight :: "arrival list"
  m_delivered :: "nat \<Rightarrow> string list"

definition sent_ids :: "broker_out list \<Rightarrow> string list" where
  "sent_ids outs = concat (map (\<lambda>out. case out of ToClient cid _ _ \<Rightarrow> [cid] | ToInspector _ _ \<Rightarrow> []) outs)"

definition link_outbox :: "ZmqBroker \<Rightarrow> string list" where
  "link_outbox b = concat (map (\<lambda>(k, w). map (\<lambda>_. k) (m_queue (m_outboundQueue w))) (b_peers b))"

definition clear_outbox :: "ZmqBroker \<Rightarrow> ZmqBroker" where
  "clear_outbox b = b\<lparr>b_peers := map (\<lambda>(k, w). (k, w\<lparr>m_outboundQueue := (m_outboundQueue w)\<lparr>m_queue := []\<rparr>\<rparr>)) (b_peers b)\<rparr>"

text \<open>One broker processes one arrival; what it hands to its links and to link clients is in flight afterwards.\<close>

definition mesh_receive ::
    "topology \<Rightarrow> pb_runtime \<Rightarrow> MessageHeader \<Rightarrow> string \<Rightarrow> random_source \<Rightarrow> time \<Rightarrow> arrival \<Rightarrow> mesh \<Rightarrow> mesh" where
  "mesh_receive T rt hdr body rnd now a s =
     (case a of (i, sender, fromPeer) \<Rightarrow>
        case processMessage rt rnd now hdr body sender fromPeer (m_brokers s i) of (b, outs) \<Rightarrow>
          s\<lparr>m_brokers := (m_brokers s)(i := clear_outbox b),
            m_flight := m_flight s @ map (\<lambda>k. (t_addr T k, t_lid T i, False)) (link_outbox b)
              @ map (\<lambda>j. (j, ''PEER'', True)) (List.map_filter (t_whose T) (sent_ids outs)),
            m_delivered := (m_delivered s)(i := m_delivered s i @ filter (\<lambda>c. t_whose T c = None) (sent_ids outs))\<rparr>)"

inductive mesh_step :: "topology \<Rightarrow> pb_runtime \<Rightarrow> MessageHeader \<Rightarrow> string \<Rightarrow> mesh \<Rightarrow> mesh \<Rightarrow> bool"
  for T rt hdr body where
  receive: "m_flight s = xs @ a # ys \<Longrightarrow> mesh_step T rt hdr body s (mesh_receive T rt hdr body rnd now a (s\<lparr>m_flight := xs @ ys\<rparr>))"

inductive_cases mesh_stepE: "mesh_step T rt hdr body s s'"

subsection \<open>Well-formed nodes\<close>

definition links_idle :: "ZmqBroker \<Rightarrow> bool" where
  "links_idle b \<longleftrightarrow> list_all (\<lambda>(k, w). m_queue (m_outboundQueue w) = [] \<and> queue_room (m_outboundQueue w) 1) (b_peers b)"

definition node_ok :: "topology \<Rightarrow> nat \<Rightarrow> ZmqBroker \<Rightarrow> bool" where
  "node_ok T i b \<longleftrightarrow> broker_ok b \<and> links_idle b \<and>
     distinct (map (\<lambda>(k, w). t_addr T k) (b_peers b)) \<and> (\<lambda>(k, w). t_addr T k) ` set (b_peers b) = {j. (i, j) \<in> t_links T} \<and>
     (\<forall>j. (j, i) \<in> t_links T \<longrightarrow> t_lid T j \<in> umap_keys (b_clients b) \<and> (t_lid T j, []) \<in> registry_subs (b_subscriptions b)) \<and>
     (\<forall>c \<in> umap_keys (b_clients b). \<forall>j. t_whose T c = Some j \<longrightarrow> c = t_lid T j \<and> (j, i) \<in> t_links T)"

definition topology_ok :: "topology \<Rightarrow> bool" where
  "topology_ok T \<longleftrightarrow> finite (t_brokers T) \<and> t_links T \<subseteq> t_brokers T \<times> t_brokers T \<and> (\<forall>i \<in> t_brokers T. t_whose T (t_lid T i) = Some i)"

text \<open>A data message that carries its uuid already.\<close>

definition data_message :: "MessageHeader \<Rightarrow> bool" where
  "data_message hdr \<longleftrightarrow> message_uuid hdr \<noteq> [] \<and> \<not> control_key False (handler_key hdr) \<and> \<not> control_key True (handler_key hdr)"

abbreviation routed :: "MessageHeader \<Rightarrow> ZmqBroker \<Rightarrow> bool" where
  "routed hdr b \<equiv> message_uuid hdr \<in> set (b_messageIdOrder b)"

text \<open>The clients of a broker that are to get a message from the given sender.\<close>

definition audience :: "MessageHeader \<Rightarrow> string \<Rightarrow> bool \<Rightarrow> ZmqBroker \<Rightarrow> string set" where
  "audience hdr sender fromPeer b = {c \<in> umap_keys (b_clients b). (fromPeer \<or> c \<noteq> sender) \<and>
     ((c, topic hdr) \<in> registry_subs (b_subscriptions b) \<or> (c, []) \<in> registry_subs (b_subscriptions b))}"

subsection \<open>One broker\<close>

lemma clear_flood:
  assumes "links_idle b"
  shows "clear_outbox (flood_peers hdr body b) = b" "link_outbox (flood_peers hdr body b) = map fst (b_peers b)"
    "clear_outbox b = b" "link_outbox b = []"
proof -
  have step: "snd (writeMessage e w) = w\<lparr>m_outboundQueue := (m_outboundQueue w)\<lparr>m_queue := [e]\<rparr>\<rparr> \<and>
      w\<lparr>m_outboundQueue := (m_outboundQueue w)\<lparr>m_queue := []\<rparr>\<rparr> = w \<and> m_queue (m_outboundQueue w) = []"
    if "(k, w) \<in> set (b_peers b)" for k w e
    using assms that by (fastforce simp: links_idle_def list_all_iff queue_room_def writeMessage_def SafeQueue_defs)
  have upd: "map (\<lambda>(k, w). (k, w\<lparr>m_outboundQueue := (m_outboundQueue w)\<lparr>m_queue := []\<rparr>\<rparr>)) (b_peers b) = b_peers b"
    "map (\<lambda>(k, w). (k, w\<lparr>m_outboundQueue := (m_outboundQueue w)\<lparr>m_queue := []\<rparr>\<rparr>)) (map (\<lambda>(k, w). (k, snd (writeMessage e w))) (b_peers b)) = b_peers b" for e
    using step by (force intro!: map_idI simp: comp_def)+
  show "clear_outbox b = b" "clear_outbox (flood_peers hdr body b) = b"
    using upd by (simp_all add: clear_outbox_def flood_peers_def del: map_map)
  have "concat (map (\<lambda>(k, w). map (\<lambda>_. k) (m_queue (m_outboundQueue w))) (map (\<lambda>(k, w). (k, snd (writeMessage e w))) ps)) = map fst ps"
    "concat (map (\<lambda>(k, w). map (\<lambda>_. k) (m_queue (m_outboundQueue w))) ps) = []"
    if "set ps \<subseteq> set (b_peers b)" for ps e
    using that step by (induction ps) auto
  from this [OF subset_refl] show "link_outbox (flood_peers hdr body b) = map fst (b_peers b)" "link_outbox b = []"
    by (simp_all add: link_outbox_def flood_peers_def del: map_map)
qed

text \<open>What a broker does with the message: nothing when it has routed it before, all of the delivery otherwise.\<close>

lemma node_receive:
  assumes node: "node_ok T i b" and data: "data_message hdr" and known: "fromPeer \<or> sender \<in> umap_keys (b_clients b)"
    and run: "processMessage rt rnd now hdr body sender fromPeer b = (b', outs)"
  shows node_receive_ok: "node_ok T i (clear_outbox b')"
    and node_receive_frame: "umap_keys (b_clients (clear_outbox b')) = umap_keys (b_clients b)"
      "b_subscriptions (clear_outbox b') = b_subscriptions b"
    and node_receive_routed: "routed hdr (clear_outbox b')"
    and node_receive_duplicate: "routed hdr b \<Longrightarrow> sent_ids outs = [] \<and> link_outbox b' = []"
    and node_receive_fresh: "\<not> routed hdr b \<Longrightarrow> distinct (sent_ids outs) \<and> set (sent_ids outs) = audience hdr sender fromPeer b
      \<and> link_outbox b' = map fst (b_peers b)"
proof -
  define c where "c = (if fromPeer then b else b\<lparr>b_clients := umap_put sender \<lparr>cs_identity = sender, cs_lastSeen = now\<rparr> (b_clients b)\<rparr>)"
  have ok: "broker_ok b" and idle: "links_idle b" using node by (simp_all add: node_ok_def)
  have c_ok: "broker_ok c" unfolding c_def using ok broker_ok_seen by simp
  have keys: "umap_keys (b_clients c) = umap_keys (b_clients b)" using known by (auto simp: c_def)
  have frame: "b_subscriptions c = b_subscriptions b" "b_messageIdOrder c = b_messageIdOrder b" "b_peers c = b_peers b"
    by (simp_all add: c_def)
  have stamped: "stamp_identity rnd hdr b = hdr" using data by (simp add: stamp_identity_def data_message_def)
  have plain: "\<not> control_key fromPeer (handler_key (stamp_identity rnd hdr b))"
    using data unfolding stamped by (cases fromPeer) (simp_all add: data_message_def)
  define hb where "hb = encodeHeader rt hdr"
  obtain outs' where outs: "outs = ToInspector hb body # outs'" and route: "route_message hdr hb body sender fromPeer c = (b', outs')"
    using run processMessage_routes [OF plain known, where rt = rt and now = now and body = body] unfolding stamped
    by (auto simp: c_def hb_def Let_def split: prod.splits)
  have hist: "history_ok (b_seenMessageIds c) (b_messageIdOrder c)" using c_ok by (simp add: broker_ok_def)
  have b'_ok: "broker_ok b'" by (rule route_message_ok [OF c_ok route])
  have c_idle: "links_idle c" using idle by (simp add: links_idle_def frame)
  obtain d where d: "clear_outbox b' = d" "broker_ok d" "b_subscriptions d = b_subscriptions c" "b_clients d = b_clients c" "b_peers d = b_peers c"
      "routed hdr d" "routed hdr b \<Longrightarrow> outs' = [] \<and> link_outbox b' = []"
      "\<not> routed hdr b \<Longrightarrow> outs' = map (\<lambda>cid. ToClient cid hb body) (recipients (topic hdr) sender fromPeer d) \<and> link_outbox b' = map fst (b_peers b)"
  proof (cases "routed hdr b")
    case True
    then have "b' = c" "outs' = []" using route isDuplicate_eq [OF hist] by (auto simp: route_message_def frame)
    with True show ?thesis using that [of c] c_ok clear_flood [OF c_idle] by (simp add: frame)
  next
    case False
    obtain d where dup: "isDuplicate (message_uuid hdr) c = (False, d)" using isDuplicate_eq [OF hist] False by (simp add: frame)
    have d_frame: "b_subscriptions d = b_subscriptions c" "b_clients d = b_clients c" "b_peers d = b_peers c"
      by (rule isDuplicate_frame [OF dup])+
    have d_ok: "broker_ok d" by (rule broker_ok_isDuplicate [OF c_ok dup])
    have d_idle: "links_idle d" using c_idle by (simp add: links_idle_def d_frame)
    have "b' = flood_peers hdr body d" "outs' = map (\<lambda>cid. ToClient cid hb body) (recipients (topic hdr) sender fromPeer d)"
      using route dup by (auto simp: route_message_def)
    moreover have "routed hdr d"
      using dup isDuplicate_eq [OF hist] False by (cases "b_messageIdOrder b") (auto simp: frame remember_def MaxHistorySize_def Let_def)
    ultimately show ?thesis using that [of d] d_frame d_ok False clear_flood [OF d_idle] by (simp add: frame)
  qed
  show "umap_keys (b_clients (clear_outbox b')) = umap_keys (b_clients b)" "b_subscriptions (clear_outbox b') = b_subscriptions b"
    "routed hdr (clear_outbox b')" using d keys frame by simp_all
  show "node_ok T i (clear_outbox b')" using node d keys frame by (simp add: node_ok_def links_idle_def)
  have ids: "sent_ids (ToInspector hb body # map (\<lambda>cid. ToClient cid hb body) cs) = cs" for cs
    by (simp add: sent_ids_def comp_def)
  show "routed hdr b \<Longrightarrow> sent_ids outs = [] \<and> link_outbox b' = []" using d(7) outs by (simp add: sent_ids_def)
  have "clients_ok (b_subscriptions d) (b_clients d)" using d(2) by (simp add: broker_ok_def)
  from recipients_eq [OF this, of "topic hdr" sender fromPeer] d(8) outs ids
  show "\<not> routed hdr b \<Longrightarrow> distinct (sent_ids outs) \<and> set (sent_ids outs) = audience hdr sender fromPeer b \<and> link_outbox b' = map fst (b_peers b)"
    unfolding d(3,4) keys frame by (simp add: audience_def)
qed

subsection \<open>The mesh invariant\<close>

text \<open>
  Broker o gets the message from its client p; \<open>B\<close> are the brokers at the start. A message in flight that came in
  from a client is the published one, or comes over the link of a broker that has routed it; the neighbours of a
  broker that has routed the message have routed it or are about to receive it; a broker that has routed it has
  delivered it to its audience, once, and the others have delivered nothing.
\<close>

definition wanted :: "topology \<Rightarrow> MessageHeader \<Rightarrow> nat \<Rightarrow> string \<Rightarrow> nat \<Rightarrow> ZmqBroker \<Rightarrow> string set" where
  "wanted T hdr ob p i b = {c \<in> audience hdr p (i \<noteq> ob) b. t_whose T c = None}"

definition arrival_ok :: "topology \<Rightarrow> MessageHeader \<Rightarrow> nat \<Rightarrow> string \<Rightarrow> (nat \<Rightarrow> ZmqBroker) \<Rightarrow> arrival \<Rightarrow> bool" where
  "arrival_ok T hdr ob p bs a \<longleftrightarrow> (case a of (i, sender, fromPeer) \<Rightarrow> i \<in> t_brokers T \<and> (fromPeer \<or>
     sender \<in> umap_keys (b_clients (bs i)) \<and> (sender = p \<and> i = ob \<or> (\<exists>k \<in> t_brokers T. sender = t_lid T k \<and> routed hdr (bs k)))))"

lemma arrival_sender:
  assumes "arrival_ok T hdr ob p bs (i, sender, fromPeer)" "\<not> fromPeer"
  obtains "sender = p" "i = ob" | k where "k \<in> t_brokers T" "sender = t_lid T k" "routed hdr (bs k)"
  using assms unfolding arrival_ok_def prod.case by blast

definition mesh_inv :: "topology \<Rightarrow> MessageHeader \<Rightarrow> nat \<Rightarrow> string \<Rightarrow> (nat \<Rightarrow> ZmqBroker) \<Rightarrow> mesh \<Rightarrow> bool" where
  "mesh_inv T hdr ob p B s \<longleftrightarrow>
     (\<forall>i \<in> t_brokers T. node_ok T i (m_brokers s i) \<and> umap_keys (b_clients (m_brokers s i)) = umap_keys (b_clients (B i)) \<and>
        b_subscriptions (m_brokers s i) = b_subscriptions (B i)) \<and>
     (\<forall>a \<in> set (m_flight s). arrival_ok T hdr ob p (m_brokers s) a) \<and>
     (\<forall>i j. routed hdr (m_brokers s i) \<longrightarrow> (i, j) \<in> t_links T \<or> (j, i) \<in> t_links T \<longrightarrow>
        routed hdr (m_brokers s j) \<or> j \<in> fst ` set (m_flight s)) \<and>
     (\<not> routed hdr (m_brokers s ob) \<longrightarrow> m_flight s = [(ob, p, False)]) \<and>
     (\<forall>i \<in> t_brokers T. distinct (m_delivered s i) \<and>
        set (m_delivered s i) = (if routed hdr (m_brokers s i) then wanted T hdr ob p i (B i) else {}))"

definition degree :: "topology \<Rightarrow> nat \<Rightarrow> nat" where
  "degree T i = card {j. (i, j) \<in> t_links T} + card {j. (j, i) \<in> t_links T}"

definition work_left :: "topology \<Rightarrow> MessageHeader \<Rightarrow> mesh \<Rightarrow> nat" where
  "work_left T hdr s = length (m_flight s) + (\<Sum>i \<in> {i \<in> t_brokers T. \<not> routed hdr (m_brokers s i)}. degree T i)"

text \<open>What a step does, in terms of the invariant.\<close>

definition mesh_effect :: "topology \<Rightarrow> MessageHeader \<Rightarrow> nat \<Rightarrow> string \<Rightarrow> mesh \<Rightarrow> mesh \<Rightarrow> arrival list \<Rightarrow> nat \<Rightarrow> string \<Rightarrow> bool
    \<Rightarrow> arrival list \<Rightarrow> ZmqBroker \<Rightarrow> string list \<Rightarrow> arrival list \<Rightarrow> bool" where
  "mesh_effect T hdr ob p s s' xs i sender fromPeer ys b ids fwd \<longleftrightarrow>
     m_flight s = xs @ (i, sender, fromPeer) # ys \<and> m_flight s' = xs @ ys @ fwd \<and> m_brokers s' = (m_brokers s)(i := b) \<and>
     m_delivered s' = (m_delivered s)(i := m_delivered s i @ filter (\<lambda>c. t_whose T c = None) ids) \<and>
     arrival_ok T hdr ob p (m_brokers s) (i, sender, fromPeer) \<and> node_ok T i (m_brokers s i) \<and> node_ok T i b \<and>
     umap_keys (b_clients b) = umap_keys (b_clients (m_brokers s i)) \<and> b_subscriptions b = b_subscriptions (m_brokers s i) \<and>
     routed hdr b \<and> (routed hdr (m_brokers s i) \<longrightarrow> ids = [] \<and> fwd = []) \<and>
     (\<not> routed hdr (m_brokers s i) \<longrightarrow> distinct ids \<and> set ids = audience hdr sender fromPeer (m_brokers s i) \<and>
       fwd = map (\<lambda>(k, w). (t_addr T k, t_lid T i, False)) (b_peers (m_brokers s i)) @ map (\<lambda>j. (j, ''PEER'', True)) (List.map_filter (t_whose T) ids))"

lemma mesh_effectD:
  assumes "mesh_effect T hdr ob p s s' xs i sender fromPeer ys b ids fwd"
  shows "m_flight s = xs @ (i, sender, fromPeer) # ys" "m_flight s' = xs @ ys @ fwd" "m_brokers s' = (m_brokers s)(i := b)"
    "m_delivered s' = (m_delivered s)(i := m_delivered s i @ filter (\<lambda>c. t_whose T c = None) ids)"
    "arrival_ok T hdr ob p (m_brokers s) (i, sender, fromPeer)" "node_ok T i (m_brokers s i)" "node_ok T i b"
    "umap_keys (b_clients b) = umap_keys (b_clients (m_brokers s i))" "b_subscriptions b = b_subscriptions (m_brokers s i)"
    "routed hdr b" "routed hdr (m_brokers s i) \<Longrightarrow> ids = [] \<and> fwd = []"
    "\<not> routed hdr (m_brokers s i) \<Longrightarrow> distinct ids \<and> set ids = audience hdr sender fromPeer (m_brokers s i) \<and>
       fwd = map (\<lambda>(k, w). (t_addr T k, t_lid T i, False)) (b_peers (m_brokers s i)) @ map (\<lambda>j. (j, ''PEER'', True)) (List.map_filter (t_whose T) ids)"
  using assms unfolding mesh_effect_def by blast+

lemma mesh_step_effect:
  assumes inv: "mesh_inv T hdr ob p B s" and data: "data_message hdr" and step: "mesh_step T rt hdr body s s'"
  obtains xs i sender fromPeer ys b ids fwd where "mesh_effect T hdr ob p s s' xs i sender fromPeer ys b ids fwd"
proof -
  from step obtain xs i sender fromPeer ys rnd now where s: "m_flight s = xs @ (i, sender, fromPeer) # ys"
    "s' = mesh_receive T rt hdr body rnd now (i, sender, fromPeer) (s\<lparr>m_flight := xs @ ys\<rparr>)" by (elim mesh_stepE) auto
  have arr: "arrival_ok T hdr ob p (m_brokers s) (i, sender, fromPeer)" using inv by (simp add: mesh_inv_def s(1))
  then have known: "fromPeer \<or> sender \<in> umap_keys (b_clients (m_brokers s i))" and i: "i \<in> t_brokers T"
    by (auto simp: arrival_ok_def)
  have node: "node_ok T i (m_brokers s i)" using inv i by (simp add: mesh_inv_def)
  obtain b outs where run: "processMessage rt rnd now hdr body sender fromPeer (m_brokers s i) = (b, outs)" by fastforce
  note facts = node_receive [OF node data known run]
  show ?thesis
    by (rule that [of xs i sender fromPeer ys "clear_outbox b" "sent_ids outs"
          "map (\<lambda>k. (t_addr T k, t_lid T i, False)) (link_outbox b) @ map (\<lambda>j. (j, ''PEER'', True)) (List.map_filter (t_whose T) (sent_ids outs))"],
        unfold mesh_effect_def)
      (use s run arr node facts in \<open>auto simp: mesh_receive_def map_filter_simps comp_def case_prod_unfold\<close>)
qed

lemma node_link:
  assumes "node_ok T i b" "c \<in> umap_keys (b_clients b)" "t_whose T c = Some j"
  shows "c = t_lid T j" "(j, i) \<in> t_links T"
  using assms unfolding node_ok_def by blast+

lemma node_dialled:
  assumes "node_ok T i b" "(j, i) \<in> t_links T"
  shows "t_lid T j \<in> umap_keys (b_clients b)" "(t_lid T j, []) \<in> registry_subs (b_subscriptions b)"
  using assms unfolding node_ok_def by blast+

lemma node_peer:
  assumes "node_ok T i b"
  shows "(i, j) \<in> t_links T \<longleftrightarrow> (\<exists>k w. (k, w) \<in> set (b_peers b) \<and> t_addr T k = j)"
proof -
  have "(\<lambda>(k, w). t_addr T k) ` set (b_peers b) = {j. (i, j) \<in> t_links T}" using assms by (simp add: node_ok_def)
  then have "(i, j) \<in> t_links T \<longleftrightarrow> j \<in> (\<lambda>(k, w). t_addr T k) ` set (b_peers b)" by simp
  then show ?thesis by force
qed

lemma set_map_filter_eq: "set (List.map_filter f xs) = {j. \<exists>x \<in> set xs. f x = Some j}"
  by (force simp: List.map_filter_def)

lemma map_filter_length_le:
  assumes "distinct xs" "finite A" "\<And>x j. x \<in> set xs \<Longrightarrow> f x = Some j \<Longrightarrow> j \<in> A"
    "\<And>x y j. x \<in> set xs \<Longrightarrow> y \<in> set xs \<Longrightarrow> f x = Some j \<Longrightarrow> f y = Some j \<Longrightarrow> x = y"
  shows "length (List.map_filter f xs) \<le> card A"
proof -
  have "distinct (List.map_filter f xs)"
    using assms(1,4)
  proof (induction xs)
    case (Cons x xs)
    then have "distinct (List.map_filter f xs)" by simp
    with Cons.prems show ?case by (cases "f x") (auto simp: map_filter_simps set_map_filter_eq)
  qed (simp add: map_filter_simps)
  then have "length (List.map_filter f xs) = card {j. \<exists>x \<in> set xs. f x = Some j}" using distinct_card set_map_filter_eq by metis
  also have "\<dots> \<le> card A" using assms(2,3) by (auto intro!: card_mono)
  finally show ?thesis .
qed

lemma forwards_le_degree:
  assumes "node_ok T i b" "topology_ok T" "distinct ids" "set ids \<subseteq> umap_keys (b_clients b)"
  shows "length (b_peers b) + length (List.map_filter (t_whose T) ids) \<le> degree T i"
proof -
  have fin: "finite (t_links T)" using assms(2) by (auto simp: topology_ok_def intro: finite_subset)
  then have "finite (fst ` t_links T)" by simp
  then have "finite {j. (j, i) \<in> t_links T}" by (rule rev_finite_subset) force
  then have "length (List.map_filter (t_whose T) ids) \<le> card {j. (j, i) \<in> t_links T}"
  proof (rule map_filter_length_le [OF assms(3)])
    fix c j assume c: "c \<in> set ids" "t_whose T c = Some j"
    note link = node_link [OF assms(1) subsetD [OF assms(4) c(1)] c(2)]
    show "j \<in> {j. (j, i) \<in> t_links T}" using link by simp
    fix d assume d: "d \<in> set ids" "t_whose T d = Some j"
    show "c = d" using link node_link [OF assms(1) subsetD [OF assms(4) d(1)] d(2)] by simp
  qed
  moreover have "length (b_peers b) = card {j. (i, j) \<in> t_links T}"
    using assms(1) distinct_card [of "map (\<lambda>(k, w). t_addr T k) (b_peers b)"] by (simp add: node_ok_def)
  ultimately show ?thesis by (simp add: degree_def)
qed

lemma work_left_effect:
  assumes eff: "mesh_effect T hdr ob p s s' xs i sender fromPeer ys b ids fwd" and T: "topology_ok T"
  shows "work_left T hdr s' < work_left T hdr s"
proof -
  note s = mesh_effectD [OF eff]
  let ?U = "{i \<in> t_brokers T. \<not> routed hdr (m_brokers s i)}"
  have U': "{j \<in> t_brokers T. \<not> routed hdr (m_brokers s' j)} = ?U - {i}" using s(3,10) by auto
  have fin: "finite ?U" using T by (simp add: topology_ok_def)
  show ?thesis
  proof (cases "routed hdr (m_brokers s i)")
    case True
    then have "?U - {i} = ?U" by auto
    with s(1,2) s(11) [OF True] show ?thesis unfolding work_left_def U' by simp
  next
    case False
    with s(5) have "i \<in> ?U" by (simp add: arrival_ok_def)
    with fin have "(\<Sum>j \<in> ?U. degree T j) = degree T i + (\<Sum>j \<in> ?U - {i}. degree T j)" by (simp add: sum.remove)
    moreover have "set ids \<subseteq> umap_keys (b_clients (m_brokers s i))" using s(12) [OF False] by (auto simp: audience_def)
    then have "length fwd \<le> degree T i" using forwards_le_degree [OF s(6) T, of ids] s(12) [OF False] by simp
    ultimately show ?thesis unfolding work_left_def U' using s(1,2) by simp
  qed
qed

text \<open>The invariant holds after a step.\<close>

lemma effect_keys:
  assumes "mesh_effect T hdr ob p s s' xs i sender fromPeer ys b ids fwd"
  shows "umap_keys (b_clients (m_brokers s' j)) = umap_keys (b_clients (m_brokers s j))"
    "b_subscriptions (m_brokers s' j) = b_subscriptions (m_brokers s j)"
    "routed hdr (m_brokers s' j) \<longleftrightarrow> routed hdr (m_brokers s j) \<or> j = i"
    "node_ok T j (m_brokers s j) \<Longrightarrow> node_ok T j (m_brokers s' j)"
  using mesh_effectD(3,7-10) [OF assms] by auto

lemma effect_forwards:
  assumes inv: "mesh_inv T hdr ob p B s" and eff: "mesh_effect T hdr ob p s s' xs i sender fromPeer ys b ids fwd" and T: "topology_ok T"
    and a: "a \<in> set fwd"
  shows "arrival_ok T hdr ob p (m_brokers s') a"
proof -
  note s = mesh_effectD [OF eff]
  have fresh: "\<not> routed hdr (m_brokers s i)" using s(11) a by auto
  have links: "j \<in> t_brokers T \<and> k \<in> t_brokers T" if "(j, k) \<in> t_links T" for j k using T that by (auto simp: topology_ok_def)
  define K where "K = umap_keys (b_clients (m_brokers s i))"
  have "set ids \<subseteq> K" using s(12) [OF fresh] by (auto simp: audience_def K_def)
  with a s(12) [OF fresh] consider k w where "a = (t_addr T k, t_lid T i, False)" "(k, w) \<in> set (b_peers (m_brokers s i))"
    | j c where "a = (j, ''PEER'', True)" "t_whose T c = Some j" "c \<in> K"
    by (fastforce simp: set_map_filter_eq)
  then show ?thesis
  proof cases
    case 1
    then have link: "(i, t_addr T k) \<in> t_links T" using node_peer [OF s(6)] by blast
    have "node_ok T (t_addr T k) (m_brokers s (t_addr T k))" using inv links [OF link] by (simp add: mesh_inv_def)
    note dialled = node_dialled(1) [OF this link]
    have "\<exists>k \<in> t_brokers T. t_lid T i = t_lid T k \<and> (routed hdr (m_brokers s k) \<or> k = i)" using links [OF link] by blast
    with dialled links [OF link] show ?thesis unfolding 1 arrival_ok_def prod.case effect_keys [OF eff] by simp
  next
    case 2
    then have "(j, i) \<in> t_links T" using node_link [OF s(6)] unfolding K_def by blast
    with links [OF this] show ?thesis using 2 by (simp add: arrival_ok_def)
  qed
qed

lemma effect_arrivals:
  assumes inv: "mesh_inv T hdr ob p B s" and eff: "mesh_effect T hdr ob p s s' xs i sender fromPeer ys b ids fwd" and T: "topology_ok T"
    and a: "a \<in> set (m_flight s')"
  shows "arrival_ok T hdr ob p (m_brokers s') a"
proof (cases "a \<in> set fwd")
  case False
  then have "a \<in> set (m_flight s)" using a mesh_effectD(1,2) [OF eff] by auto
  then have "arrival_ok T hdr ob p (m_brokers s) a" using inv by (simp add: mesh_inv_def)
  moreover obtain j sd fp where "a = (j, sd, fp)" by (cases a)
  moreover have "(\<exists>k \<in> t_brokers T. sd = t_lid T k \<and> routed hdr (m_brokers s k)) \<longrightarrow>
      (\<exists>k \<in> t_brokers T. sd = t_lid T k \<and> (routed hdr (m_brokers s k) \<or> k = i))" by blast
  ultimately show ?thesis by (simp only: arrival_ok_def prod.case effect_keys [OF eff]) meson
qed (rule effect_forwards [OF inv eff T])

lemma effect_reach:
  assumes inv: "mesh_inv T hdr ob p B s" and eff: "mesh_effect T hdr ob p s s' xs i sender fromPeer ys b ids fwd" and T: "topology_ok T"
    and p: "t_whose T p = None" and j: "routed hdr (m_brokers s' j)" and jk: "(j, k) \<in> t_links T \<or> (k, j) \<in> t_links T"
  shows "routed hdr (m_brokers s' k) \<or> k \<in> fst ` set (m_flight s')"
proof (cases "routed hdr (m_brokers s j)")
  case True
  then have "routed hdr (m_brokers s k) \<or> k \<in> fst ` set (m_flight s)" using inv jk unfolding mesh_inv_def by blast
  then show ?thesis using mesh_effectD(1,2) [OF eff] effect_keys(3) [OF eff] by (cases "k = i") auto
next
  case False
  note s = mesh_effectD [OF eff]
  have ji: "j = i" using False j effect_keys(3) [OF eff] by blast
  note new = s(12) [OF False [unfolded ji]]
  have lid: "t_whose T (t_lid T k) = Some k" if "k \<in> t_brokers T" for k using T that by (simp add: topology_ok_def)
  have k: "k \<in> t_brokers T" using T jk by (auto simp: topology_ok_def)
  consider (dialled) "(i, k) \<in> t_links T" | (client) "(k, i) \<in> t_links T" "fromPeer \<or> t_lid T k \<noteq> sender"
    | (sender) "\<not> fromPeer" "t_lid T k = sender" using jk ji by blast
  then show ?thesis
  proof cases
    case dialled
    then obtain key w where "(key, w) \<in> set (b_peers (m_brokers s i))" "t_addr T key = k" using node_peer [OF s(6)] by blast
    then show ?thesis using new s(2) by force
  next
    case client
    then have "t_lid T k \<in> set ids" using node_dialled [OF s(6) client(1)] new by (simp add: audience_def)
    then have "k \<in> set (List.map_filter (t_whose T) ids)" using lid [OF k] unfolding set_map_filter_eq by blast
    then show ?thesis using new s(2) by force
  next
    case sender
    from s(5) sender(1) have "routed hdr (m_brokers s k)"
    proof (rule arrival_sender)
      assume "sender = p"
      with p lid [OF k] sender(2) show ?thesis by simp
    next
      fix k' assume k': "k' \<in> t_brokers T" "sender = t_lid T k'" "routed hdr (m_brokers s k')"
      have "Some k = t_whose T sender" unfolding sender(2) [symmetric] by (rule lid [OF k, symmetric])
      also have "\<dots> = Some k'" unfolding k'(2) by (rule lid [OF k'(1)])
      finally show ?thesis using k'(3) by simp
    qed
    then show ?thesis using effect_keys(3) [OF eff] by blast
  qed
qed

lemma effect_origin:
  assumes inv: "mesh_inv T hdr ob p B s" and eff: "mesh_effect T hdr ob p s s' xs i sender fromPeer ys b ids fwd"
  shows "routed hdr (m_brokers s' ob)"
proof (rule ccontr)
  assume "\<not> ?thesis"
  then have "\<not> routed hdr (m_brokers s ob)" "ob \<noteq> i" using effect_keys(3) [OF eff] by blast+
  moreover from this(1) have "m_flight s = [(ob, p, False)]" using inv unfolding mesh_inv_def by blast
  ultimately show False using mesh_effectD(1) [OF eff] by (cases xs) auto
qed

lemma effect_delivered:
  assumes inv: "mesh_inv T hdr ob p B s" and eff: "mesh_effect T hdr ob p s s' xs i sender fromPeer ys b ids fwd" and T: "topology_ok T"
    and j: "j \<in> t_brokers T"
  shows "distinct (m_delivered s' j) \<and> set (m_delivered s' j) = (if routed hdr (m_brokers s' j) then wanted T hdr ob p j (B j) else {})"
proof (cases "j = i \<and> \<not> routed hdr (m_brokers s i)")
  case False
  have "distinct (m_delivered s j) \<and> set (m_delivered s j) = (if routed hdr (m_brokers s j) then wanted T hdr ob p j (B j) else {})"
    using inv j by (simp add: mesh_inv_def)
  with False mesh_effectD(4,11) [OF eff] effect_keys(3) [OF eff] show ?thesis by (cases "j = i") auto
next
  case fresh: True
  note s = mesh_effectD [OF eff]
  have inv_i: "set (m_delivered s i) = {}" "audience hdr q f (m_brokers s i) = audience hdr q f (B i)" for q f
    using inv j fresh by (auto simp: mesh_inv_def audience_def)
  have "{c \<in> audience hdr sender fromPeer (B i). t_whose T c = None} = wanted T hdr ob p i (B i)"
  proof (cases "i = ob")
    case True
    then have "m_flight s = [(ob, p, False)]" using inv fresh by (simp add: mesh_inv_def)
    then have "sender = p \<and> \<not> fromPeer" using s(1) by (cases xs) auto
    with True show ?thesis by (simp add: wanted_def)
  next
    case False
    have "t_whose T sender \<noteq> None" if "\<not> fromPeer"
      by (rule arrival_sender [OF s(5) that]) (use False T in \<open>simp_all add: topology_ok_def\<close>)
    with False show ?thesis unfolding wanted_def audience_def by auto
  qed
  moreover have "distinct ids \<and> set ids = audience hdr sender fromPeer (B i)" using s(12) fresh inv_i(2) by simp
  moreover have "m_delivered s' i = filter (\<lambda>c. t_whose T c = None) ids" using s(4) inv_i(1) by simp
  ultimately show ?thesis using fresh effect_keys(3) [OF eff, of i] by simp
qed

lemma mesh_inv_step:
  assumes inv: "mesh_inv T hdr ob p B s" and T: "topology_ok T" and data: "data_message hdr" and p: "t_whose T p = None"
    and step: "mesh_step T rt hdr body s s'"
  shows "mesh_inv T hdr ob p B s'" "work_left T hdr s' < work_left T hdr s"
proof -
  obtain xs i sender fromPeer ys b ids fwd where eff: "mesh_effect T hdr ob p s s' xs i sender fromPeer ys b ids fwd"
    by (rule mesh_step_effect [OF inv data step])
  show "work_left T hdr s' < work_left T hdr s" by (rule work_left_effect [OF eff T])
  have "node_ok T j (m_brokers s' j) \<and> umap_keys (b_clients (m_brokers s' j)) = umap_keys (b_clients (B j)) \<and>
      b_subscriptions (m_brokers s' j) = b_subscriptions (B j)" if "j \<in> t_brokers T" for j
    using inv that effect_keys [OF eff] by (simp add: mesh_inv_def)
  then show "mesh_inv T hdr ob p B s'"
    unfolding mesh_inv_def using effect_arrivals [OF inv eff T] effect_reach [OF inv eff T p] effect_origin [OF inv eff]
      effect_delivered [OF inv eff T]
    by (intro conjI ballI allI impI) (assumption | simp | blast)+
qed

subsection \<open>Exactly once, everywhere\<close>

definition mesh_start :: "topology \<Rightarrow> MessageHeader \<Rightarrow> nat \<Rightarrow> string \<Rightarrow> mesh \<Rightarrow> bool" where
  "mesh_start T hdr ob p s \<longleftrightarrow> m_flight s = [(ob, p, False)] \<and> m_delivered s = (\<lambda>_. []) \<and> ob \<in> t_brokers T \<and>
     p \<in> umap_keys (b_clients (m_brokers s ob)) \<and> t_whose T p = None \<and>
     (\<forall>i \<in> t_brokers T. node_ok T i (m_brokers s i) \<and> \<not> routed hdr (m_brokers s i))"

lemma mesh_start_inv:
  assumes "mesh_start T hdr ob p s" "topology_ok T"
  shows "mesh_inv T hdr ob p (m_brokers s) s"
proof -
  have "\<not> routed hdr (m_brokers s i)" if "(i, j) \<in> t_links T \<or> (j, i) \<in> t_links T" for i j
    using assms that by (auto simp: mesh_start_def topology_ok_def)
  moreover have "\<forall>i \<in> t_brokers T. node_ok T i (m_brokers s i) \<and> \<not> routed hdr (m_brokers s i)" "m_flight s = [(ob, p, False)]"
    "m_delivered s i = []" "arrival_ok T hdr ob p (m_brokers s) (ob, p, False)" for i
    using assms(1) unfolding mesh_start_def arrival_ok_def prod.case by simp_all
  ultimately show ?thesis unfolding mesh_inv_def by auto
qed

lemma sum_successors:
  assumes "finite V" "L \<subseteq> V \<times> V"
  shows "(\<Sum>i \<in> V. card {j. (i, j) \<in> L}) = card L"
proof -
  have "finite {j. (i, j) \<in> L}" for i by (rule finite_subset [OF _ assms(1)]) (use assms(2) in blast)
  then have "card (SIGMA i:V. {j. (i, j) \<in> L}) = (\<Sum>i \<in> V. card {j. (i, j) \<in> L})" by (simp add: card_SigmaI assms(1))
  moreover have "(SIGMA i:V. {j. (i, j) \<in> L}) = L" using assms(2) by blast
  ultimately show ?thesis by simp
qed

lemma sum_degree:
  assumes "topology_ok T"
  shows "(\<Sum>i \<in> t_brokers T. degree T i) = 2 * card (t_links T)"
proof -
  have fin: "finite (t_brokers T)" and sub: "t_links T \<subseteq> t_brokers T \<times> t_brokers T" using assms by (simp_all add: topology_ok_def)
  have swapped: "prod.swap ` t_links T \<subseteq> t_brokers T \<times> t_brokers T" using sub by fastforce
  have "{j. (i, j) \<in> prod.swap ` t_links T} = {j. (j, i) \<in> t_links T}" for i by force
  with sum_successors [OF fin swapped] have "(\<Sum>i \<in> t_brokers T. card {j. (j, i) \<in> t_links T}) = card (prod.swap ` t_links T)" by simp
  also have "\<dots> = card (t_links T)" by (rule card_image) simp
  finally show ?thesis using sum_successors [OF fin sub] by (simp add: degree_def sum.distrib)
qed

lemma mesh_steps_inv:
  assumes "(mesh_step T rt hdr body ^^ n) s s'" "mesh_inv T hdr ob p B s" "topology_ok T" "data_message hdr" "t_whose T p = None"
  shows "mesh_inv T hdr ob p B s' \<and> n + work_left T hdr s' \<le> work_left T hdr s"
  using assms(1)
proof (induction n arbitrary: s')
  case (Suc n)
  then obtain u where u: "(mesh_step T rt hdr body ^^ n) s u" "mesh_step T rt hdr body u s'" by auto
  with Suc.IH [OF u(1)] mesh_inv_step [OF _ assms(3-5) u(2)] show ?case by force
qed (simp add: assms(2))

lemma mesh_progress:
  assumes "m_flight s \<noteq> []"
  shows "\<exists>s'. mesh_step T rt hdr body s s'"
proof -
  obtain a ys where "m_flight s = [] @ a # ys" using assms by (auto simp: neq_Nil_conv)
  from mesh_step.receive [OF this] show ?thesis by blast
qed

lemma mesh_quiesces:
  assumes "mesh_inv T hdr ob p B s" "topology_ok T" "data_message hdr" "t_whose T p = None"
  shows "\<exists>n s'. (mesh_step T rt hdr body ^^ n) s s' \<and> m_flight s' = []"
  using assms(1)
proof (induction "work_left T hdr s" arbitrary: s rule: less_induct)
  case less
  show ?case
  proof (cases "m_flight s = []")
    case True
    then have "(mesh_step T rt hdr body ^^ 0) s s \<and> m_flight s = []" by simp
    then show ?thesis by blast
  next
    case False
    then obtain u where u: "mesh_step T rt hdr body s u" using mesh_progress by blast
    note step = mesh_inv_step [OF less.prems assms(2-4) u]
    from less.hyps [OF step(2,1)] obtain n s' where "(mesh_step T rt hdr body ^^ n) u s'" "m_flight s' = []" by blast
    then have "(mesh_step T rt hdr body ^^ Suc n) s s' \<and> m_flight s' = []" using relpowp_Suc_I2 [of _ s u n s'] u by blast
    then show ?thesis by blast
  qed
qed

lemma quiescent_routed:
  assumes "mesh_inv T hdr ob p B s" "m_flight s = []" "(ob, i) \<in> (t_links T \<union> (t_links T)\<inverse>)\<^sup>*"
  shows "routed hdr (m_brokers s i)"
  using assms(3)
proof (induction rule: rtrancl_induct)
  case base
  have "\<not> routed hdr (m_brokers s ob) \<longrightarrow> m_flight s = [(ob, p, False)]" using assms(1) unfolding mesh_inv_def by (elim conjE)
  then show ?case using assms(2) by auto
next
  case (step j k)
  have "\<forall>i j. routed hdr (m_brokers s i) \<longrightarrow> (i, j) \<in> t_links T \<or> (j, i) \<in> t_links T \<longrightarrow>
      routed hdr (m_brokers s j) \<or> j \<in> fst ` set (m_flight s)" using assms(1) unfolding mesh_inv_def by (elim conjE)
  from this [rule_format, OF step.IH] step.hyps(2) have "routed hdr (m_brokers s k) \<or> k \<in> fst ` set (m_flight s)" by blast
  then show ?case by (simp add: assms(2))
qed


text \<open>Witness for C5: broker 0 dialled broker 2; client a publishes at broker 0 and client b of broker 2 subscribes.\<close>

definition mesh_example_topology :: topology where
  "mesh_example_topology = \<lparr>t_brokers = {0, 2}, t_links = {(0, 2)}, t_lid = (\<lambda>i. if i = 0 then ''L'' else ''M''),
     t_whose = (\<lambda>c. if c = ''L'' then Some 0 else if c = ''M'' then Some 2 else None), t_addr = (\<lambda>k. 2)\<rparr>"

definition mesh_example_node :: "nat \<Rightarrow> ZmqBroker" where
  "mesh_example_node i = (if i = 0
     then addPeer ''peer'' ''tcp://peer:5555'' ((ZmqBroker_new (\<lambda>_. 0, 0))\<lparr>b_clients := [(''a'', \<lparr>cs_identity = ''a'', cs_lastSeen = 0\<rparr>)]\<rparr>)
     else (ZmqBroker_new (\<lambda>_. 0, 0))\<lparr>
       b_clients := [(''b'', \<lparr>cs_identity = ''b'', cs_lastSeen = 0\<rparr>), (''L'', \<lparr>cs_identity = ''L'', cs_lastSeen = 0\<rparr>)],
       b_subscriptions := snd (subscribe ''L'' [] (snd (subscribe ''b'' ''t'' SubscriptionRegistry_new)))\<rparr>)"

definition mesh_example :: mesh where
  "mesh_example = \<lparr>m_brokers = mesh_example_node, m_flight = [(0, ''a'', False)], m_delivered = (\<lambda>_. [])\<rparr>"

abbreviation mesh_example_header :: MessageHeader where
  "mesh_example_header \<equiv> set_message_uuid ''u'' (set_topic ''t'' MessageHeader_new)"

lemma mesh_example_header: "data_message mesh_example_header" "topic mesh_example_header = ''t''"
  by (simp_all add: data_message_def control_key_def Keys_defs header_accessor_defs MessageHeader_new_def)

lemma mesh_example_subs: "registry_ok (b_subscriptions (mesh_example_node 2))"
  "registry_subs (b_subscriptions (mesh_example_node 2)) = {(''b'', ''t''), (''L'', [])}"
  by (auto simp: mesh_example_node_def reg.subs_sub reg.ok_sub registry_ok_new registry_subs_new)

lemma mesh_example_keys: "umap_keys (b_clients (mesh_example_node 0)) = {''a''}" "umap_keys (b_clients (mesh_example_node 2)) = {''b'', ''L''}"
  "registry_subs (b_subscriptions (mesh_example_node 0)) = {}"
  by (simp_all add: mesh_example_node_def addPeer_def ZmqBroker_new_def registry_subs_new)

lemma mesh_example_node_0: "node_ok mesh_example_topology 0 (mesh_example_node 0)"
proof -
  have "broker_ok ((ZmqBroker_new (\<lambda>_. 0, 0))\<lparr>b_clients := [(''a'', \<lparr>cs_identity = ''a'', cs_lastSeen = 0\<rparr>)]\<rparr>)"
    by (simp add: broker_ok_def ZmqBroker_new_def clients_ok_def history_ok_def peers_ok_def inbound_ok_def umap_ok_def
        registry_ok_new registry_subs_new SafeQueue_default_def SafeQueue_new_def)
  then have "broker_ok (mesh_example_node 0)" by (simp add: mesh_example_node_def broker_ok_addPeer)
  moreover have "b_peers (mesh_example_node 0) = [(''peer'', ZmqWorker_start (ZmqWorker_new (link_config ''tcp://peer:5555''
      ((ZmqBroker_new (\<lambda>_. 0, 0))\<lparr>b_clients := [(''a'', \<lparr>cs_identity = ''a'', cs_lastSeen = 0\<rparr>)]\<rparr>))))]"
    by (simp add: mesh_example_node_def addPeer_def ZmqBroker_new_def)
  ultimately show ?thesis
    unfolding node_ok_def links_idle_def mesh_example_keys
    by (simp add: mesh_example_topology_def ZmqWorker_start_def ZmqWorker_new_def queue_room_def SafeQueue_default_def SafeQueue_new_def)
qed

lemma mesh_example_node_2: "node_ok mesh_example_topology 2 (mesh_example_node 2)"
proof -
  have "broker_ok (mesh_example_node 2)"
    unfolding broker_ok_def clients_ok_def mesh_example_keys mesh_example_subs(2) using mesh_example_subs(1)
    by (simp add: mesh_example_node_def ZmqBroker_new_def umap_ok_def history_ok_def peers_ok_def inbound_ok_def
        SafeQueue_default_def SafeQueue_new_def)
  moreover have "b_peers (mesh_example_node 2) = []" by (simp add: mesh_example_node_def ZmqBroker_new_def)
  ultimately show ?thesis
    unfolding node_ok_def links_idle_def mesh_example_keys mesh_example_subs by (simp add: mesh_example_topology_def)
qed

lemma mesh_example_ok: "topology_ok mesh_example_topology" "mesh_start mesh_example_topology mesh_example_header 0 ''a'' mesh_example"
proof -
  have "b_messageIdOrder (mesh_example_node i) = []" for i by (simp add: mesh_example_node_def addPeer_def ZmqBroker_new_def)
  then show "mesh_start mesh_example_topology mesh_example_header 0 ''a'' mesh_example"
    unfolding mesh_start_def using mesh_example_node_0 mesh_example_node_2 mesh_example_keys
    by (simp add: mesh_example_def) (simp add: mesh_example_topology_def)
qed (simp add: topology_ok_def mesh_example_topology_def)


end
