(* ===== verification/Connection_Api.thy ===== *)
theory Connection_Api
  imports Connection_Properties
begin

text \<open>
  The C interface of the client (\<open>common/connectionapi.h\<close>, \<open>common/connectionapi.cpp\<close>).

  A pointer that may be null is an option. A \<open>const char*\<close> that is read as a C string is the memory it points to, of
  which \<open>c_str\<close> reads up to the first NUL; a pointer with a length is the memory behind it. \<open>std::string(data, len)\<close>
  converts the \<open>int\<close> to \<open>size_t\<close>: a negative length throws \<open>std::length_error\<close>, a length beyond the memory is undefined
  behaviour. Both are values of \<open>c_failure\<close>. An \<open>int\<close> of the interface is an integer; \<open>static_cast<int>\<close> of a size
  wraps at 32 bits.
\<close>

datatype Connection_Protocol = PROTOCOL_ZMQ

datatype Connection_Error_Code = SUCCESS | ERROR_GENERIC | ERROR_NO_CONNECTION | ERROR_INVALID_ARGS | ERROR_SEND_FAILED

fun error_number :: "Connection_Error_Code \<Rightarrow> int" where
  "error_number SUCCESS = 0"
| "error_number ERROR_GENERIC = -1"
| "error_number ERROR_NO_CONNECTION = -2"
| "error_number ERROR_INVALID_ARGS = -3"
| "error_number ERROR_SEND_FAILED = -4"

datatype Compression_Algorithm = COMPRESS_NONE | COMPRESS_DEFLATE | COMPRESS_GZIP

fun compression_number :: "Compression_Algorithm \<Rightarrow> int" where
  "compression_number COMPRESS_NONE = 0"
| "compression_number COMPRESS_DEFLATE = 1"
| "compression_number COMPRESS_GZIP = 2"

record Connection_Config =
  cc_address :: "string option"
  cc_client_id :: "string option"
  cc_protocol :: Connection_Protocol
  cc_keepalive_time_ms :: int
  cc_keepalive_timeout_ms :: int
  cc_compression_algorithm :: Compression_Algorithm

definition CONNECTION_CONFIG_DEFAULT :: Connection_Config where
  "CONNECTION_CONFIG_DEFAULT = \<lparr>cc_address = None, cc_client_id = None, cc_protocol = PROTOCOL_ZMQ,
     cc_keepalive_time_ms = 10000, cc_keepalive_timeout_ms = 5000, cc_compression_algorithm = COMPRESS_GZIP\<rparr>"

definition c_str :: "string \<Rightarrow> string" where
  "c_str mem = takeWhile (\<lambda>c. c \<noteq> CHR 0x00) mem"

datatype c_failure = LengthError | ReadPastEnd | WritePastEnd

definition std_string :: "string \<Rightarrow> int \<Rightarrow> c_failure + string" where
  "std_string mem len =
     (if len < 0 then Inl LengthError else if nat len > length mem then Inl ReadPastEnd else Inr (take (nat len) mem))"

definition int_of_size :: "nat \<Rightarrow> int" where
  "int_of_size n = sint (of_nat n :: 32 word)"

subsection \<open>Functions\<close>

definition initConnection :: "Connection_Config option \<Rightarrow> 'u client \<Rightarrow> Connection_Error_Code \<times> 'u client" where
  "initConnection config c =
     (case config of
        None \<Rightarrow> (ERROR_INVALID_ARGS, c)
      | Some config \<Rightarrow>
          (case cc_address config of
             None \<Rightarrow> (ERROR_INVALID_ARGS, c)
           | Some address \<Rightarrow>
               let cfg = \<lparr>cfg_address = c_str address,
                          cfg_clientId = (case cc_client_id config of Some i \<Rightarrow> c_str i | None \<Rightarrow> ''DefaultClientName''),
                          cfg_protocol = ZMQ,
                          cfg_keepAliveTime = cc_keepalive_time_ms config,
                          cfg_keepAliveTimeout = cc_keepalive_timeout_ms config,
                          cfg_compressionAlgorithm = compression_number (cc_compression_algorithm config)\<rparr>
               in (SUCCESS, ConnectionManager_init cfg c)))"

definition shutdownConnection :: "'u client \<Rightarrow> 'u client \<times> 'u ConnectionManager option" where
  "shutdownConnection c = ConnectionManager_shutdown c"

definition sent_code :: "bool \<times> 'u client \<Rightarrow> Connection_Error_Code \<times> 'u client" where
  "sent_code r = (if fst r then SUCCESS else ERROR_NO_CONNECTION, snd r)"

definition api_sendMessage :: "string option \<Rightarrow> string option \<Rightarrow> 'u client \<Rightarrow> Connection_Error_Code \<times> 'u client" where
  "api_sendMessage tpc text c =
     (case (tpc, text) of
        (Some t, Some s) \<Rightarrow> sent_code (ConnectionManager_sendMessage (c_str t) (c_str s) c)
      | _ \<Rightarrow> (ERROR_INVALID_ARGS, c))"

definition api_sendData :: "string option \<Rightarrow> string option \<Rightarrow> int \<Rightarrow> 'u client \<Rightarrow> c_failure + Connection_Error_Code \<times> 'u client" where
  "api_sendData tpc data len c =
     (case (tpc, data) of
        (Some t, Some mem) \<Rightarrow>
          (if getInstance c = None then Inr (ERROR_NO_CONNECTION, c)
           else map_sum id (\<lambda>_. sent_code (ConnectionManager_sendDataRaw (c_str t) mem (nat len) c)) (std_string mem len))
      | _ \<Rightarrow> Inr (ERROR_INVALID_ARGS, c))"

text \<open>The overload of \<open>ConnectionManager::replyToSender\<close> for a \<open>std::string\<close>.\<close>

definition replyToSender_string :: "string \<Rightarrow> string \<Rightarrow> 'u client \<Rightarrow> bool \<times> 'u client" where
  "replyToSender_string currentReplyTopic data c =
     with_instance (sendReplyEnvelope currentReplyTopic \<lparr>header = MessageHeader_new, payload = data\<rparr>) c"

definition api_replyToSender :: "string \<Rightarrow> string option \<Rightarrow> int \<Rightarrow> 'u client \<Rightarrow> c_failure + Connection_Error_Code \<times> 'u client" where
  "api_replyToSender currentReplyTopic data len c =
     (case data of
        None \<Rightarrow> Inr (ERROR_INVALID_ARGS, c)
      | Some mem \<Rightarrow> map_sum id (\<lambda>s. sent_code (replyToSender_string currentReplyTopic s c)) (std_string mem len))"

text \<open>
  \<open>sendRequest\<close> up to the wait for the reply, and after it. The first part ends the call with a code or leaves the topic of the reply;
  the second gives the code, the output buffer and the output length.
\<close>

definition api_sendRequest_begin ::
    "(nat \<Rightarrow> 4 word) \<times> 2 word \<Rightarrow> nat \<Rightarrow> string option \<Rightarrow> string option \<Rightarrow> int \<Rightarrow> string option \<Rightarrow> int option \<Rightarrow> 'u client
     \<Rightarrow> c_failure + (Connection_Error_Code + string) \<times> 'u client" where
  "api_sendRequest_begin rnd promise tpc body payloadLen outBuffer outLen c =
     (case (tpc, body, outBuffer, outLen) of
        (Some t, Some mem, Some _, Some _) \<Rightarrow>
          map_sum id (\<lambda>s. case sendRequest_begin rnd promise (c_str t) s c of
                            None \<Rightarrow> (Inl ERROR_GENERIC, c)
                          | Some (replyTopic, c) \<Rightarrow> (Inr replyTopic, c)) (std_string mem payloadLen)
      | _ \<Rightarrow> Inr (Inl ERROR_INVALID_ARGS, c))"

definition api_sendRequest_end ::
    "nat \<Rightarrow> string \<Rightarrow> string \<Rightarrow> int \<Rightarrow> int \<Rightarrow> 'u client \<Rightarrow> c_failure + Connection_Error_Code \<times> string \<times> int \<times> 'u client" where
  "api_sendRequest_end promise replyTopic outBuffer outBufferCap outLen c =
     (case sendRequest_end promise replyTopic c of
        (None, c) \<Rightarrow> Inr (ERROR_GENERIC, outBuffer, outLen, c)
      | (Some response, c) \<Rightarrow>
          if int_of_size (length response) > outBufferCap then Inr (ERROR_INVALID_ARGS, outBuffer, outLen, c)
          else if length response > length outBuffer then Inl WritePastEnd
          else Inr (SUCCESS, response @ drop (length response) outBuffer, int_of_size (length response), c))"

text \<open>What the lambda captures, and the call it makes of the C function with a number: topic, data, length and user data.\<close>

record c_callback =
  ccb_callback :: nat
  ccb_userData :: nat
  ccb_topic :: string

type_synonym c_functions = "nat \<Rightarrow> string \<Rightarrow> string \<Rightarrow> int \<Rightarrow> nat \<Rightarrow> string \<Rightarrow> c_callback client \<Rightarrow> c_callback client"

definition c_lambda :: "c_functions \<Rightarrow> c_callback user_code" where
  "c_lambda fns cb replyTopic data c =
     (Returned, fns (ccb_callback cb) (ccb_topic cb) (data @ [CHR 0x00]) (int_of_size (length data)) (ccb_userData cb) replyTopic c)"

definition api_registerCallback :: "string option \<Rightarrow> nat option \<Rightarrow> nat \<Rightarrow> c_callback client \<Rightarrow> c_callback client" where
  "api_registerCallback tpc callback userData c =
     (case (tpc, callback) of
        (Some t, Some f) \<Rightarrow>
          registerInternal (c_str t) (Some (UserCallback \<lparr>ccb_callback = f, ccb_userData = userData, ccb_topic = c_str t\<rparr>)) 0 c
      | _ \<Rightarrow> c)"

subsection \<open>What the codes mean\<close>

definition accepts :: "string \<Rightarrow> 'u ConnectionManager \<Rightarrow> bool" where
  "accepts key cm \<longleftrightarrow>
     (\<exists>w. cm_worker cm = Some w \<and> queue_room (if isControlMessage key then m_controlQueue w else m_outboundQueue w) 1)"

definition enqueued :: "Envelope \<Rightarrow> 'u ConnectionManager \<Rightarrow> 'u ConnectionManager" where
  "enqueued e cm = cm\<lparr>cm_worker := map_option
     (\<lambda>w. if isControlMessage (handler_key (header e))
           then w\<lparr>m_controlQueue := (m_controlQueue w)\<lparr>m_queue := m_queue (m_controlQueue w) @ [e]\<rparr>\<rparr>
           else w\<lparr>m_outboundQueue := (m_outboundQueue w)\<lparr>m_queue := m_queue (m_outboundQueue w) @ [e]\<rparr>\<rparr>) (cm_worker cm)\<rparr>"

lemma push_room_eq:
  "SafeQueue_push_for e q = (if queue_room q 1 then (True, q\<lparr>m_queue := m_queue q @ [e]\<rparr>) else (False, q))"
  by (auto simp: SafeQueue_defs queue_room_def)

lemma sendRawEnvelope_eq:
  "sendRawEnvelope e cm =
     (if accepts (handler_key (header e)) cm then (True, enqueued e cm) else (False, cm))"
proof (cases "cm_worker cm")
  case None
  then show ?thesis by (simp add: sendRawEnvelope_def accepts_def)
next
  case (Some w)
  then show ?thesis
    by (cases "isControlMessage (handler_key (header e))")
       (auto simp: sendRawEnvelope_def accepts_def enqueued_def writeControlMessage_def writeMessage_def push_room_eq)
qed

definition data_envelope :: "string \<Rightarrow> string \<Rightarrow> 'u ConnectionManager \<Rightarrow> Envelope" where
  "data_envelope key data cm =
     \<lparr>header = set_topic key (set_sender_id (cm_clientId cm) (set_handler_key key MessageHeader_new)), payload = data\<rparr>"

lemma data_envelope_key [simp]: "handler_key (header (data_envelope key data cm)) = key"
  by (simp add: data_envelope_def header_accessor_defs)

text \<open>What sending a message of a topic comes to: success and one envelope more in the worker's queue, or nothing.\<close>

definition sends :: "string \<Rightarrow> string \<Rightarrow> 'u client \<Rightarrow> Connection_Error_Code \<times> 'u client \<Rightarrow> bool" where
  "sends key data c r \<longleftrightarrow>
     (case c_instance c of
        None \<Rightarrow> r = (ERROR_NO_CONNECTION, c)
      | Some cm \<Rightarrow>
          if accepts key cm then r = (SUCCESS, c\<lparr>c_instance := Some (enqueued (data_envelope key data cm) cm)\<rparr>)
          else r = (ERROR_NO_CONNECTION, c))"

lemma with_instance_sends:
  assumes "\<And>cm. c_instance c = Some cm \<Longrightarrow> f cm = sendRawEnvelope (data_envelope key data cm) cm"
  shows "sends key data c (sent_code (with_instance f c))"
proof (cases "c_instance c")
  case (Some cm)
  then have "c\<lparr>c_instance := Some cm\<rparr> = c" by simp
  with Some assms [OF Some] show ?thesis
    by (simp add: sends_def sent_code_def with_instance_def getInstance_def sendRawEnvelope_eq)
qed (simp add: sends_def sent_code_def with_instance_def getInstance_def)

text \<open>
  C25. The codes of the C interface, on every path. A null pointer gives INVALID\_ARGS and changes nothing. Otherwise a send
  succeeds exactly when there is a connection whose queue for that topic is open and has room, and then this
  queue has one message more, with the topic and the data given; in every other case the code is NO\_CONNECTION and
  nothing changes. Without the context of a request a reply is not sent.
\<close>

theorem c_send_codes:
  "(case (tpc, text) of
      (Some t, Some s) \<Rightarrow> sends (c_str t) (c_str s) c (api_sendMessage tpc text c)
    | _ \<Rightarrow> api_sendMessage tpc text c = (ERROR_INVALID_ARGS, c)) \<and>
   (case (tpc, data) of
      (Some t, Some mem) \<Rightarrow>
        (case (getInstance c, std_string mem len) of
           (Some _, Inl e) \<Rightarrow> api_sendData tpc data len c = Inl e
         | (Some _, Inr s) \<Rightarrow> (case api_sendData tpc data len c of Inl _ \<Rightarrow> False | Inr r \<Rightarrow> sends (c_str t) s c r)
         | (None, _) \<Rightarrow> api_sendData tpc data len c = Inr (ERROR_NO_CONNECTION, c))
    | _ \<Rightarrow> api_sendData tpc data len c = Inr (ERROR_INVALID_ARGS, c)) \<and>
   (case data of
      None \<Rightarrow> api_replyToSender replyTopic data len c = Inr (ERROR_INVALID_ARGS, c)
    | Some mem \<Rightarrow>
        (case std_string mem len of
           Inl e \<Rightarrow> api_replyToSender replyTopic data len c = Inl e
         | Inr s \<Rightarrow> (case api_replyToSender replyTopic data len c of
             Inl _ \<Rightarrow> False
           | Inr r \<Rightarrow> if replyTopic = [] then r = (ERROR_NO_CONNECTION, c) else sends replyTopic s c r)))"
proof -
  have message: "sends (c_str t) (c_str s) c (sent_code (ConnectionManager_sendMessage (c_str t) (c_str s) c))" for t s
    unfolding ConnectionManager_sendMessage_def by (rule with_instance_sends) (simp add: sendDataInternal_def data_envelope_def)
  have raw: "sends (c_str t) s c (sent_code (ConnectionManager_sendDataRaw (c_str t) mem (nat len) c))"
    if "std_string mem len = Inr s" for t mem s
  proof -
    have "s = take (nat len) mem" using that by (simp add: std_string_def split: if_splits)
    then show ?thesis
      unfolding ConnectionManager_sendDataRaw_def by (intro with_instance_sends) (simp add: sendDataInternal_def data_envelope_def)
  qed
  have reply: "sends replyTopic s c (sent_code (replyToSender_string replyTopic s c))" if "replyTopic \<noteq> []" for s
    unfolding replyToSender_string_def using that
    by (intro with_instance_sends) (simp add: sendReplyEnvelope_def data_envelope_def)
  have no_reply: "sent_code (replyToSender_string [] s c) = (ERROR_NO_CONNECTION, c)" for s
    by (cases "c_instance c") (simp_all add: sent_code_def replyToSender_string_def with_instance_def getInstance_def sendReplyEnvelope_def)
  show ?thesis
    by (auto simp: api_sendMessage_def api_sendData_def api_replyToSender_def message raw reply no_reply
        split: option.splits sum.splits)
qed

text \<open>
  C26. A request through the C interface never writes outside the caller's buffer: with a buffer of the stated capacity and a reply
  within the transport's limit of 16 MiB, the call ends with GENERIC when no reply came, with INVALID\_ARGS when the
  reply is longer than the capacity, both leaving buffer and length alone, and otherwise with the reply at the
  start of the buffer, its length in the output length, and the rest of the buffer unchanged.
\<close>

theorem c_request_buffer:
  assumes "outBufferCap \<le> int (length outBuffer)" "\<forall>r. c_promises c p = Some r \<longrightarrow> int (length r) \<le> MAX_MESSAGE_SIZE_BYTES"
  shows "\<exists>code out n c'. api_sendRequest_end p replyTopic outBuffer outBufferCap outLen c = Inr (code, out, n, c') \<and>
    length out = length outBuffer \<and>
    (case c_promises c p of
       None \<Rightarrow> (code, out, n) = (ERROR_GENERIC, outBuffer, outLen)
     | Some r \<Rightarrow>
         if int (length r) > outBufferCap then (code, out, n) = (ERROR_INVALID_ARGS, outBuffer, outLen)
         else code = SUCCESS \<and> n = int (length r) \<and> take (nat n) out = r \<and> drop (nat n) out = drop (nat n) outBuffer)"
proof (cases "c_promises c p")
  case None
  then show ?thesis by (simp add: api_sendRequest_end_def sendRequest_end_def)
next
  case (Some r)
  then have "length r < 2 ^ 31" using assms(2) by (simp add: MAX_MESSAGE_SIZE_BYTES_def)
  then have "int_of_size (length r) = int (length r)"
    by (simp add: int_of_size_def signed_of_nat signed_take_bit_int_eq_self)
  with Some assms(1) show ?thesis by (auto simp: api_sendRequest_end_def sendRequest_end_def)
qed

text \<open>Witness for C26: a reply of two characters and a buffer of four.\<close>

definition answered_example :: "unit client" where
  "answered_example = client_new\<lparr>c_promises := [2 \<mapsto> ''ok'']\<rparr>"

theorem c_request_buffer_witness:
  "\<exists>c'. api_sendRequest_end 2 ''r'' ''wxyz'' 4 0 answered_example = Inr (SUCCESS, ''okyz'', 2, c')"
proof -
  have promise: "c_promises answered_example 2 = Some ''ok''" by (simp add: answered_example_def)
  obtain code out n c' where call: "api_sendRequest_end 2 ''r'' ''wxyz'' 4 0 answered_example = Inr (code, out, n, c')"
      and res: "code = SUCCESS" "n = 2" "take 2 out = ''ok''" "drop 2 out = ''yz''"
    using c_request_buffer [of 4 "''wxyz''" answered_example 2 "''r''" 0] by (auto simp: promise MAX_MESSAGE_SIZE_BYTES_def)
  have "out = ''okyz''" using append_take_drop_id [of 2 out] res(3,4) by simp
  with call res(1,2) show ?thesis by simp
qed

end
