(* ===== verification/C_Messages.thy ===== *)
theory C_Messages
  imports System_Stats
begin

text \<open>
  The C binding of the messages (\<open>common/generated-c/broker.pb-c.h\<close>, \<open>broker.pb-c.c\<close>, \<open>update.pb-c.h\<close>, \<open>update.pb-c.c\<close>):
  the structs with their initial values, the descriptor tables, and the functions around the protobuf-c library.

  The library \<open>libprotobuf-c\<close> is not part of the repository; it is the record \<open>protobuf_c\<close> of the functions the
  generated code calls. They take a \<open>ProtobufCMessage*\<close>: a struct is seen through its descriptor, which names each
  member by its offset. So a message in memory is a descriptor with named members (\<open>protobuf_c_message\<close>), \<open>offsetof\<close> is
  the member's name, \<open>sizeof\<close> the struct's name, and the pointer casts are the functions \<open>_cast\<close> and \<open>_of\<close>. A
  \<open>char*\<close> member is the string it points to. A failed \<open>assert\<close> is \<^const>\<open>None\<close>; \<open>free_unpacked\<close> gives the messages it frees.
\<close>

datatype ProtobufCLabel = LABEL_NONE | LABEL_REPEATED

datatype ProtobufCType = TYPE_STRING | TYPE_INT32 | TYPE_INT64 | TYPE_DOUBLE | TYPE_MESSAGE

record ProtobufCIntRange =
  start_value :: int
  orig_index :: nat

text \<open>A field of message type has the descriptor of that type.\<close>

datatype ProtobufCMessageDescriptor =
  MessageDescriptor
    (md_name: string) (md_short_name: string) (md_c_name: string) (md_package_name: string) (md_sizeof: string)
    (md_n_fields: nat) (md_fields: "ProtobufCFieldDescriptor list") (md_indices_by_name: "nat list")
    (md_n_ranges: nat) (md_ranges: "ProtobufCIntRange list")
and ProtobufCFieldDescriptor =
  FieldDescriptor
    (fd_name: string) (fd_id: nat) (fd_label: ProtobufCLabel) (fd_type: ProtobufCType)
    (fd_quantifier: "string option") (fd_offset: string) (fd_descriptor: "ProtobufCMessageDescriptor option")
    (fd_empty_default: bool) (fd_flags: "32 word")

datatype c_value =
    CString string | CInt32 "32 word" | CInt64 "64 word" | CDouble "64 word" | CSize nat
  | CStrings "string list" | CMessages "protobuf_c_message list"
and protobuf_c_message = CMessage (message_base: ProtobufCMessageDescriptor) (message_members: "(string \<times> c_value) list")

definition member :: "protobuf_c_message \<Rightarrow> string \<Rightarrow> c_value option" where
  "member p name = map_of (message_members p) name"

fun as_string :: "c_value option \<Rightarrow> string" where
  "as_string (Some (CString s)) = s" | "as_string _ = []"

fun as_int32 :: "c_value option \<Rightarrow> 32 word" where
  "as_int32 (Some (CInt32 v)) = v" | "as_int32 _ = 0"

fun as_int64 :: "c_value option \<Rightarrow> 64 word" where
  "as_int64 (Some (CInt64 v)) = v" | "as_int64 _ = 0"

fun as_double :: "c_value option \<Rightarrow> 64 word" where
  "as_double (Some (CDouble v)) = v" | "as_double _ = 0"

fun as_strings :: "c_value option \<Rightarrow> string list" where
  "as_strings (Some (CStrings ss)) = ss" | "as_strings _ = []"

fun as_messages :: "c_value option \<Rightarrow> protobuf_c_message list" where
  "as_messages (Some (CMessages ms)) = ms" | "as_messages _ = []"

record protobuf_c =
  c_packed_size :: "protobuf_c_message \<Rightarrow> nat"
  c_pack :: "protobuf_c_message \<Rightarrow> nat \<times> bytes"
  c_pack_to_buffer :: "protobuf_c_message \<Rightarrow> bytes \<Rightarrow> nat \<times> bytes"
  c_unpack :: "ProtobufCMessageDescriptor \<Rightarrow> bytes \<Rightarrow> protobuf_c_message option"

subsection \<open>\<open>Broker__MessageHeader\<close>\<close>

definition broker__message_header__field_descriptors :: "ProtobufCFieldDescriptor list" where
  "broker__message_header__field_descriptors =
    [FieldDescriptor ''handler_key'' 1 LABEL_NONE TYPE_STRING None ''handler_key'' None True 0,
     FieldDescriptor ''sender_id'' 2 LABEL_NONE TYPE_STRING None ''sender_id'' None True 0,
     FieldDescriptor ''topic'' 3 LABEL_NONE TYPE_STRING None ''topic'' None True 0,
     FieldDescriptor ''origin_broker_id'' 5 LABEL_NONE TYPE_STRING None ''origin_broker_id'' None True 0,
     FieldDescriptor ''message_uuid'' 6 LABEL_NONE TYPE_STRING None ''message_uuid'' None True 0,
     FieldDescriptor ''transfer_id'' 7 LABEL_NONE TYPE_STRING None ''transfer_id'' None True 0,
     FieldDescriptor ''sequence_number'' 8 LABEL_NONE TYPE_INT32 None ''sequence_number'' None False 0,
     FieldDescriptor ''sequence_count'' 9 LABEL_NONE TYPE_INT32 None ''sequence_count'' None False 0,
     FieldDescriptor ''reply_topic'' 11 LABEL_NONE TYPE_STRING None ''reply_topic'' None True 0]"

definition broker__message_header__field_indices_by_name :: "nat list" where
  "broker__message_header__field_indices_by_name = [0, 4, 3, 8, 1, 7, 6, 2, 5]"

definition broker__message_header__number_ranges :: "ProtobufCIntRange list" where
  "broker__message_header__number_ranges = [\<lparr>start_value = 1, orig_index = 0\<rparr>, \<lparr>start_value = 5, orig_index = 3\<rparr>, \<lparr>start_value = 11, orig_index = 8\<rparr>, \<lparr>start_value = 0, orig_index = 9\<rparr>]"

definition broker__message_header__descriptor :: ProtobufCMessageDescriptor where
  "broker__message_header__descriptor =
     MessageDescriptor ''broker.MessageHeader'' ''MessageHeader'' ''Broker__MessageHeader'' ''broker'' ''Broker__MessageHeader'' 9
       broker__message_header__field_descriptors broker__message_header__field_indices_by_name 3 broker__message_header__number_ranges"

record Broker__MessageHeader =
  bmh_base :: ProtobufCMessageDescriptor
  bmh_handler_key :: string
  bmh_sender_id :: string
  bmh_topic :: string
  bmh_origin_broker_id :: string
  bmh_message_uuid :: string
  bmh_transfer_id :: string
  bmh_sequence_number :: "32 word"
  bmh_sequence_count :: "32 word"
  bmh_reply_topic :: string

definition BROKER__MESSAGE_HEADER__INIT :: Broker__MessageHeader where
  "BROKER__MESSAGE_HEADER__INIT = \<lparr>bmh_base = broker__message_header__descriptor, bmh_handler_key = [], bmh_sender_id = [], bmh_topic = [], bmh_origin_broker_id = [], bmh_message_uuid = [], bmh_transfer_id = [], bmh_sequence_number = 0, bmh_sequence_count = 0, bmh_reply_topic = []\<rparr>"

definition broker__message_header__init :: "Broker__MessageHeader \<Rightarrow> Broker__MessageHeader" where
  "broker__message_header__init m = BROKER__MESSAGE_HEADER__INIT"

definition Broker__MessageHeader_cast :: "Broker__MessageHeader \<Rightarrow> protobuf_c_message" where
  "Broker__MessageHeader_cast m = CMessage (bmh_base m)
    [(''handler_key'', CString (bmh_handler_key m)),
     (''sender_id'', CString (bmh_sender_id m)),
     (''topic'', CString (bmh_topic m)),
     (''origin_broker_id'', CString (bmh_origin_broker_id m)),
     (''message_uuid'', CString (bmh_message_uuid m)),
     (''transfer_id'', CString (bmh_transfer_id m)),
     (''sequence_number'', CInt32 (bmh_sequence_number m)),
     (''sequence_count'', CInt32 (bmh_sequence_count m)),
     (''reply_topic'', CString (bmh_reply_topic m))]"

definition Broker__MessageHeader_of :: "protobuf_c_message \<Rightarrow> Broker__MessageHeader" where
  "Broker__MessageHeader_of p = \<lparr>bmh_base = message_base p, bmh_handler_key = as_string (member p ''handler_key''),
     bmh_sender_id = as_string (member p ''sender_id''),
     bmh_topic = as_string (member p ''topic''),
     bmh_origin_broker_id = as_string (member p ''origin_broker_id''),
     bmh_message_uuid = as_string (member p ''message_uuid''),
     bmh_transfer_id = as_string (member p ''transfer_id''),
     bmh_sequence_number = as_int32 (member p ''sequence_number''),
     bmh_sequence_count = as_int32 (member p ''sequence_count''),
     bmh_reply_topic = as_string (member p ''reply_topic'')\<rparr>"

definition broker__message_header__get_packed_size :: "protobuf_c \<Rightarrow> Broker__MessageHeader \<Rightarrow> nat option" where
  "broker__message_header__get_packed_size pc m =
     (if bmh_base m = broker__message_header__descriptor then Some (c_packed_size pc (Broker__MessageHeader_cast m)) else None)"

definition broker__message_header__pack :: "protobuf_c \<Rightarrow> Broker__MessageHeader \<Rightarrow> (nat \<times> bytes) option" where
  "broker__message_header__pack pc m =
     (if bmh_base m = broker__message_header__descriptor then Some (c_pack pc (Broker__MessageHeader_cast m)) else None)"

definition broker__message_header__pack_to_buffer :: "protobuf_c \<Rightarrow> Broker__MessageHeader \<Rightarrow> bytes \<Rightarrow> (nat \<times> bytes) option" where
  "broker__message_header__pack_to_buffer pc m buffer =
     (if bmh_base m = broker__message_header__descriptor then Some (c_pack_to_buffer pc (Broker__MessageHeader_cast m) buffer) else None)"

definition broker__message_header__unpack :: "protobuf_c \<Rightarrow> bytes \<Rightarrow> Broker__MessageHeader option" where
  "broker__message_header__unpack pc data = map_option Broker__MessageHeader_of (c_unpack pc broker__message_header__descriptor data)"

definition broker__message_header__free_unpacked :: "Broker__MessageHeader option \<Rightarrow> Broker__MessageHeader list option" where
  "broker__message_header__free_unpacked msg =
     (case msg of None \<Rightarrow> Some [] | Some m \<Rightarrow> if bmh_base m = broker__message_header__descriptor then Some [m] else None)"

subsection \<open>\<open>Broker__ClientInfo\<close>\<close>

definition broker__client_info__field_descriptors :: "ProtobufCFieldDescriptor list" where
  "broker__client_info__field_descriptors =
    [FieldDescriptor ''id'' 1 LABEL_NONE TYPE_STRING None ''id'' None True 0,
     FieldDescriptor ''subscriptions'' 2 LABEL_REPEATED TYPE_STRING (Some ''n_subscriptions'') ''subscriptions'' None True 0]"

definition broker__client_info__field_indices_by_name :: "nat list" where
  "broker__client_info__field_indices_by_name = [0, 1]"

definition broker__client_info__number_ranges :: "ProtobufCIntRange list" where
  "broker__client_info__number_ranges = [\<lparr>start_value = 1, orig_index = 0\<rparr>, \<lparr>start_value = 0, orig_index = 2\<rparr>]"

definition broker__client_info__descriptor :: ProtobufCMessageDescriptor where
  "broker__client_info__descriptor =
     MessageDescriptor ''broker.ClientInfo'' ''ClientInfo'' ''Broker__ClientInfo'' ''broker'' ''Broker__ClientInfo'' 2
       broker__client_info__field_descriptors broker__client_info__field_indices_by_name 1 broker__client_info__number_ranges"

record Broker__ClientInfo =
  bci_base :: ProtobufCMessageDescriptor
  bci_id :: string
  bci_subscriptions :: "string list"

definition BROKER__CLIENT_INFO__INIT :: Broker__ClientInfo where
  "BROKER__CLIENT_INFO__INIT = \<lparr>bci_base = broker__client_info__descriptor, bci_id = [], bci_subscriptions = []\<rparr>"

definition broker__client_info__init :: "Broker__ClientInfo \<Rightarrow> Broker__ClientInfo" where
  "broker__client_info__init m = BROKER__CLIENT_INFO__INIT"

definition Broker__ClientInfo_cast :: "Broker__ClientInfo \<Rightarrow> protobuf_c_message" where
  "Broker__ClientInfo_cast m = CMessage (bci_base m)
    [(''id'', CString (bci_id m)),
     (''n_subscriptions'', CSize (length (bci_subscriptions m))), (''subscriptions'', CStrings (bci_subscriptions m))]"

definition Broker__ClientInfo_of :: "protobuf_c_message \<Rightarrow> Broker__ClientInfo" where
  "Broker__ClientInfo_of p = \<lparr>bci_base = message_base p, bci_id = as_string (member p ''id''),
     bci_subscriptions = as_strings (member p ''subscriptions'')\<rparr>"

definition broker__client_info__get_packed_size :: "protobuf_c \<Rightarrow> Broker__ClientInfo \<Rightarrow> nat option" where
  "broker__client_info__get_packed_size pc m =
     (if bci_base m = broker__client_info__descriptor then Some (c_packed_size pc (Broker__ClientInfo_cast m)) else None)"

definition broker__client_info__pack :: "protobuf_c \<Rightarrow> Broker__ClientInfo \<Rightarrow> (nat \<times> bytes) option" where
  "broker__client_info__pack pc m =
     (if bci_base m = broker__client_info__descriptor then Some (c_pack pc (Broker__ClientInfo_cast m)) else None)"

definition broker__client_info__pack_to_buffer :: "protobuf_c \<Rightarrow> Broker__ClientInfo \<Rightarrow> bytes \<Rightarrow> (nat \<times> bytes) option" where
  "broker__client_info__pack_to_buffer pc m buffer =
     (if bci_base m = broker__client_info__descriptor then Some (c_pack_to_buffer pc (Broker__ClientInfo_cast m) buffer) else None)"

definition broker__client_info__unpack :: "protobuf_c \<Rightarrow> bytes \<Rightarrow> Broker__ClientInfo option" where
  "broker__client_info__unpack pc data = map_option Broker__ClientInfo_of (c_unpack pc broker__client_info__descriptor data)"

definition broker__client_info__free_unpacked :: "Broker__ClientInfo option \<Rightarrow> Broker__ClientInfo list option" where
  "broker__client_info__free_unpacked msg =
     (case msg of None \<Rightarrow> Some [] | Some m \<Rightarrow> if bci_base m = broker__client_info__descriptor then Some [m] else None)"

subsection \<open>\<open>Broker__SystemStats\<close>\<close>

definition broker__system_stats__field_descriptors :: "ProtobufCFieldDescriptor list" where
  "broker__system_stats__field_descriptors =
    [FieldDescriptor ''broker_id'' 1 LABEL_NONE TYPE_STRING None ''broker_id'' None True 0,
     FieldDescriptor ''clients_count'' 2 LABEL_NONE TYPE_INT32 None ''clients_count'' None False 0,
     FieldDescriptor ''peers_count'' 3 LABEL_NONE TYPE_INT32 None ''peers_count'' None False 0,
     FieldDescriptor ''msgs_per_sec'' 4 LABEL_NONE TYPE_INT32 None ''msgs_per_sec'' None False 0,
     FieldDescriptor ''kb_per_sec'' 5 LABEL_NONE TYPE_DOUBLE None ''kb_per_sec'' None False 0,
     FieldDescriptor ''total_msgs'' 6 LABEL_NONE TYPE_INT64 None ''total_msgs'' None False 0,
     FieldDescriptor ''uptime_sec'' 7 LABEL_NONE TYPE_INT64 None ''uptime_sec'' None False 0,
     FieldDescriptor ''connected_clients'' 8 LABEL_REPEATED TYPE_MESSAGE (Some ''n_connected_clients'') ''connected_clients'' (Some broker__client_info__descriptor) False 0]"

definition broker__system_stats__field_indices_by_name :: "nat list" where
  "broker__system_stats__field_indices_by_name = [0, 1, 7, 4, 3, 2, 5, 6]"

definition broker__system_stats__number_ranges :: "ProtobufCIntRange list" where
  "broker__system_stats__number_ranges = [\<lparr>start_value = 1, orig_index = 0\<rparr>, \<lparr>start_value = 0, orig_index = 8\<rparr>]"

definition broker__system_stats__descriptor :: ProtobufCMessageDescriptor where
  "broker__system_stats__descriptor =
     MessageDescriptor ''broker.SystemStats'' ''SystemStats'' ''Broker__SystemStats'' ''broker'' ''Broker__SystemStats'' 8
       broker__system_stats__field_descriptors broker__system_stats__field_indices_by_name 1 broker__system_stats__number_ranges"

record Broker__SystemStats =
  bss_base :: ProtobufCMessageDescriptor
  bss_broker_id :: string
  bss_clients_count :: "32 word"
  bss_peers_count :: "32 word"
  bss_msgs_per_sec :: "32 word"
  bss_kb_per_sec :: "64 word"
  bss_total_msgs :: "64 word"
  bss_uptime_sec :: "64 word"
  bss_connected_clients :: "Broker__ClientInfo list"

definition BROKER__SYSTEM_STATS__INIT :: Broker__SystemStats where
  "BROKER__SYSTEM_STATS__INIT = \<lparr>bss_base = broker__system_stats__descriptor, bss_broker_id = [], bss_clients_count = 0, bss_peers_count = 0, bss_msgs_per_sec = 0, bss_kb_per_sec = 0, bss_total_msgs = 0, bss_uptime_sec = 0, bss_connected_clients = []\<rparr>"

definition broker__system_stats__init :: "Broker__SystemStats \<Rightarrow> Broker__SystemStats" where
  "broker__system_stats__init m = BROKER__SYSTEM_STATS__INIT"

definition Broker__SystemStats_cast :: "Broker__SystemStats \<Rightarrow> protobuf_c_message" where
  "Broker__SystemStats_cast m = CMessage (bss_base m)
    [(''broker_id'', CString (bss_broker_id m)),
     (''clients_count'', CInt32 (bss_clients_count m)),
     (''peers_count'', CInt32 (bss_peers_count m)),
     (''msgs_per_sec'', CInt32 (bss_msgs_per_sec m)),
     (''kb_per_sec'', CDouble (bss_kb_per_sec m)),
     (''total_msgs'', CInt64 (bss_total_msgs m)),
     (''uptime_sec'', CInt64 (bss_uptime_sec m)),
     (''n_connected_clients'', CSize (length (bss_connected_clients m))), (''connected_clients'', CMessages (map Broker__ClientInfo_cast (bss_connected_clients m)))]"

definition Broker__SystemStats_of :: "protobuf_c_message \<Rightarrow> Broker__SystemStats" where
  "Broker__SystemStats_of p = \<lparr>bss_base = message_base p, bss_broker_id = as_string (member p ''broker_id''),
     bss_clients_count = as_int32 (member p ''clients_count''),
     bss_peers_count = as_int32 (member p ''peers_count''),
     bss_msgs_per_sec = as_int32 (member p ''msgs_per_sec''),
     bss_kb_per_sec = as_double (member p ''kb_per_sec''),
     bss_total_msgs = as_int64 (member p ''total_msgs''),
     bss_uptime_sec = as_int64 (member p ''uptime_sec''),
     bss_connected_clients = map Broker__ClientInfo_of (as_messages (member p ''connected_clients''))\<rparr>"

definition broker__system_stats__get_packed_size :: "protobuf_c \<Rightarrow> Broker__SystemStats \<Rightarrow> nat option" where
  "broker__system_stats__get_packed_size pc m =
     (if bss_base m = broker__system_stats__descriptor then Some (c_packed_size pc (Broker__SystemStats_cast m)) else None)"

definition broker__system_stats__pack :: "protobuf_c \<Rightarrow> Broker__SystemStats \<Rightarrow> (nat \<times> bytes) option" where
  "broker__system_stats__pack pc m =
     (if bss_base m = broker__system_stats__descriptor then Some (c_pack pc (Broker__SystemStats_cast m)) else None)"

definition broker__system_stats__pack_to_buffer :: "protobuf_c \<Rightarrow> Broker__SystemStats \<Rightarrow> bytes \<Rightarrow> (nat \<times> bytes) option" where
  "broker__system_stats__pack_to_buffer pc m buffer =
     (if bss_base m = broker__system_stats__descriptor then Some (c_pack_to_buffer pc (Broker__SystemStats_cast m) buffer) else None)"

definition broker__system_stats__unpack :: "protobuf_c \<Rightarrow> bytes \<Rightarrow> Broker__SystemStats option" where
  "broker__system_stats__unpack pc data = map_option Broker__SystemStats_of (c_unpack pc broker__system_stats__descriptor data)"

definition broker__system_stats__free_unpacked :: "Broker__SystemStats option \<Rightarrow> Broker__SystemStats list option" where
  "broker__system_stats__free_unpacked msg =
     (case msg of None \<Rightarrow> Some [] | Some m \<Rightarrow> if bss_base m = broker__system_stats__descriptor then Some [m] else None)"

subsection \<open>\<open>Communication__Update\<close>\<close>

definition communication__update__field_descriptors :: "ProtobufCFieldDescriptor list" where
  "communication__update__field_descriptors =
    [FieldDescriptor ''id'' 1 LABEL_NONE TYPE_STRING None ''id'' None True 0,
     FieldDescriptor ''message'' 2 LABEL_NONE TYPE_STRING None ''message'' None True 0,
     FieldDescriptor ''timestamp_utc'' 3 LABEL_NONE TYPE_INT64 None ''timestamp_utc'' None False 0]"

definition communication__update__field_indices_by_name :: "nat list" where
  "communication__update__field_indices_by_name = [0, 1, 2]"

definition communication__update__number_ranges :: "ProtobufCIntRange list" where
  "communication__update__number_ranges = [\<lparr>start_value = 1, orig_index = 0\<rparr>, \<lparr>start_value = 0, orig_index = 3\<rparr>]"

definition communication__update__descriptor :: ProtobufCMessageDescriptor where
  "communication__update__descriptor =
     MessageDescriptor ''communication.Update'' ''Update'' ''Communication__Update'' ''communication'' ''Communication__Update'' 3
       communication__update__field_descriptors communication__update__field_indices_by_name 1 communication__update__number_ranges"

record Communication__Update =
  upd_base :: ProtobufCMessageDescriptor
  upd_id :: string
  upd_message :: string
  upd_timestamp_utc :: "64 word"

definition COMMUNICATION__UPDATE__INIT :: Communication__Update where
  "COMMUNICATION__UPDATE__INIT = \<lparr>upd_base = communication__update__descriptor, upd_id = [], upd_message = [], upd_timestamp_utc = 0\<rparr>"

definition communication__update__init :: "Communication__Update \<Rightarrow> Communication__Update" where
  "communication__update__init m = COMMUNICATION__UPDATE__INIT"

definition Communication__Update_cast :: "Communication__Update \<Rightarrow> protobuf_c_message" where
  "Communication__Update_cast m = CMessage (upd_base m)
    [(''id'', CString (upd_id m)),
     (''message'', CString (upd_message m)),
     (''timestamp_utc'', CInt64 (upd_timestamp_utc m))]"

definition Communication__Update_of :: "protobuf_c_message \<Rightarrow> Communication__Update" where
  "Communication__Update_of p = \<lparr>upd_base = message_base p, upd_id = as_string (member p ''id''),
     upd_message = as_string (member p ''message''),
     upd_timestamp_utc = as_int64 (member p ''timestamp_utc'')\<rparr>"

definition communication__update__get_packed_size :: "protobuf_c \<Rightarrow> Communication__Update \<Rightarrow> nat option" where
  "communication__update__get_packed_size pc m =
     (if upd_base m = communication__update__descriptor then Some (c_packed_size pc (Communication__Update_cast m)) else None)"

definition communication__update__pack :: "protobuf_c \<Rightarrow> Communication__Update \<Rightarrow> (nat \<times> bytes) option" where
  "communication__update__pack pc m =
     (if upd_base m = communication__update__descriptor then Some (c_pack pc (Communication__Update_cast m)) else None)"

definition communication__update__pack_to_buffer :: "protobuf_c \<Rightarrow> Communication__Update \<Rightarrow> bytes \<Rightarrow> (nat \<times> bytes) option" where
  "communication__update__pack_to_buffer pc m buffer =
     (if upd_base m = communication__update__descriptor then Some (c_pack_to_buffer pc (Communication__Update_cast m) buffer) else None)"

definition communication__update__unpack :: "protobuf_c \<Rightarrow> bytes \<Rightarrow> Communication__Update option" where
  "communication__update__unpack pc data = map_option Communication__Update_of (c_unpack pc communication__update__descriptor data)"

definition communication__update__free_unpacked :: "Communication__Update option \<Rightarrow> Communication__Update list option" where
  "communication__update__free_unpacked msg =
     (case msg of None \<Rightarrow> Some [] | Some m \<Rightarrow> if upd_base m = communication__update__descriptor then Some [m] else None)"

subsection \<open>The protobuf-c library\<close>

text \<open>
  What the library documents: a message is written field by field in the order of its descriptor, a field without
  label only when it is not the zero of its type (for a \<open>double\<close> both zeros), a repeated field as often as its
  count says; unpacking reads the fields of the descriptor, of which the last occurrence counts.
\<close>

fun c_typed :: "ProtobufCLabel \<Rightarrow> ProtobufCType \<Rightarrow> c_value \<Rightarrow> bool" where
  "c_typed LABEL_NONE TYPE_STRING (CString s) \<longleftrightarrow> True"
| "c_typed LABEL_NONE TYPE_INT32 (CInt32 v) \<longleftrightarrow> True"
| "c_typed LABEL_NONE TYPE_INT64 (CInt64 v) \<longleftrightarrow> True"
| "c_typed LABEL_NONE TYPE_DOUBLE (CDouble v) \<longleftrightarrow> True"
| "c_typed LABEL_REPEATED TYPE_STRING (CStrings ss) \<longleftrightarrow> True"
| "c_typed LABEL_REPEATED TYPE_MESSAGE (CMessages ms) \<longleftrightarrow> True"
| "c_typed _ _ _ \<longleftrightarrow> False"

definition c_well_typed :: "protobuf_c_message \<Rightarrow> bool" where
  "c_well_typed p \<longleftrightarrow>
     list_all (\<lambda>f. case member p (fd_offset f) of None \<Rightarrow> False | Some v \<Rightarrow> c_typed (fd_label f) (fd_type f) v) (md_fields (message_base p))"

definition c_count :: "(string \<times> c_value) list \<Rightarrow> ProtobufCFieldDescriptor \<Rightarrow> nat" where
  "c_count ms f =
     (case fd_quantifier f of
        None \<Rightarrow> 0
      | Some q \<Rightarrow> (case map_of ms q of Some (CSize n) \<Rightarrow> n | _ \<Rightarrow> 0))"

definition negative_zero :: "64 word" where
  "negative_zero = 0x8000000000000000"

fun c_value_bytes :: "pb_runtime \<Rightarrow> nat \<Rightarrow> nat \<Rightarrow> c_value \<Rightarrow> bytes list \<Rightarrow> bytes" where
  "c_value_bytes rt n count (CString s) subs = (if s = [] then [] else WriteString rt n s)"
| "c_value_bytes rt n count (CInt32 v) subs = (if v = 0 then [] else WriteInt32 rt n v)"
| "c_value_bytes rt n count (CInt64 v) subs = (if v = 0 then [] else WriteInt64 rt n v)"
| "c_value_bytes rt n count (CDouble v) subs = (if v = 0 \<or> v = negative_zero then [] else WriteDouble rt n v)"
| "c_value_bytes rt n count (CStrings ss) subs = concat (map (WriteString rt n) (take count ss))"
| "c_value_bytes rt n count (CMessages ms) subs = concat (map (WriteMessage rt n) (take count subs))"
| "c_value_bytes rt n count (CSize k) subs = []"

fun c_sub_bytes :: "(protobuf_c_message \<Rightarrow> bytes) \<Rightarrow> c_value \<Rightarrow> bytes list" where
  "c_sub_bytes pack (CMessages ms) = map pack ms"
| "c_sub_bytes pack _ = []"

definition c_field_bytes :: "pb_runtime \<Rightarrow> (protobuf_c_message \<Rightarrow> bytes) \<Rightarrow> protobuf_c_message \<Rightarrow> ProtobufCFieldDescriptor \<Rightarrow> bytes" where
  "c_field_bytes rt pack p f =
     (case member p (fd_offset f) of
        None \<Rightarrow> []
      | Some v \<Rightarrow> c_value_bytes rt (fd_id f) (c_count (message_members p) f) v (c_sub_bytes pack v))"

fun wire_matches :: "ProtobufCType \<Rightarrow> wire_value \<Rightarrow> bool" where
  "wire_matches TYPE_STRING (LengthDelimited s) \<longleftrightarrow> CHR 0x00 \<notin> set s"
| "wire_matches TYPE_INT32 (Varint w) \<longleftrightarrow> True"
| "wire_matches TYPE_INT64 (Varint w) \<longleftrightarrow> True"
| "wire_matches TYPE_DOUBLE (Fixed64 w) \<longleftrightarrow> True"
| "wire_matches _ _ \<longleftrightarrow> False"

fun c_scalar :: "ProtobufCType \<Rightarrow> wire_value option \<Rightarrow> c_value" where
  "c_scalar TYPE_INT32 (Some (Varint w)) = CInt32 (ucast w)"
| "c_scalar TYPE_INT32 _ = CInt32 0"
| "c_scalar TYPE_INT64 (Some (Varint w)) = CInt64 w"
| "c_scalar TYPE_INT64 _ = CInt64 0"
| "c_scalar TYPE_DOUBLE (Some (Fixed64 w)) = CDouble w"
| "c_scalar TYPE_DOUBLE _ = CDouble 0"
| "c_scalar _ (Some (LengthDelimited s)) = CString s"
| "c_scalar _ _ = CString []"

fun c_string :: "wire_value \<Rightarrow> string" where
  "c_string (LengthDelimited s) = s"
| "c_string _ = []"

definition occurrences :: "nat \<Rightarrow> wire_field list \<Rightarrow> wire_value list" where
  "occurrences n fs = map snd (filter (\<lambda>f. fst f = n) fs)"

definition c_members :: "wire_field list \<Rightarrow> ProtobufCFieldDescriptor \<Rightarrow> (string \<times> c_value) list" where
  "c_members fs f =
     (let vs = occurrences (fd_id f) fs in
      case fd_label f of
        LABEL_NONE \<Rightarrow> [(fd_offset f, c_scalar (fd_type f) (if vs = [] then None else Some (last vs)))]
      | LABEL_REPEATED \<Rightarrow> (case fd_quantifier f of None \<Rightarrow> [] | Some q \<Rightarrow> [(q, CSize (length vs))]) @ [(fd_offset f, CStrings (map c_string vs))])"

definition c_known :: "ProtobufCMessageDescriptor \<Rightarrow> wire_field \<Rightarrow> bool" where
  "c_known d fv = list_ex (\<lambda>f. fd_id f = fst fv \<and> wire_matches (fd_type f) (snd fv)) (md_fields d)"

definition c_flat :: "ProtobufCMessageDescriptor \<Rightarrow> bool" where
  "c_flat d = list_all (\<lambda>f. fd_type f \<noteq> TYPE_MESSAGE) (md_fields d)"

locale protobuf_c_library =
  fixes rt :: pb_runtime and pc :: protobuf_c
  assumes pack: "c_well_typed p \<Longrightarrow>
      snd (c_pack pc p) = concat (map (c_field_bytes rt (snd \<circ> c_pack pc) p) (md_fields (message_base p)))"
    and pack_size: "fst (c_pack pc p) = length (snd (c_pack pc p))"
    and packed_size: "c_packed_size pc p = length (snd (c_pack pc p))"
    and pack_buffer: "c_pack_to_buffer pc p buffer = (fst (c_pack pc p), buffer @ snd (c_pack pc p))"
    and unpack: "ParseFields rt bs = Some fs \<Longrightarrow> list_all (c_known d) fs \<Longrightarrow> c_flat d \<Longrightarrow>
      c_unpack pc d bs = Some (CMessage d (concat (map (c_members fs) (md_fields d))))"

text \<open>The documented behaviour on the documented wire format.\<close>

definition c_wire_fields :: "ProtobufCMessageDescriptor \<Rightarrow> (string \<times> c_value \<times> bytes list) list \<Rightarrow> bytes" where
  "c_wire_fields d pms =
     concat (map (\<lambda>f. case map_of pms (fd_offset f) of
                        None \<Rightarrow> []
                      | Some (v, subs) \<Rightarrow> c_value_bytes pb_wire_format (fd_id f) (c_count (map (\<lambda>(k, v, subs). (k, v)) pms) f) v subs)
       (md_fields d))"

primrec c_wire_pack :: "protobuf_c_message \<Rightarrow> bytes" and c_packed :: "c_value \<Rightarrow> c_value \<times> bytes list" where
  "c_wire_pack (CMessage d ms) = c_wire_fields d (map (map_prod id c_packed) ms)"
| "c_packed (CString s) = (CString s, [])"
| "c_packed (CInt32 v) = (CInt32 v, [])"
| "c_packed (CInt64 v) = (CInt64 v, [])"
| "c_packed (CDouble v) = (CDouble v, [])"
| "c_packed (CSize n) = (CSize n, [])"
| "c_packed (CStrings ss) = (CStrings ss, [])"
| "c_packed (CMessages ms) = (CMessages ms, map c_wire_pack ms)"

definition c_wire_unpack :: "ProtobufCMessageDescriptor \<Rightarrow> bytes \<Rightarrow> protobuf_c_message option" where
  "c_wire_unpack d bs =
     map_option (\<lambda>fs. CMessage d (concat (map (c_members fs) (md_fields d)))) (parse_fields bs)"

definition c_wire :: protobuf_c where
  "c_wire = \<lparr>c_packed_size = length \<circ> c_wire_pack, c_pack = (\<lambda>p. (length (c_wire_pack p), c_wire_pack p)),
     c_pack_to_buffer = (\<lambda>p buffer. (length (c_wire_pack p), buffer @ c_wire_pack p)), c_unpack = c_wire_unpack\<rparr>"

lemma c_packed_eq: "c_packed v = (v, c_sub_bytes c_wire_pack v)"
  by (cases v) simp_all

lemma c_wire_pack_fields:
  "c_wire_pack p = concat (map (c_field_bytes pb_wire_format c_wire_pack p) (md_fields (message_base p)))"
proof (cases p)
  case (CMessage d ms)
  have "map_of (map (map_prod id c_packed) ms) k = map_option (\<lambda>v. (v, c_sub_bytes c_wire_pack v)) (map_of ms k)" for k
    by (induction ms) (auto simp: c_packed_eq)
  moreover have "map (\<lambda>(k, v, subs). (k, v)) (map (map_prod id c_packed) ms) = ms"
    by (induction ms) (auto simp: c_packed_eq)
  ultimately have "(case map_of (map (map_prod id c_packed) ms) (fd_offset f) of
        None \<Rightarrow> []
      | Some (v, subs) \<Rightarrow> c_value_bytes pb_wire_format (fd_id f) (c_count (map (\<lambda>(k, v, subs). (k, v)) (map (map_prod id c_packed) ms)) f) v subs) =
      c_field_bytes pb_wire_format c_wire_pack p f" for f
    by (simp add: c_field_bytes_def member_def CMessage split: option.splits)
  then show ?thesis by (simp only: CMessage c_wire_pack.simps c_wire_fields_def protobuf_c_message.sel)
qed

interpretation c_lib: protobuf_c_library pb_wire_format c_wire
proof unfold_locales
  fix p
  show "snd (c_pack c_wire p) = concat (map (c_field_bytes pb_wire_format (snd \<circ> c_pack c_wire) p) (md_fields (message_base p)))"
    using c_wire_pack_fields [of p] by (simp add: c_wire_def o_def)
qed (simp_all add: c_wire_def c_wire_unpack_def pb_wire_format_def)

subsection \<open>Both languages on one wire\<close>

text \<open>The C++ messages with the values of a C struct, built as the C++ code builds them.\<close>

definition cxx_header :: "Broker__MessageHeader \<Rightarrow> MessageHeader" where
  "cxx_header m =
     set_reply_topic (bmh_reply_topic m) (set_sequence_count (bmh_sequence_count m) (set_sequence_number (bmh_sequence_number m)
       (set_transfer_id (bmh_transfer_id m) (set_message_uuid (bmh_message_uuid m) (set_origin_broker_id (bmh_origin_broker_id m)
         (set_topic (bmh_topic m) (set_sender_id (bmh_sender_id m) (set_handler_key (bmh_handler_key m) MessageHeader_new))))))))"

definition cxx_client :: "Broker__ClientInfo \<Rightarrow> ClientInfo \<Rightarrow> ClientInfo" where
  "cxx_client m ci = fold add_subscriptions (bci_subscriptions m) (set_id (bci_id m) ci)"

definition cxx_stats :: "Broker__SystemStats \<Rightarrow> SystemStats" where
  "cxx_stats m =
     fold (\<lambda>c. add_connected_clients (cxx_client c)) (bss_connected_clients m)
       (set_uptime_sec (bss_uptime_sec m) (set_total_msgs (bss_total_msgs m) (set_kb_per_sec (bss_kb_per_sec m)
         (set_msgs_per_sec (bss_msgs_per_sec m) (set_peers_count (bss_peers_count m) (set_clients_count (bss_clients_count m)
           (set_broker_id (bss_broker_id m) SystemStats_new)))))))"

definition cxx_writes :: "bytes \<Rightarrow> (nat \<times> bytes) option \<Rightarrow> nat option \<Rightarrow> bool" where
  "cxx_writes bs packed sz \<longleftrightarrow> packed = Some (length bs, bs) \<and> sz = Some (length bs)"

lemmas c_table_defs = broker__message_header__descriptor_def broker__message_header__field_descriptors_def
  broker__client_info__descriptor_def broker__client_info__field_descriptors_def
  broker__system_stats__descriptor_def broker__system_stats__field_descriptors_def

lemmas c_pack_defs = c_field_bytes_def c_well_typed_def member_def c_count_def

lemma fold_add_subscriptions_eq: "fold add_subscriptions ts m = m\<lparr>ci_subscriptions := ci_subscriptions m @ ts\<rparr>"
  by (induction ts arbitrary: m) (simp_all add: add_subscriptions_def)

lemma fold_add_clients_eq:
  "fold (\<lambda>c. add_connected_clients (f c)) cs m = m\<lparr>ss_connected_clients := ss_connected_clients m @ map (\<lambda>c. f c ClientInfo_new) cs\<rparr>"
  by (induction cs arbitrary: m) (simp_all add: add_connected_clients_def)

lemma c_header_bytes:
  assumes "protobuf_c_library rt pc" "bmh_base m = broker__message_header__descriptor"
  shows "snd (c_pack pc (Broker__MessageHeader_cast m)) = MessageHeader_InternalSerialize rt (cxx_header m)"
  using assms(2)
  by (simp add: protobuf_c_library.pack [OF assms(1)] Broker__MessageHeader_cast_def c_pack_defs c_table_defs
      MessageHeader_InternalSerialize_def cxx_header_def header_accessor_defs MessageHeader_new_def serialize_string_def serialize_int32_def)

lemma c_client_bytes:
  assumes "protobuf_c_library rt pc" "bci_base m = broker__client_info__descriptor"
  shows "snd (c_pack pc (Broker__ClientInfo_cast m)) = ClientInfo_InternalSerialize rt (cxx_client m ClientInfo_new)"
  using assms(2)
  by (simp add: protobuf_c_library.pack [OF assms(1)] Broker__ClientInfo_cast_def c_pack_defs c_table_defs
      ClientInfo_InternalSerialize_def cxx_client_def fold_add_subscriptions_eq set_id_def ClientInfo_new_def serialize_string_def)

lemma c_stats_bytes:
  assumes "protobuf_c_library rt pc" "bss_base m = broker__system_stats__descriptor" "bss_kb_per_sec m \<noteq> negative_zero"
    and "list_all (\<lambda>c. bci_base c = broker__client_info__descriptor) (bss_connected_clients m)"
  shows "snd (c_pack pc (Broker__SystemStats_cast m)) = SystemStats_InternalSerialize rt (cxx_stats m)"
proof -
  have clients: "map (\<lambda>c. WriteMessage rt 8 (snd (c_pack pc (Broker__ClientInfo_cast c)))) (bss_connected_clients m) =
      map (\<lambda>c. WriteMessage rt 8 (ClientInfo_InternalSerialize rt (cxx_client c ClientInfo_new))) (bss_connected_clients m)"
    using assms(4) c_client_bytes [OF assms(1)] by (simp add: list_all_iff)
  show ?thesis using assms(2,3)
    by (simp add: protobuf_c_library.pack [OF assms(1)] Broker__SystemStats_cast_def c_pack_defs c_table_defs
        SystemStats_InternalSerialize_def cxx_stats_def fold_add_clients_eq SystemStats_new_def
        set_uptime_sec_def set_total_msgs_def set_kb_per_sec_def set_msgs_per_sec_def set_peers_count_def set_clients_count_def set_broker_id_def
        serialize_string_def serialize_int32_def serialize_int64_def serialize_double_def o_def clients)
qed

lemma c_pack_written:
  assumes "protobuf_c_library rt pc" "snd (c_pack pc p) = bs"
  shows "cxx_writes bs (Some (c_pack pc p)) (Some (c_packed_size pc p))" "snd (c_pack_to_buffer pc p buf) = buf @ bs"
  using assms(2) protobuf_c_library.pack_size [OF assms(1), of p]
  by (auto simp: cxx_writes_def protobuf_c_library.packed_size [OF assms(1)] protobuf_c_library.pack_buffer [OF assms(1)] intro: prod_eqI)

text \<open>
  C27. What the C functions pack is, byte for byte and in length, what the C++ classes serialize for the same values: for the
  message header, for a client's entry and for the statistics, except that C leaves out a rate of negative zero.
  Appending to a buffer appends these bytes. A message whose base was not set by its \<open>init\<close> fails the assertion.
\<close>

theorem c_binding_writes:
  assumes "protobuf_c_library rt pc"
  shows "(if bmh_base h = broker__message_header__descriptor
      then cxx_writes (MessageHeader_InternalSerialize rt (cxx_header h)) (broker__message_header__pack pc h) (broker__message_header__get_packed_size pc h) \<and>
        map_option snd (broker__message_header__pack_to_buffer pc h buf) = Some (buf @ MessageHeader_InternalSerialize rt (cxx_header h))
      else broker__message_header__pack pc h = None) \<and>
    (if bci_base i = broker__client_info__descriptor
      then cxx_writes (ClientInfo_InternalSerialize rt (cxx_client i ClientInfo_new)) (broker__client_info__pack pc i) (broker__client_info__get_packed_size pc i)
      else broker__client_info__pack pc i = None) \<and>
    (bss_base s = broker__system_stats__descriptor \<and> bss_kb_per_sec s \<noteq> negative_zero \<and>
        list_all (\<lambda>c. bci_base c = broker__client_info__descriptor) (bss_connected_clients s) \<longrightarrow>
      cxx_writes (SystemStats_InternalSerialize rt (cxx_stats s)) (broker__system_stats__pack pc s) (broker__system_stats__get_packed_size pc s))"
  using c_pack_written [OF assms c_header_bytes [OF assms], of h] c_pack_written [OF assms c_client_bytes [OF assms], of i]
    c_pack_written [OF assms c_stats_bytes [OF assms], of s]
  by (simp add: broker__message_header__pack_def broker__message_header__get_packed_size_def broker__message_header__pack_to_buffer_def
      broker__client_info__pack_def broker__client_info__get_packed_size_def
      broker__system_stats__pack_def broker__system_stats__get_packed_size_def)

text \<open>Witness for C27: a header with a topic, an entry with a subscription, and statistics with that entry.\<close>

definition c_header_example :: Broker__MessageHeader where
  "c_header_example = BROKER__MESSAGE_HEADER__INIT\<lparr>bmh_topic := ''t'', bmh_sequence_number := 7\<rparr>"

definition c_client_example :: Broker__ClientInfo where
  "c_client_example = BROKER__CLIENT_INFO__INIT\<lparr>bci_id := ''a'', bci_subscriptions := [''t'']\<rparr>"

definition c_stats_example :: Broker__SystemStats where
  "c_stats_example = BROKER__SYSTEM_STATS__INIT\<lparr>bss_total_msgs := 3, bss_connected_clients := [c_client_example]\<rparr>"

theorem c_binding_writes_witness:
  "map_option snd (broker__message_header__pack c_wire c_header_example) =
     Some (MessageHeader_InternalSerialize pb_wire_format (cxx_header c_header_example)) \<and>
   map_option snd (broker__system_stats__pack c_wire c_stats_example) =
     Some (SystemStats_InternalSerialize pb_wire_format (cxx_stats c_stats_example))"
proof -
  have "bmh_base c_header_example = broker__message_header__descriptor" "bss_base c_stats_example = broker__system_stats__descriptor"
    "bss_kb_per_sec c_stats_example \<noteq> negative_zero" "bss_connected_clients c_stats_example = [c_client_example]"
    "bci_base c_client_example = broker__client_info__descriptor"
    by (simp_all add: c_header_example_def c_stats_example_def c_client_example_def BROKER__MESSAGE_HEADER__INIT_def
        BROKER__SYSTEM_STATS__INIT_def BROKER__CLIENT_INFO__INIT_def negative_zero_def)
  then show ?thesis
    using c_binding_writes [OF c_lib.protobuf_c_library_axioms, of c_header_example "[]" c_client_example c_stats_example]
    by (simp add: cxx_writes_def)
qed

text \<open>The C struct with the values of a C++ header or entry.\<close>

definition c_header :: "MessageHeader \<Rightarrow> Broker__MessageHeader" where
  "c_header h = \<lparr>bmh_base = broker__message_header__descriptor, bmh_handler_key = handler_key h, bmh_sender_id = sender_id h,
     bmh_topic = topic h, bmh_origin_broker_id = origin_broker_id h, bmh_message_uuid = message_uuid h,
     bmh_transfer_id = transfer_id h, bmh_sequence_number = sequence_number h, bmh_sequence_count = sequence_count h,
     bmh_reply_topic = reply_topic h\<rparr>"

definition c_client :: "ClientInfo \<Rightarrow> Broker__ClientInfo" where
  "c_client i = \<lparr>bci_base = broker__client_info__descriptor, bci_id = ClientInfo_id i, bci_subscriptions = subscriptions i\<rparr>"

lemma occurrences_simps [simp]:
  "occurrences n [] = []" "occurrences n (fs @ gs) = occurrences n fs @ occurrences n gs"
  "occurrences n (string_field k s) = (if n = k \<and> s \<noteq> [] then [LengthDelimited s] else [])"
  "occurrences n (int32_field k v) = (if n = k \<and> v \<noteq> 0 then [Varint (scast v)] else [])"
  "occurrences n (map (\<lambda>s. (k, LengthDelimited s)) ss) = (if n = k then map LengthDelimited ss else [])"
  by (auto simp: occurrences_def string_field_def int32_field_def filter_map o_def)

lemma c_known_fields [simp]:
  "list_all (c_known d) (string_field k s) = (s = [] \<or> c_known d (k, LengthDelimited s))"
  "list_all (c_known d) (int32_field k v) = (v = 0 \<or> c_known d (k, Varint (scast v)))"
  by (auto simp: string_field_def int32_field_def)

text \<open>
  C28. What the C++ classes serialize, the C functions unpack to a struct with the same values, for a header and for a client's entry
  without unknown fields and with strings that C can hold.
\<close>

theorem c_binding_reads:
  assumes "protobuf_c_library rt pc" "protobuf_runtime rt"
    and "MessageHeader_ok h" "MessageHeader_encodable h" "mh_unknown h = []" "list_all (\<lambda>s. CHR 0x00 \<notin> set s) (MessageHeader_strings h)"
    and "ClientInfo_ok i" "ClientInfo_encodable i" "ci_unknown i = []" "list_all (\<lambda>s. CHR 0x00 \<notin> set s) (ClientInfo_strings i)"
  shows "broker__message_header__unpack pc (MessageHeader_InternalSerialize rt h) = Some (c_header h) \<and>
    broker__client_info__unpack pc (ClientInfo_InternalSerialize rt i) = Some (c_client i)"
proof
  have "list_all (c_known broker__message_header__descriptor) (MessageHeader_fields h)"
    using assms(5,6) by (simp add: MessageHeader_fields_def MessageHeader_strings_def c_known_def c_table_defs)
  moreover have "c_flat broker__message_header__descriptor" by (simp add: c_flat_def c_table_defs)
  ultimately have "c_unpack pc broker__message_header__descriptor (MessageHeader_InternalSerialize rt h) =
      Some (CMessage broker__message_header__descriptor (concat (map (c_members (MessageHeader_fields h)) (md_fields broker__message_header__descriptor))))"
    using protobuf_c_library.unpack [OF assms(1) ParseFields_serialized [OF assms(2-4)]] by blast
  then show "broker__message_header__unpack pc (MessageHeader_InternalSerialize rt h) = Some (c_header h)"
    using assms(5) by (simp add: broker__message_header__unpack_def Broker__MessageHeader_of_def c_header_def member_def c_members_def Let_def
        MessageHeader_fields_def broker__message_header__descriptor_def broker__message_header__field_descriptors_def header_accessor_defs ucast_scast_32)
next
  have "list_all (c_known broker__client_info__descriptor) (ClientInfo_fields i)"
    using assms(9,10) by (auto simp: ClientInfo_fields_def ClientInfo_strings_def c_known_def c_table_defs list_all_iff string_field_def split: if_splits)
  moreover have "c_flat broker__client_info__descriptor" by (simp add: c_flat_def c_table_defs)
  ultimately have "c_unpack pc broker__client_info__descriptor (ClientInfo_InternalSerialize rt i) =
      Some (CMessage broker__client_info__descriptor (concat (map (c_members (ClientInfo_fields i)) (md_fields broker__client_info__descriptor))))"
    using protobuf_c_library.unpack [OF assms(1) ClientInfo_ParseFields [OF assms(2,7,8)]] by blast
  then show "broker__client_info__unpack pc (ClientInfo_InternalSerialize rt i) = Some (c_client i)"
    using assms(9) by (simp add: broker__client_info__unpack_def Broker__ClientInfo_of_def c_client_def member_def c_members_def Let_def
        ClientInfo_fields_def broker__client_info__descriptor_def broker__client_info__field_descriptors_def
        ClientInfo_id_def subscriptions_def o_def)
qed

text \<open>Witness for C28: a header with two text fields and a number, and an entry with one subscription.\<close>

definition client_info_example :: ClientInfo where
  "client_info_example = add_subscriptions ''t'' (set_id ''a'' ClientInfo_new)"

theorem c_binding_reads_witness:
  "broker__message_header__unpack c_wire (MessageHeader_InternalSerialize pb_wire_format header_example) = Some (c_header header_example) \<and>
   map_option bci_subscriptions (broker__client_info__unpack c_wire (ClientInfo_InternalSerialize pb_wire_format client_info_example)) = Some [''t'']"
proof -
  have "mh_unknown header_example = []" "list_all (\<lambda>s. CHR 0x00 \<notin> set s) (MessageHeader_strings header_example)"
    by (simp_all add: header_example_def MessageHeader_strings_def MessageHeader_new_def header_accessor_defs)
  moreover have "ClientInfo_ok client_info_example" "ClientInfo_encodable client_info_example" "ci_unknown client_info_example = []"
      "list_all (\<lambda>s. CHR 0x00 \<notin> set s) (ClientInfo_strings client_info_example)"
    by (simp_all add: client_info_example_def ClientInfo_ok_def ClientInfo_encodable_def ClientInfo_strings_def add_subscriptions_def
        set_id_def ClientInfo_new_def)
  moreover have "subscriptions client_info_example = [''t'']"
    by (simp add: client_info_example_def subscriptions_def add_subscriptions_def set_id_def ClientInfo_new_def)
  ultimately show ?thesis
    using c_binding_reads [OF c_lib.protobuf_c_library_axioms wire.protobuf_runtime_axioms header_example_ok(1,2), of client_info_example]
    by (simp add: c_client_def)
qed

subsection \<open>The lookup tables\<close>

text \<open>
  The two tables a descriptor has for looking a field up. A range starts with a field number and the index of its field and reaches to
  the index where the next range starts; the last entry only marks the end.
\<close>

fun c_range_lookup :: "ProtobufCIntRange list \<Rightarrow> int \<Rightarrow> nat option" where
  "c_range_lookup (r # r' # rs) n =
     (if start_value r \<le> n \<and> n - start_value r < int (orig_index r') - int (orig_index r)
      then Some (orig_index r + nat (n - start_value r)) else c_range_lookup (r' # rs) n)"
| "c_range_lookup _ n = None"

definition c_field_names :: "ProtobufCMessageDescriptor \<Rightarrow> string list" where
  "c_field_names d = map (\<lambda>i. fd_name (md_fields d ! i)) (md_indices_by_name d)"

definition c_tables_ok :: "ProtobufCMessageDescriptor \<Rightarrow> bool" where
  "c_tables_ok d \<longleftrightarrow>
     md_n_fields d = length (md_fields d) \<and> length (md_ranges d) = Suc (md_n_ranges d) \<and>
     sorted_wrt (<) (c_field_names d) \<and> set (md_indices_by_name d) = {..<md_n_fields d} \<and>
     (\<forall>n i. c_range_lookup (md_ranges d) n = Some i \<longleftrightarrow> i < md_n_fields d \<and> int (fd_id (md_fields d ! i)) = n)"

lemmas c_lookup_defs = c_tables_ok_def c_field_names_def
  broker__message_header__field_indices_by_name_def broker__message_header__number_ranges_def
  broker__client_info__field_indices_by_name_def broker__client_info__number_ranges_def
  broker__system_stats__field_indices_by_name_def broker__system_stats__number_ranges_def
  communication__update__descriptor_def communication__update__field_descriptors_def
  communication__update__field_indices_by_name_def communication__update__number_ranges_def

lemma c_tables_okI:
  assumes "md_n_fields d = length (md_fields d)" "length (md_ranges d) = Suc (md_n_ranges d)"
    and "sorted_wrt (<) (c_field_names d)" "set (md_indices_by_name d) = set [0..<md_n_fields d]"
    and found: "list_all (\<lambda>i. c_range_lookup (md_ranges d) (int (fd_id (md_fields d ! i))) = Some i) [0..<md_n_fields d]"
    and only: "\<And>n. c_range_lookup (md_ranges d) n \<noteq> None \<Longrightarrow> n \<in> set (map (int \<circ> fd_id) (md_fields d))"
  shows "c_tables_ok d"
proof -
  have "c_range_lookup (md_ranges d) n = Some i \<longleftrightarrow> i < md_n_fields d \<and> int (fd_id (md_fields d ! i)) = n" for n i
  proof
    assume lookup: "c_range_lookup (md_ranges d) n = Some i"
    then obtain j where "j < length (md_fields d)" "n = int (fd_id (md_fields d ! j))"
      using only [of n] by (auto simp: in_set_conv_nth)
    with found lookup assms(1) show "i < md_n_fields d \<and> int (fd_id (md_fields d ! i)) = n"
      by (auto simp: list_all_iff)
  qed (use found in \<open>auto simp: list_all_iff\<close>)
  with assms(1-4) show ?thesis by (auto simp: c_tables_ok_def)
qed

text \<open>
  The lookup tables of the four descriptors are right: the indices by name list every field once, in the order of the names,
  and looking a number up in the ranges finds a field exactly when it has that number.
\<close>

theorem c_tables_consistent:
  "c_tables_ok broker__message_header__descriptor \<and> c_tables_ok broker__client_info__descriptor \<and>
   c_tables_ok broker__system_stats__descriptor \<and> c_tables_ok communication__update__descriptor"
proof (intro conjI)
  show "c_tables_ok broker__message_header__descriptor"
    by (rule c_tables_okI) (code_simp+, auto simp: c_table_defs c_lookup_defs split: if_splits)
  show "c_tables_ok broker__client_info__descriptor"
    by (rule c_tables_okI) (code_simp+, auto simp: c_table_defs c_lookup_defs split: if_splits)
  show "c_tables_ok broker__system_stats__descriptor"
    by (rule c_tables_okI) (code_simp+, auto simp: c_table_defs c_lookup_defs split: if_splits)
  show "c_tables_ok communication__update__descriptor"
    by (rule c_tables_okI) (code_simp+, auto simp: c_table_defs c_lookup_defs split: if_splits)
qed

end
