(* ===== verification/Text_Output.thy ===== *)
theory Text_Output
  imports Cxx_String Uuid_Helper "HOL-Library.Signed_Division"
begin

text \<open>
  Text written through \<open>std::ostream\<close>: the log lines of \<^verbatim>\<open>common/logger.h\<close>, the time stamps of
  \<^verbatim>\<open>inspector/inspectorworker.cpp\<close> and \<^verbatim>\<open>inspector/main.cpp\<close>, and the hex dump of \<^verbatim>\<open>inspector/hexutils.h\<close>. The wall
  clock is an argument, in nanoseconds since the epoch, and so is the C library's \<open>localtime\<close>, of which the code
  uses hour, minute and second. The theorem of this theory says that a hex dump determines the bytes it shows.
\<close>

subsection \<open>Stream formatting\<close>

text \<open>\<open>setfill('0') << setw(w)\<close>, and an unsigned number in base 16.\<close>

definition setw0 :: "nat \<Rightarrow> string \<Rightarrow> string" where
  "setw0 w s = replicate (w - length s) (CHR ''0'') @ s"

fun to_hex :: "nat \<Rightarrow> string" where
  "to_hex n = (if n < 16 then [hex_chars ! n] else to_hex (n div 16) @ [hex_chars ! (n mod 16)])"

declare to_hex.simps [simp del]

definition int_text :: "int \<Rightarrow> string" where
  "int_text i = (if i < 0 then CHR ''-'' # to_string (nat (- i)) else to_string (nat i))"

subsection \<open>Time stamps\<close>

type_synonym localtime = "int \<Rightarrow> nat \<times> nat \<times> nat"

definition to_time_t :: "int \<Rightarrow> int" where
  "to_time_t now = now sdiv 10 ^ 9"

definition millis :: "int \<Rightarrow> int" where
  "millis now = (now sdiv 10 ^ 6) smod 1000"

definition put_time :: "localtime \<Rightarrow> int \<Rightarrow> string" where
  "put_time lt t =
     (case lt t of (h, m, s) \<Rightarrow>
        setw0 2 (to_string h) @ '':'' @ setw0 2 (to_string m) @ '':'' @ setw0 2 (to_string s))"

definition getCurrentTimestamp :: "localtime \<Rightarrow> int \<Rightarrow> string" where
  "getCurrentTimestamp lt now = put_time lt (to_time_t now) @ ''.'' @ setw0 3 (int_text (millis now))"

definition getCurrentTime :: "localtime \<Rightarrow> int \<Rightarrow> string" where
  "getCurrentTime lt now = put_time lt (to_time_t now) @ ''.'' @ int_text (millis now)"

subsection \<open>The logger\<close>

datatype log_level = DEBUG | INFO | WARNING | ERROR

datatype log_stream = cout | cerr

definition log_tag :: "log_level \<Rightarrow> string" where
  "log_tag level =
     (case level of DEBUG \<Rightarrow> ''[DEBUG] '' | INFO \<Rightarrow> ''[INFO]  '' | WARNING \<Rightarrow> ''[WARN]  '' | ERROR \<Rightarrow> ''[ERROR] '')"

definition newline :: char where
  "newline = char_of (10 :: nat)"

definition logInternal :: "localtime \<Rightarrow> int \<Rightarrow> log_level \<Rightarrow> string \<Rightarrow> log_stream \<times> string" where
  "logInternal lt now level msg =
     (if level = ERROR then cerr else cout,
      ''['' @ put_time lt (to_time_t now) @ ''.'' @ setw0 3 (int_text (millis now)) @ ''] '' @ log_tag level @ msg @ [newline])"

subsection \<open>The hex dump\<close>

definition hex_column :: "string \<Rightarrow> nat \<Rightarrow> nat \<Rightarrow> string" where
  "hex_column data i j =
     (if i + j < length data then setw0 2 (to_hex (of_char (data ! (i + j)))) @ '' '' else ''   '')
     @ (if j = 7 then '' '' else [])"

definition ascii_column :: "string \<Rightarrow> nat \<Rightarrow> nat \<Rightarrow> string" where
  "ascii_column data i j =
     (if i + j < length data
      then let c = data ! (i + j); n = (of_char c :: nat) in [if 32 \<le> n \<and> n \<le> 126 then c else CHR ''.'']
      else [])"

definition hexDump_line :: "string \<Rightarrow> nat \<Rightarrow> string" where
  "hexDump_line data i =
     setw0 4 (to_hex i) @ ''  '' @ concat (map (hex_column data i) [0..<16]) @ ''  |''
     @ concat (map (ascii_column data i) [0..<16]) @ ''|'' @ [newline]"

function hexDump_from :: "string \<Rightarrow> nat \<Rightarrow> string" where
  "hexDump_from data i = (if i < length data then hexDump_line data i @ hexDump_from data (i + 16) else [])"
  by pat_completeness auto
termination by (relation "measure (\<lambda>(data, i). length data - i)") auto

declare hexDump_from.simps [simp del]

definition generateHexDump :: "string \<Rightarrow> string" where
  "generateHexDump rawData = hexDump_from rawData 0"

subsection \<open>What a dump shows\<close>

lemma hex_chars_inj: "m < 16 \<Longrightarrow> n < 16 \<Longrightarrow> hex_chars ! m = hex_chars ! n \<longleftrightarrow> m = n"
  by (simp add: nth_eq_iff_index_eq hex_chars_def)

lemma hex_chars_not_space: "n < 16 \<Longrightarrow> hex_chars ! n \<noteq> CHR '' ''"
proof -
  assume "n < 16"
  then have "hex_chars ! n \<in> set hex_chars" by (intro nth_mem) (simp add: hex_chars_def)
  then show ?thesis by (auto simp: hex_chars_def)
qed

lemma hex_byte:
  assumes "n < 256"
  shows "setw0 2 (to_hex n) = [hex_chars ! (n div 16), hex_chars ! (n mod 16)]"
proof (cases "n < 16")
  case True
  then show ?thesis by (simp add: to_hex.simps [of n] setw0_def hex_chars_def)
next
  case False
  moreover have "n div 16 < 16" using assms by simp
  ultimately show ?thesis by (simp add: to_hex.simps [of n] to_hex.simps [of "n div 16"] setw0_def)
qed

lemma hex_column_length: "length (hex_column data i j) = (if j = 7 then 4 else 3)"
  by (simp add: hex_column_def hex_byte)

lemma hex_column_inj:
  assumes "hex_column a i j = hex_column b i j"
  shows "(i + j < length a \<longleftrightarrow> i + j < length b) \<and> (i + j < length a \<longrightarrow> a ! (i + j) = b ! (i + j))"
proof -
  have digits: "of_char c div 16 < (16 :: nat)" "of_char c mod 16 < (16 :: nat)" for c :: char
    using nat_of_char_less_256 [of c] by linarith+
  have byte: "c = d" if "of_char c div 16 = (of_char d div 16 :: nat)" "of_char c mod 16 = (of_char d mod 16 :: nat)" for c d :: char
  proof -
    have "(of_char c :: nat) = of_char c div 16 * 16 + of_char c mod 16" by (rule div_mult_mod_eq [symmetric])
    also have "\<dots> = of_char d" unfolding that by (rule div_mult_mod_eq)
    finally show ?thesis by simp
  qed
  have cell: "c = d" if "setw0 2 (to_hex (of_char c)) = setw0 2 (to_hex (of_char d))" for c d :: char
  proof -
    have "hex_chars ! (of_char c div 16) = hex_chars ! (of_char d div 16)" "hex_chars ! (of_char c mod 16) = hex_chars ! (of_char d mod 16)"
      using that by (simp_all only: hex_byte [OF nat_of_char_less_256] list.inject)
    then show ?thesis by (intro byte) (simp_all only: hex_chars_inj digits)
  qed
  have filled: "hd (setw0 2 (to_hex (of_char c)) @ t) \<noteq> CHR '' ''" for c :: char and t
    using hex_chars_not_space [OF digits(1) [of c]] by (simp only: hex_byte [OF nat_of_char_less_256] append_Cons list.sel not_False_eq_True)
  have "hex_column a i j = hex_column b i j \<longleftrightarrow>
      (if i + j < length a then setw0 2 (to_hex (of_char (a ! (i + j)))) @ '' '' else ''   '') =
      (if i + j < length b then setw0 2 (to_hex (of_char (b ! (i + j)))) @ '' '' else ''   '')"
    by (simp only: hex_column_def append_same_eq)
  then have eq: "(if i + j < length a then setw0 2 (to_hex (of_char (a ! (i + j)))) @ '' '' else ''   '') =
      (if i + j < length b then setw0 2 (to_hex (of_char (b ! (i + j)))) @ '' '' else ''   '')" using assms by blast
  consider "i + j < length a" "i + j < length b" | "i + j < length a" "\<not> i + j < length b"
    | "\<not> i + j < length a" "i + j < length b" | "\<not> i + j < length a" "\<not> i + j < length b" by blast
  then show ?thesis
  proof cases
    case 1
    then have "setw0 2 (to_hex (of_char (a ! (i + j)))) = setw0 2 (to_hex (of_char (b ! (i + j))))"
      using eq by (simp only: if_True append_same_eq)
    from cell [OF this] 1 show ?thesis by blast
  next
    case 2
    then show ?thesis using eq filled [of "a ! (i + j)" "'' ''"] by (simp only: if_True if_False list.sel)
  next
    case 3
    then show ?thesis using eq [symmetric] filled [of "b ! (i + j)" "'' ''"] by (simp only: if_True if_False list.sel)
  qed simp
qed

lemma concat_map_inj:
  assumes "concat (map f xs) @ u = concat (map g xs) @ v" "\<And>x. x \<in> set xs \<Longrightarrow> length (f x) = length (g x)"
  shows "(\<forall>x \<in> set xs. f x = g x) \<and> u = v"
  using assms
proof (induction xs)
  case (Cons x xs)
  from Cons.prems have "f x = g x \<and> concat (map f xs) @ u = concat (map g xs) @ v" by simp
  with Cons.IH Cons.prems(2) show ?case by simp
qed simp

lemma hexDump_from_inj:
  assumes "hexDump_from a i = hexDump_from b i" "i \<le> k"
  shows "(k < length a \<longleftrightarrow> k < length b) \<and> (k < length a \<longrightarrow> a ! k = b ! k)"
  using assms
proof (induction a i rule: hexDump_from.induct)
  case (1 a i)
  have nonempty: "hexDump_line d i \<noteq> []" for d i by (simp add: hexDump_line_def)
  have same: "i < length a \<longleftrightarrow> i < length b"
    using "1.prems"(1) nonempty by (subst (asm) (1 2) hexDump_from.simps) (auto split: if_splits)
  show ?case
  proof (cases "i < length a")
    case False
    then show ?thesis using same "1.prems"(2) by simp
  next
    case True
    let ?rest = "\<lambda>d. ''  |'' @ concat (map (ascii_column d i) [0..<16]) @ ''|'' @ [newline] @ hexDump_from d (i + 16)"
    have "concat (map (hex_column a i) [0..<16]) @ ?rest a = concat (map (hex_column b i) [0..<16]) @ ?rest b"
      using "1.prems"(1) True same by (subst (asm) (1 2) hexDump_from.simps) (simp add: hexDump_line_def)
    from concat_map_inj [OF this] have cols: "\<forall>j \<in> set [0..<16]. hex_column a i j = hex_column b i j" and rest: "?rest a = ?rest b"
      by (simp_all add: hex_column_length)
    have bytes: "(i + j < length a \<longleftrightarrow> i + j < length b) \<and> (i + j < length a \<longrightarrow> a ! (i + j) = b ! (i + j))" if "j < 16" for j
      using cols that by (intro hex_column_inj) simp
    then have "map (ascii_column a i) [0..<16] = map (ascii_column b i) [0..<16]"
      by (intro map_cong) (simp_all add: ascii_column_def)
    with rest have tail: "hexDump_from a (i + 16) = hexDump_from b (i + 16)" by simp
    show ?thesis
    proof (cases "k < i + 16")
      case True
      then show ?thesis using bytes [of "k - i"] "1.prems"(2) by simp
    next
      case False
      then show ?thesis using "1.IH" [OF True tail] by simp
    qed
  qed
qed

lemma hex_chars_no_newline: "n < 16 \<Longrightarrow> newline \<noteq> hex_chars ! n"
proof -
  assume "n < 16"
  then have "hex_chars ! n \<in> set hex_chars" by (intro nth_mem) (simp add: hex_chars_def)
  moreover have "newline \<notin> set hex_chars" by code_simp
  ultimately show ?thesis by metis
qed

lemma to_hex_no_newline: "newline \<notin> set (to_hex n)"
proof (induction n rule: to_hex.induct)
  case (1 n)
  then show ?case using hex_chars_no_newline [of n] hex_chars_no_newline [of "n mod 16"] by (simp add: to_hex.simps [of n])
qed

lemma hexDump_line_newlines: "filter (\<lambda>c. c = newline) (hexDump_line a i) = [newline]"
proof -
  have chars: "newline \<notin> {CHR '' '', CHR ''|'', CHR ''0'', CHR ''.''}" by code_simp
  have setw: "newline \<notin> set (setw0 w (to_hex n))" for w n using to_hex_no_newline chars by (auto simp: setw0_def)
  have cols: "newline \<notin> set (hex_column a i j)" for j using setw chars by (simp add: hex_column_def)
  have "of_char newline = (10 :: nat)" by code_simp
  then have ascii: "newline \<notin> set (ascii_column a i j)" for j using chars by (auto simp: ascii_column_def Let_def)
  have none: "filter (\<lambda>c. c = newline) s = []" if "newline \<notin> set s" for s using that by (auto simp: filter_empty_conv)
  have "filter (\<lambda>c. c = newline) (concat (map f js)) = []" if "\<And>j. newline \<notin> set (f j)" for f :: "nat \<Rightarrow> string" and js
    using that by (intro none) auto
  from this [of "hex_column a i", OF cols] this [of "ascii_column a i", OF ascii] none [OF setw] chars show ?thesis
    unfolding hexDump_line_def filter_append by auto
qed

lemma lines_step:
  fixes n :: nat
  assumes "0 < n"
  shows "Suc ((n - 16 + 15) div 16) = (n + 15) div 16"
proof (cases "16 \<le> n")
  case True
  then obtain m where "n = m + 16" by (metis le_add_diff_inverse2)
  then show ?thesis by simp
next
  case False
  obtain m where "n = Suc m" using assms by (cases n) simp_all
  with False show ?thesis by simp
qed

lemma hexDump_from_newlines: "length (filter (\<lambda>c. c = newline) (hexDump_from a i)) = (length a - i + 15) div 16"
proof (induction a i rule: hexDump_from.induct)
  case (1 a i)
  show ?case
  proof (cases "i < length a")
    case True
    have "length (filter (\<lambda>c. c = newline) (hexDump_from a i)) = Suc ((length a - (i + 16) + 15) div 16)"
      using True 1 [OF True] by (subst hexDump_from.simps) (simp add: hexDump_line_newlines)
    also have "\<dots> = (length a - i + 15) div 16" using lines_step [of "length a - i"] True by simp
    finally show ?thesis .
  qed (simp add: hexDump_from.simps [of a i])
qed

text \<open>
  C31. The hex dump shows all of the payload: two payloads with the same dump are the same, and a dump has one line
  for every sixteen bytes, the last one possibly shorter.
\<close>

theorem hex_dump_faithful:
  "(generateHexDump a = generateHexDump b \<longleftrightarrow> a = b) \<and>
   length (filter (\<lambda>c. c = newline) (generateHexDump a)) = (length a + 15) div 16"
proof
  show "generateHexDump a = generateHexDump b \<longleftrightarrow> a = b"
  proof
    assume "generateHexDump a = generateHexDump b"
    then have same: "(k < length a \<longleftrightarrow> k < length b) \<and> (k < length a \<longrightarrow> a ! k = b ! k)" for k
      using hexDump_from_inj [of a 0 b k] by (simp add: generateHexDump_def)
    then have "length a = length b" using same [of "length a", THEN conjunct1] same [of "length b", THEN conjunct1] by linarith
    then show "a = b" using same by (intro nth_equalityI) simp_all
  qed simp
  show "length (filter (\<lambda>c. c = newline) (generateHexDump a)) = (length a + 15) div 16"
    by (simp add: generateHexDump_def hexDump_from_newlines)
qed

end
