(* ===== verification/Inspector.thy ===== *)
theory Inspector
  imports Text_Output Broker_Properties
begin

text \<open>
  The traffic inspector (\<open>inspector/\<close>): the thread that reads the broker's inspector socket, the table of packets, its
  filter, the protobuf tree and the main window's handlers.

  Qt is not part of the repository. Of it the code uses \<open>QString\<close>, here the type \<open>'q\<close> with the operations of the record
  \<open>qt_api\<close>, and widgets, whose contents are fields of the window. Protobuf reflection presents a message as a tree of fields
  (\<open>pb_message\<close>); what reads it off a message is the record \<open>reflection_api\<close>. Selected rows, the clock and random draws are arguments
  of the handlers. Layout, scrolling and colours of widgets other than the table's are left out.
\<close>

subsection \<open>Qt and reflection\<close>

record 'q qt_api =
  fromStdString :: "string \<Rightarrow> 'q"
  q_isEmpty :: "'q \<Rightarrow> bool"
  q_toLower :: "'q \<Rightarrow> 'q"
  q_contains :: "'q \<Rightarrow> 'q \<Rightarrow> bool"
  q_append :: "'q \<Rightarrow> 'q \<Rightarrow> 'q"
  q_number :: "int \<Rightarrow> 'q"
  q_number_f :: "64 word \<Rightarrow> nat \<Rightarrow> 'q"
  q_arg :: "'q \<Rightarrow> 'q \<Rightarrow> 'q"
  q_arg_number :: "'q \<Rightarrow> int \<Rightarrow> 'q"
  q_arg_f :: "'q \<Rightarrow> 64 word \<Rightarrow> nat \<Rightarrow> 'q"
  q_colour_name :: "nat \<times> nat \<times> nat \<times> nat \<Rightarrow> 'q"

text \<open>A field's values are messages, or scalars in the text format of \<open>TextFormat::PrintFieldValueToString\<close>.\<close>

datatype pb_message = PbMessage (pb_type_name: string) (pb_fields: "pb_field list")
  and pb_field = PbField (pf_name: string) (pf_repeated: bool) (pf_present: bool) (pf_content: pb_content)
  and pb_content = MessageValues "pb_message list" | ScalarValues "string list"

record reflection_api =
  reflect_header :: "MessageHeader \<Rightarrow> pb_message"
  FindMessageTypeByName :: "string \<Rightarrow> bool"
  GetPrototype :: "string \<Rightarrow> bool"
  parse_as :: "string \<Rightarrow> bytes \<Rightarrow> pb_message option"

subsection \<open>Packets and the worker thread\<close>

record InspectorPacket =
  ip_timestamp :: string
  ip_senderId :: string
  ip_key :: string
  ip_topic :: string
  ip_sizeBytes :: "64 word"
  ip_header :: MessageHeader
  ip_payload :: string

definition make_packet :: "pb_runtime \<Rightarrow> localtime \<Rightarrow> int \<Rightarrow> Envelope \<Rightarrow> InspectorPacket" where
  "make_packet rt lt now env =
     \<lparr>ip_timestamp = getCurrentTimestamp lt now, ip_senderId = sender_id (header env), ip_key = handler_key (header env),
      ip_topic = topic (header env),
      ip_sizeBytes = of_nat (MessageHeader_ByteSizeLong rt (header env)) + of_nat (length (payload env)),
      ip_header = header env, ip_payload = payload env\<rparr>"

text \<open>One iteration of \<open>InspectorWorker::run\<close>: the packet emitted, if any. An exception of the receive ends the process.\<close>

definition InspectorWorker_iteration ::
    "pb_runtime \<Rightarrow> 's zmq_api \<Rightarrow> localtime \<Rightarrow> int \<Rightarrow> 's \<Rightarrow> ((int + InspectorPacket option) \<times> 's) option" where
  "InspectorWorker_iteration rt api lt now s =
     (case wire_recv rt api True Envelope_new s of
        None \<Rightarrow> None
      | Some (Inl e, s') \<Rightarrow> Some (Inl e, s')
      | Some (Inr None, s') \<Rightarrow> Some (Inr None, s')
      | Some (Inr (Some env), s') \<Rightarrow> Some (Inr (Some (make_packet rt lt now env)), s'))"

text \<open>The loop: one clock reading for every time \<open>m_running\<close> is found set. The packets are emitted in order.\<close>

fun InspectorWorker_run ::
    "pb_runtime \<Rightarrow> 's zmq_api \<Rightarrow> localtime \<Rightarrow> int list \<Rightarrow> 's \<Rightarrow> (InspectorPacket list \<times> int option \<times> 's) option" where
  "InspectorWorker_run rt api lt [] s = Some ([], None, s)"
| "InspectorWorker_run rt api lt (now # nows) s =
     (case InspectorWorker_iteration rt api lt now s of
        None \<Rightarrow> None
      | Some (Inl e, s') \<Rightarrow> Some ([], Some e, s')
      | Some (Inr p, s') \<Rightarrow>
          map_option (\<lambda>(ps, r). ((case p of None \<Rightarrow> ps | Some q \<Rightarrow> q # ps), r)) (InspectorWorker_run rt api lt nows s'))"

subsection \<open>The table\<close>

datatype item_role = DisplayRole | TextAlignmentRole | BackgroundRole | OtherRole

datatype orientation = Horizontal | Vertical

datatype 'q QVariant = Invalid | VString 'q | VInt int | VColor "nat \<times> nat \<times> nat \<times> nat"

definition QVariant_toString :: "'q qt_api \<Rightarrow> 'q QVariant \<Rightarrow> 'q" where
  "QVariant_toString qt v =
     (case v of Invalid \<Rightarrow> fromStdString qt [] | VString q \<Rightarrow> q | VInt i \<Rightarrow> q_number qt i | VColor c \<Rightarrow> q_colour_name qt c)"

definition formatByteSize :: "'q qt_api \<Rightarrow> 64 word \<Rightarrow> 'q" where
  "formatByteSize qt bytes =
     (if bytes < 1024 then q_append qt (q_number qt (uint bytes)) (fromStdString qt '' B'')
      else q_append qt (q_number_f qt (double_div_1024 (double_of_uint64 bytes)) 2) (fromStdString qt '' KB''))"

definition rowCount :: "InspectorPacket list \<Rightarrow> nat" where
  "rowCount history = length history"

definition columnCount :: nat where
  "columnCount = 6"

text \<open>An array access past the end has no value.\<close>

definition headerData :: "'q qt_api \<Rightarrow> nat \<Rightarrow> orientation \<Rightarrow> item_role \<Rightarrow> 'q QVariant option" where
  "headerData qt sect orient role =
     (if role \<noteq> DisplayRole \<or> orient \<noteq> Horizontal then Some Invalid
      else let headers = [''Time'', ''Sender'', ''Key'', ''Topic'', ''Msg size'', ''Payload size''] in
        if sect < length headers then Some (VString (fromStdString qt (headers ! sect))) else None)"

text \<open>\<open>QAbstractTableModel::index\<close>: invalid outside the table.\<close>

definition table_index :: "InspectorPacket list \<Rightarrow> nat \<Rightarrow> nat \<Rightarrow> (nat \<times> nat) option" where
  "table_index history r c = (if r < rowCount history \<and> c < columnCount then Some (r, c) else None)"

definition topic_text :: "'q qt_api \<Rightarrow> string \<Rightarrow> 'q" where
  "topic_text qt tpc =
     (let t = fromStdString qt tpc in if q_isEmpty qt t then fromStdString qt ''[Empty]'' else t)"

definition row_colour :: "string \<Rightarrow> 'q QVariant" where
  "row_colour key =
     (if key = Keys_CONNECT then VColor (0, 128, 0, 100)
      else if key = Keys_DISCONNECT then VColor (128, 0, 0, 100)
      else if key = Keys_SUBSCRIBE then VColor (0, 0, 128, 100)
      else if key = Keys_UNSUBSCRIBE then VColor (0, 128, 128, 100)
      else if key = Keys_SYS_STATS then VColor (128, 128, 0, 100)
      else if isSystemPacket key then VColor (50, 50, 50, 100)
      else Invalid)"

definition table_data :: "'q qt_api \<Rightarrow> InspectorPacket list \<Rightarrow> (nat \<times> nat) option \<Rightarrow> item_role \<Rightarrow> 'q QVariant" where
  "table_data qt history index role =
     (case index of
        None \<Rightarrow> Invalid
      | Some (r, c) \<Rightarrow>
          if r \<ge> length history then Invalid
          else let packet = history ! r in
            if role = DisplayRole then
              (if c = 0 then VString (fromStdString qt (ip_timestamp packet))
               else if c = 1 then VString (fromStdString qt (ip_senderId packet))
               else if c = 2 then VString (fromStdString qt (ip_key packet))
               else if c = 3 then VString (topic_text qt (ip_topic packet))
               else if c = 4 then VString (formatByteSize qt (ip_sizeBytes packet))
               else if c = 5 then VString (formatByteSize qt (of_nat (length (ip_payload packet))))
               else Invalid)
            else if role = TextAlignmentRole \<and> (c = 4 \<or> c = 5) then VInt 130
            else if role = BackgroundRole then row_colour (ip_key packet)
            else Invalid)"

subsection \<open>The filter\<close>

record 'q PacketFilterProxyModel =
  allowedTopics :: "'q set"
  searchText :: 'q

definition PacketFilterProxyModel_new :: "'q qt_api \<Rightarrow> 'q PacketFilterProxyModel" where
  "PacketFilterProxyModel_new qt = \<lparr>allowedTopics = {}, searchText = fromStdString qt []\<rparr>"

definition updateFilters :: "'q qt_api \<Rightarrow> 'q \<Rightarrow> 'q set \<Rightarrow> 'q PacketFilterProxyModel \<Rightarrow> 'q PacketFilterProxyModel" where
  "updateFilters qt text topics proxy = proxy\<lparr>searchText := q_toLower qt text, allowedTopics := topics\<rparr>"

definition filterAcceptsRow :: "'q qt_api \<Rightarrow> InspectorPacket list \<Rightarrow> 'q PacketFilterProxyModel \<Rightarrow> nat \<Rightarrow> bool" where
  "filterAcceptsRow qt history proxy sourceRow =
     (let cell = (\<lambda>c. QVariant_toString qt (table_data qt history (table_index history sourceRow c) DisplayRole));
          tpc = cell 3
      in if tpc \<notin> allowedTopics proxy then False
         else if q_isEmpty qt (searchText proxy) then True
         else let sender = q_toLower qt (cell 1);
                  key = q_toLower qt (cell 2)
              in q_contains qt sender (searchText proxy) \<or> q_contains qt key (searchText proxy)
                 \<or> q_contains qt (q_toLower qt tpc) (searchText proxy))"

subsection \<open>The protobuf tree\<close>

datatype 'q tree_item = TreeItem (text0: 'q) (text1: 'q) (children: "'q tree_item list")

definition q_lit :: "'q qt_api \<Rightarrow> string \<Rightarrow> 'q" where
  "q_lit qt s = fromStdString qt s"

text \<open>The printed value, without the newline at its end.\<close>

definition value_text :: "string \<Rightarrow> string" where
  "value_text s = (if s \<noteq> [] \<and> last s = newline then butlast s else s)"

definition items_text :: "'q qt_api \<Rightarrow> 'a list \<Rightarrow> 'q" where
  "items_text qt xs = q_arg_number qt (q_lit qt ''[%1 items]'') (int (length xs))"

definition index_text :: "'q qt_api \<Rightarrow> nat \<Rightarrow> 'q" where
  "index_text qt j = q_arg_number qt (q_lit qt ''[%1]'') (int j)"

definition message_items :: "'q qt_api \<Rightarrow> 'q tree_item list list \<Rightarrow> 'q tree_item list" where
  "message_items qt kids = map (\<lambda>(j, ks). TreeItem (index_text qt j) (q_lit qt []) ks) (enumerate 0 kids)"

definition scalar_items :: "'q qt_api \<Rightarrow> string list \<Rightarrow> 'q tree_item list" where
  "scalar_items qt vs = map (\<lambda>(j, v). TreeItem (index_text qt j) (fromStdString qt (value_text v)) []) (enumerate 0 vs)"

fun populateProtobufTree :: "'q qt_api \<Rightarrow> pb_message \<Rightarrow> 'q tree_item list"
  and populate_field :: "'q qt_api \<Rightarrow> pb_field \<Rightarrow> 'q tree_item list"
  and populate_content :: "'q qt_api \<Rightarrow> bool \<Rightarrow> pb_content \<Rightarrow> 'q \<times> 'q tree_item list" where
  "populateProtobufTree qt (PbMessage n fs) = concat (map (populate_field qt) fs)"
| "populate_field qt (PbField name rep present content) =
     (if \<not> rep \<and> \<not> present then []
      else case populate_content qt rep content of (t, kids) \<Rightarrow> [TreeItem (fromStdString qt name) t kids])"
| "populate_content qt rep (MessageValues ms) =
     (let kids = map (populateProtobufTree qt) ms in
      if rep then (items_text qt ms, message_items qt kids)
      else (q_lit qt ''{...}'', case kids of [] \<Rightarrow> [] | k # _ \<Rightarrow> k))"
| "populate_content qt rep (ScalarValues vs) =
     (if rep then (items_text qt vs, scalar_items qt vs)
      else (fromStdString qt (case vs of [] \<Rightarrow> [] | v # _ \<Rightarrow> value_text v), []))"

definition type_name :: "string \<Rightarrow> string" where
  "type_name typeUrl = (case rfind_char (CHR ''/'') typeUrl of None \<Rightarrow> typeUrl | Some i \<Rightarrow> drop (i + 1) typeUrl)"

definition dynamicallyUnpack :: "any_runtime \<Rightarrow> reflection_api \<Rightarrow> Any \<Rightarrow> pb_message option" where
  "dynamicallyUnpack ar rf any =
     (let typeName = type_name (type_url any) in
      if \<not> FindMessageTypeByName rf typeName then None
      else if \<not> GetPrototype rf typeName then None
      else if Any_Is ar typeName any then parse_as rf typeName (any_value any)
      else None)"

definition drawEnvelopeAndPayload :: "'q qt_api \<Rightarrow> any_runtime \<Rightarrow> reflection_api \<Rightarrow> MessageHeader \<Rightarrow> string \<Rightarrow> 'q tree_item list" where
  "drawEnvelopeAndPayload qt ar rf hdr body =
     (let envelopeRoot = TreeItem (q_lit qt ''Message Header'') (q_lit qt []) (populateProtobufTree qt (reflect_header rf hdr));
          raw = [envelopeRoot, TreeItem (q_lit qt ''Raw Payload'') (q_arg_number qt (q_lit qt ''[%1 bytes]'') (int (length body))) []]
      in if body = [] then [envelopeRoot]
         else case Any_ParseFromString ar body of
             None \<Rightarrow> raw
           | Some any \<Rightarrow>
               if starts_with ''type.googleapis.com/'' (type_url any) then
                 (case dynamicallyUnpack ar rf any of
                    Some msg \<Rightarrow> [envelopeRoot, TreeItem (fromStdString qt (pb_type_name msg)) (q_lit qt []) (populateProtobufTree qt msg)]
                  | None \<Rightarrow> [envelopeRoot, TreeItem (q_lit qt ''[Unknown Protobuf Schema]'') (q_lit qt ''Link .pb.cc file to view'') []])
               else raw)"

subsection \<open>The main window\<close>

definition MaxPacketHistory :: nat where
  "MaxPacketHistory = 100000"

definition TrimChunk :: nat where
  "TrimChunk = 10000"

record 'q stats_labels =
  m_pBrokerIdLabel :: 'q
  m_pUptimeLabel :: 'q
  m_pClientsLabel :: 'q
  m_pPeersLabel :: 'q
  m_pMsgsSecLabel :: 'q
  m_pKbSecLabel :: 'q
  m_pTotalMsgsLabel :: 'q

record 'q MainWindow =
  m_packetHistory :: "InspectorPacket list"
  m_knownTopics :: "'q set"
  m_pTopicMenu :: "('q \<times> bool) list"
  m_pFilterBar :: 'q
  m_pProxyModel :: "'q PacketFilterProxyModel"
  m_pStats :: "'q stats_labels"
  m_pHexDump :: 'q
  m_pProtoTree :: "'q tree_item list"
  m_pInjector :: ZmqWorker
  m_pWorker_running :: bool

definition setupSysStatsView :: "'q qt_api \<Rightarrow> 'q stats_labels" where
  "setupSysStatsView qt =
     \<lparr>m_pBrokerIdLabel = q_lit qt ''Broker ID: --'', m_pUptimeLabel = q_lit qt ''Uptime: -- s'',
      m_pClientsLabel = q_lit qt ''Clients: 0'', m_pPeersLabel = q_lit qt ''Peers: 0'',
      m_pMsgsSecLabel = q_lit qt ''Msgs/sec: 0'', m_pKbSecLabel = q_lit qt ''KB/sec: 0.00'',
      m_pTotalMsgsLabel = q_lit qt ''Total Msgs: 0''\<rparr>"

definition injector_config :: ConnectionConfig where
  "injector_config = ConnectionConfig_default\<lparr>cfg_address := ''tcp://localhost:5555'', cfg_clientId := ''Inspector-Replay''\<rparr>"

definition MainWindow_new :: "'q qt_api \<Rightarrow> 'q MainWindow" where
  "MainWindow_new qt =
     \<lparr>m_packetHistory = [], m_knownTopics = {}, m_pTopicMenu = [], m_pFilterBar = q_lit qt [],
      m_pProxyModel = PacketFilterProxyModel_new qt, m_pStats = setupSysStatsView qt, m_pHexDump = q_lit qt [], m_pProtoTree = [],
      m_pInjector = ZmqWorker_start (ZmqWorker_new injector_config), m_pWorker_running = True\<rparr>"

definition MainWindow_delete :: "'q MainWindow \<Rightarrow> 'q MainWindow" where
  "MainWindow_delete w = w\<lparr>m_pWorker_running := False, m_pInjector := ZmqWorker_stop (m_pInjector w)\<rparr>"

definition applyFilters :: "'q qt_api \<Rightarrow> 'q MainWindow \<Rightarrow> 'q MainWindow" where
  "applyFilters qt w =
     (let topics = set (map fst (filter snd (m_pTopicMenu w)))
      in w\<lparr>m_pProxyModel := updateFilters qt (m_pFilterBar w) topics (m_pProxyModel w)\<rparr>)"

definition add_to_history :: "InspectorPacket \<Rightarrow> InspectorPacket list \<Rightarrow> InspectorPacket list" where
  "add_to_history packet history =
     (let history = history @ [packet]
      in if length history > MaxPacketHistory then drop TrimChunk history else history)"

definition add_topic :: "'q qt_api \<Rightarrow> 'q \<Rightarrow> 'q MainWindow \<Rightarrow> 'q MainWindow" where
  "add_topic qt qTopic w =
     (if qTopic \<in> m_knownTopics w then w
      else applyFilters qt (w\<lparr>m_knownTopics := insert qTopic (m_knownTopics w), m_pTopicMenu := m_pTopicMenu w @ [(qTopic, True)]\<rparr>))"

definition stats_text :: "'q qt_api \<Rightarrow> SystemStats \<Rightarrow> 'q stats_labels" where
  "stats_text qt m =
     \<lparr>m_pBrokerIdLabel = q_arg qt (q_lit qt ''Broker ID: %1'') (fromStdString qt (broker_id m)),
      m_pUptimeLabel = q_arg_number qt (q_lit qt ''Uptime: %1 s'') (sint (uptime_sec m)),
      m_pClientsLabel = q_arg_number qt (q_lit qt ''Clients: %1'') (sint (clients_count m)),
      m_pPeersLabel = q_arg_number qt (q_lit qt ''Peers: %1'') (sint (peers_count m)),
      m_pMsgsSecLabel = q_arg_number qt (q_lit qt ''Msgs/sec: %1'') (sint (msgs_per_sec m)),
      m_pKbSecLabel = q_arg_f qt (q_lit qt ''KB/sec: %1'') (kb_per_sec m) 2,
      m_pTotalMsgsLabel = q_arg_number qt (q_lit qt ''Total Msgs: %1'') (sint (total_msgs m))\<rparr>"

definition show_stats :: "'q qt_api \<Rightarrow> pb_runtime \<Rightarrow> any_runtime \<Rightarrow> InspectorPacket \<Rightarrow> 'q MainWindow \<Rightarrow> 'q MainWindow" where
  "show_stats qt rt ar packet w =
     (if ip_topic packet = Keys_SYS_STATS then
        (case read_stats rt ar (ip_payload packet) of None \<Rightarrow> w | Some m \<Rightarrow> w\<lparr>m_pStats := stats_text qt m\<rparr>)
      else w)"

definition onNewPacket :: "'q qt_api \<Rightarrow> pb_runtime \<Rightarrow> any_runtime \<Rightarrow> InspectorPacket \<Rightarrow> 'q MainWindow \<Rightarrow> 'q MainWindow" where
  "onNewPacket qt rt ar packet w =
     (let w = w\<lparr>m_packetHistory := add_to_history packet (m_packetHistory w)\<rparr>;
          w = add_topic qt (topic_text qt (ip_topic packet)) w
      in show_stats qt rt ar packet w)"

text \<open>The rows are those of the source model, from \<open>mapToSource\<close>; an access outside the history has no value.\<close>

definition onSelectionChanged :: "'q qt_api \<Rightarrow> any_runtime \<Rightarrow> reflection_api \<Rightarrow> int list \<Rightarrow> 'q MainWindow \<Rightarrow> 'q MainWindow option" where
  "onSelectionChanged qt ar rf selected w =
     (case selected of
        [] \<Rightarrow> Some w
      | row # _ \<Rightarrow>
          if row < 0 \<or> row \<ge> int (length (m_packetHistory w)) then None
          else let packet = m_packetHistory w ! nat row in
            Some (w\<lparr>m_pHexDump := fromStdString qt (generateHexDump (ip_payload packet)),
                    m_pProtoTree := drawEnvelopeAndPayload qt ar rf (ip_header packet) (ip_payload packet)\<rparr>))"

definition string_contains :: "string \<Rightarrow> string \<Rightarrow> bool" where
  "string_contains s pat \<longleftrightarrow> list_ex (\<lambda>i. starts_with pat (drop i s)) [0..<Suc (length s)]"

definition replayed :: "random_source \<Rightarrow> InspectorPacket \<Rightarrow> Envelope" where
  "replayed rnd packet =
     (let hdr = set_message_uuid (generateUUID (fst rnd) (snd rnd)) (ip_header packet);
          originalSender = sender_id hdr;
          hdr = (if \<not> string_contains originalSender ''REPLAY_'' then set_sender_id (''REPLAY_'' @ originalSender) hdr else hdr)
      in \<lparr>header = hdr, payload = ip_payload packet\<rparr>)"

definition replaySelectedMessage :: "random_source \<Rightarrow> int list \<Rightarrow> 'q MainWindow \<Rightarrow> 'q MainWindow" where
  "replaySelectedMessage rnd selected w =
     (case selected of
        [] \<Rightarrow> w
      | row # _ \<Rightarrow>
          if row \<ge> int (length (m_packetHistory w)) \<or> row < 0 then w
          else let env = replayed rnd (m_packetHistory w ! nat row) in
            if isControlMessage (handler_key (header env))
            then w\<lparr>m_pInjector := snd (writeControlMessage env (m_pInjector w))\<rparr>
            else w\<lparr>m_pInjector := snd (writeMessage env (m_pInjector w))\<rparr>)"

subsection \<open>Events\<close>

text \<open>
  The event loop of the window. \<open>setupUi\<close> and \<open>onNewPacket\<close> connect the edit of the filter bar and the toggling of a topic's
  menu entry to \<open>applyFilters\<close>, the selection to \<open>onSelectionChanged\<close>, and the context menu to \<open>replaySelectedMessage\<close>.
\<close>

datatype 'q window_event =
    PacketReceived InspectorPacket
  | TopicToggled 'q
  | FilterEdited 'q
  | SelectionChanged "int list"
  | ReplayTriggered random_source "int list"

fun window_event_handler ::
    "'q qt_api \<Rightarrow> pb_runtime \<Rightarrow> any_runtime \<Rightarrow> reflection_api \<Rightarrow> 'q window_event \<Rightarrow> 'q MainWindow \<Rightarrow> 'q MainWindow option" where
  "window_event_handler qt rt ar rf (PacketReceived p) w = Some (onNewPacket qt rt ar p w)"
| "window_event_handler qt rt ar rf (TopicToggled t) w =
     Some (applyFilters qt (w\<lparr>m_pTopicMenu := map (\<lambda>(u, on). (u, if u = t then \<not> on else on)) (m_pTopicMenu w)\<rparr>))"
| "window_event_handler qt rt ar rf (FilterEdited t) w = Some (applyFilters qt (w\<lparr>m_pFilterBar := t\<rparr>))"
| "window_event_handler qt rt ar rf (SelectionChanged rows) w = onSelectionChanged qt ar rf rows w"
| "window_event_handler qt rt ar rf (ReplayTriggered rnd rows) w = Some (replaySelectedMessage rnd rows w)"

fun window_run ::
    "'q qt_api \<Rightarrow> pb_runtime \<Rightarrow> any_runtime \<Rightarrow> reflection_api \<Rightarrow> 'q window_event list \<Rightarrow> 'q MainWindow \<Rightarrow> 'q MainWindow option" where
  "window_run qt rt ar rf [] w = Some w"
| "window_run qt rt ar rf (e # es) w =
     (case window_event_handler qt rt ar rf e w of None \<Rightarrow> None | Some w' \<Rightarrow> window_run qt rt ar rf es w')"

end
