(* ===== verification/Inspector_Properties.thy ===== *)
theory Inspector_Properties
  imports Inspector
begin

text \<open>
  What the inspector promises: the window's table is a bounded recent part of the captured packets and its filter shows what the
  topic menu and the search text say; the worker captures the broker's messages in order and unchanged; and the statistics
  the broker broadcasts are what the labels show.
\<close>

subsection \<open>The window\<close>

definition received :: "'q window_event list \<Rightarrow> InspectorPacket list" where
  "received es = concat (map (\<lambda>e. case e of PacketReceived p \<Rightarrow> [p] | _ \<Rightarrow> []) es)"

lemma received_simps [simp]:
  "received [] = []" "received (es @ es') = received es @ received es'" "received [PacketReceived p] = [p]"
  "received [TopicToggled t] = []" "received [FilterEdited t] = []" "received [SelectionChanged rows] = []"
  "received [ReplayTriggered rnd rows] = []"
  by (simp_all add: received_def)

text \<open>The history keeps a suffix of the packets: all of them up to the limit, and at least 90001 beyond it.\<close>

definition history_of :: "InspectorPacket list \<Rightarrow> InspectorPacket list \<Rightarrow> bool" where
  "history_of ps history \<longleftrightarrow> suffix history ps \<and> length history \<le> MaxPacketHistory \<and>
     (if length ps \<le> MaxPacketHistory then history = ps else MaxPacketHistory - TrimChunk < length history)"

definition visible :: "'q qt_api \<Rightarrow> 'q MainWindow \<Rightarrow> InspectorPacket \<Rightarrow> bool" where
  "visible qt w p \<longleftrightarrow> (topic_text qt (ip_topic p), True) \<in> set (m_pTopicMenu w) \<and>
     (let search = q_toLower qt (m_pFilterBar w) in
      q_isEmpty qt search \<or>
      (\<exists>text \<in> {fromStdString qt (ip_senderId p), fromStdString qt (ip_key p), topic_text qt (ip_topic p)}.
         q_contains qt (q_toLower qt text) search))"

text \<open>Until the first packet arrives the filter need not have been set up.\<close>

definition window_ok :: "'q qt_api \<Rightarrow> InspectorPacket list \<Rightarrow> 'q MainWindow \<Rightarrow> bool" where
  "window_ok qt ps w \<longleftrightarrow> history_of ps (m_packetHistory w) \<and>
     distinct (map fst (m_pTopicMenu w)) \<and> set (map fst (m_pTopicMenu w)) = m_knownTopics w \<and>
     m_knownTopics w = (\<lambda>p. topic_text qt (ip_topic p)) ` set ps \<and>
     (ps \<noteq> [] \<longrightarrow> m_pProxyModel w = \<lparr>allowedTopics = {t. (t, True) \<in> set (m_pTopicMenu w)}, searchText = q_toLower qt (m_pFilterBar w)\<rparr>)"

lemma history_of_add:
  assumes "history_of ps history"
  shows "history_of (ps @ [p]) (add_to_history p history)"
proof -
  have "suffix (drop TrimChunk (history @ [p])) (ps @ [p])" "suffix (history @ [p]) (ps @ [p])"
    using assms suffix_drop suffix_order.trans by (fastforce simp: history_of_def)+
  then show ?thesis
    using assms by (auto simp: history_of_def add_to_history_def Let_def MaxPacketHistory_def TrimChunk_def split: if_splits)
qed

lemma checked_topics: "set (map fst (filter snd menu)) = {t. (t, True) \<in> set menu}"
  by force

lemma applyFilters_eq:
  "applyFilters qt w =
     w\<lparr>m_pProxyModel := \<lparr>allowedTopics = {t. (t, True) \<in> set (m_pTopicMenu w)}, searchText = q_toLower qt (m_pFilterBar w)\<rparr>\<rparr>"
  unfolding applyFilters_def Let_def checked_topics by (simp add: updateFilters_def)

lemma toggle_keys: "map fst (map (\<lambda>(u, on). (u, if u = t then \<not> on else on)) menu) = map fst menu"
  by (induction menu) auto

lemma window_ok_step:
  assumes "window_ok qt ps w" "window_event_handler qt rt ar rf e w = Some w'"
  shows "window_ok qt (ps @ received [e]) w'"
proof (cases e)
  case (PacketReceived p)
  let ?t = "topic_text qt (ip_topic p)"
  let ?w = "w\<lparr>m_packetHistory := add_to_history p (m_packetHistory w)\<rparr>"
  have "history_of (ps @ [p]) (add_to_history p (m_packetHistory w))" using assms(1) history_of_add by (simp add: window_ok_def)
  moreover have "?t \<in> m_knownTopics w \<Longrightarrow> ps \<noteq> []" using assms(1) by (auto simp: window_ok_def)
  moreover have "?t \<notin> m_knownTopics w \<Longrightarrow> ?t \<notin> fst ` set (m_pTopicMenu w)" using assms(1) by (simp add: window_ok_def)
  ultimately have "window_ok qt (ps @ [p]) (add_topic qt ?t ?w)"
    using assms(1) by (simp add: window_ok_def add_topic_def applyFilters_eq insert_absorb)
  moreover have "window_ok qt qs (show_stats qt rt ar p v) = window_ok qt qs v" for qs v
    by (simp add: show_stats_def window_ok_def split: option.split)
  ultimately show ?thesis using assms(2) PacketReceived by (auto simp: onNewPacket_def Let_def)
next
  case (TopicToggled t)
  define menu where "menu = map (\<lambda>(u, on). (u, if u = t then \<not> on else on)) (m_pTopicMenu w)"
  have keys: "map fst menu = map fst (m_pTopicMenu w)" by (simp only: menu_def toggle_keys)
  have "w' = applyFilters qt (w\<lparr>m_pTopicMenu := menu\<rparr>)" using assms(2) TopicToggled by (simp add: menu_def)
  with assms(1) keys keys [THEN arg_cong, of set] show ?thesis using TopicToggled by (simp add: window_ok_def applyFilters_eq)
next
  case (FilterEdited t)
  then have "w' = applyFilters qt (w\<lparr>m_pFilterBar := t\<rparr>)" using assms(2) by simp
  with assms(1) FilterEdited show ?thesis by (simp add: window_ok_def applyFilters_eq)
next
  case (SelectionChanged rows)
  with assms(2) have "m_packetHistory w' = m_packetHistory w \<and> m_knownTopics w' = m_knownTopics w \<and> m_pTopicMenu w' = m_pTopicMenu w \<and>
      m_pFilterBar w' = m_pFilterBar w \<and> m_pProxyModel w' = m_pProxyModel w"
    by (auto simp: onSelectionChanged_def Let_def split: list.splits if_splits)
  with assms(1) SelectionChanged show ?thesis by (simp add: window_ok_def)
next
  case (ReplayTriggered rnd rows)
  with assms(2) have "m_packetHistory w' = m_packetHistory w \<and> m_knownTopics w' = m_knownTopics w \<and> m_pTopicMenu w' = m_pTopicMenu w \<and>
      m_pFilterBar w' = m_pFilterBar w \<and> m_pProxyModel w' = m_pProxyModel w"
    by (auto simp: replaySelectedMessage_def Let_def split: list.splits if_splits)
  with assms(1) ReplayTriggered show ?thesis by (simp add: window_ok_def)
qed

lemma window_ok_new: "window_ok qt [] (MainWindow_new qt)"
  by (simp add: window_ok_def MainWindow_new_def history_of_def)

lemma window_run_ok:
  assumes "window_run qt rt ar rf es w = Some w'" "window_ok qt ps w"
  shows "window_ok qt (ps @ received es) w'"
  using assms
proof (induction es arbitrary: ps w)
  case (Cons e es)
  then obtain v where v: "window_event_handler qt rt ar rf e w = Some v" "window_run qt rt ar rf es v = Some w'"
    by (auto split: option.splits)
  from Cons.IH [OF v(2) window_ok_step [OF Cons.prems(2) v(1)]] show ?case by (simp add: received_def)
qed simp

lemma filterAcceptsRow_eq:
  assumes "window_ok qt ps w" "r < length (m_packetHistory w)"
  shows "filterAcceptsRow qt (m_packetHistory w) (m_pProxyModel w) r \<longleftrightarrow> visible qt w (m_packetHistory w ! r)"
proof -
  have "ps \<noteq> []" using assms by (auto simp: window_ok_def history_of_def split: if_splits)
  then have proxy: "m_pProxyModel w = \<lparr>allowedTopics = {t. (t, True) \<in> set (m_pTopicMenu w)}, searchText = q_toLower qt (m_pFilterBar w)\<rparr>"
    using assms(1) by (simp add: window_ok_def)
  show ?thesis
    using assms(2) by (simp add: filterAcceptsRow_def visible_def proxy table_data_def table_index_def rowCount_def columnCount_def
        QVariant_toString_def Let_def)
qed

text \<open>
  C38. Over every sequence of events of the inspector window: its table is a suffix of the received packets, never longer than
  100000 rows, complete up to there and with more than 90000 rows afterwards; the topic menu has every topic seen so far exactly once; and
  the filter shows a row exactly when its topic is checked and the search text, ignoring case, is empty or occurs in sender, key or topic.
\<close>

theorem inspector_window:
  assumes "window_run qt rt ar rf es (MainWindow_new qt) = Some w"
  shows "suffix (m_packetHistory w) (received es) \<and> length (m_packetHistory w) \<le> 100000 \<and>
    (if length (received es) \<le> 100000 then m_packetHistory w = received es else 90000 < length (m_packetHistory w)) \<and>
    distinct (map fst (m_pTopicMenu w)) \<and> set (map fst (m_pTopicMenu w)) = (\<lambda>p. topic_text qt (ip_topic p)) ` set (received es) \<and>
    (\<forall>r < length (m_packetHistory w).
       filterAcceptsRow qt (m_packetHistory w) (m_pProxyModel w) r \<longleftrightarrow> visible qt w (m_packetHistory w ! r))"
proof -
  have ok: "window_ok qt (received es) w" using window_run_ok [OF assms window_ok_new] by simp
  then have "history_of (received es) (m_packetHistory w)" by (simp add: window_ok_def)
  then have "suffix (m_packetHistory w) (received es) \<and> length (m_packetHistory w) \<le> 100000 \<and>
    (if length (received es) \<le> 100000 then m_packetHistory w = received es else 90000 < length (m_packetHistory w))"
    by (auto simp: history_of_def MaxPacketHistory_def TrimChunk_def split: if_splits)
  with ok filterAcceptsRow_eq [OF ok] show ?thesis by (simp add: window_ok_def)
qed

text \<open>Witness for C38: strings of bytes as \<open>QString\<close>; two packets, one topic unchecked.\<close>

fun bytes_arg :: "string \<Rightarrow> string \<Rightarrow> string" where
  "bytes_arg [] t = []"
| "bytes_arg (c # s) t = (if starts_with ''%1'' (c # s) then t @ tl s else c # bytes_arg s t)"

definition bytes_lower :: "string \<Rightarrow> string" where
  "bytes_lower = map (\<lambda>c. let n = of_char c :: nat in if 65 \<le> n \<and> n \<le> 90 then char_of (n + 32) else c)"

definition qt_bytes :: "string qt_api" where
  "qt_bytes = \<lparr>fromStdString = (\<lambda>s. s), q_isEmpty = (\<lambda>s. s = []), q_toLower = bytes_lower, q_contains = string_contains,
     q_append = (@), q_number = int_text, q_number_f = (\<lambda>b n. int_text (uint b)), q_arg = bytes_arg,
     q_arg_number = (\<lambda>s i. bytes_arg s (int_text i)), q_arg_f = (\<lambda>s b n. bytes_arg s (int_text (uint b))), q_colour_name = (\<lambda>c. [])\<rparr>"

definition reflection_none :: reflection_api where
  "reflection_none = \<lparr>reflect_header = (\<lambda>h. PbMessage ''broker.MessageHeader'' []), FindMessageTypeByName = (\<lambda>_. False),
     GetPrototype = (\<lambda>_. False), parse_as = (\<lambda>_ _. None)\<rparr>"

definition packet_example :: "string \<Rightarrow> InspectorPacket" where
  "packet_example t = \<lparr>ip_timestamp = [], ip_senderId = ''s'', ip_key = ''k'', ip_topic = t, ip_sizeBytes = 0,
     ip_header = MessageHeader_new, ip_payload = []\<rparr>"

definition window_example :: "string MainWindow option" where
  "window_example = window_run qt_bytes pb_wire_format any_wire reflection_none
     [PacketReceived (packet_example ''a''), PacketReceived (packet_example ''b''), TopicToggled ''a''] (MainWindow_new qt_bytes)"

lemma window_example_eq:
  "\<exists>w. window_example = Some w \<and> m_pTopicMenu w = [(''a'', False), (''b'', True)] \<and> m_pFilterBar w = []"
  by (simp add: window_example_def onNewPacket_def add_topic_def show_stats_def applyFilters_def updateFilters_def packet_example_def topic_text_def qt_bytes_def
      MainWindow_new_def q_lit_def Keys_defs Let_def)

theorem inspector_window_witness:
  "\<exists>w. window_example = Some w \<and> m_packetHistory w = [packet_example ''a'', packet_example ''b''] \<and>
     \<not> filterAcceptsRow qt_bytes (m_packetHistory w) (m_pProxyModel w) 0 \<and>
     filterAcceptsRow qt_bytes (m_packetHistory w) (m_pProxyModel w) (Suc 0)"
proof -
  obtain w where w: "window_example = Some w" "m_pTopicMenu w = [(''a'', False), (''b'', True)]" "m_pFilterBar w = []"
    using window_example_eq by blast
  note facts = inspector_window [OF w(1) [unfolded window_example_def]]
  have history: "m_packetHistory w = [packet_example ''a'', packet_example ''b'']" using facts by (simp add: received_def)
  have rows: "filterAcceptsRow qt_bytes (m_packetHistory w) (m_pProxyModel w) r \<longleftrightarrow> visible qt_bytes w (m_packetHistory w ! r)"
    if "r < length (m_packetHistory w)" for r using facts that by blast
  have "visible qt_bytes w (packet_example t) \<longleftrightarrow> t = ''b''" if "t \<noteq> []" for t
    using that by (simp add: bytes_lower_def visible_def w(2,3) packet_example_def topic_text_def qt_bytes_def)
  with rows [of 0] rows [of "Suc 0"] w(1) show ?thesis by (intro exI [of _ w]) (simp add: history)
qed

subsection \<open>Replay\<close>

text \<open>
  A replayed message is the captured one with a new uuid, so that no broker drops it as a duplicate, and a sender marked as a replay; a
  second replay does not mark it again.
\<close>

lemma string_contains_prefix: "string_contains (pat @ s) pat"
  by (auto simp: string_contains_def list_ex_iff starts_with_def intro: bexI [of _ 0])

lemma replayed_message:
  "payload (replayed rnd p) = ip_payload p" "topic (header (replayed rnd p)) = topic (ip_header p)"
  "handler_key (header (replayed rnd p)) = handler_key (ip_header p)" "reply_topic (header (replayed rnd p)) = reply_topic (ip_header p)"
  "message_uuid (header (replayed rnd p)) = generateUUID (fst rnd) (snd rnd)"
  "string_contains (sender_id (header (replayed rnd p))) ''REPLAY_''"
  using string_contains_prefix [of "''REPLAY_''"] by (simp_all add: replayed_def Let_def header_accessor_defs)

lemma replayed_twice:
  assumes "ip_header q = header (replayed rnd p)"
  shows "sender_id (header (replayed rnd' q)) = sender_id (header (replayed rnd p))"
  using replayed_message(6) [of rnd p] assms by (simp add: replayed_def [of rnd' q] Let_def) (simp add: header_accessor_defs)

subsection \<open>Capture\<close>

definition good_header :: "pb_runtime \<Rightarrow> MessageHeader \<Rightarrow> bool" where
  "good_header rt h \<longleftrightarrow> MessageHeader_ok h \<and> MessageHeader_encodable h \<and> list_all (Utf8Valid rt) (MessageHeader_strings h)"

text \<open>What a packet says of a message: its header (presence bits normalised), payload, the columns of the table, and the size.\<close>

definition depicts :: "pb_runtime \<Rightarrow> MessageHeader \<times> string \<Rightarrow> InspectorPacket \<Rightarrow> bool" where
  "depicts rt m p \<longleftrightarrow> (case m of (h, body) \<Rightarrow>
     ip_header p = h\<lparr>mh_has_bits := presence_bits h\<rparr> \<and> ip_payload p = body \<and>
     ip_senderId p = sender_id h \<and> ip_key p = handler_key h \<and> ip_topic p = topic h)"

lemma make_packet_depicts:
  "depicts rt (h, body) (make_packet rt lt now \<lparr>header = h\<lparr>mh_has_bits := presence_bits h\<rparr>, payload = body\<rparr>)"
  by (simp add: depicts_def make_packet_def sender_id_def handler_key_def topic_def)

lemma iteration_message:
  assumes "zmq_socket api sent sending arrived receiving" "protobuf_runtime rt" "good_header rt h" "receiving s = []"
    and "arrived s = message_frames (encodeHeader rt h) body # queue"
  obtains (captured) p s' extra where "InspectorWorker_iteration rt api lt now s = Some (Inr (Some p), s')" "depicts rt (h, body) p"
      "receiving s' = []" "arrived s' = queue @ extra"
  | (nothing_yet) r s' extra where "InspectorWorker_iteration rt api lt now s = Some (r, s')" "r = Inr None \<or> (\<exists>e. r = Inl e)"
      "receiving s' = []" "arrived s' = arrived s @ extra"
proof -
  have new: "MessageHeader_ok (header Envelope_new)" by (simp add: Envelope_new_def)
  from assms(3) have good: "MessageHeader_ok h" "MessageHeader_encodable h" "list_all (Utf8Valid rt) (MessageHeader_strings h)"
    by (simp_all add: good_header_def)
  from recv_message [OF assms(1,2) good new assms(4,5)] obtain r s' extra where
    recv: "wire_recv rt api True Envelope_new s = Some (r, s')" "receiving s' = []" and
    cases: "r = Inr (Some \<lparr>header = h\<lparr>mh_has_bits := presence_bits h\<rparr>, payload = body\<rparr>) \<and> arrived s' = queue @ extra \<or>
      (\<forall>e. r \<noteq> Inr (Some e)) \<and> arrived s' = arrived s @ extra" by blast
  from cases show ?thesis
  proof
    assume "r = Inr (Some \<lparr>header = h\<lparr>mh_has_bits := presence_bits h\<rparr>, payload = body\<rparr>) \<and> arrived s' = queue @ extra"
    then show ?thesis using recv make_packet_depicts by (intro captured) (auto simp: InspectorWorker_iteration_def)
  next
    assume none: "(\<forall>e. r \<noteq> Inr (Some e)) \<and> arrived s' = arrived s @ extra"
    show ?thesis
    proof (cases r)
      case (Inl e)
      then show ?thesis using recv none by (intro nothing_yet [of "Inl e" s' extra]) (simp_all add: InspectorWorker_iteration_def)
    next
      case (Inr o')
      then have "o' = None" using none by (cases o') auto
      then show ?thesis using recv none Inr by (intro nothing_yet [of "Inr None" s' extra]) (simp_all add: InspectorWorker_iteration_def)
    qed
  qed
qed

lemma iteration_total:
  assumes "zmq_socket api sent sending arrived receiving" "receiving s = []"
  obtains r s' where "InspectorWorker_iteration rt api lt now s = Some (r, s')" "receiving s' = []"
proof -
  obtain r s' where recv: "wire_recv rt api True Envelope_new s = Some (r, s')" "receiving s' = []"
    by (rule zmq_socket.recv_aligned [OF assms, where rt = rt and dontwait = True and env = Envelope_new]) blast+
  show ?thesis
  proof (cases r)
    case (Inl e)
    then show ?thesis using recv that by (simp add: InspectorWorker_iteration_def)
  next
    case (Inr found)
    then show ?thesis using recv that by (cases found) (simp_all add: InspectorWorker_iteration_def)
  qed
qed

lemma run_total:
  assumes "zmq_socket api sent sending arrived receiving" "receiving s = []"
  shows "\<exists>ps r s'. InspectorWorker_run rt api lt nows s = Some (ps, r, s') \<and> receiving s' = []"
  using assms(2)
proof (induction nows arbitrary: s)
  case (Cons now nows)
  obtain r t where t: "InspectorWorker_iteration rt api lt now s = Some (r, t)" "receiving t = []"
    by (rule iteration_total [OF assms(1) Cons.prems])
  from Cons.IH [OF t(2)] obtain ps r' s' where "InspectorWorker_run rt api lt nows t = Some (ps, r', s')" "receiving s' = []" by blast
  with t show ?case by (cases r) simp_all
qed simp

definition frames_of :: "pb_runtime \<Rightarrow> (MessageHeader \<times> string) list \<Rightarrow> bytes list list" where
  "frames_of rt ms = map (\<lambda>(h, body). message_frames (encodeHeader rt h) body) ms"

definition captured :: "pb_runtime \<Rightarrow> ('s \<Rightarrow> bytes list list) \<Rightarrow> (MessageHeader \<times> string) list \<Rightarrow> InspectorPacket list \<Rightarrow> 's \<Rightarrow> bool" where
  "captured rt arrived ms ps s' \<longleftrightarrow> (\<exists>k \<le> length ms. list_all2 (depicts rt) (take k ms) (take k ps) \<and>
     (k < length ms \<longrightarrow> length ps = k \<and> (\<exists>rest. arrived s' = frames_of rt (drop k ms) @ rest)))"

lemma captured_Nil: "captured rt arrived [] ps s'"
  by (simp add: captured_def)

lemma captured_none: "arrived s' = frames_of rt ms @ rest \<Longrightarrow> captured rt arrived ms [] s'"
  unfolding captured_def by (rule exI [of _ 0]) simp

lemma captured_Cons:
  assumes "depicts rt m p" "captured rt arrived ms ps s'"
  shows "captured rt arrived (m # ms) (p # ps) s'"
proof -
  obtain k where "k \<le> length ms" "list_all2 (depicts rt) (take k ms) (take k ps)"
    "k < length ms \<longrightarrow> length ps = k \<and> (\<exists>rest. arrived s' = frames_of rt (drop k ms) @ rest)"
    using assms(2) unfolding captured_def by blast
  then show ?thesis unfolding captured_def using assms(1) by (intro exI [of _ "Suc k"]) simp
qed

lemma run_captures:
  assumes "zmq_socket api sent sending arrived receiving" "protobuf_runtime rt" "list_all (\<lambda>(h, body). good_header rt h) ms"
    and "receiving s = []" "arrived s = frames_of rt ms @ rest"
  shows "\<exists>ps r s'. InspectorWorker_run rt api lt nows s = Some (ps, r, s') \<and> receiving s' = [] \<and> captured rt arrived ms ps s'"
  using assms(3-5)
proof (induction nows arbitrary: s ms rest)
  case Nil
  show ?case using Nil.prems(2) captured_none [where arrived = arrived, OF Nil.prems(3)] by simp
next
  case (Cons now nows)
  note IH = Cons.IH and prems = Cons.prems
  show ?case
  proof (cases ms)
    case Nil
    obtain ps r s' where "InspectorWorker_run rt api lt (now # nows) s = Some (ps, r, s')" "receiving s' = []"
      using run_total [OF assms(1) prems(2)] by blast
    then show ?thesis using captured_Nil [of rt arrived ps s'] unfolding Nil by blast
  next
    case ms: (Cons m ms')
    obtain h body where m: "m = (h, body)" by fastforce
    have good: "good_header rt h" and front: "arrived s = message_frames (encodeHeader rt h) body # (frames_of rt ms' @ rest)"
      using prems ms m by (simp_all add: frames_of_def)
    from assms(1,2) good prems(2) front show ?thesis
    proof (rule iteration_message [where lt = lt and now = now])
      fix p t extra
      assume it: "InspectorWorker_iteration rt api lt now s = Some (Inr (Some p), t)" "depicts rt (h, body) p" "receiving t = []"
        "arrived t = (frames_of rt ms' @ rest) @ extra"
      have front': "arrived t = frames_of rt ms' @ (rest @ extra)" using it(4) by simp
      have "list_all (\<lambda>(h, body). good_header rt h) ms'" using prems(1) ms by simp
      from IH [OF this it(3) front'] obtain ps r s' where
        run: "InspectorWorker_run rt api lt nows t = Some (ps, r, s')" "receiving s' = []" and caught: "captured rt arrived ms' ps s'" by blast
      have "InspectorWorker_run rt api lt (now # nows) s = Some (p # ps, r, s')" using it(1) run(1) by simp
      moreover have "captured rt arrived ms (p # ps) s'" unfolding ms m by (rule captured_Cons [OF it(2) caught])
      ultimately show ?thesis using run(2) by blast
    next
      fix r t extra
      assume it: "InspectorWorker_iteration rt api lt now s = Some (r, t)" "r = Inr None \<or> (\<exists>e. r = Inl e)" "receiving t = []" "arrived t = arrived s @ extra"
      have front': "arrived t = frames_of rt ms @ (rest @ extra)" using it(4) prems(3) by simp
      from it(2) show ?thesis
      proof
        assume "r = Inr None"
        then have "InspectorWorker_run rt api lt (now # nows) s = InspectorWorker_run rt api lt nows t"
          using it(1) by (simp add: option.map_ident case_prod_unfold)
        with IH [OF prems(1) it(3) front'] show ?thesis by simp
      next
        assume "\<exists>e. r = Inl e"
        then obtain e where "InspectorWorker_run rt api lt (now # nows) s = Some ([], Some e, t)" using it(1) by auto
        then show ?thesis using it(3) captured_none [where arrived = arrived, OF front'] by blast
      qed
    qed
  qed
qed

text \<open>
  C33. The inspector's thread captures the broker's messages in order and unchanged: whatever arrives besides, its loop returns with the
  socket between two messages, and of the messages waiting at the start it emitted one packet for each, in order, with the
  message's header, payload, sender, key and topic, or stopped after some of them with the others still waiting.
\<close>

theorem inspector_captures:
  assumes "zmq_socket api sent sending arrived receiving" "protobuf_runtime rt" "list_all (\<lambda>(h, body). good_header rt h) ms"
    and "receiving s = []" "arrived s = frames_of rt ms"
  shows "\<exists>ps r s' k. InspectorWorker_run rt api lt nows s = Some (ps, r, s') \<and> receiving s' = [] \<and> k \<le> length ms \<and>
    list_all2 (depicts rt) (take k ms) (take k ps) \<and>
    (k < length ms \<longrightarrow> length ps = k \<and> (\<exists>rest. arrived s' = frames_of rt (drop k ms) @ rest))"
  using run_captures [OF assms(1-4), of "[]"] assms(5) unfolding captured_def by auto

text \<open>Witness for C33: one message and two iterations.\<close>

theorem inspector_captures_witness:
  "\<exists>ps r s' k. InspectorWorker_run pb_wire_format mem_api (\<lambda>_. (0, 0, 0)) [0, 0]
      (mem_example\<lparr>ms_arrived := frames_of pb_wire_format [(header_example, ''p'')]\<rparr>) = Some (ps, r, s') \<and> ms_receiving s' = [] \<and>
    k \<le> length [(header_example, ''p'')] \<and> list_all2 (depicts pb_wire_format) (take k [(header_example, ''p'')]) (take k ps)"
proof -
  have "list_all (\<lambda>(h, body). good_header pb_wire_format h) [(header_example, ''p'')]"
    using header_example_ok by (simp add: good_header_def)
  from inspector_captures [OF mem.zmq_socket_axioms wire.protobuf_runtime_axioms this,
      of "mem_example\<lparr>ms_arrived := frames_of pb_wire_format [(header_example, ''p'')]\<rparr>" "\<lambda>_. (0, 0, 0)" "[0, 0]"]
  show ?thesis by (simp add: mem_example_def) blast
qed

subsection \<open>Statistics\<close>

lemma stats_header_good: "protobuf_runtime rt \<Longrightarrow> good_header rt stats_header"
  unfolding good_header_def
  by (simp add: stats_header_def MessageHeader_ok_accessors)
     (simp add: MessageHeader_encodable_def MessageHeader_strings_def MessageHeader_new_def header_accessor_defs
        protobuf_runtime.utf8_ascii ascii_def Keys_defs)

lemma stats_text_canonical: "stats_text qt (SystemStats_canonical m) = stats_text qt m"
  using SystemStats_canonical_fields [of m] by (simp add: stats_text_def stats_counters_def)

lemma onNewPacket_stats: "ip_topic p = Keys_SYS_STATS \<Longrightarrow> read_stats rt ar (ip_payload p) = Some m \<Longrightarrow>
    m_pStats (onNewPacket qt rt ar p w) = stats_text qt m"
  by (simp add: onNewPacket_def show_stats_def Let_def)

text \<open>
  C40. From the broker's counters to the labels on the screen: when the next message on the inspector socket is the one
  \<open>broadcastStats\<close> sends, the packet the worker emits makes the window show the broker's id, the numbers of its clients and peers, and its other
  counters, whatever it showed before.
\<close>

theorem inspector_shows_stats:
  assumes "zmq_socket api sent sending arrived receiving" "protobuf_runtime rt" "protobuf_any ar"
    and "SystemStats_encodable rt (broker_stats now b)" "list_all (Utf8Valid rt) (SystemStats_strings (broker_stats now b))"
    and "length (SystemStats_InternalSerialize rt (broker_stats now b)) < 2 ^ 31"
    and "broadcastStats rt ar now b = ToInspector hb body # outs" "receiving s = []" "arrived s = message_frames hb body # queue"
    and "InspectorWorker_iteration rt api lt t s = Some (Inr (Some p), s')"
  shows "m_pStats (onNewPacket qt rt ar p w) = stats_text qt (broker_stats now b) \<and>
    m_pBrokerIdLabel (m_pStats (onNewPacket qt rt ar p w)) = q_arg qt (q_lit qt ''Broker ID: %1'') (fromStdString qt (b_brokerId b)) \<and>
    m_pClientsLabel (m_pStats (onNewPacket qt rt ar p w)) =
      q_arg_number qt (q_lit qt ''Clients: %1'') (sint (of_nat (length (b_clients b)) :: 32 word)) \<and>
    m_pPeersLabel (m_pStats (onNewPacket qt rt ar p w)) =
      q_arg_number qt (q_lit qt ''Peers: %1'') (sint (of_nat (length (b_peers b)) :: 32 word))"
proof -
  have out: "hb = encodeHeader rt stats_header"
    "body = Any_SerializeAsString ar (PackFrom ar ''broker.SystemStats'' (SystemStats_InternalSerialize rt (broker_stats now b)))"
    using assms(7) by (simp_all add: broadcastStats_def Let_def)
  have "depicts rt (stats_header, body) p"
    by (rule iteration_message [OF assms(1,2) stats_header_good [OF assms(2)] assms(8) assms(9) [unfolded out(1)], where lt = lt and now = t])
       (use assms(10) in auto)
  moreover have "topic stats_header = Keys_SYS_STATS" by (simp add: stats_header_def header_accessor_defs)
  ultimately have "m_pStats (onNewPacket qt rt ar p w) = stats_text qt (broker_stats now b)"
    using onNewPacket_stats [of p rt ar "SystemStats_canonical (broker_stats now b)" qt w] read_broadcast_stats [OF assms(2-6)] out(2)
    by (simp add: depicts_def stats_text_canonical)
  then show ?thesis using broker_stats_eq(1,2) [of now b] by (simp add: stats_text_def stats_counters_def)
qed

text \<open>Witness for C40: the example broker's statistics on the in-memory socket.\<close>

definition stats_body :: string where
  "stats_body = Any_SerializeAsString any_wire
     (PackFrom any_wire ''broker.SystemStats'' (SystemStats_InternalSerialize pb_wire_format (broker_stats 0 routing_example)))"

definition stats_socket :: mem_socket where
  "stats_socket = mem_example\<lparr>ms_arrived := [message_frames (encodeHeader pb_wire_format stats_header) stats_body]\<rparr>"

lemma stats_socket_captured:
  "\<exists>p s'. InspectorWorker_iteration pb_wire_format mem_api (\<lambda>_. (0, 0, 0)) 0 stats_socket = Some (Inr (Some p), s')"
proof -
  obtain t where recv: "socket_recv mem_api True stats_socket = (Inr (Some (encodeHeader pb_wire_format stats_header)), t)"
    by (cases "stats_body = []") (auto simp: stats_socket_def mem_example_def mem_api_def socket_recv_def message_frames_def)
  have "decode_frame pb_wire_format (encodeHeader pb_wire_format stats_header) (header Envelope_new) \<noteq> None"
    using decode_encodeHeader [OF wire.protobuf_runtime_axioms, of stats_header "header Envelope_new"]
      stats_header_good [OF wire.protobuf_runtime_axioms] by (simp add: good_header_def Envelope_new_def)
  then show ?thesis
    by (rule_tac mem.recv_after [OF recv, where rt = pb_wire_format and env = Envelope_new]) (auto simp: InspectorWorker_iteration_def)
qed

theorem inspector_shows_stats_witness:
  "\<exists>p s'. InspectorWorker_iteration pb_wire_format mem_api (\<lambda>_. (0, 0, 0)) 0 stats_socket = Some (Inr (Some p), s') \<and>
     m_pClientsLabel (m_pStats (onNewPacket qt_bytes pb_wire_format any_wire p (MainWindow_new qt_bytes))) = ''Clients: 3''"
proof -
  obtain p s' where it: "InspectorWorker_iteration pb_wire_format mem_api (\<lambda>_. (0, 0, 0)) 0 stats_socket = Some (Inr (Some p), s')"
    using stats_socket_captured by blast
  have socket: "ms_receiving stats_socket = []"
    "ms_arrived stats_socket = message_frames (encodeHeader pb_wire_format stats_header) stats_body # []"
    by (simp_all add: stats_socket_def mem_example_def)
  have out: "broadcastStats pb_wire_format any_wire 0 routing_example =
      ToInspector (encodeHeader pb_wire_format stats_header) stats_body # tl (broadcastStats pb_wire_format any_wire 0 routing_example)"
    by (simp add: broadcastStats_def stats_body_def Let_def)
  have label: "q_arg_number qt_bytes (q_lit qt_bytes ''Clients: %1'') (sint (of_nat (length (b_clients routing_example)) :: 32 word)) = ''Clients: 3''"
    by (simp add: routing_example_def qt_bytes_def q_lit_def starts_with_def int_text_def to_string.simps digit_char_def char_of_def bit_0)
  have "m_pClientsLabel (m_pStats (onNewPacket qt_bytes pb_wire_format any_wire p (MainWindow_new qt_bytes))) = ''Clients: 3''"
    using inspector_shows_stats [OF mem.zmq_socket_axioms wire.protobuf_runtime_axioms any.protobuf_any_axioms routing_example_stats out socket it,
        of qt_bytes "MainWindow_new qt_bytes"] label by (elim conjE) (simp only:)
  with it show ?thesis by blast
qed

end
