(* ===== verification/Qt_Adapter.thy ===== *)
theory Qt_Adapter
  imports Connection_Properties
begin

text \<open>
  \<open>QtConnectionAdapter\<close> (\<open>bindings/qt/qtconnectionadapter.h\<close>): the client interface in Qt types. Qt's conversions are the record
  \<open>qt_conversions\<close>: \<open>QString\<close> is the type \<open>'q\<close>, a \<open>QJsonObject\<close> the type \<open>'j\<close>, a \<open>QByteArray\<close> its bytes. A callback registered here
  does not run on the client's thread: it posts a call to the event queue of its context object, the list of posted calls.
\<close>

record ('q, 'j) qt_conversions =
  qs_toStdString :: "'q \<Rightarrow> string"
  qs_fromStdString :: "string \<Rightarrow> 'q"
  json_compact :: "'j \<Rightarrow> string"
  json_object :: "string \<Rightarrow> 'j"

subsection \<open>Payload types\<close>

text \<open>\<open>QByteArray(data, int)\<close>: a negative size means up to the first zero byte.\<close>

definition QByteArray_new :: "string \<Rightarrow> 32 word \<Rightarrow> string" where
  "QByteArray_new data n = (if sint n < 0 then takeWhile (\<lambda>c. of_char c \<noteq> (0 :: nat)) data else take (nat (sint n)) data)"

definition qbytes_of :: "string \<Rightarrow> string" where
  "qbytes_of bs = QByteArray_new bs (of_nat (length bs))"

definition QString_type :: "('q, 'j) qt_conversions \<Rightarrow> 'q payload_type" where
  "QString_type qc = Specialized (qs_toStdString qc) (\<lambda>bs. Some (qs_fromStdString qc bs))"

definition QByteArray_type :: "string payload_type" where
  "QByteArray_type = Specialized (\<lambda>v. v) (\<lambda>bs. Some (qbytes_of bs))"

definition QJsonObject_type :: "('q, 'j) qt_conversions \<Rightarrow> 'j payload_type" where
  "QJsonObject_type qc = Specialized (json_compact qc) (\<lambda>bs. Some (json_object qc (qbytes_of bs)))"

subsection \<open>The adapter\<close>

definition QtConnectionAdapter_new :: "ConnectionConfig \<Rightarrow> 'u client \<Rightarrow> 'u client" where
  "QtConnectionAdapter_new config c = ConnectionManager_init config c"

definition QtConnectionAdapter_delete :: "'u client \<Rightarrow> 'u client \<times> 'u ConnectionManager option" where
  "QtConnectionAdapter_delete c = ConnectionManager_shutdown c"

definition qt_sendMessage :: "('q, 'j) qt_conversions \<Rightarrow> any_runtime \<Rightarrow> 'a payload_type \<Rightarrow> 'q \<Rightarrow> 'a \<Rightarrow> 'u client \<Rightarrow> bool \<times> 'u client" where
  "qt_sendMessage qc ar ty key v c = sendMessage_typed ar ty (qs_toStdString qc key) v c"

definition qt_replyToSender :: "any_runtime \<Rightarrow> 'a payload_type \<Rightarrow> string \<Rightarrow> 'a \<Rightarrow> 'u client \<Rightarrow> bool \<times> 'u client" where
  "qt_replyToSender ar ty currentReplyTopic v c = ConnectionManager_replyToSender ar ty currentReplyTopic v c"

text \<open>A request up to the wait for the reply, and after it, in text and with payload types.\<close>

definition qt_sendRequest_begin :: "('q, 'j) qt_conversions \<Rightarrow> (nat \<Rightarrow> 4 word) \<times> 2 word \<Rightarrow> nat \<Rightarrow> 'q \<Rightarrow> 'q \<Rightarrow> 'u client \<Rightarrow> (string \<times> 'u client) option" where
  "qt_sendRequest_begin qc rnd promise tpc body c =
     sendRequest_begin rnd promise (qs_toStdString qc tpc) (qs_toStdString qc body) c"

definition qt_sendRequest_end :: "('q, 'j) qt_conversions \<Rightarrow> nat \<Rightarrow> string \<Rightarrow> 'u client \<Rightarrow> 'q option \<times> 'u client" where
  "qt_sendRequest_end qc promise replyTopic c =
     (case sendRequest_end promise replyTopic c of
        (None, c) \<Rightarrow> (None, c)
      | (Some response, c) \<Rightarrow> (Some (qs_fromStdString qc response), c))"

definition qt_sendRequest_typed_begin :: "('q, 'j) qt_conversions \<Rightarrow> ('r \<Rightarrow> bytes) \<Rightarrow> (nat \<Rightarrow> 4 word) \<times> 2 word \<Rightarrow> nat \<Rightarrow> 'q \<Rightarrow> 'r \<Rightarrow> 'u client
    \<Rightarrow> (string \<times> 'u client) option" where
  "qt_sendRequest_typed_begin qc SerializeAsString rnd promise tpc v c =
     sendRequest_begin rnd promise (qs_toStdString qc tpc) (SerializeAsString v) c"

definition qt_sendRequest_typed_end :: "any_runtime \<Rightarrow> 'a payload_type \<Rightarrow> nat \<Rightarrow> string \<Rightarrow> 'u client \<Rightarrow> 'a option \<times> 'u client" where
  "qt_sendRequest_typed_end ar ty promise replyTopic c = sendRequest_typed_end ar ty promise replyTopic c"

definition qt_unregisterCallback :: "('q, 'j) qt_conversions \<Rightarrow> 'q \<Rightarrow> nat \<Rightarrow> 'u client \<Rightarrow> 'u client" where
  "qt_unregisterCallback qc key context_object c = unregisterCallback (qs_toStdString qc key) context_object c"

definition qt_registerCallback :: "('q, 'j) qt_conversions \<Rightarrow> 'q \<Rightarrow> nat \<Rightarrow> 'u \<Rightarrow> 'u client \<Rightarrow> 'u client" where
  "qt_registerCallback qc key context_object func c =
     registerInternal (qs_toStdString qc key) (Some (UserCallback func)) context_object c"

text \<open>
  The lambda that is registered: a call of \<open>func\<close> with the decoded payload goes to the end of the context's queue. A payload that does not
  decode never reaches it.
\<close>

record ('u, 'a) posted_call =
  pc_context :: nat
  pc_func :: 'u
  pc_payload :: 'a

definition invoke_queued :: "nat \<Rightarrow> 'u \<Rightarrow> 'a \<Rightarrow> ('u, 'a) posted_call list \<Rightarrow> ('u, 'a) posted_call list" where
  "invoke_queued context_object func v posted = posted @ [\<lparr>pc_context = context_object, pc_func = func, pc_payload = v\<rparr>]"

definition queued_callback :: "any_runtime \<Rightarrow> 'a payload_type \<Rightarrow> nat \<Rightarrow> 'u \<Rightarrow> string \<Rightarrow> ('u, 'a) posted_call list \<Rightarrow> ('u, 'a) posted_call list" where
  "queued_callback ar ty context_object func raw posted =
     (case decodePayload ar ty raw of None \<Rightarrow> posted | Some v \<Rightarrow> invoke_queued context_object func v posted)"

subsection \<open>What the adapter keeps\<close>

text \<open>Byte arrays survive unchanged up to 2 GiB; a longer one is cut at its first zero byte or worse.\<close>

lemma qbytes_roundtrip:
  assumes "length bs < 2 ^ 31"
  shows "decodePayload ar QByteArray_type (encodePayload ar QByteArray_type bs) = Some bs"
proof -
  have "sint (of_nat (length bs) :: 32 word) = int (length bs)"
    using assms by (simp add: sint_uint unsigned_of_nat take_bit_nat_eq_self signed_take_bit_int_eq_self)
  then show ?thesis by (simp add: QByteArray_type_def qbytes_of_def QByteArray_new_def)
qed

lemma qstring_roundtrip:
  assumes "qs_fromStdString qc (qs_toStdString qc v) = v"
  shows "decodePayload ar (QString_type qc) (encodePayload ar (QString_type qc) v) = Some v"
  using assms by (simp add: QString_type_def)

text \<open>The messages of a topic reach the context in the order in which they came, those that do not decode left out.\<close>

lemma queued_in_order:
  "fold (queued_callback ar ty ctx f) raws posted =
     posted @ map (\<lambda>v. \<lparr>pc_context = ctx, pc_func = f, pc_payload = v\<rparr>) (List.map_filter (decodePayload ar ty) raws)"
  by (induction raws arbitrary: posted)
     (simp_all add: queued_callback_def invoke_queued_def map_filter_simps split: option.split)

end
