(* ===== verification/Programs.thy ===== *)
theory Programs
  imports Broker_Invariant Connection_Properties
begin

text \<open>
  The entry points: the broker process (\<open>server/main.cpp\<close>) up to Qt's event loop, and the state in which the two demonstration
  clients (\<open>client1/main.cpp\<close>, \<open>client2/main.cpp\<close>) enter it. The environment variables, the clock and the random draws are arguments.
\<close>

definition server_bindings :: "string list" where
  "server_bindings = [''tcp://*:5555'', ''ipc:///tmp/broker.sock'']"

definition server_main :: "(string \<Rightarrow> string option) \<Rightarrow> random_source \<Rightarrow> time \<Rightarrow> time \<Rightarrow> ZmqBroker" where
  "server_main getenv rnd t1 t2 =
     (let broker = ZmqBroker_new rnd;
          broker = (if getenv ''WISP_NO_DISCOVERY'' = None
                    then enableDiscovery (case getenv ''WISP_CLUSTER'' of Some cluster \<Rightarrow> cluster | None \<Rightarrow> ''default'') kDefaultPort broker
                    else broker)
      in ZmqBroker_start t1 t2 server_bindings broker)"

datatype demo_callback = OnTest | OnStruct | OnProtobuf | OnMessageReceived | OnHejsan

definition client1_config :: "nat \<Rightarrow> ConnectionConfig" where
  "client1_config msecs =
     ConnectionConfig_default\<lparr>cfg_address := ''tcp://127.0.0.1:5555'', cfg_clientId := ''client1_debug_'' @ to_string msecs\<rparr>"

definition client1_main :: "nat \<Rightarrow> demo_callback client" where
  "client1_main msecs =
     registerCallback ''protobuf'' (Some (UserCallback OnProtobuf))
       (registerCallback ''struct'' (Some (UserCallback OnStruct))
         (registerCallback ''test'' (Some (UserCallback OnTest)) (ConnectionManager_init (client1_config msecs) client_new)))"

definition client2_config :: ConnectionConfig where
  "client2_config = ConnectionConfig_default\<lparr>cfg_address := ''tcp://127.0.0.1:5555'', cfg_clientId := ''client2''\<rparr>"

definition client2_main :: "demo_callback client" where
  "client2_main =
     registerCallback ''Hejsan'' (Some (UserCallback OnHejsan))
       (registerCallback ''MessageReceived'' (Some (UserCallback OnMessageReceived)) (ConnectionManager_init client2_config client_new))"

text \<open>The broker starts in a consistent state, and advertises its TCP port unless discovery is switched off.\<close>

lemma server_port: "parseTcpPort server_bindings = 5555"
  by code_simp

lemma server_main_ok: "broker_ok (server_main getenv rnd t1 t2)"
proof -
  have frame: "broker_ok (ZmqBroker_start t1 t2 as b) = broker_ok b" "broker_ok (enableDiscovery cl port b) = broker_ok b" for as b cl port
    by (simp_all add: broker_ok_def ZmqBroker_start_def enableDiscovery_def Let_def)
  show ?thesis by (simp add: server_main_def Let_def frame broker_ok_new)
qed

lemma server_main_discovery: "b_discovery (server_main getenv rnd t1 t2) \<noteq> None \<longleftrightarrow> getenv ''WISP_NO_DISCOVERY'' = None"
  by (simp add: server_main_def ZmqBroker_start_def enableDiscovery_def server_port Let_def ZmqBroker_new_def)

text \<open>Each client waits for what the other sends.\<close>

lemma demo_topics:
  "map_option (map fst \<circ> cm_handlers) (c_instance (client1_main msecs)) = Some [''protobuf'', ''struct'', ''test'']"
  "map_option (map fst \<circ> cm_handlers) (c_instance client2_main) = Some [''Hejsan'', ''MessageReceived'']"
  by (simp_all add: client1_main_def client2_main_def registerCallback_def registerInternal_def performRegistration_def ConnectionManager_init_def
      client_new_def ConnectionManager_new_def Let_def less_list_code)

end
