(* ===== verification/Zmq_Message.thy ===== *)
theory Zmq_Message
  imports Zmq_Socket Text_Output
begin

text \<open>
  Messages and buffers of the C++ wrapper \<open>zmq.hpp\<close>. A \<open>message_t\<close> owns a block of bytes that libzmq manages; libzmq's part is the
  record \<open>msg_lib\<close>, which provides the uninitialised blocks or refuses. Operations on a message that has been closed fail with EFAULT, as
  documented. A \<open>mutable_buffer\<close> is an address and a size in a memory of bytes; \<open>zmq_recv\<close> is a parameter with the documented
  behaviour: it stores as much of the message as fits and returns the message's size. \<open>None\<close> is a failed \<open>ZMQ_ASSERT\<close>, \<open>Inl\<close> an
  \<open>error_t\<close>.
\<close>

subsection \<open>Messages\<close>

record message_t =
  mt_content :: bytes
  mt_valid :: bool
  mt_more :: bool

record msg_lib =
  zmq_msg_init_size :: "nat \<Rightarrow> int + bytes"

definition EFAULT :: int where
  "EFAULT = 14"

definition message_of :: "bytes \<Rightarrow> message_t" where
  "message_of bs = \<lparr>mt_content = bs, mt_valid = True, mt_more = False\<rparr>"

definition message_t_new :: message_t where
  "message_t_new = message_of []"

definition message_t_sized :: "msg_lib \<Rightarrow> nat \<Rightarrow> int + message_t" where
  "message_t_sized lib n = (case zmq_msg_init_size lib n of Inl e \<Rightarrow> Inl e | Inr block \<Rightarrow> Inr (message_of block))"

definition memcpy_front :: "bytes \<Rightarrow> bytes \<Rightarrow> bytes" where
  "memcpy_front dst src = src @ drop (length src) dst"

definition message_t_data :: "msg_lib \<Rightarrow> bytes \<Rightarrow> int + message_t" where
  "message_t_data lib bs =
     (case zmq_msg_init_size lib (length bs) of
        Inl e \<Rightarrow> Inl e
      | Inr block \<Rightarrow> Inr (message_of (if length bs \<noteq> 0 then memcpy_front block bs else block)))"

text \<open>The move constructor: the new message and what is left of the old one. Assignment swaps.\<close>

definition message_t_moved :: "message_t \<Rightarrow> message_t \<times> message_t" where
  "message_t_moved rhs = (rhs, message_t_new)"

definition message_t_assign :: "message_t \<Rightarrow> message_t \<Rightarrow> message_t \<times> message_t" where
  "message_t_assign m rhs = (rhs, m)"

definition message_t_delete :: "message_t \<Rightarrow> message_t option" where
  "message_t_delete m = (if mt_valid m then Some (m\<lparr>mt_valid := False\<rparr>) else None)"

text \<open>\<open>rebuild\<close> closes the message before it asks for the new block: a refusal leaves it closed.\<close>

definition rebuild :: "message_t \<Rightarrow> (int \<times> message_t) + message_t" where
  "rebuild m = (if mt_valid m then Inr message_t_new else Inl (EFAULT, m))"

definition rebuild_sized :: "msg_lib \<Rightarrow> nat \<Rightarrow> message_t \<Rightarrow> (int \<times> message_t) + message_t" where
  "rebuild_sized lib n m =
     (if \<not> mt_valid m then Inl (EFAULT, m)
      else case zmq_msg_init_size lib n of
             Inl e \<Rightarrow> Inl (e, m\<lparr>mt_valid := False\<rparr>)
           | Inr block \<Rightarrow> Inr (message_of block))"

definition rebuild_data :: "msg_lib \<Rightarrow> bytes \<Rightarrow> message_t \<Rightarrow> (int \<times> message_t) + message_t" where
  "rebuild_data lib bs m =
     (case rebuild_sized lib (length bs) m of
        Inl e \<Rightarrow> Inl e
      | Inr m \<Rightarrow> Inr (m\<lparr>mt_content := memcpy_front (mt_content m) bs\<rparr>))"

text \<open>\<open>zmq_msg_move\<close> empties the source, \<open>zmq_msg_copy\<close> keeps it.\<close>

definition message_move :: "message_t \<Rightarrow> message_t \<Rightarrow> int + (message_t \<times> message_t)" where
  "message_move m src = (if mt_valid m \<and> mt_valid src then Inr (src, message_t_new) else Inl EFAULT)"

definition message_copy :: "message_t \<Rightarrow> message_t \<Rightarrow> int + (message_t \<times> message_t)" where
  "message_copy m src = (if mt_valid m \<and> mt_valid src then Inr (src, src) else Inl EFAULT)"

definition message_more :: "message_t \<Rightarrow> bool" where
  "message_more m = mt_more m"

definition message_size :: "message_t \<Rightarrow> nat" where
  "message_size m = length (mt_content m)"

definition message_empty :: "message_t \<Rightarrow> bool" where
  "message_empty m \<longleftrightarrow> message_size m = 0"

definition message_eq :: "message_t \<Rightarrow> message_t \<Rightarrow> bool" where
  "message_eq m other \<longleftrightarrow>
     message_size m = message_size other \<and> take (message_size m) (mt_content m) = take (message_size m) (mt_content other)"

definition message_to_string :: "message_t \<Rightarrow> string" where
  "message_to_string m = take (message_size m) (mt_content m)"

definition message_swap :: "message_t \<times> message_t \<Rightarrow> message_t \<times> message_t" where
  "message_swap p = (snd p, fst p)"

subsection \<open>The dump of a message\<close>

definition is_ascii_byte :: "char \<Rightarrow> bool" where
  "is_ascii_byte c \<longleftrightarrow> 32 \<le> (of_char c :: nat) \<and> of_char c < (127 :: nat)"

definition upper_hex :: "nat \<Rightarrow> string" where
  "upper_hex n = map (\<lambda>c. if c \<in> set ''abcdef'' then char_of (of_char c - 32 :: nat) else c) (to_hex n)"

fun str_loop :: "bool \<Rightarrow> bytes \<Rightarrow> string" where
  "str_loop prev [] = []"
| "str_loop prev (c # cs) =
     (let asc = is_ascii_byte c in
      (if asc \<noteq> prev then '' '' else [])
      @ (if asc then [c] else setw0 2 (upper_hex (of_char c)))
      @ str_loop asc cs)"

definition message_str :: "nat \<Rightarrow> message_t \<Rightarrow> string" where
  "message_str max_size m =
     (let shown = take (min (message_size m) max_size) (mt_content m)
      in ''zmq::message_t [size '' @ setw0 3 (Cxx_String.to_string (message_size m)) @ ''] (''
         @ str_loop (case shown of [] \<Rightarrow> False | c # _ \<Rightarrow> is_ascii_byte c) shown
         @ (if max_size < message_size m then ''... too big to print)'' else '')''))"

subsection \<open>Buffers\<close>

record mutable_buffer =
  mb_data :: "nat option"
  mb_size :: "64 word"

definition mutable_buffer_new :: mutable_buffer where
  "mutable_buffer_new = \<lparr>mb_data = None, mb_size = 0\<rparr>"

text \<open>Both \<open>operator+=\<close> and \<open>operator+\<close>; pointer arithmetic moves the address.\<close>

definition buffer_plus :: "mutable_buffer \<Rightarrow> 64 word \<Rightarrow> mutable_buffer" where
  "buffer_plus mb n =
     (let shift = min n (mb_size mb)
      in \<lparr>mb_data = map_option (\<lambda>p. p + unat shift) (mb_data mb), mb_size = mb_size mb - shift\<rparr>)"

definition buffer_prefix :: "mutable_buffer \<Rightarrow> 64 word \<Rightarrow> mutable_buffer" where
  "buffer_prefix mb n = \<lparr>mb_data = mb_data mb, mb_size = min (mb_size mb) n\<rparr>"

text \<open>A contiguous sequence of elements of \<open>sizeof\<close> bytes at an address.\<close>

definition buffer_contiguous_sequence :: "nat \<Rightarrow> 64 word \<Rightarrow> 64 word \<Rightarrow> mutable_buffer" where
  "buffer_contiguous_sequence addr count sizeof =
     \<lparr>mb_data = (if count \<noteq> 0 then Some addr else None), mb_size = count * sizeof\<rparr>"

definition buffer_contiguous_prefix :: "nat \<Rightarrow> 64 word \<Rightarrow> 64 word \<Rightarrow> 64 word \<Rightarrow> mutable_buffer" where
  "buffer_contiguous_prefix addr count sizeof n_bytes =
     \<lparr>mb_data = (if count \<noteq> 0 then Some addr else None), mb_size = min (count * sizeof) n_bytes\<rparr>"

definition str_buffer :: "nat \<Rightarrow> 64 word \<Rightarrow> 64 word \<Rightarrow> mutable_buffer" where
  "str_buffer addr n sizeof = \<lparr>mb_data = Some addr, mb_size = (n - 1) * sizeof\<rparr>"

subsection \<open>Receiving into a buffer\<close>

record recv_buffer_size =
  rb_size :: "64 word"
  rb_untruncated_size :: "64 word"

definition truncated :: "recv_buffer_size \<Rightarrow> bool" where
  "truncated r \<longleftrightarrow> rb_size r \<noteq> rb_untruncated_size r"

text \<open>The library call: socket, address, size, \<open>dontwait\<close>; the state is the socket's and the memory.\<close>

type_synonym 's recv_call = "nat option \<Rightarrow> 64 word \<Rightarrow> bool \<Rightarrow> 's \<times> bytes \<Rightarrow> nat zmq_rc \<times> 's \<times> bytes"

definition socket_recv_buffer ::
    "'s recv_call \<Rightarrow> mutable_buffer \<Rightarrow> bool \<Rightarrow> 's \<times> bytes \<Rightarrow> (int + recv_buffer_size option) \<times> 's \<times> bytes" where
  "socket_recv_buffer zmq_recv buf dontwait st =
     (case zmq_recv (mb_data buf) (mb_size buf) dontwait st of
        (Rc nbytes, st') \<Rightarrow>
          (Inr (Some \<lparr>rb_size = min (of_nat nbytes) (mb_size buf), rb_untruncated_size = of_nat nbytes\<rparr>), st')
      | (Errno e, st') \<Rightarrow> (if e = EAGAIN then Inr None else Inl e, st'))"

subsection \<open>Messages keep their bytes\<close>

text \<open>What a constructor is given, \<open>to_string\<close> returns; a move takes it along; equality is equality of the bytes.\<close>

lemma message_roundtrip:
  assumes "\<And>n block. zmq_msg_init_size lib n = Inr block \<Longrightarrow> length block = n" "message_t_data lib bs = Inr m"
  shows "message_to_string m = bs" "message_size m = length bs" "mt_valid m"
  using assms(1) [of "length bs"] assms(2)
  by (auto simp: message_t_data_def message_to_string_def message_size_def message_of_def memcpy_front_def split: sum.splits)

lemma message_move_takes:
  assumes "message_move m src = Inr (m', src')"
  shows "message_to_string m' = message_to_string src" "message_empty src'" "mt_valid m'" "mt_valid src'"
  using assms by (auto simp: message_move_def message_t_new_def message_of_def message_empty_def message_size_def message_to_string_def split: if_splits)

lemma message_eq_iff: "message_eq m m' \<longleftrightarrow> message_to_string m = message_to_string m'"
  by (auto simp: message_eq_def message_to_string_def message_size_def)

text \<open>A destructor never aborts on a message that was only built, moved, copied and swapped; after a refused \<open>rebuild\<close> it does.\<close>

lemma refused_rebuild_aborts:
  assumes "rebuild_sized lib n m = Inl (e, m')"
  shows "message_t_delete m' = None"
  using assms by (auto simp: rebuild_sized_def message_t_delete_def split: if_splits sum.splits)

subsection \<open>Buffers stay in their memory\<close>

definition in_memory :: "bytes \<Rightarrow> mutable_buffer \<Rightarrow> bool" where
  "in_memory mem b \<longleftrightarrow> (case mb_data b of None \<Rightarrow> mb_size b = 0 | Some p \<Rightarrow> p + unat (mb_size b) \<le> length mem)"

definition region :: "mutable_buffer \<Rightarrow> nat set" where
  "region b = (case mb_data b of None \<Rightarrow> {} | Some p \<Rightarrow> {p ..< p + unat (mb_size b)})"

definition overwrite :: "bytes \<Rightarrow> nat \<Rightarrow> bytes \<Rightarrow> bytes" where
  "overwrite mem p bs = take p mem @ bs @ drop (p + length bs) mem"

lemma buffer_plus_size: "unat (mb_size (buffer_plus b n)) = unat (mb_size b) - unat n"
  by (auto simp: buffer_plus_def Let_def min_def unat_sub word_le_nat_alt)

lemma buffer_plus_data: "mb_data (buffer_plus b n) = map_option (\<lambda>p. p + min (unat n) (unat (mb_size b))) (mb_data b)"
proof -
  have "unat (min n (mb_size b)) = min (unat n) (unat (mb_size b))" by (simp add: min_def word_le_nat_alt)
  then show ?thesis by (simp add: buffer_plus_def Let_def)
qed

lemma buffer_plus_region:
  "in_memory mem b \<Longrightarrow> in_memory mem (buffer_plus b n)"
  "region (buffer_plus b n) = {i \<in> region b. \<forall>p. mb_data b = Some p \<longrightarrow> p + unat n \<le> i}"
proof -
  show "region (buffer_plus b n) = {i \<in> region b. \<forall>p. mb_data b = Some p \<longrightarrow> p + unat n \<le> i}"
    by (cases "mb_data b") (auto simp: region_def buffer_plus_size buffer_plus_data)
  show "in_memory mem (buffer_plus b n)" if "in_memory mem b"
  proof (cases "mb_data b")
    case None
    with that have "unat (mb_size (buffer_plus b n)) = 0" by (simp add: in_memory_def buffer_plus_size)
    with None show ?thesis by (simp add: in_memory_def buffer_plus_data unat_eq_zero)
  next
    case (Some p)
    with that show ?thesis by (auto simp: in_memory_def buffer_plus_size buffer_plus_data)
  qed
qed

lemma buffer_prefix_region:
  "in_memory mem b \<Longrightarrow> in_memory mem (buffer_prefix b n)"
  "region (buffer_prefix b n) = {i \<in> region b. \<forall>p. mb_data b = Some p \<longrightarrow> i < p + unat n}"
proof -
  have "unat (min (mb_size b) n) = min (unat (mb_size b)) (unat n)" by (simp add: min_def word_le_nat_alt)
  then show "in_memory mem b \<Longrightarrow> in_memory mem (buffer_prefix b n)"
    "region (buffer_prefix b n) = {i \<in> region b. \<forall>p. mb_data b = Some p \<longrightarrow> i < p + unat n}"
    by (auto simp: in_memory_def region_def buffer_prefix_def split: option.splits)
qed

text \<open>The documented behaviour of \<open>zmq_recv\<close>: at most \<open>len\<close> bytes are stored, and the result is the size of the message.\<close>

locale recv_into_memory =
  fixes zmq_recv :: "'s recv_call"
  assumes received: "zmq_recv p len dontwait (s, mem) = (Rc n, s', mem') \<Longrightarrow>
      \<exists>msg. length msg = n \<and> n < 2 ^ 31 \<and> mem' = (case p of None \<Rightarrow> mem | Some a \<Rightarrow> overwrite mem a (take (unat len) msg))"
    and refused: "zmq_recv p len dontwait (s, mem) = (Errno e, s', mem') \<Longrightarrow> mem' = mem"
begin

lemma recv_buffer:
  assumes "in_memory mem b" "socket_recv_buffer zmq_recv b dontwait (s, mem) = (r, s', mem')"
  shows "length mem' = length mem \<and> (\<forall>i < length mem. i \<notin> region b \<longrightarrow> mem' ! i = mem ! i) \<and>
    (\<forall>res. r = Inr (Some res) \<longrightarrow> (\<exists>msg. unat (rb_untruncated_size res) = length msg \<and>
       unat (rb_size res) = min (length msg) (unat (mb_size b)) \<and> (truncated res \<longleftrightarrow> unat (mb_size b) < length msg) \<and>
       (\<forall>p. mb_data b = Some p \<longrightarrow> take (unat (rb_size res)) (drop p mem') = take (unat (rb_size res)) msg)))"
proof -
  obtain rc t mem1 where call: "zmq_recv (mb_data b) (mb_size b) dontwait (s, mem) = (rc, t, mem1)" by (metis prod_cases3)
  show ?thesis
  proof (cases rc)
    case (Errno e)
    with call refused [of "mb_data b" "mb_size b" dontwait s mem e t mem1] assms(2) show ?thesis
      by (auto simp: socket_recv_buffer_def split: if_splits)
  next
    case (Rc n)
    with call received obtain msg where msg: "length msg = n" "n < 2 ^ 31"
      "mem1 = (case mb_data b of None \<Rightarrow> mem | Some a \<Rightarrow> overwrite mem a (take (unat (mb_size b)) msg))" by blast
    have out: "mem' = mem1" "r = Inr (Some \<lparr>rb_size = min (of_nat n) (mb_size b), rb_untruncated_size = of_nat n\<rparr>)"
      using assms(2) call Rc by (simp_all add: socket_recv_buffer_def)
    have n: "unat (of_nat n :: 64 word) = n" using msg(2) by (simp add: unat_of_nat take_bit_nat_eq_self)
    then have size: "unat (min (of_nat n) (mb_size b)) = min n (unat (mb_size b))" by (simp add: min_def word_le_nat_alt)
    have trunc: "min (of_nat n) (mb_size b) \<noteq> of_nat n \<longleftrightarrow> unat (mb_size b) < n"
      using n by (auto simp: min_def word_le_nat_alt)
    have mem': "length mem1 = length mem \<and> (\<forall>i < length mem. i \<notin> region b \<longrightarrow> mem1 ! i = mem ! i) \<and>
        (\<forall>p. mb_data b = Some p \<longrightarrow> take (min n (unat (mb_size b))) (drop p mem1) = take (min n (unat (mb_size b))) msg)"
    proof (cases "mb_data b")
      case None
      then show ?thesis using msg by simp
    next
      case (Some p)
      let ?bs = "take (unat (mb_size b)) msg"
      have fits: "p + length ?bs \<le> length mem" using assms(1) Some by (simp add: in_memory_def)
      have mem1: "mem1 = take p mem @ ?bs @ drop (p + length ?bs) mem" using msg(3) Some by (simp add: overwrite_def)
      have "mem1 ! i = mem ! i" if "i < length mem" "i \<notin> region b" for i
        using that fits Some unfolding mem1 region_def by (auto simp: nth_append)
      moreover have "take (min n (unat (mb_size b))) (drop p mem1) = take (min n (unat (mb_size b))) msg"
        unfolding mem1 using fits msg(1) by (simp add: min_def)
      ultimately show ?thesis using fits Some by (simp add: mem1)
    qed
    then show ?thesis unfolding out using msg(1) n size trunc by (auto simp: truncated_def)
  qed
qed

end

text \<open>The instance: the messages wait in a list.\<close>

definition list_recv :: "bytes list recv_call" where
  "list_recv p len dontwait st =
     (case st of
        (msg # ms, mem) \<Rightarrow>
          if length msg < 2 ^ 31
          then (Rc (length msg), ms, case p of None \<Rightarrow> mem | Some a \<Rightarrow> overwrite mem a (take (unat len) msg))
          else (Errno EAGAIN, st)
      | ([], mem) \<Rightarrow> (Errno EAGAIN, st))"

interpretation list_recv: recv_into_memory list_recv
  by unfold_locales (auto simp: list_recv_def split: list.splits if_splits)

text \<open>
  C19. Buffers never lead out of their memory: skipping n bytes of a buffer and limiting it to k bytes selects exactly the bytes from n up to n + k
  of it, however large n and k are. Receiving into a buffer changes nothing outside it; the reported size is the number of bytes
  stored there, which are the beginning of the message, and the result says truncated exactly when the message is longer than the buffer.
\<close>

theorem buffer_bounds:
  assumes "recv_into_memory zmq_recv" "in_memory mem b" "buf = buffer_prefix (buffer_plus b n) k"
    and "socket_recv_buffer zmq_recv buf dontwait (s, mem) = (r, s', mem')"
  shows "region buf = {i \<in> region b. \<forall>p. mb_data b = Some p \<longrightarrow> p + unat n \<le> i \<and> (unat n \<le> unat (mb_size b) \<longrightarrow> i < p + unat n + unat k)} \<and>
    length mem' = length mem \<and> (\<forall>i < length mem. i \<notin> region buf \<longrightarrow> mem' ! i = mem ! i) \<and>
    (\<forall>res. r = Inr (Some res) \<longrightarrow> (\<exists>msg. unat (rb_untruncated_size res) = length msg \<and>
       unat (rb_size res) = min (length msg) (unat (mb_size buf)) \<and> (truncated res \<longleftrightarrow> unat (mb_size buf) < length msg) \<and>
       (\<forall>p. mb_data buf = Some p \<longrightarrow> take (unat (rb_size res)) (drop p mem') = take (unat (rb_size res)) msg)))"
proof -
  have "region buf = {i \<in> region b. \<forall>p. mb_data b = Some p \<longrightarrow> p + unat n \<le> i \<and> (unat n \<le> unat (mb_size b) \<longrightarrow> i < p + unat n + unat k)}"
    unfolding assms(3) buffer_prefix_region(2) buffer_plus_region(2) buffer_plus_data
    by (cases "mb_data b") (auto simp: region_def min_def)
  moreover have "in_memory mem buf" unfolding assms(3) by (intro buffer_prefix_region(1) buffer_plus_region(1) assms(2))
  ultimately show ?thesis using recv_into_memory.recv_buffer [OF assms(1) _ assms(4)] by simp
qed

text \<open>Witness for C19: five bytes of memory, the buffer of its last four, of which the first is skipped.\<close>

theorem buffer_bounds_witness:
  "socket_recv_buffer list_recv (buffer_prefix (buffer_plus \<lparr>mb_data = Some 1, mb_size = 4\<rparr> 1) 2) False ([''xyz''], ''abcde'') =
     (Inr (Some \<lparr>rb_size = 2, rb_untruncated_size = 3\<rparr>), [], ''abxye'') \<and>
   length ''abxye'' = length ''abcde''"
proof -
  let ?buf = "buffer_prefix (buffer_plus \<lparr>mb_data = Some 1, mb_size = 4\<rparr> 1) 2"
  have run: "socket_recv_buffer list_recv ?buf False ([''xyz''], ''abcde'') =
      (Inr (Some \<lparr>rb_size = 2, rb_untruncated_size = 3\<rparr>), [], ''abxye'')"
    by (simp add: socket_recv_buffer_def list_recv_def buffer_prefix_def buffer_plus_def overwrite_def Let_def min_def)
  have "in_memory ''abcde'' \<lparr>mb_data = Some 1, mb_size = 4\<rparr>" by (simp add: in_memory_def)
  from buffer_bounds [OF list_recv.recv_into_memory_axioms this refl run] run show ?thesis by simp
qed

end
