(* ===== verification/Zmq_Multipart.thy ===== *)
theory Zmq_Multipart
  imports Zmq_Socket Cxx_String
begin

text \<open>
  Multipart messages (\<open>zmq_addon.hpp\<close>): receiving and sending all parts of a message, the encoding of a list of parts as one
  message, and the class \<open>multipart_t\<close>.

  A \<open>message_t\<close> is its bytes, a \<open>std::deque\<close> of them a list. \<open>more()\<close> of the part just received is the socket's
  \<open>ZMQ_RCVMORE\<close>, as libzmq documents it. The exceptions are the values of \<open>multipart_error\<close>; a failed \<open>assert\<close> is
  one of them. Reading an element that is not there is undefined in C++ and is \<^const>\<open>None\<close>. Whether the
  machine stores integers with the low byte first is an argument.
\<close>

unbundle bit_operations_syntax

datatype multipart_error = ZmqError int | TooManyParts | PartTooLarge | SizeOverflow | PartOverflow | SizeMismatch | AssertFailed

subsection \<open>Receiving and sending\<close>

partial_function (option) recv_parts ::
    "'s zmq_api \<Rightarrow> bool \<Rightarrow> nat \<Rightarrow> bool \<Rightarrow> nat \<Rightarrow> bytes list \<Rightarrow> 's \<Rightarrow> ((multipart_error + nat option) \<times> bytes list \<times> 's) option" where
  "recv_parts api checkN n dontwait msg_count out s =
     (if checkN \<and> msg_count \<ge> n then Some (Inl TooManyParts, out, s)
      else
        (case socket_recv api dontwait s of
           (Inl e, s') \<Rightarrow> Some (Inl (ZmqError e), out, s')
         | (Inr None, s') \<Rightarrow> Some (if msg_count = 0 then Inr None else Inl AssertFailed, out, s')
         | (Inr (Some msg), s') \<Rightarrow>
             if zmq_rcvmore api s' then recv_parts api checkN n dontwait (Suc msg_count) (out @ [msg]) s'
             else Some (Inr (Some (Suc msg_count)), out @ [msg], s')))"

definition recv_multipart :: "'s zmq_api \<Rightarrow> bytes list \<Rightarrow> bool \<Rightarrow> 's \<Rightarrow> ((multipart_error + nat option) \<times> bytes list \<times> 's) option" where
  "recv_multipart api out dontwait s = recv_parts api False 0 dontwait 0 out s"

definition recv_multipart_n :: "'s zmq_api \<Rightarrow> bytes list \<Rightarrow> nat \<Rightarrow> bool \<Rightarrow> 's \<Rightarrow> ((multipart_error + nat option) \<times> bytes list \<times> 's) option" where
  "recv_multipart_n api out n dontwait s = recv_parts api True n dontwait 0 out s"

text \<open>The loop of \<open>send_multipart\<close>, with the parts from the iterator on.\<close>

fun send_parts :: "'s zmq_api \<Rightarrow> bool \<Rightarrow> bool \<Rightarrow> nat \<Rightarrow> bytes list \<Rightarrow> 's \<Rightarrow> (multipart_error + nat option) \<times> 's" where
  "send_parts api sndmore dontwait msg_count [] s = (Inr (Some msg_count), s)"
| "send_parts api sndmore dontwait msg_count (msg # rest) s =
     (case socket_send api msg (sndmore \<or> rest \<noteq> []) dontwait s of
        (Inl e, s') \<Rightarrow> (Inl (ZmqError e), s')
      | (Inr None, s') \<Rightarrow> (if msg_count = 0 then Inr None else Inl AssertFailed, s')
      | (Inr (Some _), s') \<Rightarrow> send_parts api sndmore dontwait (Suc msg_count) rest s')"

definition send_multipart :: "'s zmq_api \<Rightarrow> bytes list \<Rightarrow> bool \<Rightarrow> bool \<Rightarrow> 's \<Rightarrow> (multipart_error + nat option) \<times> 's" where
  "send_multipart api msgs sndmore dontwait s = send_parts api sndmore dontwait 0 msgs s"

subsection \<open>Encoding\<close>

text \<open>The bytes of an integer in memory.\<close>

definition big_endian :: "32 word \<Rightarrow> bytes" where
  "big_endian v = map (\<lambda>k. char_of (unat (drop_bit k v AND 0xFF))) [24, 16, 8, 0]"

definition host_bytes :: "bool \<Rightarrow> 32 word \<Rightarrow> bytes" where
  "host_bytes little v = (if little then rev (big_endian v) else big_endian v)"

definition host_u32 :: "bool \<Rightarrow> bytes \<Rightarrow> 32 word" where
  "host_u32 little buf = fold (\<lambda>c v. push_bit 8 v + of_nat (of_char c)) (if little then rev buf else buf) 0"

definition is_little_endian :: "bool \<Rightarrow> bool" where
  "is_little_endian little = (hd (host_bytes little 1) = char_of (1 :: nat))"

definition write_network_order :: "bool \<Rightarrow> 32 word \<Rightarrow> bytes" where
  "write_network_order little value =
     (if is_little_endian little
      then [char_of (unat (drop_bit 24 value AND 0xFF)), char_of (unat (drop_bit 16 value AND 0xFF)),
            char_of (unat (drop_bit 8 value AND 0xFF)), char_of (unat (value AND 0xFF))]
      else host_bytes little value)"

definition read_u32_network_order :: "bool \<Rightarrow> bytes \<Rightarrow> 32 word" where
  "read_u32_network_order little buf =
     (if is_little_endian little
      then push_bit 24 (of_nat (of_char (buf ! 0))) + push_bit 16 (of_nat (of_char (buf ! 1)))
           + push_bit 8 (of_nat (of_char (buf ! 2))) + of_nat (of_char (buf ! 3))
      else host_u32 little (take 4 buf))"

fun check_sizes :: "bytes list \<Rightarrow> nat \<Rightarrow> multipart_error + nat" where
  "check_sizes [] mmsg_size = Inr mmsg_size"
| "check_sizes (part # parts) mmsg_size =
     (if length part > 0xFFFFFFFF then Inl PartTooLarge
      else check_sizes parts (mmsg_size + (length part + (if length part < 255 then 1 else 5))))"

definition encode_part :: "bool \<Rightarrow> bytes \<Rightarrow> bytes" where
  "encode_part little part =
     (let part_size = (of_nat (length part) :: 32 word) in
      (if part_size < 255 then [char_of (unat part_size)]
       else char_of (255 :: nat) # write_network_order little part_size) @ part)"

definition encode :: "bool \<Rightarrow> bytes list \<Rightarrow> multipart_error + bytes" where
  "encode little parts =
     (case check_sizes parts 0 of
        Inl e \<Rightarrow> Inl e
      | Inr mmsg_size \<Rightarrow>
          let encoded = concat (map (encode_part little) parts) in
          if length encoded = mmsg_size then Inr encoded else Inl AssertFailed)"

text \<open>The second component of the result is what was written to the output iterator.\<close>

function decode :: "bool \<Rightarrow> bytes \<Rightarrow> bytes list \<Rightarrow> (multipart_error + unit) \<times> bytes list" where
  "decode little [] out = (Inr (), out)"
| "decode little (b # source) out =
     (let big = (of_char b = (255 :: nat)) in
      if big \<and> length source < 4 then (Inl SizeOverflow, out)
      else
        let part_size = (if big then unat (read_u32_network_order little source) else of_char b);
            source = (if big then drop 4 source else source)
        in if length source < part_size then (Inl PartOverflow, out)
           else decode little (drop part_size source) (out @ [take part_size source]))"
  by pat_completeness auto
termination
  by (relation "measure (\<lambda>(little, source, out). length source)") auto

subsection \<open>\<open>multipart_t\<close>\<close>

type_synonym multipart_t = "bytes list"

definition multipart_new :: multipart_t where
  "multipart_new = []"

definition multipart_clear :: "multipart_t \<Rightarrow> multipart_t" where
  "multipart_clear m = []"

definition multipart_size :: "multipart_t \<Rightarrow> nat" where
  "multipart_size m = length m"

definition multipart_empty :: "multipart_t \<Rightarrow> bool" where
  "multipart_empty m = (m = [])"

definition multipart_at :: "nat \<Rightarrow> multipart_t \<Rightarrow> bytes option" where
  "multipart_at n m = (if n < length m then Some (m ! n) else None)"

definition multipart_addmem :: "bytes \<Rightarrow> nat \<Rightarrow> multipart_t \<Rightarrow> multipart_t" where
  "multipart_addmem src sz m = m @ [take sz src]"

definition multipart_pushmem :: "bytes \<Rightarrow> nat \<Rightarrow> multipart_t \<Rightarrow> multipart_t" where
  "multipart_pushmem src sz m = take sz src # m"

definition multipart_addstr :: "string \<Rightarrow> multipart_t \<Rightarrow> multipart_t" where
  "multipart_addstr str m = m @ [str]"

definition multipart_pushstr :: "string \<Rightarrow> multipart_t \<Rightarrow> multipart_t" where
  "multipart_pushstr str m = str # m"

text \<open>A fixed-size type is its size and the conversions to and from its bytes.\<close>

record 'a pod =
  pod_sizeof :: nat
  pod_bytes :: "'a \<Rightarrow> bytes"
  pod_value :: "bytes \<Rightarrow> 'a"

definition multipart_addtyp :: "'a pod \<Rightarrow> 'a \<Rightarrow> multipart_t \<Rightarrow> multipart_t" where
  "multipart_addtyp T v m = m @ [take (pod_sizeof T) (pod_bytes T v)]"

definition multipart_pushtyp :: "'a pod \<Rightarrow> 'a \<Rightarrow> multipart_t \<Rightarrow> multipart_t" where
  "multipart_pushtyp T v m = take (pod_sizeof T) (pod_bytes T v) # m"

definition multipart_add :: "bytes \<Rightarrow> multipart_t \<Rightarrow> multipart_t" where
  "multipart_add msg m = m @ [msg]"

definition multipart_push :: "bytes \<Rightarrow> multipart_t \<Rightarrow> multipart_t" where
  "multipart_push msg m = msg # m"

definition multipart_push_back :: "bytes \<Rightarrow> multipart_t \<Rightarrow> multipart_t" where
  "multipart_push_back msg m = m @ [msg]"

fun multipart_pop :: "multipart_t \<Rightarrow> (bytes \<times> multipart_t) option" where
  "multipart_pop [] = None"
| "multipart_pop (msg # m) = Some (msg, m)"

definition multipart_remove :: "multipart_t \<Rightarrow> (bytes \<times> multipart_t) option" where
  "multipart_remove m = (if m = [] then None else Some (last m, butlast m))"

fun multipart_popstr :: "multipart_t \<Rightarrow> (string \<times> multipart_t) option" where
  "multipart_popstr [] = None"
| "multipart_popstr (msg # m) = Some (msg, m)"

fun multipart_poptyp :: "'a pod \<Rightarrow> multipart_t \<Rightarrow> ((multipart_error + 'a) \<times> multipart_t) option" where
  "multipart_poptyp T [] = None"
| "multipart_poptyp T (msg # m) =
     Some (if pod_sizeof T \<noteq> length msg then (Inl SizeMismatch, msg # m) else (Inr (pod_value T msg), m))"

definition multipart_front :: "multipart_t \<Rightarrow> bytes option" where
  "multipart_front m = (if m = [] then None else Some (hd m))"

definition multipart_back :: "multipart_t \<Rightarrow> bytes option" where
  "multipart_back m = (if m = [] then None else Some (last m))"

definition multipart_peek :: "nat \<Rightarrow> multipart_t \<Rightarrow> bytes option" where
  "multipart_peek index m = (if index < length m then Some (m ! index) else None)"

definition multipart_peekstr :: "nat \<Rightarrow> multipart_t \<Rightarrow> string option" where
  "multipart_peekstr index m = (if index < length m then Some (m ! index) else None)"

definition multipart_peektyp :: "'a pod \<Rightarrow> nat \<Rightarrow> multipart_t \<Rightarrow> (multipart_error + 'a) option" where
  "multipart_peektyp T index m =
     (if index < length m
      then Some (if pod_sizeof T \<noteq> length (m ! index) then Inl SizeMismatch else Inr (pod_value T (m ! index)))
      else None)"

definition multipart_create :: "'a pod \<Rightarrow> 'a \<Rightarrow> multipart_t" where
  "multipart_create T v = multipart_addtyp T v multipart_new"

function multipart_prepend :: "multipart_t \<Rightarrow> multipart_t \<Rightarrow> multipart_t" where
  "multipart_prepend other m =
     (case multipart_remove other of
        None \<Rightarrow> m
      | Some (msg, other) \<Rightarrow> multipart_prepend other (multipart_push msg m))"
  by pat_completeness auto
termination
  by (relation "measure (\<lambda>(other, m). length other)") (auto simp: multipart_remove_def split: if_splits)

function multipart_append :: "multipart_t \<Rightarrow> multipart_t \<Rightarrow> multipart_t" where
  "multipart_append other m =
     (case multipart_pop other of
        None \<Rightarrow> m
      | Some (msg, other) \<Rightarrow> multipart_append other (multipart_add msg m))"
  by pat_completeness auto
termination
  by (relation "measure (\<lambda>(other, m). length other)") (auto elim!: multipart_pop.elims)

declare multipart_prepend.simps [simp del] multipart_append.simps [simp del]

text \<open>\<open>Some (Inr False)\<close> is the early return with the parts received so far.\<close>

partial_function (option) multipart_recv_loop ::
    "'s zmq_api \<Rightarrow> bool \<Rightarrow> multipart_t \<Rightarrow> 's \<Rightarrow> ((int + bool) \<times> multipart_t \<times> 's) option" where
  "multipart_recv_loop api dontwait m s =
     (case socket_recv api dontwait s of
        (Inl e, s') \<Rightarrow> Some (Inl e, m, s')
      | (Inr None, s') \<Rightarrow> Some (Inr False, m, s')
      | (Inr (Some msg), s') \<Rightarrow>
          if zmq_rcvmore api s' then multipart_recv_loop api dontwait (multipart_add msg m) s'
          else Some (Inr True, multipart_add msg m, s'))"

definition multipart_recv :: "'s zmq_api \<Rightarrow> bool \<Rightarrow> multipart_t \<Rightarrow> 's \<Rightarrow> ((int + bool) \<times> multipart_t \<times> 's) option" where
  "multipart_recv api dontwait m s = multipart_recv_loop api dontwait (multipart_clear m) s"

fun multipart_send :: "'s zmq_api \<Rightarrow> bool \<Rightarrow> multipart_t \<Rightarrow> 's \<Rightarrow> (int + bool) \<times> multipart_t \<times> 's" where
  "multipart_send api dontwait [] s = (Inr True, [], s)"
| "multipart_send api dontwait (msg # m) s =
     (case socket_send api msg (m \<noteq> []) dontwait s of
        (Inl e, s') \<Rightarrow> (Inl e, m, s')
      | (Inr None, s') \<Rightarrow> (Inr False, m, s')
      | (Inr (Some _), s') \<Rightarrow> multipart_send api dontwait m s')"

definition multipart_clone :: "multipart_t \<Rightarrow> multipart_t" where
  "multipart_clone m = fold (\<lambda>i c. multipart_addmem (m ! i) (length (m ! i)) c) [0..<length m] multipart_new"

definition multipart_eq :: "multipart_t \<Rightarrow> multipart_t \<Rightarrow> bool" where
  "multipart_eq m other \<longleftrightarrow> length m = length other \<and> list_all (\<lambda>i. m ! i = other ! i) [0..<length m]"

definition multipart_equal :: "multipart_t \<Rightarrow> multipart_t \<Rightarrow> bool" where
  "multipart_equal m other = multipart_eq m other"

definition multipart_neq :: "multipart_t \<Rightarrow> multipart_t \<Rightarrow> bool" where
  "multipart_neq m other \<longleftrightarrow> \<not> multipart_eq m other"

definition multipart_encode :: "bool \<Rightarrow> multipart_t \<Rightarrow> multipart_error + bytes" where
  "multipart_encode little m = encode little m"

definition multipart_decode_append :: "bool \<Rightarrow> bytes \<Rightarrow> multipart_t \<Rightarrow> (multipart_error + unit) \<times> multipart_t" where
  "multipart_decode_append little encoded m = decode little encoded m"

definition multipart_decode :: "bool \<Rightarrow> bytes \<Rightarrow> multipart_error + multipart_t" where
  "multipart_decode little encoded =
     (case decode little encoded multipart_new of (Inl e, _) \<Rightarrow> Inl e | (Inr _, m) \<Rightarrow> Inr m)"

text \<open>\<open>str\<close> prints the size of each part with at least three digits, and the part as text or as hexadecimal digits.\<close>

definition pad_left :: "nat \<Rightarrow> char \<Rightarrow> string \<Rightarrow> string" where
  "pad_left w c s = replicate (w - length s) c @ s"

definition lower_hex :: "nat \<Rightarrow> char" where
  "lower_hex d = (if d < 10 then char_of (48 + d) else char_of (87 + d))"

definition hex2 :: "char \<Rightarrow> string" where
  "hex2 c = (let n = (of_char c :: nat) in [lower_hex (n div 16), lower_hex (n mod 16)])"

definition part_str :: "bytes \<Rightarrow> string" where
  "part_str data =
     (let isText = list_all (\<lambda>c. \<not> ((of_char c :: nat) < 32 \<or> (of_char c :: nat) > 127)) data in
      char_of (10 :: nat) # ''['' @ pad_left 3 (CHR ''0'') (to_string (length data)) @ ''] '' @
      (if length data \<ge> 1000 then ''... (too big to print)''
       else concat (map (\<lambda>c. if isText then [c] else hex2 c) data)))"

definition multipart_str :: "multipart_t \<Rightarrow> string" where
  "multipart_str m = concat (map part_str m)"

end
