(* ===== verification/Multipart_Properties.thy ===== *)
theory Multipart_Properties
  imports Zmq_Multipart
begin

text \<open>
  What the multipart functions promise: encoding and decoding are inverse, on machines of either byte order, and a message
  is sent and received as a whole.
\<close>

unbundle bit_operations_syntax

subsection \<open>Byte order\<close>

lemma is_little_endian_eq [simp]: "is_little_endian little = little"
  by (cases little) (simp_all add: is_little_endian_def host_bytes_def big_endian_def)

lemma write_network_order_eq: "write_network_order little v = big_endian v"
  by (simp add: write_network_order_def host_bytes_def big_endian_def)

lemma low_byte: "x AND 0xFF = take_bit 8 x" for x :: "32 word"
  by (simp add: take_bit_eq_mask mask_eq_exp_minus_1)

lemma byte_word: "word_of_nat (unat (x AND 0xFF) mod 256) = take_bit 8 x" for x :: "32 word"
proof -
  have "unat (x AND 0xFF) < 256"
    using take_bit_nat_less_exp [of 8 "unat x"] by (simp add: low_byte unsigned_take_bit_eq)
  then show ?thesis by (simp add: low_byte)
qed

lemma word_bytes: "push_bit 24 (take_bit 8 (drop_bit 24 v)) + push_bit 16 (take_bit 8 (drop_bit 16 v))
    + push_bit 8 (take_bit 8 (drop_bit 8 v)) + take_bit 8 v = v" for v :: "32 word"
proof -
  have step: "push_bit 8 (drop_bit (8 + k) v) + take_bit 8 (drop_bit k v) = drop_bit k v" for k
    using bits_ident [of 8 "drop_bit k v"] by (simp add: drop_bit_drop_bit)
  have "take_bit 8 (drop_bit 24 v) = drop_bit 24 v"
    by (rule bit_word_eqI) (auto simp: bit_simps dest: bit_imp_le_length)
  then have "v = push_bit 8 (push_bit 8 (push_bit 8 (take_bit 8 (drop_bit 24 v)) + take_bit 8 (drop_bit 16 v)) + take_bit 8 (drop_bit 8 v)) + take_bit 8 v"
    using step [of 16] step [of 8] step [of 0] by simp
  then show ?thesis by (simp add: push_bit_add push_bit_push_bit add.assoc)
qed

lemma read_u32_big_endian: "read_u32_network_order little (big_endian v @ rest) = v"
  using word_bytes [of v]
  by (cases little) (simp_all add: read_u32_network_order_def host_u32_def big_endian_def byte_word push_bit_add numeral_2_eq_2 numeral_3_eq_3)

lemma length_big_endian [simp]: "length (big_endian v) = 4"
  by (simp add: big_endian_def)

subsection \<open>Encoding\<close>

lemma part_size_word:
  "length p \<le> 0xFFFFFFFF \<Longrightarrow> unat (of_nat (length p) :: 32 word) = length p"
  by (simp add: unat_of_nat take_bit_nat_eq_self)

lemma encode_part_eq:
  assumes "length p \<le> 0xFFFFFFFF"
  shows "encode_part little p =
    (if length p < 255 then [char_of (length p)] else char_of (255 :: nat) # big_endian (of_nat (length p))) @ p"
proof -
  have "(of_nat (length p) :: 32 word) < 255 \<longleftrightarrow> length p < 255"
    using part_size_word [OF assms] by (simp add: word_less_nat_alt)
  with part_size_word [OF assms] show ?thesis
    by (simp add: encode_part_def Let_def write_network_order_eq)
qed

lemma check_sizes_eq:
  "check_sizes parts n =
     (if list_all (\<lambda>p. length p \<le> 0xFFFFFFFF) parts
      then Inr (n + length (concat (map (encode_part little) parts))) else Inl PartTooLarge)"
  by (induction parts arbitrary: n) (auto simp: encode_part_eq)

lemma decode_part:
  assumes "length p \<le> 0xFFFFFFFF"
  shows "decode little (encode_part little' p @ rest) out = decode little rest (out @ [p])"
  using assms part_size_word [OF assms]
  by (auto simp: encode_part_eq Let_def read_u32_big_endian)

lemma decode_parts:
  "list_all (\<lambda>p. length p \<le> 0xFFFFFFFF) parts \<Longrightarrow>
     decode little (concat (map (encode_part little') parts)) out = (Inr (), out @ parts)"
  by (induction parts arbitrary: out) (simp_all add: decode_part)

text \<open>
  C29. A multipart message survives its encoding as a single message, also between machines of different byte order: decoding appends
  exactly the encoded parts, in order. A part of 4 GiB or more is refused before anything is encoded.
\<close>

theorem multipart_encoding:
  "if list_all (\<lambda>p. length p \<le> 0xFFFFFFFF) parts
   then \<exists>encoded. multipart_encode little parts = Inr encoded \<and>
          multipart_decode_append little' encoded m = (Inr (), m @ parts) \<and> multipart_decode little' encoded = Inr parts
   else multipart_encode little parts = Inl PartTooLarge"
  by (simp add: multipart_encode_def encode_def check_sizes_eq [of _ _ little] decode_parts
      multipart_decode_append_def multipart_decode_def multipart_new_def)

subsection \<open>Transfer\<close>

text \<open>
  What is left of a message arrives part by part; the limited version stops before part \<open>n + 1\<close>.
\<close>

context zmq_socket
begin

lemma recv_parts_rest:
  assumes "receiving s = f # fs" "checkN \<longrightarrow> k \<le> n"
  shows "\<exists>s' extra. arrived s' = arrived s @ extra \<and> sent s' = sent s \<and> sending s' = sending s \<and>
    (if checkN \<and> n < k + Suc (length fs)
     then recv_parts api checkN n dontwait k out s = Some (Inl TooManyParts, out @ take (n - k) (f # fs), s') \<and>
       receiving s' = drop (n - k) (f # fs)
     else recv_parts api checkN n dontwait k out s = Some (Inr (Some (k + Suc (length fs))), out @ f # fs, s') \<and> receiving s' = [])"
  using assms
proof (induction fs arbitrary: f k out s)
  case Nil
  show ?case
  proof (cases "checkN \<and> n \<le> k")
    case True
    with Nil show ?thesis by (intro exI [of _ s] exI [of _ "[]"]) (auto simp: recv_parts.simps)
  next
    case False
    obtain s' extra where "socket_recv api dontwait s = (Inr (Some f), s')" "receiving s' = []" "arrived s' = arrived s @ extra"
        "sent s' = sent s" "sending s' = sending s"
      using socket_recv_next [OF Nil.prems(1)] .
    with False show ?thesis by (intro exI [of _ s'] exI [of _ extra]) (auto simp: recv_parts.simps [of _ _ _ _ k] rcvmore)
  qed
next
  case (Cons g fs)
  show ?case
  proof (cases "checkN \<and> n \<le> k")
    case True
    with Cons.prems show ?thesis by (intro exI [of _ s] exI [of _ "[]"]) (auto simp: recv_parts.simps)
  next
    case False
    obtain s1 extra where s1: "socket_recv api dontwait s = (Inr (Some f), s1)" "receiving s1 = g # fs" "arrived s1 = arrived s @ extra"
        "sent s1 = sent s" "sending s1 = sending s"
      using socket_recv_next [OF Cons.prems(1)] .
    have step: "recv_parts api checkN n dontwait k out s = recv_parts api checkN n dontwait (Suc k) (out @ [f]) s1"
      using False s1(1,2) by (auto simp: recv_parts.simps [of _ _ _ _ k] rcvmore)
    obtain s' extra' where "arrived s' = arrived s1 @ extra'" "sent s' = sent s1" "sending s' = sending s1"
      "if checkN \<and> n < Suc k + Suc (length fs)
       then recv_parts api checkN n dontwait (Suc k) (out @ [f]) s1 = Some (Inl TooManyParts, (out @ [f]) @ take (n - Suc k) (g # fs), s') \<and>
         receiving s' = drop (n - Suc k) (g # fs)
       else recv_parts api checkN n dontwait (Suc k) (out @ [f]) s1 = Some (Inr (Some (Suc k + Suc (length fs))), (out @ [f]) @ g # fs, s') \<and> receiving s' = []"
      using Cons.IH [OF s1(2), of "Suc k" "out @ [f]"] False by (meson not_less_eq_eq)
    moreover have "take (n - k) (f # g # fs) = f # take (n - Suc k) (g # fs)" "drop (n - k) (f # g # fs) = drop (n - Suc k) (g # fs)" if checkN
      using False that by (simp_all add: Suc_diff_Suc take_Cons' drop_Cons')
    ultimately show ?thesis
      unfolding step by (intro exI [of _ s'] exI [of _ "extra @ extra'"]) (auto simp: s1)
  qed
qed

lemma send_parts_rest:
  assumes "sending s \<noteq> []" "0 < k" "msgs \<noteq> []"
  shows "\<exists>s'. send_parts api False dontwait k msgs s = (Inr (Some (k + length msgs)), s') \<and>
    sent s' = sent s @ [sending s @ msgs] \<and> sending s' = []"
  using assms
proof (induction msgs arbitrary: k s)
  case (Cons msg msgs)
  obtain s1 where s1: "socket_send api msg (msgs \<noteq> []) dontwait s = (Inr (Some (length msg)), s1)"
    using socket_send_continues [OF Cons.prems(1)] by blast
  note after = socket_send_accepted [OF s1]
  show ?case
  proof (cases "msgs = []")
    case True
    with s1 after show ?thesis by simp
  next
    case False
    with Cons.IH [of s1 "Suc k"] s1 after Cons.prems show ?thesis by auto
  qed
qed simp

lemma send_multipart_atomic:
  assumes "sending s = []" "msgs \<noteq> []" "send_multipart api msgs False dontwait s = (r, s')"
  shows "sending s' = [] \<and>
    (r = Inr (Some (length msgs)) \<and> sent s' = sent s @ [msgs] \<or>
     (r = Inr None \<or> (\<exists>e. r = Inl (ZmqError e))) \<and> sent s' = sent s)"
proof -
  obtain msg rest where msgs: "msgs = msg # rest" using assms(2) by (cases msgs) auto
  obtain r1 s1 where first: "socket_send api msg (rest \<noteq> []) dontwait s = (r1, s1)" by fastforce
  from first show ?thesis
  proof (cases rule: socket_send_cases)
    case accepted
    show ?thesis
    proof (cases "rest = []")
      case True
      with accepted first assms msgs show ?thesis by (auto simp: send_multipart_def)
    next
      case False
      with accepted assms(1) have "sending s1 \<noteq> []" "sent s1 = sent s" "sending s1 = [msg]" by simp_all
      with send_parts_rest [of s1 1 rest dontwait] False accepted first assms(3) msgs show ?thesis
        by (auto simp: send_multipart_def)
    qed
  next
    case refused
    with first assms msgs show ?thesis by (auto simp: send_multipart_def)
  qed
qed

lemma recv_multipart_whole:
  assumes "receiving s = []"
  shows "\<exists>r out' s'. recv_multipart api out dontwait s = Some (r, out', s') \<and> receiving s' = [] \<and>
    ((\<exists>msg extra. r = Inr (Some (length msg)) \<and> out' = out @ msg \<and> arrived s @ extra = msg # arrived s') \<or>
     (\<exists>extra. (r = Inr None \<or> (\<exists>e. r = Inl (ZmqError e))) \<and> out' = out \<and> arrived s' = arrived s @ extra))"
proof -
  obtain r1 s1 where first: "socket_recv api dontwait s = (r1, s1)" by fastforce
  from assms first show ?thesis
  proof (cases rule: socket_recv_cases)
    case (message f extra)
    show ?thesis
    proof (cases "receiving s1")
      case Nil
      with message first show ?thesis
        by (auto simp: recv_multipart_def recv_parts.simps [of _ _ _ _ 0] rcvmore)
    next
      case (Cons g fs)
      have step: "recv_multipart api out dontwait s = recv_parts api False 0 dontwait 1 (out @ [f]) s1"
        using message first Cons by (simp add: recv_multipart_def recv_parts.simps [of _ _ _ _ 0] rcvmore)
      obtain s' extra' where rest: "arrived s' = arrived s1 @ extra'" "receiving s' = []"
          "recv_parts api False 0 dontwait 1 (out @ [f]) s1 = Some (Inr (Some (1 + Suc (length fs))), (out @ [f]) @ g # fs, s')"
        using recv_parts_rest [OF Cons, of False 1 0 dontwait "out @ [f]"] by auto
      then have "recv_multipart api out dontwait s = Some (Inr (Some (length (f # g # fs))), out @ f # g # fs, s')"
        by (simp add: step)
      moreover have "arrived s @ extra @ extra' = (f # g # fs) # arrived s'"
        using message(2) Cons rest(1) by (simp flip: append_assoc)
      ultimately show ?thesis using rest(2) by blast
    qed
  next
    case none: (nothing extra)
    with first show ?thesis
      by (auto simp: recv_multipart_def recv_parts.simps [of _ _ _ _ 0])
  qed
qed

lemma recv_multipart_n_limit:
  assumes "receiving s = []" "0 < n"
  shows "\<exists>r got s'. recv_multipart_n api out n dontwait s = Some (r, out @ got, s') \<and>
    ((\<exists>extra. arrived s @ extra = (got @ receiving s') # arrived s' \<and>
        (if r = Inl TooManyParts then length got = n \<and> receiving s' \<noteq> [] else r = Inr (Some (length got)) \<and> length got \<le> n \<and> receiving s' = [])) \<or>
     (\<exists>extra. (r = Inr None \<or> (\<exists>e. r = Inl (ZmqError e))) \<and> got = [] \<and> arrived s' = arrived s @ extra))"
proof -
  obtain r1 s1 where first: "socket_recv api dontwait s = (r1, s1)" by fastforce
  from assms(1) first show ?thesis
  proof (cases rule: socket_recv_cases)
    case (message f extra)
    show ?thesis
    proof (cases "receiving s1")
      case Nil
      with message first assms(2) show ?thesis
        by (auto simp: recv_multipart_n_def recv_parts.simps [of _ _ _ _ 0] rcvmore intro!: exI [of _ "[f]"])
    next
      case (Cons g fs)
      have step: "recv_multipart_n api out n dontwait s = recv_parts api True n dontwait 1 (out @ [f]) s1"
        using message first Cons assms(2) by (simp add: recv_multipart_n_def recv_parts.simps [of _ _ _ _ 0] rcvmore)
      obtain s' extra' where rest: "arrived s' = arrived s1 @ extra'"
        "if n < 1 + Suc (length fs)
         then recv_parts api True n dontwait 1 (out @ [f]) s1 = Some (Inl TooManyParts, (out @ [f]) @ take (n - 1) (g # fs), s') \<and>
           receiving s' = drop (n - 1) (g # fs)
         else recv_parts api True n dontwait 1 (out @ [f]) s1 = Some (Inr (Some (1 + Suc (length fs))), (out @ [f]) @ g # fs, s') \<and> receiving s' = []"
        using recv_parts_rest [OF Cons, of True 1 n dontwait "out @ [f]"] assms(2) by auto
      have all: "arrived s @ extra @ extra' = (f # g # fs) # arrived s'"
        using message(2) Cons rest(1) by (simp flip: append_assoc)
      show ?thesis
      proof (cases "n < 1 + Suc (length fs)")
        case True
        have "arrived s @ extra @ extra' = ((f # take (n - 1) (g # fs)) @ receiving s') # arrived s'"
          using all rest(2) True by simp
        moreover have "length (f # take (n - 1) (g # fs)) = n" "receiving s' \<noteq> []"
          using True rest(2) assms(2) by auto
        ultimately show ?thesis
          using True rest(2) unfolding step by (intro exI [of _ "Inl TooManyParts"] exI [of _ "f # take (n - 1) (g # fs)"] exI [of _ s']) auto
      next
        case False
        with all rest(2) show ?thesis
          unfolding step by (intro exI [of _ "Inr (Some (1 + Suc (length fs)))"] exI [of _ "f # g # fs"] exI [of _ s']) auto
      qed
    qed
  next
    case none: (nothing extra)
    define r :: "multipart_error + nat option" where "r = (case r1 of Inl e \<Rightarrow> Inl (ZmqError e) | Inr _ \<Rightarrow> Inr None)"
    have "r = Inr None \<or> (\<exists>e. r = Inl (ZmqError e))" by (simp add: r_def split: sum.splits)
    moreover have "recv_multipart_n api out n dontwait s = Some (r, out @ [], s1)"
      using none(1) first assms(2) by (auto simp: recv_multipart_n_def recv_parts.simps [of _ _ _ _ 0] r_def)
    ultimately show ?thesis using none(3) by blast
  qed
qed

end

text \<open>The methods of \<open>multipart_t\<close> run the same loops; they report a refusal as \<open>false\<close> and an error as the exception.\<close>

fun reported :: "multipart_error + nat option \<Rightarrow> int + bool" where
  "reported (Inr (Some n)) = Inr True"
| "reported (Inr None) = Inr False"
| "reported (Inl (ZmqError e)) = Inl e"
| "reported (Inl _) = Inr False"

lemma multipart_send_eq:
  "send_parts api False dontwait k m s = (r, s') \<Longrightarrow> \<exists>m'. multipart_send api dontwait m s = (reported r, m', s') \<and> (reported r = Inr True \<longrightarrow> m' = [])"
  by (induction m arbitrary: k s) (auto split: prod.splits sum.splits option.splits if_splits)

lemma multipart_recv_loop_eq:
  assumes "recv_parts api checkN n dontwait k out s = Some res"
  shows "\<not> checkN \<longrightarrow> multipart_recv_loop api dontwait out s = Some (reported (fst res), snd res)"
proof (rule recv_parts.raw_induct [OF _ assms])
  fix rec and api :: "'a zmq_api" and checkN n dontwait k out s res
  assume IH: "\<And>api checkN n dontwait k out s res. rec api checkN n dontwait k out s = Some res \<Longrightarrow>
      \<not> checkN \<longrightarrow> multipart_recv_loop api dontwait out s = Some (reported (fst res), snd res)"
    and body: "(if checkN \<and> n \<le> k then Some (Inl TooManyParts, out, s)
      else case socket_recv api dontwait s of
           (Inl e, s') \<Rightarrow> Some (Inl (ZmqError e), out, s')
         | (Inr None, s') \<Rightarrow> Some (if k = 0 then Inr None else Inl AssertFailed, out, s')
         | (Inr (Some msg), s') \<Rightarrow>
             if zmq_rcvmore api s' then rec api checkN n dontwait (Suc k) (out @ [msg]) s'
             else Some (Inr (Some (Suc k)), out @ [msg], s')) = Some res"
  show "\<not> checkN \<longrightarrow> multipart_recv_loop api dontwait out s = Some (reported (fst res), snd res)"
    using body IH [of api checkN n dontwait "Suc k"]
    by (cases res, subst multipart_recv_loop.simps)
      (auto simp: multipart_add_def split: prod.splits sum.splits option.splits if_splits)
qed

text \<open>
  C30. A multipart message goes over a socket as a whole. Sending puts all its parts out as one message or none of them,
  and receiving returns, with all parts of the next message in order, or with none; the assertions of the loops never
  fail. A limit below the number of parts is reported after exactly that many parts. The methods of
  \<open>multipart_t\<close> do the same.
\<close>

theorem multipart_transfer:
  assumes "zmq_socket api sent sending arrived receiving" "sending s = []" "receiving s = []" "msgs \<noteq> []"
    and "send_multipart api msgs False dontwait s = (r, s1)"
  shows "(sending s1 = [] \<and>
      (r = Inr (Some (length msgs)) \<and> sent s1 = sent s @ [msgs] \<or> (r = Inr None \<or> (\<exists>e. r = Inl (ZmqError e))) \<and> sent s1 = sent s)) \<and>
    (\<exists>m. multipart_send api dontwait msgs s = (reported r, m, s1)) \<and>
    (\<exists>r out s2. recv_multipart api [] dontwait s = Some (r, out, s2) \<and> multipart_recv api dontwait m0 s = Some (reported r, out, s2) \<and>
      receiving s2 = [] \<and>
      ((\<exists>extra. r = Inr (Some (length out)) \<and> arrived s @ extra = out # arrived s2) \<or>
       (\<exists>extra. (r = Inr None \<or> (\<exists>e. r = Inl (ZmqError e))) \<and> out = [] \<and> arrived s2 = arrived s @ extra))) \<and>
    (0 < n \<longrightarrow> (\<exists>r got s2. recv_multipart_n api [] n dontwait s = Some (r, [] @ got, s2) \<and>
      ((\<exists>extra. arrived s @ extra = (got @ receiving s2) # arrived s2 \<and>
          (if r = Inl TooManyParts then length got = n \<and> receiving s2 \<noteq> [] else r = Inr (Some (length got)) \<and> length got \<le> n \<and> receiving s2 = [])) \<or>
       (\<exists>extra. (r = Inr None \<or> (\<exists>e. r = Inl (ZmqError e))) \<and> got = [] \<and> arrived s2 = arrived s @ extra))))"
proof (intro conjI)
  show "sending s1 = []"
    and "r = Inr (Some (length msgs)) \<and> sent s1 = sent s @ [msgs] \<or> (r = Inr None \<or> (\<exists>e. r = Inl (ZmqError e))) \<and> sent s1 = sent s"
    using zmq_socket.send_multipart_atomic [OF assms(1,2,4,5)] by simp_all
  show "\<exists>m. multipart_send api dontwait msgs s = (reported r, m, s1)"
    using multipart_send_eq [of api dontwait 0 msgs s r s1] assms(5) by (auto simp: send_multipart_def)
  obtain r' out s2 where recv: "recv_multipart api [] dontwait s = Some (r', out, s2)" "receiving s2 = []"
      "(\<exists>msg extra. r' = Inr (Some (length msg)) \<and> out = [] @ msg \<and> arrived s @ extra = msg # arrived s2) \<or>
       (\<exists>extra. (r' = Inr None \<or> (\<exists>e. r' = Inl (ZmqError e))) \<and> out = [] \<and> arrived s2 = arrived s @ extra)"
    using zmq_socket.recv_multipart_whole [OF assms(1,3), of "[]" dontwait] by blast
  moreover have "multipart_recv api dontwait m0 s = Some (reported r', out, s2)"
    using multipart_recv_loop_eq [of api False 0 dontwait 0 "[]" s "(r', out, s2)"] recv(1)
    by (simp add: recv_multipart_def multipart_recv_def multipart_clear_def)
  ultimately show "\<exists>r out s2. recv_multipart api [] dontwait s = Some (r, out, s2) \<and> multipart_recv api dontwait m0 s = Some (reported r, out, s2) \<and>
      receiving s2 = [] \<and>
      ((\<exists>extra. r = Inr (Some (length out)) \<and> arrived s @ extra = out # arrived s2) \<or>
       (\<exists>extra. (r = Inr None \<or> (\<exists>e. r = Inl (ZmqError e))) \<and> out = [] \<and> arrived s2 = arrived s @ extra))"
    by auto
  show "0 < n \<longrightarrow> (\<exists>r got s2. recv_multipart_n api [] n dontwait s = Some (r, [] @ got, s2) \<and>
      ((\<exists>extra. arrived s @ extra = (got @ receiving s2) # arrived s2 \<and>
          (if r = Inl TooManyParts then length got = n \<and> receiving s2 \<noteq> [] else r = Inr (Some (length got)) \<and> length got \<le> n \<and> receiving s2 = [])) \<or>
       (\<exists>extra. (r = Inr None \<or> (\<exists>e. r = Inl (ZmqError e))) \<and> got = [] \<and> arrived s2 = arrived s @ extra)))"
    using zmq_socket.recv_multipart_n_limit [OF assms(1,3)] by blast
qed

text \<open>Witness for C30: a message of three parts, a limit of two, and a message to send.\<close>

definition multipart_example :: mem_socket where
  "multipart_example = \<lparr>ms_sent = [], ms_sending = [], ms_arrived = [[''a'', ''b'', ''c'']], ms_receiving = [], ms_hwm = 1\<rparr>"

theorem multipart_transfer_witness:
  "\<exists>r s1 s2. send_multipart mem_api [''x'', ''y''] False True multipart_example = (r, s1) \<and> ms_sending s1 = [] \<and>
     recv_multipart mem_api [] True multipart_example = Some (Inr (Some 3), [''a'', ''b'', ''c''], s2) \<and> ms_receiving s2 = []"
proof -
  obtain r s1 where send: "send_multipart mem_api [''x'', ''y''] False True multipart_example = (r, s1)" by fastforce
  have idle: "ms_sending multipart_example = []" "ms_receiving multipart_example = []" "ms_arrived multipart_example = [[''a'', ''b'', ''c'']]"
    by (simp_all add: multipart_example_def)
  note all = multipart_transfer [OF mem.zmq_socket_axioms idle(1,2) _ send, of "[]" 2, simplified idle(3)]
  obtain r' out s2 where recv: "recv_multipart mem_api [] True multipart_example = Some (r', out, s2)" "ms_receiving s2 = []"
      "(\<exists>extra. r' = Inr (Some (length out)) \<and> [''a'', ''b'', ''c''] # extra = out # ms_arrived s2) \<or>
       ((r' = Inr None \<or> (\<exists>e. r' = Inl (ZmqError e))) \<and> out = [])"
    using all by auto
  moreover have "r' \<noteq> Inr None \<and> (\<forall>e. r' \<noteq> Inl (ZmqError e))"
    using recv(1) unfolding recv_multipart_def
    by (auto simp: recv_parts.simps socket_recv_def mem_api_def multipart_example_def)
  ultimately have "r' = Inr (Some 3)" "out = [''a'', ''b'', ''c'']" by auto
  with recv(1,2) send all show ?thesis by auto
qed

end
