(* ===== verification/Spec2Isabelle.thy ===== *)
theory Spec2Isabelle
  imports SafeQueue_Monitor Mesh Connection_Api C_Messages Inspector_Properties Qt_Adapter Programs Zmq_Message Multipart_Properties
begin

text \<open>
  A verification development of Wisp, a publish-subscribe broker over ZeroMQ with its client library, C interface and
  traffic inspector. Paths are relative to \<open>src/\<close>.

  \<^bold>\<open>The program.\<close> Clients talk to a broker over a ROUTER/DEALER pair of sockets. A message is an \<open>Envelope\<close>: a header
  (handler key, topic, sender, uuid, origin broker, reply topic) and an opaque payload, sent as two frames. The broker
  keeps the connected clients and their subscriptions, answers control messages, routes data messages to the subscribers of
  the topic and of the empty topic (the wildcard), copies everything to an inspector socket, floods messages to linked
  brokers and publishes statistics. Brokers find each other by UDP beacons; the one with the smaller uuid dials and
  becomes a client of the other. A client owns one worker thread with two bounded queues, a table of callbacks per topic, and
  a request-reply scheme with a private reply topic.

  \<^bold>\<open>Theories and sources.\<close>
  \<^item> \<open>Wisp_Prelude\<close>: the types that stand for standard containers (\<open>umap\<close>, sorted maps, nullable vectors), shared lemmas
    and collections. \<open>Cxx_String\<close>, \<open>Cxx_Double\<close>: the string, number and floating point functions the code uses.
  \<^item> \<open>SafeQueue\<close>, \<open>SafeQueue_Monitor\<close>: \<open>common/safequeue.h\<close>, first one operation at a time, then as a monitor with any number of
    threads, waiting, notification and spurious wake-ups as an inductive step relation.
  \<^item> \<open>Subscription_Registry\<close>: \<open>server/subscriptionregistry.h\<close>. \<open>Message_Keys\<close>: \<open>common/messagekeys.h\<close>, \<open>common/config.h\<close>.
    \<open>Uuid_Helper\<close>: \<open>common/uuidhelper.h\<close>. \<open>Text_Output\<close>: \<open>common/logger.h\<close>, \<open>inspector/hexutils.h\<close> and the time stamps of the inspector.
  \<^item> \<open>Protobuf_Runtime\<close>, \<open>Protobuf_Any\<close>: what the generated code needs of the protobuf runtime, as parameters with laws.
    \<open>Message_Header\<close>, \<open>System_Stats\<close>: the generated C++ classes of \<open>common/generated/broker.pb.h\<close> and \<open>broker.pb.cc\<close>.
    \<open>C_Messages\<close>: the generated C structures, descriptors and functions of \<open>common/generated-c\<close>.
  \<^item> \<open>Zmq_Socket\<close>: the calls of libzmq as a parameter with laws, and the wrappers of \<open>zmq.hpp\<close> the program uses.
    \<open>Zmq_Message\<close>: messages and buffers of \<open>zmq.hpp\<close>. \<open>Wire_Frame\<close>: \<open>common/wireframe.h\<close>. \<open>Zmq_Multipart\<close>, \<open>Multipart_Properties\<close>: \<open>zmq_addon.hpp\<close>.
  \<^item> \<open>Zmq_Worker\<close>: \<open>common/zmqworker.h\<close>, \<open>common/zmqworker.cpp\<close>. \<open>Connection_Manager\<close>, \<open>Connection_Properties\<close>:
    \<open>common/connectionmanager.h\<close>, \<open>common/connectionmanager.cpp\<close>. \<open>Connection_Api\<close>: \<open>common/connectionapi.h\<close>, \<open>common/connectionapi.cpp\<close>.
  \<^item> \<open>Discovery\<close>: \<open>server/discovery.h\<close>, \<open>server/discovery.cpp\<close>. \<open>Broker\<close>, \<open>Broker_Invariant\<close>, \<open>Broker_Properties\<close>:
    \<open>server/zmqbroker.h\<close>, \<open>server/zmqbroker.cpp\<close>.
  \<^item> \<open>Client_Broker\<close>: client and broker together. \<open>Mesh\<close>: brokers together.
  \<^item> \<open>Inspector\<close>, \<open>Inspector_Properties\<close>: \<open>inspector/inspectorworker.cpp\<close>, \<open>packettablemodel.cpp\<close>, \<open>mainwindow.cpp\<close>, \<open>protoutils.h\<close>.
    \<open>Programs\<close>: \<open>server/main.cpp\<close> and the set-up of the clients. \<open>Qt_Adapter\<close>: \<open>bindings/qt/qtconnectionadapter.h\<close>.

  \<^bold>\<open>How state and effects are modelled.\<close> A class is a record, a method a function on it with the source's name (prefixed by the
  class where names clash). Clocks, random draws and answers of the operating system are arguments. What a method sends on
  sockets is either done on an abstract socket state \<open>'s\<close> through the record \<open>zmq_api\<close>, or returned as a list of outputs that
  an emit function performs. \<open>Inl\<close> is a C++ exception, \<open>None\<close> an endless loop or a blocked call; integers
  have their machine width where arithmetic on them can wrap. Threads meet at queues and mutexes: the broker's loop is one function per
  iteration, and what other threads do between two iterations is a step relation.

  \<^bold>\<open>Third-party code.\<close> libzmq, the protobuf runtimes for C++ and C, \<open>Any\<close>, Qt and the C library are parameters. Their documented
  behaviour is stated in the locales \<open>zmq_socket\<close>, \<open>protobuf_runtime\<close>, \<open>protobuf_any\<close>, \<open>protobuf_c_library\<close>, \<open>recv_into_memory\<close>; each is interpreted on a
  concrete instance (an in-memory socket, the protobuf wire format) that the witnesses evaluate. The locales \<open>topic_registry\<close> and
  \<open>worker_owner\<close> are the interfaces inside the program: the registry as the broker sees it, and the callbacks a worker's owner provides;
  they are interpreted on the registry, on the broker's links and on the connection manager.

  \<^bold>\<open>What the lemmas show.\<close> Queue: FIFO, bounds, draining after stop, no lost wake-up. Registry: refinement of a relation. Messages:
  sizes, round trips, agreement of the C and C++ bindings. Buffers stay in their memory. Framing: round trip, a receive leaves the socket between two messages,
  a send is atomic. Worker: order on the wire, online status. Client: callbacks refine registrations, request and reply
  meet, C result codes and buffer bounds. Discovery: beacons, single initiator, links match the table. Broker: invariant over all
  interleavings, exact delivery, control messages, duplicate window, zombie cleanup, statistics, totality of an iteration. Together: the
  broker's and the client's view of the subscriptions agree, a lost registration recovers by RESET, a mesh delivers exactly once.
  Inspector: messages are captured in order, the table is a bounded recent part of them and the filter is exact, the labels
  show the broker's counters, a hex dump determines the payload.

  \<^bold>\<open>Bounds and fuel.\<close> Queue capacity 5000, history 10000 uuids, 512-byte datagrams, timeouts and limits are the source's constants.
  The inspector keeps at most 100000 packets and drops 10000 at a time. No model uses fuel: loops over sockets are \<open>partial_function (option)\<close>, and it is proved that they return on a socket that
  keeps the multipart contract; everything else is a total function.

  \<^bold>\<open>Not modelled.\<close> Of \<open>zmq.hpp\<close> (a vendored C++ wrapper of libzmq) contexts, socket options, pollers and monitors, which
  only forward to libzmq, and the overloads for older C++ versions. The parts of
  \<open>zmq_addon.hpp\<close> that need libzmq's draft poller. \<open>common/generated/update.pb.h\<close> and \<open>update.pb.cc\<close> (a second generated class of the
  same shape as \<open>MessageHeader\<close>, used by the demo clients). Arena allocation and reflection tables of the generated code. What the
  callbacks and timers of the demonstration clients \<open>client1\<close> and \<open>client2\<close> print and send.
  Widget layout. Memory management, thread creation and joining, and the text of log messages at their call sites.
\<close>

end
